(* ===== verification/Bridge_Prelude.thy ===== *)
theory Bridge_Prelude
  imports Complex_Main "HOL-Library.Word" "HOL-Library.Char_ord" "HOL-Library.List_Lexorder"
    "HOL-Library.AList" "HOL-Library.Multiset"
begin

text \<open>
  The prelude of the development: the machine types of the Rust code, its strings (lists
  of bytes in UTF-8, so that \<open>len\<close> counts bytes and \<open>chars\<close> counts scalar values), decimal
  formatting and parsing, double precision rounding, \<open>Ordering\<close> and the comparison
  functions built from it, the stable sort, and the two map types of the standard library
  (\<open>HashMap\<close> as an association list whose order is the iteration order, \<open>BTreeMap\<close> as an
  association list sorted by key), with the lemmas every component uses.
\<close>

named_theorems wire_simps \<open>evaluation rules of the byte-level codecs\<close>
named_theorems board_frame \<open>fields of the task board an operation leaves alone\<close>
named_theorems board_keep \<open>operations keep the invariants of the task board\<close>

section \<open>Machine integers\<close>

type_synonym u8 = "8 word"
type_synonym u16 = "16 word"
type_synonym u32 = "32 word"

abbreviation u64_max :: nat where
  "u64_max \<equiv> 18446744073709551615"

text \<open>\<open>saturating_add\<close> on \<open>u64\<close> and \<open>u128\<close> values kept as naturals.\<close>

definition sat_add64 :: "nat \<Rightarrow> nat \<Rightarrow> nat" where
  "sat_add64 a b = min (a + b) u64_max"

definition sat_add128 :: "nat \<Rightarrow> nat \<Rightarrow> nat" where
  "sat_add128 a b = min (a + b) (2 ^ 128 - 1)"

lemma sat_add128_ge: "a < 2 ^ 128 \<Longrightarrow> a \<le> sat_add128 a b"
  by (simp add: sat_add128_def)

section \<open>Strings\<close>

text \<open>
  A Rust string is valid UTF-8. The model keeps the bytes: a \<^typ>\<open>string\<close> is a list of
  8-bit characters, \<open>length\<close> is \<open>str::len\<close>, and equality and order are the byte-wise ones
  of \<open>str\<close>. A scalar value is a leading byte with the continuation bytes that follow it.
\<close>

definition cont_byte :: "char \<Rightarrow> bool" where
  "cont_byte c \<longleftrightarrow> (let n = (of_char c :: nat) in 128 \<le> n \<and> n < 192)"

definition chars_count :: "string \<Rightarrow> nat" where
  "chars_count s = length (filter (\<lambda>c. \<not> cont_byte c) s)"

text \<open>The scalar values of a string, each as its own bytes.\<close>

lemma dropWhile_shorter [termination_simp]: "length (dropWhile p s) < Suc (length s)"
  by (simp add: length_dropWhile_le less_Suc_eq_le)

fun utf8_chunks :: "string \<Rightarrow> string list" where
  "utf8_chunks [] = []"
| "utf8_chunks (c # s) = (c # takeWhile cont_byte s) # utf8_chunks (dropWhile cont_byte s)"

lemma concat_utf8_chunks [simp]: "concat (utf8_chunks s) = s"
  by (induction s rule: utf8_chunks.induct) simp_all

text \<open>\<open>s.chars().take(n).collect()\<close>\<close>

definition chars_take :: "nat \<Rightarrow> string \<Rightarrow> string" where
  "chars_take n s = concat (take n (utf8_chunks s))"

definition valid_start :: "string \<Rightarrow> bool" where
  "valid_start s \<longleftrightarrow> (case s of [] \<Rightarrow> True | c # _ \<Rightarrow> \<not> cont_byte c)"

lemma chars_count_takeWhile_cont [simp]: "chars_count (takeWhile cont_byte s) = 0"
  by (auto simp: chars_count_def filter_empty_conv dest: set_takeWhileD)

lemma chars_count_append [simp]: "chars_count (s @ t) = chars_count s + chars_count t"
  by (simp add: chars_count_def)

lemma chars_count_le_length: "chars_count s \<le> length s"
  by (simp add: chars_count_def)

lemma chars_count_chunks: "valid_start s \<Longrightarrow> chars_count s = length (utf8_chunks s)"
proof (induction s rule: utf8_chunks.induct)
  case 1
  then show ?case by (simp add: chars_count_def)
next
  case (2 c s)
  have v: "valid_start (dropWhile cont_byte s)"
    by (auto simp: valid_start_def split: list.splits dest: hd_dropWhile)
      (metis dropWhile_eq_Cons_conv)
  have "chars_count s = chars_count (takeWhile cont_byte s) + chars_count (dropWhile cont_byte s)"
    by (metis chars_count_append takeWhile_dropWhile_id)
  with 2 v show ?case
    by (auto simp: chars_count_def valid_start_def filter_empty_conv dest: set_takeWhileD)
qed

lemma chars_count_concat_le:
  "(\<And>x. x \<in> set xs \<Longrightarrow> chars_count x \<le> 1) \<Longrightarrow> chars_count (concat xs) \<le> length xs"
proof (induction xs)
  case Nil
  then show ?case by (simp add: chars_count_def)
next
  case (Cons x xs)
  then have "chars_count x \<le> 1" "chars_count (concat xs) \<le> length xs" by auto
  then show ?case by simp
qed

lemma chars_count_chunk: "x \<in> set (utf8_chunks s) \<Longrightarrow> chars_count x \<le> 1"
proof (induction s rule: utf8_chunks.induct)
  case (2 c s)
  have "chars_count (c # takeWhile cont_byte s) \<le> 1"
    using chars_count_takeWhile_cont [of s] by (auto simp: chars_count_def)
  with 2 show ?case by auto
qed simp

text \<open>Truncation to \<open>n\<close> scalar values leaves at most \<open>n\<close> of them.\<close>

lemma chars_take_le: "chars_count (chars_take n s) \<le> n"
proof -
  have "chars_count (chars_take n s) \<le> length (take n (utf8_chunks s))"
    unfolding chars_take_def
    by (rule chars_count_concat_le) (rule chars_count_chunk, rule in_set_takeD)
  then show ?thesis by simp
qed

lemma chars_take_all: "chars_count s \<le> n \<Longrightarrow> valid_start s \<Longrightarrow> chars_take n s = s"
  by (simp add: chars_take_def chars_count_chunks)

lemma takeWhile_append_stop:
  "valid_start ys \<Longrightarrow>
   takeWhile cont_byte (takeWhile cont_byte s @ ys) = takeWhile cont_byte s \<and>
   dropWhile cont_byte (takeWhile cont_byte s @ ys) = ys"
  by (induction s) (auto simp: valid_start_def split: list.splits)

lemma valid_start_concat_chunks: "valid_start s \<Longrightarrow> valid_start (concat (take n (utf8_chunks s)))"
  by (cases s; cases n) (auto simp: valid_start_def)

lemma valid_start_dropWhile: "valid_start (dropWhile cont_byte s)"
  by (induction s) (auto simp: valid_start_def)

lemma utf8_chunks_take: "utf8_chunks (chars_take n s) = take n (utf8_chunks s)"
proof (induction s arbitrary: n rule: utf8_chunks.induct)
  case (2 c s)
  show ?case
  proof (cases n)
    case (Suc m)
    have "valid_start (chars_take m (dropWhile cont_byte s))"
      unfolding chars_take_def by (intro valid_start_concat_chunks valid_start_dropWhile)
    with 2 Suc takeWhile_append_stop show ?thesis
      by (simp add: chars_take_def)
  qed (simp add: chars_take_def)
qed (simp add: chars_take_def)

lemma chars_take_idem [simp]: "chars_take n (chars_take n s) = chars_take n s"
  unfolding chars_take_def [of n "chars_take n s"] utf8_chunks_take
  by (simp add: chars_take_def)

lemma chars_take_eq_Nil: "chars_take n s = [] \<longleftrightarrow> n = 0 \<or> s = []"
  by (cases s; cases n) (simp_all add: chars_take_def)

text \<open>
  \<open>str::trim\<close>: the scalar values with the Unicode property \<open>White_Space\<close>, by their bytes.
\<close>

definition white_space :: "string \<Rightarrow> bool" where
  "white_space w \<longleftrightarrow> w \<in> set (map (map char_of)
     [[9], [10], [11], [12], [13], [32], [194, 133], [194, 160], [225, 154, 128 :: nat],
      [226, 128, 128], [226, 128, 129], [226, 128, 130], [226, 128, 131], [226, 128, 132],
      [226, 128, 133], [226, 128, 134], [226, 128, 135], [226, 128, 136], [226, 128, 137],
      [226, 128, 138], [226, 128, 168], [226, 128, 169], [226, 128, 175], [226, 129, 159],
      [227, 128, 128]])"

definition trim :: "string \<Rightarrow> string" where
  "trim s = concat (rev (dropWhile white_space (rev (dropWhile white_space (utf8_chunks s)))))"

lemma white_space_byte: "white_space [c] \<longleftrightarrow> of_char c \<in> {9, 10, 11, 12, 13, 32 :: nat}"
proof -
  have "c = char_of (of_char c :: nat)" by simp
  then have "[c] = [char_of n] \<longleftrightarrow> of_char c = n" if "n < 256" for n :: nat
    using that by auto
  then show ?thesis by (simp add: white_space_def)
qed

lemma trim_byte: "of_char c \<notin> {9, 10, 11, 12, 13, 32 :: nat} \<Longrightarrow> trim [c] = [c]"
  by (simp add: trim_def white_space_byte)

text \<open>\<open>split_once\<close>, \<open>strip_prefix\<close> and \<open>split(',')\<close>\<close>

fun strip_prefix :: "string \<Rightarrow> string \<Rightarrow> string option" where
  "strip_prefix [] s = Some s"
| "strip_prefix (p # ps) [] = None"
| "strip_prefix (p # ps) (c # s) = (if p = c then strip_prefix ps s else None)"

lemma strip_prefix_Some: "strip_prefix p s = Some r \<longleftrightarrow> s = p @ r"
  by (induction p s rule: strip_prefix.induct) auto

lemma strip_prefix_append [simp]: "strip_prefix p (p @ r) = Some r"
  by (simp add: strip_prefix_Some)

fun split_once :: "string \<Rightarrow> string \<Rightarrow> (string \<times> string) option" where
  "split_once d [] = (if d = [] then Some ([], []) else None)"
| "split_once d (c # s) =
     (case strip_prefix d (c # s) of
        Some r \<Rightarrow> Some ([], r)
      | None \<Rightarrow> map_option (\<lambda>(a, b). (c # a, b)) (split_once d s))"

lemma split_once_Some: "split_once d s = Some (a, b) \<Longrightarrow> s = a @ d @ b"
  by (induction d s arbitrary: a rule: split_once.induct)
    (auto split: if_splits option.splits simp: strip_prefix_Some)

fun split_on :: "char \<Rightarrow> string \<Rightarrow> string list" where
  "split_on d [] = [[]]"
| "split_on d (c # s) =
     (if c = d then [] # split_on d s
      else (case split_on d s of [] \<Rightarrow> [[c]] | w # ws \<Rightarrow> (c # w) # ws))"

text \<open>\<open>str::lines\<close>: without the line ends, and without an empty last line.\<close>

definition strip_cr :: "string \<Rightarrow> string" where
  "strip_cr l = (if l \<noteq> [] \<and> last l = CHR 0x0D then butlast l else l)"

definition str_lines :: "string \<Rightarrow> string list" where
  "str_lines s =
     (let ls = split_on CHR 0x0A s in
      map strip_cr (butlast ls) @ (if last ls = [] then [] else [last ls]))"

text \<open>\<open>to_ascii_lowercase\<close> of one byte; bytes of multi-byte scalar values are unchanged.\<close>

definition ascii_lower :: "char \<Rightarrow> char" where
  "ascii_lower c =
     (let n = (of_char c :: nat) in if 65 \<le> n \<and> n \<le> 90 then char_of (n + 32) else c)"

section \<open>Decimal numbers\<close>

definition digit_char :: "nat \<Rightarrow> char" where
  "digit_char d = char_of (48 + d)"

fun show_nat :: "nat \<Rightarrow> string" where
  "show_nat n =
     (if n < 10 then [digit_char n] else show_nat (n div 10) @ [digit_char (n mod 10)])"

declare show_nat.simps [simp del]

text \<open>\<open>char::to_digit\<close> for the radixes 10 and 16.\<close>

definition to_digit :: "nat \<Rightarrow> char \<Rightarrow> nat option" where
  "to_digit radix c =
     (let n = (of_char c :: nat);
          d = (if 48 \<le> n \<and> n \<le> 57 then n - 48
               else if 97 \<le> n \<and> n \<le> 122 then n - 87
               else if 65 \<le> n \<and> n \<le> 90 then n - 55 else 36)
      in if d < radix then Some d else None)"

fun digits_val :: "nat \<Rightarrow> nat \<Rightarrow> string \<Rightarrow> nat option" where
  "digits_val radix acc [] = Some acc"
| "digits_val radix acc (c # s) =
     (case to_digit radix c of
        None \<Rightarrow> None
      | Some d \<Rightarrow> digits_val radix (acc * radix + d) s)"

text \<open>
  \<open>from_str_radix\<close> of the unsigned types: a leading plus sign is accepted, the empty string
  and a lone sign are errors, and so is a value above the maximum of the type.
\<close>

definition from_str_radix :: "nat \<Rightarrow> nat \<Rightarrow> string \<Rightarrow> nat option" where
  "from_str_radix radix mx s =
     (case s of
        [] \<Rightarrow> None
      | c # t \<Rightarrow>
          (case digits_val radix 0 (if c = CHR ''+'' \<and> t \<noteq> [] then t else s) of
             None \<Rightarrow> None
           | Some v \<Rightarrow> if v \<le> mx then Some v else None))"

definition parse_usize :: "string \<Rightarrow> nat option" where
  "parse_usize s = from_str_radix 10 u64_max s"

lemma to_digit_digit_char: "d < 10 \<Longrightarrow> to_digit 10 (digit_char d) = Some d"
  by (simp add: to_digit_def digit_char_def)

lemma digits_val_append:
  "digits_val r acc (s @ t) = (case digits_val r acc s of None \<Rightarrow> None | Some v \<Rightarrow> digits_val r v t)"
  by (induction s arbitrary: acc) (auto split: option.splits)

text \<open>A value read from \<open>k\<close> digits is below the \<open>k\<close>-th power of the radix.\<close>

lemma to_digit_less: "to_digit r c = Some d \<Longrightarrow> d < r"
  by (auto simp: to_digit_def Let_def split: if_splits)

lemma digits_val_less:
  "digits_val r acc s = Some v \<Longrightarrow> v < (acc + 1) * r ^ length s"
proof (induction s arbitrary: acc)
  case (Cons c s)
  then obtain d where d: "to_digit r c = Some d" "digits_val r (acc * r + d) s = Some v"
    by (auto split: option.splits)
  from Cons.IH [OF d(2)] have "v < (acc * r + d + 1) * r ^ length s" by simp
  also have "\<dots> \<le> ((acc + 1) * r) * r ^ length s"
    using to_digit_less [OF d(1)] by (intro mult_right_mono) simp_all
  finally show ?case by (simp add: algebra_simps)
qed simp

lemma from_str_radix_less:
  assumes "from_str_radix r mx s = Some v" and "length s \<le> n" and "0 < r"
  shows "v < r ^ n"
proof -
  obtain t where "digits_val r 0 t = Some v" "length t \<le> length s"
  proof (cases s)
    case Nil
    with assms(1) show ?thesis by (simp add: from_str_radix_def)
  next
    case (Cons c u)
    with assms(1) that [of "if c = CHR ''+'' \<and> u \<noteq> [] then u else s"] show ?thesis
      by (simp add: from_str_radix_def del: digits_val.simps split: option.splits if_splits)
  qed
  then have "v < r ^ length t" using digits_val_less [of r 0 t v] by simp
  also have "\<dots> \<le> r ^ n" using \<open>length t \<le> length s\<close> assms(2,3) by (intro power_increasing) simp_all
  finally show ?thesis .
qed

lemma digits_val_show_nat: "digits_val 10 0 (show_nat n) = Some n"
proof (induction n rule: show_nat.induct)
  case (1 n)
  then show ?case
    by (subst show_nat.simps) (auto simp: digits_val_append to_digit_digit_char)
qed

lemma digit_char_not_plus: "d < 10 \<Longrightarrow> digit_char d \<noteq> CHR ''+''"
  using to_digit_digit_char [of d] by (auto simp: to_digit_def)

lemma show_nat_first: "\<exists>d s. d < 10 \<and> show_nat n = digit_char d # s"
proof (induction n rule: show_nat.induct)
  case (1 n)
  then show ?case
    by (cases "n < 10") (auto simp: show_nat.simps [of n])
qed

lemma show_nat_not_Nil [simp]: "show_nat n \<noteq> []"
  using show_nat_first [of n] by auto

text \<open>Printing and parsing a \<open>usize\<close> are inverse.\<close>

lemma parse_show_nat: "n \<le> u64_max \<Longrightarrow> parse_usize (show_nat n) = Some n"
proof -
  assume n: "n \<le> u64_max"
  obtain d s where "d < 10" "show_nat n = digit_char d # s"
    using show_nat_first by blast
  with n digits_val_show_nat [of n] show ?thesis
    by (auto simp: parse_usize_def from_str_radix_def digit_char_not_plus)
qed

lemma show_nat_inj: "show_nat m = show_nat n \<longleftrightarrow> m = n"
  using digits_val_show_nat by (metis option.inject)

text \<open>Two upper-case hexadecimal digits per byte, as \<open>{:02X}\<close> and \<open>{:04X}\<close> print them.\<close>

definition hex_digit :: "nat \<Rightarrow> char" where
  "hex_digit d = (if d < 10 then char_of (48 + d) else char_of (55 + d))"

definition hex2 :: "nat \<Rightarrow> string" where
  "hex2 n = [hex_digit (n div 16 mod 16), hex_digit (n mod 16)]"

definition hex4 :: "nat \<Rightarrow> string" where
  "hex4 n = hex2 (n div 256) @ hex2 (n mod 256)"

section \<open>Ordering, sorting, minimum and maximum\<close>

datatype ordering = Less | Equal | Greater

definition cmp :: "'a :: linorder \<Rightarrow> 'a \<Rightarrow> ordering" where
  "cmp a b = (if a < b then Less else if a = b then Equal else Greater)"

fun then_cmp :: "ordering \<Rightarrow> ordering \<Rightarrow> ordering" where
  "then_cmp Equal o2 = o2"
| "then_cmp o1 o2 = o1"

fun flip_cmp :: "ordering \<Rightarrow> ordering" where
  "flip_cmp Less = Greater"
| "flip_cmp Equal = Equal"
| "flip_cmp Greater = Less"

text \<open>\<open>sort_by\<close> is stable; \<open>min_by\<close> keeps the first minimum, \<open>max_by\<close> the last maximum.\<close>

fun insort_by :: "('a \<Rightarrow> 'a \<Rightarrow> ordering) \<Rightarrow> 'a \<Rightarrow> 'a list \<Rightarrow> 'a list" where
  "insort_by f x [] = [x]"
| "insort_by f x (y # ys) =
     (if f x y \<noteq> Greater then x # y # ys else y # insort_by f x ys)"

definition sort_by :: "('a \<Rightarrow> 'a \<Rightarrow> ordering) \<Rightarrow> 'a list \<Rightarrow> 'a list" where
  "sort_by f xs = foldr (insort_by f) xs []"

fun min_by :: "('a \<Rightarrow> 'a \<Rightarrow> ordering) \<Rightarrow> 'a list \<Rightarrow> 'a option" where
  "min_by f [] = None"
| "min_by f (x # xs) = Some (fold (\<lambda>y m. if f m y = Greater then y else m) xs x)"

fun max_by :: "('a \<Rightarrow> 'a \<Rightarrow> ordering) \<Rightarrow> 'a list \<Rightarrow> 'a option" where
  "max_by f [] = None"
| "max_by f (x # xs) = Some (fold (\<lambda>y m. if f m y = Greater then m else y) xs x)"

lemma set_insort_by [simp]: "set (insort_by f x xs) = insert x (set xs)"
  by (induction xs) auto

lemma set_sort_by [simp]: "set (sort_by f xs) = set xs"
  by (induction xs) (auto simp: sort_by_def)

lemma length_insort_by [simp]: "length (insort_by f x xs) = Suc (length xs)"
  by (induction xs) auto

lemma length_sort_by [simp]: "length (sort_by f xs) = length xs"
  by (induction xs) (auto simp: sort_by_def)

lemma distinct_insort_by [simp]: "distinct (insort_by f x xs) \<longleftrightarrow> x \<notin> set xs \<and> distinct xs"
  by (induction xs) auto

lemma distinct_sort_by [simp]: "distinct (sort_by f xs) = distinct xs"
proof (induction xs)
  case (Cons x xs)
  then show ?case
    using set_sort_by [of f xs] by (simp add: sort_by_def)
qed (simp add: sort_by_def)

lemma fold_choice_in: "fold (\<lambda>y m. if P m y then y else m) xs x \<in> insert x (set xs)"
proof (induction xs arbitrary: x)
  case (Cons a xs)
  from Cons.IH [of "if P x a then a else x"] show ?case by (auto split: if_splits)
qed simp

lemma min_by_in: "min_by f xs = Some m \<Longrightarrow> m \<in> set xs"
  by (cases xs) (use fold_choice_in [of "\<lambda>m y. f m y = Greater"] in auto)

lemma max_by_in: "max_by f xs = Some m \<Longrightarrow> m \<in> set xs"
proof (cases xs)
  case (Cons x ys)
  have "(\<lambda>y m. if f m y \<noteq> Greater then y else m) = (\<lambda>y m. if f m y = Greater then m else y)"
    by (auto simp: fun_eq_iff)
  moreover assume "max_by f xs = Some m"
  ultimately show ?thesis
    using Cons fold_choice_in [of "\<lambda>m y. f m y \<noteq> Greater" ys x] by auto
qed simp

lemma min_by_None [simp]: "min_by f xs = None \<longleftrightarrow> xs = []"
  by (cases xs) auto

text \<open>
  The contract of a comparison function (\<open>Ord\<close>, or the closure given to \<open>sort_by\<close>): it is a
  total preorder. The sort and the minimum are correct for every such function.
\<close>

locale comparator =
  fixes f :: "'a \<Rightarrow> 'a \<Rightarrow> ordering"
  assumes flip: "f b a = flip_cmp (f a b)"
    and le_trans: "f a b \<noteq> Greater \<Longrightarrow> f b c \<noteq> Greater \<Longrightarrow> f a c \<noteq> Greater"
begin

lemma refl: "f a a = Equal"
  using flip [of a a] by (cases "f a a") auto

lemma greater_iff: "f a b = Greater \<longleftrightarrow> f b a = Less"
  using flip [of b a] by (cases "f a b"; cases "f b a") auto

lemma equal_sym: "f a b = Equal \<longleftrightarrow> f b a = Equal"
  using flip [of b a] by (cases "f a b"; cases "f b a") auto

lemma total: "f a b = Greater \<Longrightarrow> f b a \<noteq> Greater"
  using flip [of a b] by auto

lemma less_trans_le: "f a b = Less \<Longrightarrow> f b c \<noteq> Greater \<Longrightarrow> f a c = Less"
  using le_trans [of a b c] le_trans [of b c a] greater_iff equal_sym
  by (metis flip flip_cmp.elims ordering.distinct(1,3,5))

lemma le_trans_less: "f a b \<noteq> Greater \<Longrightarrow> f b c = Less \<Longrightarrow> f a c = Less"
  using le_trans [of a b c] le_trans [of c a b] greater_iff equal_sym
  by (metis flip flip_cmp.elims ordering.distinct(1,3,5))

lemma sorted_insort_by:
  "sorted_wrt (\<lambda>x y. f x y \<noteq> Greater) xs \<Longrightarrow>
   sorted_wrt (\<lambda>x y. f x y \<noteq> Greater) (insort_by f a xs)"
  by (induction xs) (auto dest: total le_trans)

lemma sorted_sort_by: "sorted_wrt (\<lambda>x y. f x y \<noteq> Greater) (sort_by f xs)"
  by (induction xs) (auto simp: sort_by_def intro: sorted_insort_by)

lemma fold_min_le:
  "y \<in> insert x (set xs) \<Longrightarrow>
   f (fold (\<lambda>y m. if f m y = Greater then y else m) xs x) y \<noteq> Greater"
proof (induction xs arbitrary: x y)
  case Nil
  then show ?case by (simp add: refl)
next
  case (Cons z zs)
  let ?m = "if f x z = Greater then z else x"
  have le: "f ?m x \<noteq> Greater" "f ?m z \<noteq> Greater"
    by (auto simp: refl dest: total)
  let ?r = "fold (\<lambda>y m. if f m y = Greater then y else m) zs ?m"
  have IH: "f ?r w \<noteq> Greater" if "w \<in> insert ?m (set zs)" for w
    using Cons.IH that by blast
  have "f ?r ?m \<noteq> Greater" by (rule IH) simp
  with le have "f ?r x \<noteq> Greater" "f ?r z \<noteq> Greater"
    by (blast dest: le_trans)+
  with Cons.prems IH [of y] show ?case by auto
qed

lemma fold_max_ge:
  "y \<in> insert x (set xs) \<Longrightarrow>
   f (fold (\<lambda>y m. if f m y = Greater then m else y) xs x) y \<noteq> Less"
proof (induction xs arbitrary: x y)
  case Nil
  then show ?case by (simp add: refl)
next
  case (Cons z zs)
  let ?m = "if f x z = Greater then x else z"
  let ?r = "fold (\<lambda>y m. if f m y = Greater then m else y) zs ?m"
  have le: "f x ?m \<noteq> Greater" "f z ?m \<noteq> Greater"
    using refl [of x] refl [of z] greater_iff [of x z] greater_iff [of z x] by auto
  have ge: "f w ?r \<noteq> Greater" if "w \<in> insert ?m (set zs)" for w
    using Cons.IH [OF that] greater_iff [of w ?r] by simp
  have "f ?m ?r \<noteq> Greater" by (rule ge) simp
  with le have "f x ?r \<noteq> Greater" "f z ?r \<noteq> Greater"
    by (blast dest: le_trans)+
  with Cons.prems ge [of y] greater_iff [of y ?r] show ?case by auto
qed

lemma max_by_ge: "max_by f xs = Some m \<Longrightarrow> y \<in> set xs \<Longrightarrow> f m y \<noteq> Less"
  by (cases xs) (use fold_max_ge in auto)

lemma min_by_le: "min_by f xs = Some m \<Longrightarrow> y \<in> set xs \<Longrightarrow> f m y \<noteq> Greater"
  by (cases xs) (use fold_min_le in auto)

end

text \<open>Comparison functions are closed under keys, \<open>reverse\<close> and \<open>then\<close>.\<close>

lemma comparator_cmp: "comparator (\<lambda>a b. cmp (k a) (k b))"
  by unfold_locales (auto simp: cmp_def split: if_splits)

lemma comparator_rev: "comparator f \<Longrightarrow> comparator (\<lambda>a b. f b a)"
  unfolding comparator_def by metis

lemma then_cmp_eq: "then_cmp a b = (if a = Equal then b else a)"
  by (cases a) auto

lemma comparator_then:
  assumes "comparator f" and "comparator g"
  shows "comparator (\<lambda>a b. then_cmp (f a b) (g a b))"
proof
  fix a b
  show "then_cmp (f b a) (g b a) = flip_cmp (then_cmp (f a b) (g a b))"
    using comparator.flip [OF assms(1), of b a] comparator.flip [OF assms(2), of b a]
    by (cases "f a b") auto
next
  fix a b c
  assume ab: "then_cmp (f a b) (g a b) \<noteq> Greater" and bc: "then_cmp (f b c) (g b c) \<noteq> Greater"
  then have le: "f a b \<noteq> Greater" "f b c \<noteq> Greater"
    by (auto simp: then_cmp_eq split: if_splits)
  show "then_cmp (f a c) (g a c) \<noteq> Greater"
  proof (cases "f a b = Less \<or> f b c = Less")
    case True
    then have "f a c = Less"
      using comparator.less_trans_le [OF assms(1), of a b c]
        comparator.le_trans_less [OF assms(1), of a b c] le by blast
    then show ?thesis by simp
  next
    case False
    with le have eq: "f a b = Equal" "f b c = Equal"
      by (meson flip_cmp.cases)+
    with ab bc have "g a c \<noteq> Greater"
      using comparator.le_trans [OF assms(2), of a b c] by simp
    moreover have "f a c \<noteq> Greater"
      using comparator.le_trans [OF assms(1), of a b c] le by blast
    ultimately show ?thesis by (simp add: then_cmp_eq)
  qed
qed

end
