(* ===== verification/Map_Store.thy ===== *)
theory Map_Store
  imports Bridge_Prelude
begin

text \<open>
  The map types of the Rust standard library. A \<open>HashMap\<close> is an association list with
  distinct keys: the order of the list is the iteration order, which Rust leaves
  unspecified, so every lemma here holds for every order of the entries. A \<open>BTreeMap\<close> is an
  association list sorted by key. Both are instances of one interface, the locale
  \<open>map_store\<close>, in which the lemmas on repeated insertion and removal are proved once.
\<close>

section \<open>The interface\<close>

locale map_store =
  fixes invar :: "'m \<Rightarrow> bool"
    and entries :: "'m \<Rightarrow> ('k \<times> 'v) list"
    and lookup :: "'m \<Rightarrow> 'k \<Rightarrow> 'v option"
    and insert_entry :: "'k \<Rightarrow> 'v \<Rightarrow> 'm \<Rightarrow> 'm"
    and remove_entry :: "'k \<Rightarrow> 'm \<Rightarrow> 'm"
    and retain :: "('k \<Rightarrow> 'v \<Rightarrow> bool) \<Rightarrow> 'm \<Rightarrow> 'm"
  assumes keys_distinct: "invar m \<Longrightarrow> distinct (map fst (entries m))"
    and lookup_entries: "lookup m k = map_of (entries m) k"
    and lookup_insert:
      "invar m \<Longrightarrow> lookup (insert_entry k v m) j = (if j = k then Some v else lookup m j)"
    and lookup_remove:
      "invar m \<Longrightarrow> lookup (remove_entry k m) j = (if j = k then None else lookup m j)"
    and lookup_retain:
      "invar m \<Longrightarrow> lookup (retain P m) j =
         (case lookup m j of None \<Rightarrow> None | Some v \<Rightarrow> if P j v then Some v else None)"
    and invar_insert: "invar m \<Longrightarrow> invar (insert_entry k v m)"
    and invar_remove: "invar m \<Longrightarrow> invar (remove_entry k m)"
    and invar_retain: "invar m \<Longrightarrow> invar (retain P m)"
begin

lemmas invars = invar_insert invar_remove invar_retain

lemma in_entries_iff: "invar m \<Longrightarrow> (k, v) \<in> set (entries m) \<longleftrightarrow> lookup m k = Some v"
  by (simp add: lookup_entries map_of_eq_Some_iff keys_distinct)

lemma keys_entries: "k \<in> fst ` set (entries m) \<longleftrightarrow> lookup m k \<noteq> None"
  by (simp add: lookup_entries map_of_eq_None_iff)

lemma invar_insert_many: "invar m \<Longrightarrow> invar (fold (\<lambda>(k, v). insert_entry k v) kvs m)"
  by (induction kvs arbitrary: m) (auto intro: invar_insert)

lemma lookup_insert_many:
  "invar m \<Longrightarrow> lookup (fold (\<lambda>(k, v). insert_entry k v) kvs m) j =
     (case map_of (rev kvs) j of None \<Rightarrow> lookup m j | Some v \<Rightarrow> Some v)"
proof (induction kvs arbitrary: m)
  case (Cons kv kvs)
  have "invar (insert_entry (fst kv) (snd kv) m)"
    using Cons.prems by (rule invar_insert)
  with Cons show ?case
    by (auto simp: map_add_def lookup_insert case_prod_beta split: option.splits)
qed simp

lemma invar_remove_many: "invar m \<Longrightarrow> invar (fold remove_entry ks m)"
  by (induction ks arbitrary: m) (auto intro: invar_remove)

lemma lookup_remove_many:
  "invar m \<Longrightarrow> lookup (fold remove_entry ks m) j = (if j \<in> set ks then None else lookup m j)"
  by (induction ks arbitrary: m) (auto simp: lookup_remove invar_remove)

lemma lookup_retain_Some:
  "invar m \<Longrightarrow> lookup (retain P m) j = Some v \<longleftrightarrow> lookup m j = Some v \<and> P j v"
  by (auto simp: lookup_retain split: option.splits)

text \<open>An entry inserted and removed again leaves no trace.\<close>

lemma lookup_remove_insert:
  "invar m \<Longrightarrow> lookup m k = None \<Longrightarrow>
   lookup (remove_entry k (insert_entry k v m)) j = lookup m j"
  by (simp add: lookup_remove lookup_insert invar_insert)

end

section \<open>HashMap\<close>

type_synonym ('k, 'v) hmap = "('k \<times> 'v) list"

definition hm_invar :: "('k, 'v) hmap \<Rightarrow> bool" where
  "hm_invar m \<longleftrightarrow> distinct (map fst m)"

definition hm_retain :: "('k \<Rightarrow> 'v \<Rightarrow> bool) \<Rightarrow> ('k, 'v) hmap \<Rightarrow> ('k, 'v) hmap" where
  "hm_retain P m = filter (\<lambda>(k, v). P k v) m"

lemma map_of_filter_pred:
  "distinct (map fst m) \<Longrightarrow> map_of (filter (\<lambda>(k, v). P k v) m) j =
     (case map_of m j of None \<Rightarrow> None | Some v \<Rightarrow> if P j v then Some v else None)"
  by (induction m) (auto simp: map_of_eq_None_iff split: option.splits)

lemma hm_retain_sub: "set (hm_retain P m) \<subseteq> set m"
  by (auto simp: hm_retain_def)

lemma hm_invar_retain: "hm_invar m \<Longrightarrow> hm_invar (hm_retain P m)"
  by (simp add: hm_invar_def hm_retain_def distinct_map_filter)

lemma hm_invar_update: "hm_invar m \<Longrightarrow> hm_invar (AList.update k v m)"
  unfolding hm_invar_def by (rule distinct_update)

lemma hm_invar_delete: "hm_invar m \<Longrightarrow> hm_invar (AList.delete k m)"
  unfolding hm_invar_def by (rule distinct_delete)

lemma map_of_hm_retain:
  "hm_invar m \<Longrightarrow> map_of (hm_retain P m) j =
     (case map_of m j of None \<Rightarrow> None | Some v \<Rightarrow> if P j v then Some v else None)"
  unfolding hm_invar_def hm_retain_def by (rule map_of_filter_pred)

interpretation hm: map_store hm_invar "\<lambda>m. m" map_of AList.update AList.delete hm_retain
  by unfold_locales
    (simp_all add: update_conv' delete_conv' map_of_hm_retain hm_invar_retain
      hm_invar_update hm_invar_delete, simp_all add: hm_invar_def)

lemma hm_invar_Nil [simp]: "hm_invar []"
  by (simp add: hm_invar_def)

lemma hm_invar_perm: "hm_invar m \<Longrightarrow> mset m' = mset m \<Longrightarrow> hm_invar m'"
  unfolding hm_invar_def by (rule mset_eq_imp_distinct_iff [THEN iffD2, of _ "map fst m"]) simp_all

section \<open>BTreeMap\<close>

type_synonym ('k, 'v) bmap = "('k \<times> 'v) list"

definition bm_invar :: "('k :: linorder, 'v) bmap \<Rightarrow> bool" where
  "bm_invar m \<longleftrightarrow> sorted_wrt (<) (map fst m)"

fun bm_insert :: "'k :: linorder \<Rightarrow> 'v \<Rightarrow> ('k, 'v) bmap \<Rightarrow> ('k, 'v) bmap" where
  "bm_insert k v [] = [(k, v)]"
| "bm_insert k v ((j, w) # m) =
     (if k < j then (k, v) # (j, w) # m
      else if k = j then (k, v) # m
      else (j, w) # bm_insert k v m)"

definition bm_remove :: "'k \<Rightarrow> ('k, 'v) bmap \<Rightarrow> ('k, 'v) bmap" where
  "bm_remove k m = filter (\<lambda>(j, w). j \<noteq> k) m"

lemma keys_bm_insert [simp]: "fst ` set (bm_insert k v m) = insert k (fst ` set m)"
  by (induction k v m rule: bm_insert.induct) auto

lemma bm_invar_distinct: "bm_invar m \<Longrightarrow> distinct (map fst m)"
  by (simp add: bm_invar_def strict_sorted_iff)

lemma bm_invar_insert: "bm_invar m \<Longrightarrow> bm_invar (bm_insert k v m)"
proof (induction k v m rule: bm_insert.induct)
  case (2 k v j w m)
  then show ?case
    using keys_bm_insert [of k v m] by (auto simp: bm_invar_def)
qed (simp add: bm_invar_def)

lemma map_of_bm_insert:
  "bm_invar m \<Longrightarrow> map_of (bm_insert k v m) j = (if j = k then Some v else map_of m j)"
  by (induction k v m rule: bm_insert.induct) (auto simp: bm_invar_def map_of_eq_None_iff)

lemma bm_invar_filter: "bm_invar m \<Longrightarrow> bm_invar (filter P m)"
  by (induction m) (auto simp: bm_invar_def)

lemma bm_invar_Nil [simp]: "bm_invar []"
  by (simp add: bm_invar_def)

lemma bm_invar_retain: "bm_invar m \<Longrightarrow> bm_invar (hm_retain P m)"
  by (simp add: hm_retain_def bm_invar_filter)

lemma bm_invar_remove: "bm_invar m \<Longrightarrow> bm_invar (bm_remove k m)"
  by (simp add: bm_remove_def bm_invar_filter)

lemma map_of_bm_remove:
  "bm_invar m \<Longrightarrow> map_of (bm_remove k m) j = (if j = k then None else map_of m j)"
  by (auto simp: bm_remove_def map_of_filter_pred bm_invar_distinct split: option.splits)

lemma map_of_bm_retain:
  "bm_invar m \<Longrightarrow> map_of (hm_retain P m) j =
     (case map_of m j of None \<Rightarrow> None | Some v \<Rightarrow> if P j v then Some v else None)"
  by (rule map_of_hm_retain) (simp add: hm_invar_def bm_invar_distinct)

interpretation bm: map_store bm_invar "\<lambda>m. m" map_of bm_insert bm_remove hm_retain
  by unfold_locales
    (simp_all add: map_of_bm_insert map_of_bm_remove map_of_bm_retain bm_invar_insert
      bm_invar_remove bm_invar_retain bm_invar_distinct)

end
