(* ===== verification/Wire.thy ===== *)
theory Wire
  imports Map_Store
begin

text \<open>
  The framed protocol of the CDC link to the RP2040 (\<open>wire.rs\<close>): frame types, the frame with
  its encoder, the CRC, and the streaming decoder with its resynchronisation rules. The
  decoder is shown to be independent of how the stream is cut into reads, to invert the
  encoder, to accept only byte sequences the encoder produces, and to keep a bounded buffer.
\<close>

section \<open>Constants, frame types, errors\<close>

definition MAGIC :: "u8 list" where "MAGIC = [0x43, 0x4D]"
definition VERSION :: u8 where "VERSION = 1"
definition MAX_PAYLOAD :: nat where "MAX_PAYLOAD = 64"
definition HEADER_BYTES :: nat where "HEADER_BYTES = 8"
definition CRC_BYTES :: nat where "CRC_BYTES = 2"

lemmas wire_consts = MAX_PAYLOAD_def HEADER_BYTES_def CRC_BYTES_def

datatype frame_type = CodexInputReport | CodexOutputReport | Ping | Status | Log

fun frame_type_byte :: "frame_type \<Rightarrow> u8" where
  "frame_type_byte CodexInputReport = 0x01"
| "frame_type_byte CodexOutputReport = 0x02"
| "frame_type_byte Ping = 0x03"
| "frame_type_byte Status = 0x04"
| "frame_type_byte Log = 0x05"

datatype wire_error =
    PayloadTooLarge nat
  | UnsupportedVersion u8
  | UnknownFrameType u8
  | CrcMismatch u16 u16

definition frame_type_try_from :: "u8 \<Rightarrow> wire_error + frame_type" where
  "frame_type_try_from v =
     (if v = 0x01 then Inr CodexInputReport
      else if v = 0x02 then Inr CodexOutputReport
      else if v = 0x03 then Inr Ping
      else if v = 0x04 then Inr Status
      else if v = 0x05 then Inr Log
      else Inl (UnknownFrameType v))"

lemma try_from_byte [simp]: "frame_type_try_from (frame_type_byte t) = Inr t"
  by (cases t) (simp_all add: frame_type_try_from_def)

lemma try_from_Inr: "frame_type_try_from b = Inr t \<Longrightarrow> b = frame_type_byte t"
  by (auto simp: frame_type_try_from_def split: if_splits)

text \<open>The messages of the \<open>Display\<close> implementation.\<close>

fun wire_error_to_string :: "wire_error \<Rightarrow> string" where
  "wire_error_to_string (PayloadTooLarge n) =
     ''bridge payload is '' @ show_nat n @ '' bytes; maximum is 64''"
| "wire_error_to_string (UnsupportedVersion v) =
     ''unsupported bridge protocol version '' @ show_nat (unat v)"
| "wire_error_to_string (UnknownFrameType t) =
     ''unknown bridge frame type 0x'' @ hex2 (unat t)"
| "wire_error_to_string (CrcMismatch expected actual) =
     ''bridge CRC mismatch: expected 0x'' @ hex4 (unat expected) @ '', got 0x'' @ hex4 (unat actual)"

section \<open>CRC and the encoder\<close>

definition crc16_bit :: "u16 \<Rightarrow> u16" where
  "crc16_bit crc =
     (if and crc 0x8000 \<noteq> 0 then xor (push_bit 1 crc) 0x1021 else push_bit 1 crc)"

definition crc16_byte :: "u8 \<Rightarrow> u16 \<Rightarrow> u16" where
  "crc16_byte byte crc = (crc16_bit ^^ 8) (xor crc (push_bit 8 (ucast byte)))"

definition crc16_ccitt :: "u8 list \<Rightarrow> u16" where
  "crc16_ccitt bytes = fold crc16_byte bytes 0xFFFF"

definition to_le_bytes :: "u16 \<Rightarrow> u8 list" where
  "to_le_bytes w = [ucast w, ucast (drop_bit 8 w)]"

definition from_le_bytes :: "u8 \<Rightarrow> u8 \<Rightarrow> u16" where
  "from_le_bytes a b = or (ucast a) (push_bit 8 (ucast b))"

record frame =
  frame_type :: frame_type
  sequence :: u16
  payload :: "u8 list"

definition frame_new :: "frame_type \<Rightarrow> u16 \<Rightarrow> u8 list \<Rightarrow> wire_error + frame" where
  "frame_new t s p =
     (if length p > MAX_PAYLOAD then Inl (PayloadTooLarge (length p))
      else Inr \<lparr>frame_type = t, sequence = s, payload = p\<rparr>)"

definition frame_body :: "frame \<Rightarrow> u8 list" where
  "frame_body f = MAGIC @ [VERSION] @ [frame_type_byte (frame_type f)] @
     to_le_bytes (sequence f) @ to_le_bytes (of_nat (length (payload f))) @ payload f"

definition encode :: "frame \<Rightarrow> u8 list" where
  "encode f = frame_body f @ to_le_bytes (crc16_ccitt (frame_body f))"

text \<open>The frames \<open>Frame::new\<close> can build.\<close>

definition frame_ok :: "frame \<Rightarrow> bool" where
  "frame_ok f \<longleftrightarrow> length (payload f) \<le> MAX_PAYLOAD"

lemma frame_new_ok: "frame_new t s p = Inr f \<Longrightarrow> frame_ok f"
  by (auto simp: frame_new_def frame_ok_def split: if_splits)

lemma le_bytes_roundtrip: "from_le_bytes (to_le_bytes w ! 0) (to_le_bytes w ! 1) = w"
  unfolding to_le_bytes_def from_le_bytes_def
  by (rule bit_word_eqI)
    (auto simp: bit_or_iff bit_push_bit_iff bit_ucast_iff bit_drop_bit_eq less_diff_conv2)

lemma le_bytes_unique: "to_le_bytes (from_le_bytes a b) = [a, b]"
  unfolding to_le_bytes_def from_le_bytes_def
  by (auto intro!: bit_word_eqI
      simp: bit_or_iff bit_push_bit_iff bit_ucast_iff bit_drop_bit_eq)
    (drule bit_imp_le_length, simp)

lemma length_to_le_bytes [simp]: "length (to_le_bytes w) = 2"
  by (simp add: to_le_bytes_def)

section \<open>The decoder\<close>

fun find_magic :: "u8 list \<Rightarrow> nat option" where
  "find_magic (a # b # bytes) =
     (if [a, b] = MAGIC then Some 0 else map_option Suc (find_magic (b # bytes)))"
| "find_magic _ = None"

text \<open>
  One turn of the loop of \<open>FrameDecoder::feed\<close>: the drained buffer, and what is pushed on
  the result, with \<open>None\<close> where the loop breaks. \<open>decode_at\<close> is the part after the bytes
  before the magic have been drained.
\<close>

definition decode_at :: "u8 list \<Rightarrow> u8 list \<times> (wire_error + frame) option" where
  "decode_at buffer =
     (if length buffer < HEADER_BYTES then (buffer, None)
      else if buffer ! 2 \<noteq> VERSION
        then (drop 2 buffer, Some (Inl (UnsupportedVersion (buffer ! 2))))
      else
        let payload_length = unat (from_le_bytes (buffer ! 6) (buffer ! 7)) in
        if payload_length > MAX_PAYLOAD
          then (drop 2 buffer, Some (Inl (PayloadTooLarge payload_length)))
        else
          let total = HEADER_BYTES + payload_length + CRC_BYTES in
          if length buffer < total then (buffer, None)
          else
            let expected = from_le_bytes (buffer ! (total - CRC_BYTES))
                             (buffer ! (total - CRC_BYTES + 1));
                actual = crc16_ccitt (take (total - CRC_BYTES) buffer) in
            if actual \<noteq> expected
              then (drop 1 buffer, Some (Inl (CrcMismatch expected actual)))
            else
              (drop total buffer,
               Some (map_sum id
                 (\<lambda>t. \<lparr>frame_type = t, sequence = from_le_bytes (buffer ! 4) (buffer ! 5),
                        payload = take payload_length (drop HEADER_BYTES buffer)\<rparr>)
                 (frame_type_try_from (buffer ! 3)))))"

definition decode_step :: "u8 list \<Rightarrow> u8 list \<times> (wire_error + frame) option" where
  "decode_step buffer =
     (case find_magic buffer of
        None \<Rightarrow>
          (if buffer \<noteq> [] \<and> last buffer = MAGIC ! 0
           then drop (length buffer - 1) buffer else [], None)
      | Some offset \<Rightarrow> decode_at (drop offset buffer))"

lemma find_magic_Some:
  "find_magic xs = Some n \<Longrightarrow> Suc n < length xs \<and> take 2 (drop n xs) = MAGIC"
  by (induction xs arbitrary: n rule: find_magic.induct) (auto split: if_splits)

lemma decode_step_shrinks:
  assumes "decode_step buffer = (rest, Some r)"
  shows "length rest < length buffer"
proof (cases "find_magic buffer")
  case None
  with assms show ?thesis by (auto simp: decode_step_def split: if_splits)
next
  case (Some n)
  with find_magic_Some [OF Some] assms show ?thesis
    by (auto simp: decode_step_def decode_at_def Let_def wire_consts split: if_splits)
qed

function decode_loop :: "u8 list \<Rightarrow> (wire_error + frame) list \<times> u8 list" where
  "decode_loop buffer =
     (case decode_step buffer of
        (rest, None) \<Rightarrow> ([], rest)
      | (rest, Some r) \<Rightarrow> (let (rs, final) = decode_loop rest in (r # rs, final)))"
  by pat_completeness auto
termination
  by (relation "measure length") (auto intro: decode_step_shrinks sym)

declare decode_loop.simps [simp del]

record frame_decoder =
  buffer :: "u8 list"

definition feed :: "frame_decoder \<Rightarrow> u8 list \<Rightarrow> (wire_error + frame) list \<times> frame_decoder" where
  "feed d bytes =
     (let (frames, rest) = decode_loop (buffer d @ bytes) in (frames, d\<lparr>buffer := rest\<rparr>))"

section \<open>Independence of fragmentation\<close>

lemma find_magic_append: "find_magic xs = Some n \<Longrightarrow> find_magic (xs @ ys) = Some n"
  by (induction xs arbitrary: n rule: find_magic.induct) (auto split: if_splits)

lemma plus_one_Suc: "(+) (Suc 0) = Suc"
  by auto

lemma plus_zero_id: "(+) (0 :: nat) = id"
  by auto

lemma find_magic_skip:
  "find_magic xs = None \<Longrightarrow> find_magic (xs @ ys) =
     (if xs \<noteq> [] \<and> last xs = 0x43 then map_option ((+) (length xs - 1)) (find_magic (0x43 # ys))
      else map_option ((+) (length xs)) (find_magic ys))"
proof (induction xs rule: find_magic.induct)
  case (1 a b bytes)
  then show ?case
    by (auto simp: MAGIC_def option.map_comp comp_def split: if_splits)
next
  case "2_2"
  then show ?case
    by (cases ys) (auto simp: MAGIC_def option.map_comp comp_def option.map_id0 plus_one_Suc)
qed (simp add: plus_zero_id option.map_id0)

lemma take_append_short: "n \<le> length xs \<Longrightarrow> take n (xs @ ys) = take n xs"
  by simp

lemma decode_at_append_Some:
  assumes "decode_at xs = (rest, Some r)"
  shows "decode_at (xs @ ys) = (rest @ ys, Some r)"
proof -
  have len: "8 \<le> length xs"
    using assms by (auto simp: decode_at_def wire_consts split: if_splits)
  then have nth: "(xs @ ys) ! 2 = xs ! 2" "(xs @ ys) ! 3 = xs ! 3" "(xs @ ys) ! 4 = xs ! 4"
    "(xs @ ys) ! 5 = xs ! 5" "(xs @ ys) ! 6 = xs ! 6" "(xs @ ys) ! 7 = xs ! 7"
    by (simp_all add: nth_append)
  let ?n = "unat (from_le_bytes (xs ! 6) (xs ! 7))"
  consider "xs ! 2 \<noteq> VERSION \<or> 64 < ?n" | "xs ! 2 = VERSION" "?n \<le> 64" "10 + ?n \<le> length xs"
    using assms len
    by (fastforce simp: decode_at_def wire_consts Let_def split: if_splits)
  then show ?thesis
  proof cases
    case 1
    with assms len nth show ?thesis
      by (auto simp: decode_at_def wire_consts Let_def)
  next
    case 2
    then have "(xs @ ys) ! (8 + ?n) = xs ! (8 + ?n)" "(xs @ ys) ! (9 + ?n) = xs ! (9 + ?n)"
      by (simp_all add: nth_append)
    with 2 assms len nth show ?thesis
      by (auto simp: decode_at_def wire_consts Let_def add.commute split: if_splits)
  qed
qed

lemma decode_at_None: "decode_at xs = (rest, None) \<Longrightarrow> rest = xs"
  by (auto simp: decode_at_def Let_def split: if_splits)

lemma decode_step_append_Some:
  "decode_step xs = (rest, Some r) \<Longrightarrow> decode_step (xs @ ys) = (rest @ ys, Some r)"
  using find_magic_Some [of xs]
  by (auto simp: decode_step_def find_magic_append decode_at_append_Some
      split: option.splits if_splits)

lemma find_magic_drop: "find_magic xs = Some n \<Longrightarrow> find_magic (drop n xs) = Some 0"
  by (induction xs arbitrary: n rule: find_magic.induct) (auto split: if_splits)

lemma last_single: "drop (length xs - Suc 0) xs = [last xs]" if "xs \<noteq> []" for xs :: "'a list"
  using that by (cases xs rule: rev_cases) auto

lemma decode_step_append_None:
  assumes "decode_step xs = (rest, None)"
  shows "decode_step (xs @ ys) = decode_step (rest @ ys)"
proof (cases "find_magic xs")
  case (Some n)
  with find_magic_Some [OF Some] assms decode_at_None [of "drop n xs" rest]
  have "rest = drop n xs" "n \<le> length xs" by (auto simp: decode_step_def)
  with Some show ?thesis
    by (simp add: decode_step_def find_magic_append find_magic_drop)
next
  case None
  show ?thesis
  proof (cases "xs \<noteq> [] \<and> last xs = 0x43")
    case True
    with None assms have rest: "rest = [0x43]"
      by (auto simp: decode_step_def MAGIC_def last_single split: if_splits)
    from True obtain zs where xs: "xs = zs @ [0x43]"
      by (cases xs rule: rev_cases) auto
    with True None find_magic_skip [of xs ys]
    have "find_magic (zs @ 0x43 # ys) = map_option ((+) (length zs)) (find_magic (0x43 # ys))"
      by simp
    then show ?thesis
      by (cases "find_magic (0x43 # ys)") (simp_all add: decode_step_def rest xs)
  next
    case False
    with None assms have rest: "rest = []"
      by (auto simp: decode_step_def MAGIC_def split: if_splits)
    with False None show ?thesis
      by (cases "find_magic ys"; cases ys rule: rev_cases)
        (auto simp: decode_step_def find_magic_skip MAGIC_def)
  qed
qed

lemma decode_loop_None: "decode_step xs = (rest, None) \<Longrightarrow> decode_loop xs = ([], rest)"
  by (simp add: decode_loop.simps [of xs])

lemma decode_loop_Some:
  "decode_step xs = (rest, Some r) \<Longrightarrow>
   decode_loop xs = (r # fst (decode_loop rest), snd (decode_loop rest))"
  by (simp add: decode_loop.simps [of xs] case_prod_beta)

text \<open>Decoding in two portions is decoding at once.\<close>

lemma decode_loop_append:
  "decode_loop (xs @ ys) =
     (fst (decode_loop xs) @ fst (decode_loop (snd (decode_loop xs) @ ys)),
      snd (decode_loop (snd (decode_loop xs) @ ys)))"
proof (induction xs rule: length_induct)
  case (1 xs)
  show ?case
  proof (cases "decode_step xs")
    case (Pair rest res)
    show ?thesis
    proof (cases res)
      case None
      with Pair have "decode_step (xs @ ys) = decode_step (rest @ ys)"
        by (simp add: decode_step_append_None)
      then have "decode_loop (xs @ ys) = decode_loop (rest @ ys)"
        by (simp only: decode_loop.simps [of "xs @ ys"] decode_loop.simps [of "rest @ ys"])
      with Pair None show ?thesis by (simp add: decode_loop_None)
    next
      case (Some r)
      with Pair have step: "decode_step xs = (rest, Some r)" by simp
      have IH: "decode_loop (rest @ ys) =
         (fst (decode_loop rest) @ fst (decode_loop (snd (decode_loop rest) @ ys)),
          snd (decode_loop (snd (decode_loop rest) @ ys)))"
        using 1 decode_step_shrinks [OF step] by blast
      show ?thesis
        by (simp only: decode_loop_Some [OF step]
            decode_loop_Some [OF decode_step_append_Some [OF step]] IH fst_conv snd_conv append_Cons)
    qed
  qed
qed

section \<open>Soundness and bounds\<close>

text \<open>
  The length of \<open>encode\<close>, and the bytes of the header at their offsets.
\<close>

lemma length_frame_body [simp]: "length (frame_body f) = 8 + length (payload f)"
  by (simp add: frame_body_def MAGIC_def)

lemma length_encode [simp]: "length (encode f) = 10 + length (payload f)"
  by (simp add: encode_def)

lemma encode_header:
  "encode f = 0x43 # 0x4D # VERSION # frame_type_byte (frame_type f) #
     to_le_bytes (sequence f) @ to_le_bytes (of_nat (length (payload f))) @ payload f @
     to_le_bytes (crc16_ccitt (frame_body f))"
  by (simp add: encode_def frame_body_def MAGIC_def)

lemma from_to_le: "from_le_bytes (ucast w) (ucast (drop_bit 8 w)) = w"
  using le_bytes_roundtrip [of w] by (simp add: to_le_bytes_def)

lemma unat_payload_length: "frame_ok f \<Longrightarrow> unat (of_nat (length (payload f)) :: u16) = length (payload f)"
  by (simp add: frame_ok_def MAX_PAYLOAD_def unsigned_of_nat take_bit_nat_eq_self)

lemma decode_at_encode:
  assumes "frame_ok f"
  shows "decode_at (encode f @ rest) = (rest, Some (Inr f))"
proof -
  let ?n = "length (payload f)" and ?b = "encode f @ rest"
  have nth: "?b ! 2 = VERSION" "?b ! 3 = frame_type_byte (frame_type f)"
    "from_le_bytes (?b ! 4) (?b ! 5) = sequence f"
    "from_le_bytes (?b ! 6) (?b ! 7) = of_nat ?n"
    by (simp_all add: encode_header to_le_bytes_def from_to_le nth_Cons')
  have tail: "?b = frame_body f @ to_le_bytes (crc16_ccitt (frame_body f)) @ rest"
    by (simp add: encode_def)
  have crc: "take (8 + ?n) ?b = frame_body f"
    "from_le_bytes (?b ! (8 + ?n)) (?b ! (9 + ?n)) = crc16_ccitt (frame_body f)"
    unfolding tail by (simp_all add: nth_append to_le_bytes_def from_to_le)
  have pl: "take ?n (drop 8 ?b) = payload f"
    by (simp add: encode_header to_le_bytes_def)
  have rest: "drop (10 + ?n) ?b = rest" by simp
  show ?thesis
    using assms nth crc pl rest unat_payload_length [OF assms]
    by (simp add: decode_at_def wire_consts Let_def frame_ok_def add.commute)
qed

lemma find_magic_encode: "find_magic (encode f @ rest) = Some 0"
  by (simp add: encode_header MAGIC_def)

lemma decode_step_encode:
  "frame_ok f \<Longrightarrow> decode_step (encode f @ rest) = (rest, Some (Inr f))"
  by (simp add: decode_step_def find_magic_encode decode_at_encode)

text \<open>Bytes before a frame that hold no magic, and do not end in its first byte, are skipped.\<close>

definition noise :: "u8 list \<Rightarrow> bool" where
  "noise xs \<longleftrightarrow> find_magic xs = None \<and> (xs = [] \<or> last xs \<noteq> MAGIC ! 0)"

lemma decode_step_noise:
  assumes "noise xs" and "find_magic ys = Some n"
  shows "decode_step (xs @ ys) = decode_step ys"
proof -
  have "find_magic (xs @ ys) = Some (length xs + n)"
    using assms find_magic_skip [of xs ys] by (auto simp: noise_def MAGIC_def)
  with assms show ?thesis by (simp add: decode_step_def)
qed

lemma decode_loop_noise_frame:
  assumes "noise xs" and "frame_ok f"
  shows "decode_loop (xs @ encode f @ rest) =
    (Inr f # fst (decode_loop rest), snd (decode_loop rest))"
  using decode_step_noise [OF assms(1) find_magic_encode, of f rest]
  by (intro decode_loop_Some) (simp add: decode_step_encode assms(2))

text \<open>A stream of frames, each after some noise, is decoded to exactly these frames.\<close>

lemma decode_loop_stream:
  "\<forall>(xs, f) \<in> set items. noise xs \<and> frame_ok f \<Longrightarrow>
   decode_loop (concat (map (\<lambda>(xs, f). xs @ encode f) items)) = (map (Inr \<circ> snd) items, [])"
proof (induction items)
  case Nil
  show ?case by (simp add: decode_loop_None decode_step_def)
next
  case (Cons item items)
  then show ?case
    by (cases item) (simp add: decode_loop_noise_frame)
qed

text \<open>Conversely, an accepted frame is the encoding of bytes that were in the buffer.\<close>

lemma list_split_at:
  assumes "10 + n \<le> length (b :: 'a list)"
  shows "b = take (8 + n) b @ [b ! (8 + n), b ! (9 + n)] @ drop (10 + n) b"
proof -
  have "drop (8 + n) b = b ! (8 + n) # b ! (9 + n) # drop (10 + n) b"
    using assms by (simp add: Cons_nth_drop_Suc numeral_eq_Suc)
  then show ?thesis
    by (metis append_Cons append_Nil append_take_drop_id)
qed

lemma header_list:
  assumes "8 \<le> length (b :: 'a list)"
  shows "take 8 b = [b ! 0, b ! 1, b ! 2, b ! 3, b ! 4, b ! 5, b ! 6, b ! 7]"
  using assms by (auto intro!: nth_equalityI simp: less_Suc_eq numeral_eq_Suc)

lemma decode_at_Inr:
  assumes dec: "decode_at b = (rest, Some (Inr f))" and magic: "take 2 b = MAGIC"
  shows "b = encode f @ rest \<and> frame_ok f"
proof -
  let ?n = "unat (from_le_bytes (b ! 6) (b ! 7))"
  from dec have len: "10 + ?n \<le> length b" and n: "?n \<le> 64" and v: "b ! 2 = VERSION"
    and crc: "crc16_ccitt (take (8 + ?n) b) = from_le_bytes (b ! (8 + ?n)) (b ! (9 + ?n))"
    and rest: "rest = drop (10 + ?n) b"
    and ft: "frame_type_try_from (b ! 3) = Inr (frame_type f)"
    and sq: "sequence f = from_le_bytes (b ! 4) (b ! 5)"
    and pl: "payload f = take ?n (drop 8 b)"
    by (auto simp: decode_at_def wire_consts Let_def add.commute map_sum_def
        split: if_splits sum.splits)
  have lp: "length (payload f) = ?n" using pl len by simp
  have m: "b ! 0 = 0x43" "b ! 1 = 0x4D"
  proof -
    have "take 2 b = [b ! 0, b ! 1]"
      using len by (auto intro!: nth_equalityI simp: less_Suc_eq numeral_2_eq_2)
    with magic show "b ! 0 = 0x43" "b ! 1 = 0x4D" by (simp_all add: MAGIC_def)
  qed
  have "take (8 + ?n) b = take 8 b @ take ?n (drop 8 b)"
    by (simp add: take_add)
  also have "\<dots> = frame_body f"
    using header_list [of b] len m v try_from_Inr [OF ft] lp
    by (simp add: frame_body_def MAGIC_def sq le_bytes_unique pl [symmetric])
  finally have body: "take (8 + ?n) b = frame_body f" .
  have "b = frame_body f @ to_le_bytes (crc16_ccitt (frame_body f)) @ rest"
    using list_split_at [OF len] body crc rest by (simp add: le_bytes_unique)
  with lp n show ?thesis by (simp add: encode_def frame_ok_def MAX_PAYLOAD_def)
qed

lemma decode_step_Inr:
  assumes "decode_step b = (rest, Some (Inr f))"
  shows "\<exists>pre. b = pre @ encode f @ rest \<and> frame_ok f"
proof (cases "find_magic b")
  case None
  with assms show ?thesis by (simp add: decode_step_def)
next
  case (Some n)
  with find_magic_Some [OF Some] assms decode_at_Inr [of "drop n b" rest f]
  have "drop n b = encode f @ rest \<and> frame_ok f" by (simp add: decode_step_def)
  then show ?thesis by (metis append_take_drop_id)
qed

text \<open>Whatever a step consumes, the rest is a suffix of the buffer.\<close>

lemma decode_step_suffix: "decode_step b = (rest, Some r) \<Longrightarrow> \<exists>pre. b = pre @ rest"
  by (auto simp: decode_step_def decode_at_def Let_def split: option.splits if_splits)
    (metis append_take_drop_id)+

lemma decode_loop_sound:
  "Inr f \<in> set (fst (decode_loop b)) \<Longrightarrow> \<exists>pre post. b = pre @ encode f @ post \<and> frame_ok f"
proof (induction b rule: length_induct)
  case (1 b)
  obtain rest res where "decode_step b = (rest, res)" by fastforce
  moreover from this 1(2) obtain r where "res = Some r"
    by (cases res) (auto simp: decode_loop_None)
  ultimately have step: "decode_step b = (rest, Some r)" by simp
  show ?case
  proof (cases "r = Inr f")
    case True
    with step decode_step_Inr show ?thesis by blast
  next
    case False
    with 1(2) have "Inr f \<in> set (fst (decode_loop rest))"
      by (simp add: decode_loop_Some [OF step])
    with 1(1) decode_step_shrinks [OF step] obtain pre post
      where "rest = pre @ encode f @ post \<and> frame_ok f" by blast
    with decode_step_suffix [OF step] show ?thesis by (metis append.assoc)
  qed
qed

text \<open>What is kept for the next read is shorter than the longest frame.\<close>

lemma decode_step_None_bound: "decode_step b = (rest, None) \<Longrightarrow> length rest < 74"
  by (auto simp: decode_step_def decode_at_def Let_def wire_consts last_single
      split: option.splits if_splits)

lemma decode_loop_bound: "length (snd (decode_loop b)) < 74"
proof (induction b rule: length_induct)
  case (1 b)
  obtain rest res where step: "decode_step b = (rest, res)" by fastforce
  show ?case
  proof (cases res)
    case None
    with step show ?thesis by (simp add: decode_loop_None decode_step_None_bound)
  next
    case (Some r)
    with step have s: "decode_step b = (rest, Some r)" by simp
    with 1 decode_step_shrinks [OF s] show ?thesis by (simp add: decode_loop_Some)
  qed
qed

section \<open>Error detection\<close>

text \<open>
  The CRC is evaluated byte by byte; one round is injective in the register and in the
  byte, because the generator polynomial is odd: the lowest bit of the result tells which
  branch was taken.
\<close>

lemma crc16_byte_unfold [wire_simps]:
  "crc16_byte b c = crc16_bit (crc16_bit (crc16_bit (crc16_bit (crc16_bit (crc16_bit (crc16_bit
     (crc16_bit (xor c (push_bit 8 (ucast b))))))))))"
  by (simp add: crc16_byte_def eval_nat_numeral)

lemmas encode_eval = encode_def frame_body_def MAGIC_def VERSION_def to_le_bytes_def
  crc16_ccitt_def crc16_byte_unfold crc16_bit_def

definition crc16_unbit :: "u16 \<Rightarrow> u16" where
  "crc16_unbit c =
     (if bit c 0 then or 0x8000 (drop_bit 1 (xor c 0x1021)) else drop_bit 1 c)"

lemma bit_top_mask: "bit (0x8000 :: int) n \<longleftrightarrow> n = 15"
proof -
  have "bit (push_bit 15 (1 :: int)) n \<longleftrightarrow> n = 15"
    by (simp only: bit_push_bit_iff bit_1_iff) auto
  then show ?thesis by simp
qed

lemma bit_shift_one: "bit (c * 2 :: u16) n \<longleftrightarrow> 1 \<le> n \<and> n < 16 \<and> bit c (n - 1)"
proof -
  have "bit (push_bit 1 c) n \<longleftrightarrow> 1 \<le> n \<and> n < 16 \<and> bit c (n - 1)"
    by (simp only: bit_push_bit_iff) auto
  then show ?thesis by simp
qed

lemma top_bit_16: "and c (0x8000 :: u16) \<noteq> 0 \<longleftrightarrow> bit c 15"
proof
  assume "and c (0x8000 :: u16) \<noteq> 0"
  then obtain n where "bit (and c (0x8000 :: u16)) n"
    using bit_eq_iff [of "and c (0x8000 :: u16)" 0] by auto
  then show "bit c 15" by (auto simp: bit_and_iff bit_top_mask)
next
  assume "bit c 15"
  then have "bit (and c (0x8000 :: u16)) 15" by (auto simp: bit_and_iff bit_top_mask)
  then show "and c (0x8000 :: u16) \<noteq> 0" by (metis bit_0_eq bot_apply bot_bool_def)
qed

lemma crc16_unbit: "crc16_unbit (crc16_bit c) = c"
proof (rule bit_word_eqI)
  fix n :: nat
  assume n: "n < LENGTH(16)"
  show "bit (crc16_unbit (crc16_bit c)) n = bit c n"
  proof (cases "n = 15")
    case True
    then show ?thesis
      by (auto simp: crc16_unbit_def crc16_bit_def top_bit_16 bit_or_iff bit_drop_bit_eq
          bit_xor_iff bit_shift_one)
  next
    case False
    with n show ?thesis
      by (auto simp: crc16_unbit_def crc16_bit_def top_bit_16 bit_or_iff bit_drop_bit_eq
          bit_xor_iff bit_top_mask bit_shift_one xor.assoc)
  qed
qed

lemma crc16_bit_inj: "crc16_bit a = crc16_bit b \<longleftrightarrow> a = b"
  by (metis crc16_unbit)

lemma xor_right_inj: "xor (a :: 'a :: len word) c = xor b c \<longleftrightarrow> a = b"
  by (metis xor.assoc xor.right_neutral xor_self_eq)

lemma crc16_byte_inj: "crc16_byte x a = crc16_byte x b \<longleftrightarrow> a = b"
  by (simp add: crc16_byte_unfold crc16_bit_inj xor_right_inj)

lemma push_ucast_inj: "push_bit 8 (ucast x :: u16) = push_bit 8 (ucast y) \<longleftrightarrow> x = (y :: u8)"
proof
  assume eq: "push_bit 8 (ucast x :: u16) = push_bit 8 (ucast y)"
  show "x = y"
  proof (rule bit_word_eqI)
    fix n :: nat
    assume "n < LENGTH(8)"
    moreover have "bit (push_bit 8 (ucast x :: u16)) (n + 8) = bit (push_bit 8 (ucast y :: u16)) (n + 8)"
      by (simp only: eq)
    ultimately show "bit x n = bit y n"
      by (simp only: bit_push_bit_iff bit_ucast_iff) simp
  qed
qed simp

lemma crc16_byte_inj_byte: "crc16_byte x a = crc16_byte y a \<longleftrightarrow> x = y"
proof -
  have "xor a (push_bit 8 (ucast x)) = xor a (push_bit 8 (ucast y)) \<longleftrightarrow> x = y"
    by (metis push_ucast_inj xor.commute xor_right_inj)
  then show ?thesis by (simp only: crc16_byte_unfold crc16_bit_inj)
qed

lemma fold_crc_inj: "fold crc16_byte xs a = fold crc16_byte xs b \<longleftrightarrow> a = b"
  by (induction xs arbitrary: a b) (auto simp: crc16_byte_inj)

text \<open>Changing one byte always changes the CRC.\<close>

lemma crc16_single_byte:
  assumes "i < length xs" and "b \<noteq> xs ! i"
  shows "crc16_ccitt (xs[i := b]) \<noteq> crc16_ccitt xs"
proof -
  have "xs = take i xs @ xs ! i # drop (Suc i) xs"
    using assms(1) by (rule id_take_nth_drop)
  then have "crc16_ccitt xs = fold crc16_byte (drop (Suc i) xs)
      (crc16_byte (xs ! i) (crc16_ccitt (take i xs)))"
    unfolding crc16_ccitt_def by (metis comp_apply fold_Cons fold_append)
  moreover have "crc16_ccitt (xs[i := b]) = fold crc16_byte (drop (Suc i) xs)
      (crc16_byte b (crc16_ccitt (take i xs)))"
    using assms(1) by (simp add: crc16_ccitt_def upd_conv_take_nth_drop)
  ultimately show ?thesis using assms(2) by (simp add: fold_crc_inj crc16_byte_inj_byte)
qed

lemma to_le_bytes_inj: "to_le_bytes a = to_le_bytes b \<longleftrightarrow> a = b"
  by (metis le_bytes_roundtrip)

lemma nth_update_header:
  assumes "8 \<le> i" and "j < 8"
  shows "((encode f)[i := b] @ rest) ! j = (encode f @ rest) ! j"
  using assms by (simp add: nth_append)

lemma two_bytes: "2 \<le> length xs \<Longrightarrow> xs = xs ! 0 # xs ! 1 # drop 2 xs"
  by (cases xs; cases "tl xs") auto

lemma decode_step_corrupted:
  assumes ok: "frame_ok f" and i: "8 \<le> i" "i < length (encode f)" and b: "b \<noteq> encode f ! i"
  shows "\<exists>e a. decode_step ((encode f)[i := b] @ rest) =
     (drop 1 ((encode f)[i := b] @ rest), Some (Inl (CrcMismatch e a)))"
proof -
  let ?n = "length (payload f)" and ?g = "(encode f)[i := b]"
  let ?b = "?g @ rest"
  let ?crc = "crc16_ccitt (frame_body f)"
  have hdr: "?b ! 2 = VERSION" "from_le_bytes (?b ! 6) (?b ! 7) = of_nat ?n"
    using i by (simp_all only: nth_update_header) (simp_all add: encode_header to_le_bytes_def from_to_le)
  have pre: "?b = 0x43 # 0x4D # drop 2 ?b"
  proof -
    have "?b ! 0 = 0x43" "?b ! 1 = 0x4D"
      using i by (simp_all only: nth_update_header) (simp_all add: encode_header)
    then show ?thesis
      using two_bytes [of ?b] i by simp
  qed
  then have magic: "find_magic ?b = Some 0"
    by (metis find_magic.simps(1) MAGIC_def)
  have "crc16_ccitt (take (8 + ?n) ?b) \<noteq> from_le_bytes (?b ! (8 + ?n)) (?b ! (9 + ?n))"
  proof (cases "i < 8 + ?n")
    case True
    then have "?g = (frame_body f)[i := b] @ to_le_bytes ?crc"
      by (simp add: encode_def list_update_append)
    moreover from True b have "b \<noteq> frame_body f ! i" by (simp add: encode_def nth_append)
    ultimately show ?thesis
      using crc16_single_byte [of i "frame_body f" b] True
      by (simp add: nth_append to_le_bytes_def from_to_le)
  next
    case False
    then have g: "?g = frame_body f @ (to_le_bytes ?crc)[i - (8 + ?n) := b]"
      by (simp add: encode_def list_update_append)
    from False i have k: "i - (8 + ?n) < 2" by simp
    from False i b have "b \<noteq> to_le_bytes ?crc ! (i - (8 + ?n))"
      by (simp add: encode_def nth_append)
    with k have "(to_le_bytes ?crc)[i - (8 + ?n) := b] \<noteq> to_le_bytes ?crc"
      by (metis length_to_le_bytes nth_list_update_eq)
    moreover have "[?b ! (8 + ?n), ?b ! (9 + ?n)] = (to_le_bytes ?crc)[i - (8 + ?n) := b]"
      by (rule nth_equalityI) (auto simp: g nth_append less_Suc_eq numeral_2_eq_2)
    ultimately have "from_le_bytes (?b ! (8 + ?n)) (?b ! (9 + ?n)) \<noteq> ?crc"
      by (metis le_bytes_unique)
    moreover have "take (8 + ?n) ?b = frame_body f" by (simp add: g)
    ultimately show ?thesis by simp
  qed
  with hdr magic ok unat_payload_length [OF ok] show ?thesis
    by (simp add: decode_step_def decode_at_def wire_consts Let_def frame_ok_def add.commute)
qed

section \<open>Properties\<close>

text \<open>
  C11. The decoder accepts nothing that was not sent: every frame it reports is the encoding,
  with a correct header, length and CRC, of consecutive bytes of the stream, and its payload
  is within the limit of the protocol.
\<close>
theorem accepted_frames_were_encoded:
  assumes "Inr f \<in> set (fst (feed d bytes))"
  shows "\<exists>before after. buffer d @ bytes = before @ encode f @ after \<and> frame_ok f"
  using decode_loop_sound [of f "buffer d @ bytes"] assms by (simp add: feed_def case_prod_beta)

theorem accepted_frames_were_encoded_witness:
  "\<exists>before after. buffer \<lparr>buffer = [0x43]\<rparr> @ [0x4D, 1, 3, 1, 0, 0, 0, 0xBB, 0xE5] =
     before @ encode \<lparr>frame_type = Ping, sequence = 1, payload = []\<rparr> @ after \<and>
     frame_ok \<lparr>frame_type = Ping, sequence = 1, payload = []\<rparr>"
proof (rule accepted_frames_were_encoded)
  let ?f = "\<lparr>frame_type = Ping, sequence = 1, payload = []\<rparr>"
  have "[0x43, 0x4D, 1, 3, 1, 0, 0, 0, 0xBB, 0xE5] = encode ?f @ []"
    by (simp add: encode_eval)
  moreover have "frame_ok ?f" by (simp add: frame_ok_def)
  ultimately have "decode_loop [0x43, 0x4D, 1, 3, 1, 0, 0, 0, 0xBB, 0xE5] = ([Inr ?f], [])"
    using decode_loop_Some [OF decode_step_encode, of ?f "[]"]
    by (simp add: decode_loop_None decode_step_def)
  then show "Inr ?f \<in> set (fst (feed \<lparr>buffer = [0x43]\<rparr> [0x4D, 1, 3, 1, 0, 0, 0, 0xBB, 0xE5]))"
    by (simp add: feed_def)
qed

text \<open>
  Between two reads the decoder keeps fewer bytes than the longest frame (74), whatever
  the stream contains.
\<close>
theorem decoder_buffer_bounded: "length (buffer (snd (feed d bytes))) < 74"
  using decode_loop_bound by (simp add: feed_def case_prod_beta)

text \<open>
  C12. Corruption of one byte after the header of a frame (its payload or its CRC) is always
  detected: the decoder reports a CRC mismatch for it and drops one byte to resynchronise.
\<close>
theorem single_byte_corruption_detected:
  assumes "frame_ok f" and "8 \<le> i" and "i < length (encode f)" and "b \<noteq> encode f ! i"
  shows "\<exists>e a rs. fst (feed \<lparr>buffer = []\<rparr> ((encode f)[i := b] @ rest)) =
     Inl (CrcMismatch e a) # rs"
  using decode_step_corrupted [OF assms, of rest]
  by (auto simp: feed_def case_prod_beta dest: decode_loop_Some)

theorem single_byte_corruption_detected_witness:
  "\<exists>e a rs. fst (feed \<lparr>buffer = []\<rparr>
     ((encode \<lparr>frame_type = Ping, sequence = 1, payload = [7]\<rparr>)[8 := 6] @ [])) =
     Inl (CrcMismatch e a) # rs"
  by (rule single_byte_corruption_detected)
    (simp_all add: frame_ok_def MAX_PAYLOAD_def encode_header to_le_bytes_def)

end
