(* ===== verification/Json.thy ===== *)
theory Json
  imports Map_Store
begin

text \<open>
  The data type \<open>serde_json::Value\<close> that every message of the bridge is made of, with the
  accessors the code calls (\<open>get\<close>, \<open>as_str\<close>, \<open>as_u64\<close>, \<open>as_f64\<close> and so on, as the library
  documents them), and the double precision arithmetic on the numbers it carries. Objects
  are \<open>BTreeMap\<close>s (the crate is built without \<open>preserve_order\<close>), so equality of values is
  equality of the sorted lists. Parsing and printing of JSON text is not under src/ and is
  a parameter where it is used.
\<close>

section \<open>Double precision\<close>

text \<open>
  A finite \<open>f64\<close> is kept as the rational it denotes. \<open>f64_round\<close> rounds an exact result to
  the nearest double, ties to even, with the subnormal exponent as lower limit; results of
  magnitude \<open>2 ^ 1024\<close> and above do not occur in the code modelled here.
\<close>

type_synonym f64 = rat

fun bit_len :: "nat \<Rightarrow> nat" where
  "bit_len n = (if n = 0 then 0 else Suc (bit_len (n div 2)))"

declare bit_len.simps [simp del]

definition pow2 :: "int \<Rightarrow> rat" where
  "pow2 e = (if 0 \<le> e then 2 ^ nat e else 1 / 2 ^ nat (- e))"

definition f64_exp :: "rat \<Rightarrow> int" where
  "f64_exp x =
     (let (a, b) = quotient_of x;
          e = int (bit_len (nat a)) - int (bit_len (nat b))
      in if pow2 e \<le> x then e else e - 1)"

definition round_half_even :: "rat \<Rightarrow> int" where
  "round_half_even y =
     (let f = \<lfloor>y\<rfloor>; d = y - of_int f
      in if d < 1 / 2 then f else if 1 / 2 < d then f + 1 else if even f then f else f + 1)"

definition f64_round :: "rat \<Rightarrow> f64" where
  "f64_round x =
     (if x = 0 then 0
      else let y = \<bar>x\<bar>; u = pow2 (max (f64_exp y - 52) (- 1074))
           in sgn x * (of_int (round_half_even (y / u)) * u))"

definition f64_mul :: "f64 \<Rightarrow> f64 \<Rightarrow> f64" where
  "f64_mul a b = f64_round (a * b)"

definition f64_div :: "f64 \<Rightarrow> f64 \<Rightarrow> f64" where
  "f64_div a b = f64_round (a / b)"

definition f64_sub :: "f64 \<Rightarrow> f64 \<Rightarrow> f64" where
  "f64_sub a b = f64_round (a - b)"

text \<open>\<open>f64::EPSILON\<close>, \<open>clamp\<close>, \<open>round\<close> (half away from zero) and the saturating cast \<open>as u8\<close>.\<close>

definition f64_epsilon :: f64 where
  "f64_epsilon = 1 / 2 ^ 52"

definition clamp :: "'a :: linorder \<Rightarrow> 'a \<Rightarrow> 'a \<Rightarrow> 'a" where
  "clamp lo hi x = (if x < lo then lo else if hi < x then hi else x)"

definition f64_nearest :: "f64 \<Rightarrow> f64" where
  "f64_nearest x = (if 0 \<le> x then of_int \<lfloor>x + 1 / 2\<rfloor> else - of_int \<lfloor>- x + 1 / 2\<rfloor>)"

definition f64_as_u8 :: "f64 \<Rightarrow> nat" where
  "f64_as_u8 x = nat (clamp 0 255 (if 0 \<le> x then \<lfloor>x\<rfloor> else 0))"

lemma clamp_bounds: "lo \<le> hi \<Longrightarrow> lo \<le> clamp lo hi x \<and> clamp lo hi x \<le> hi"
  by (auto simp: clamp_def)

lemma clamp_id: "lo \<le> x \<Longrightarrow> x \<le> hi \<Longrightarrow> clamp lo hi x = x"
  by (auto simp: clamp_def)

lemma nat_clamp_255: "nat (clamp 0 255 k) \<le> 255" "nat (clamp 0 255 k) \<le> nat (max 0 k)"
  by (auto simp: clamp_def)

lemma f64_as_u8_le_255: "f64_as_u8 x \<le> 255"
  unfolding f64_as_u8_def by (rule nat_clamp_255)

lemma f64_as_u8_le: "x \<le> of_nat n \<Longrightarrow> f64_as_u8 x \<le> n"
proof -
  assume "x \<le> of_nat n"
  then have "\<lfloor>x\<rfloor> \<le> int n"
    by (metis floor_mono floor_of_nat)
  then have "nat (max 0 (if 0 \<le> x then \<lfloor>x\<rfloor> else 0)) \<le> n"
    by (simp add: nat_le_iff)
  with nat_clamp_255(2) show ?thesis
    unfolding f64_as_u8_def by (rule le_trans)
qed

lemma f64_nearest_bounds: "0 \<le> x \<Longrightarrow> x \<le> of_nat n \<Longrightarrow> 0 \<le> f64_nearest x \<and> f64_nearest x \<le> of_nat n"
proof -
  assume "0 \<le> x" and le: "x \<le> of_nat n"
  then have "0 \<le> \<lfloor>x + 1 / 2\<rfloor>" by (simp add: le_floor_iff)
  moreover have "\<lfloor>x + 1 / 2\<rfloor> \<le> int n"
    using le by (simp add: floor_le_iff)
  ultimately show ?thesis
    using \<open>0 \<le> x\<close> by (simp add: f64_nearest_def)
qed

section \<open>Values\<close>

text \<open>The representation of \<open>serde_json::Number\<close>: a \<open>u64\<close>, a negative \<open>i64\<close> or a finite \<open>f64\<close>.\<close>

datatype number = PosInt nat | NegInt int | Float f64

datatype json =
    JNull
  | JBool bool
  | JNum number
  | JStr string
  | JArr "json list"
  | JObj "(string, json) bmap"

fun as_object :: "json \<Rightarrow> (string, json) bmap option" where
  "as_object (JObj m) = Some m"
| "as_object _ = None"

fun as_array :: "json \<Rightarrow> json list option" where
  "as_array (JArr xs) = Some xs"
| "as_array _ = None"

fun as_str :: "json \<Rightarrow> string option" where
  "as_str (JStr s) = Some s"
| "as_str _ = None"

fun as_bool :: "json \<Rightarrow> bool option" where
  "as_bool (JBool b) = Some b"
| "as_bool _ = None"

fun num_as_u64 :: "number \<Rightarrow> nat option" where
  "num_as_u64 (PosInt n) = Some n"
| "num_as_u64 _ = None"

fun num_as_i64 :: "number \<Rightarrow> int option" where
  "num_as_i64 (PosInt n) = (if n < 2 ^ 63 then Some (int n) else None)"
| "num_as_i64 (NegInt i) = Some i"
| "num_as_i64 (Float _) = None"

fun num_as_f64 :: "number \<Rightarrow> f64 option" where
  "num_as_f64 (PosInt n) = Some (f64_round (of_nat n))"
| "num_as_f64 (NegInt i) = Some (f64_round (of_int i))"
| "num_as_f64 (Float x) = Some x"

fun as_number :: "json \<Rightarrow> number option" where
  "as_number (JNum n) = Some n"
| "as_number _ = None"

definition as_u64 :: "json \<Rightarrow> nat option" where
  "as_u64 v = Option.bind (as_number v) num_as_u64"

definition as_i64 :: "json \<Rightarrow> int option" where
  "as_i64 v = Option.bind (as_number v) num_as_i64"

definition as_f64 :: "json \<Rightarrow> f64 option" where
  "as_f64 v = Option.bind (as_number v) num_as_f64"

text \<open>\<open>Value::get\<close> with a key: \<open>None\<close> on anything but an object.\<close>

definition jget :: "string \<Rightarrow> json \<Rightarrow> json option" where
  "jget k v = (case v of JObj m \<Rightarrow> map_of m k | _ \<Rightarrow> None)"

text \<open>The \<open>json!\<close> macro on an object, and its conversions of leaves.\<close>

definition jobj :: "(string \<times> json) list \<Rightarrow> json" where
  "jobj kvs = JObj (fold (\<lambda>(k, v). bm_insert k v) kvs [])"

definition jnat :: "nat \<Rightarrow> json" where
  "jnat n = JNum (PosInt n)"

definition jopt :: "('a \<Rightarrow> json) \<Rightarrow> 'a option \<Rightarrow> json" where
  "jopt f x = (case x of None \<Rightarrow> JNull | Some y \<Rightarrow> f y)"

text \<open>\<open>or_else\<close> on options: the second is taken when the first is absent.\<close>

definition or_else :: "'a option \<Rightarrow> 'a option \<Rightarrow> 'a option" where
  "or_else a b = (case a of None \<Rightarrow> b | Some x \<Rightarrow> Some x)"

text \<open>\<open>?\<close> on results.\<close>

definition res_bind :: "'e + 'a \<Rightarrow> ('a \<Rightarrow> 'e + 'b) \<Rightarrow> 'e + 'b" where
  "res_bind r k = (case r of Inl e \<Rightarrow> Inl e | Inr x \<Rightarrow> k x)"

definition ok_or :: "'e \<Rightarrow> 'a option \<Rightarrow> 'e + 'a" where
  "ok_or e x = (case x of None \<Rightarrow> Inl e | Some y \<Rightarrow> Inr y)"

lemma res_bind_simps [simp]: "res_bind (Inl e) k = Inl e" "res_bind (Inr x) k = k x"
  by (simp_all add: res_bind_def)

lemma res_bind_Inr_iff: "res_bind r k = Inr y \<longleftrightarrow> (\<exists>x. r = Inr x \<and> k x = Inr y)"
  by (cases r) simp_all

lemma res_bindE: "res_bind r k = Inr y \<Longrightarrow> (\<And>x. r = Inr x \<Longrightarrow> k x = Inr y \<Longrightarrow> P) \<Longrightarrow> P"
  by (auto simp: res_bind_Inr_iff)

lemma ok_or_simps [simp]: "ok_or e None = Inl e" "ok_or e (Some x) = Inr x"
  by (simp_all add: ok_or_def)

lemma ok_or_Inr_iff [simp]: "ok_or e x = Inr y \<longleftrightarrow> x = Some y"
  by (cases x) simp_all

lemma or_else_simps [simp]: "or_else None b = b" "or_else (Some x) b = Some x"
  by (simp_all add: or_else_def)

lemma jopt_simps [simp]: "jopt f None = JNull" "jopt f (Some x) = f x"
  by (simp_all add: jopt_def)

lemma as_leaf_simps [simp]:
  "as_u64 (jnat n) = Some n" "as_u64 (JStr s) = None" "as_u64 JNull = None"
  "as_u64 (JBool b) = None" "as_u64 (JNum x) = num_as_u64 x"
  by (simp_all add: as_u64_def jnat_def)

text \<open>
  Reading a field of a literal object: the last binding of the key, from the laws of the
  map interface.
\<close>

lemma bm_invar_jobj: "bm_invar (fold (\<lambda>(k, v). bm_insert k v) kvs [])"
  by (rule bm.invar_insert_many) simp

lemma jget_jobj: "jget k (jobj kvs) = map_of (rev kvs) k"
  by (simp add: jget_def jobj_def bm.lookup_insert_many split: option.splits)

lemma jget_non_object [simp]:
  "jget k JNull = None" "jget k (JBool b) = None" "jget k (JNum n) = None"
  "jget k (JStr s) = None" "jget k (JArr xs) = None"
  by (simp_all add: jget_def)

lemma jget_JObj [simp]: "jget k (JObj m) = map_of m k"
  by (simp add: jget_def)

end
