(* ===== verification/Serial.thy ===== *)
theory Serial
  imports Wire Json
begin

text \<open>
  The serial port of the bridge (\<open>serial.rs\<close>): the choice of the port, and the reader thread
  that turns the reads of the port into events. What the reader relies on is the interface
  \<open>incremental_decoder\<close>, a decoder that may be fed a stream in any portions; \<open>feed\<close> of the wire
  protocol is an instance. The system calls (opening the port, its timeouts and modem lines,
  the cancellation of a blocked read) are not modelled.
\<close>

section \<open>Incremental decoders\<close>

locale incremental_decoder =
  fixes feed_some :: "'s \<Rightarrow> 'b list \<Rightarrow> 'r list \<times> 's"
  assumes feed_append:
    "feed_some s (xs @ ys) =
       (fst (feed_some s xs) @ fst (feed_some (snd (feed_some s xs)) ys),
        snd (feed_some (snd (feed_some s xs)) ys))"
begin

fun feed_chunks :: "'s \<Rightarrow> 'b list list \<Rightarrow> 'r list \<times> 's" where
  "feed_chunks s [] = ([], s)"
| "feed_chunks s (c # cs) =
     (let (rs, s') = feed_some s c; (rs', s'') = feed_chunks s' cs in (rs @ rs', s''))"

lemma feed_chunks_concat:
  "cs \<noteq> [] \<Longrightarrow> feed_chunks s cs = feed_some s (concat cs)"
proof (induction cs arbitrary: s)
  case (Cons c cs)
  show ?case
  proof (cases "cs = []")
    case True
    then show ?thesis by (simp add: case_prod_beta)
  next
    case False
    with Cons show ?thesis
      by (simp add: case_prod_beta feed_append [of s c "concat cs"])
  qed
qed simp

lemma feed_chunks_cong:
  "concat cs = concat ds \<Longrightarrow> cs \<noteq> [] \<Longrightarrow> ds \<noteq> [] \<Longrightarrow> feed_chunks s cs = feed_chunks s ds"
  by (simp add: feed_chunks_concat)

end

lemma feed_append_wire:
  "feed d (xs @ ys) =
     (fst (feed d xs) @ fst (feed (snd (feed d xs)) ys), snd (feed (snd (feed d xs)) ys))"
proof -
  have "decode_loop ((buffer d @ xs) @ ys) =
     (fst (decode_loop (buffer d @ xs)) @
        fst (decode_loop (snd (decode_loop (buffer d @ xs)) @ ys)),
      snd (decode_loop (snd (decode_loop (buffer d @ xs)) @ ys)))"
    by (rule decode_loop_append)
  then show ?thesis by (simp add: feed_def case_prod_beta)
qed

interpretation wire: incremental_decoder feed
  by unfold_locales (rule feed_append_wire)

section \<open>The reader thread\<close>

datatype serial_event =
    SerialFrame frame
  | ProtocolError string
  | Disconnected string

text \<open>A result of \<open>Read::read\<close> on the port: the bytes read, or the text of the error.\<close>

datatype read_result = ReadOk "u8 list" | ReadErr string

definition frame_event :: "wire_error + frame \<Rightarrow> serial_event" where
  "frame_event r = (case r of Inr f \<Rightarrow> SerialFrame f | Inl e \<Rightarrow> ProtocolError (wire_error_to_string e))"

text \<open>
  The loop of \<open>start_reader_with\<close> on the reads that happen before it is cancelled. The
  receiver of the events may hang up: \<open>open_for\<close> is the number of events it still takes
  (\<open>None\<close> for no limit), and the first failed \<open>send\<close> ends the thread.
\<close>

fun send_all :: "nat option \<Rightarrow> serial_event list \<Rightarrow> serial_event list \<times> nat option \<times> bool" where
  "send_all n [] = ([], n, True)"
| "send_all (Some 0) (e # es) = ([], Some 0, False)"
| "send_all n (e # es) =
     (let (sent, m, go) = send_all (map_option (\<lambda>k. k - 1) n) es in (e # sent, m, go))"

fun reader_loop :: "frame_decoder \<Rightarrow> nat option \<Rightarrow> read_result list \<Rightarrow> serial_event list" where
  "reader_loop d open_for [] = []"
| "reader_loop d open_for (ReadOk [] # reads) = reader_loop d open_for reads"
| "reader_loop d open_for (ReadOk (b # bs) # reads) =
     (let (frames, d') = feed d (b # bs);
          (sent, open', go) = send_all open_for (map frame_event frames)
      in if go then sent @ reader_loop d' open' reads else sent)"
| "reader_loop d open_for (ReadErr error # reads) =
     fst (send_all open_for [Disconnected (''RP2040 bridge read failed: '' @ error)])"

definition default_decoder :: frame_decoder where
  "default_decoder = \<lparr>buffer = []\<rparr>"

definition start_reader_with :: "nat option \<Rightarrow> read_result list \<Rightarrow> serial_event list" where
  "start_reader_with open_for reads = reader_loop default_decoder open_for reads"

lemma send_all_open [simp]: "send_all None es = (es, None, True)"
  by (induction es) auto

lemma feed_Nil_stable: "feed (snd (feed d xs)) [] = ([], snd (feed d xs))"
proof -
  have "feed d (xs @ []) = (fst (feed d xs) @ fst (feed (snd (feed d xs)) []),
      snd (feed (snd (feed d xs)) []))"
    by (rule feed_append_wire)
  then show ?thesis
    by (metis append_Nil2 append_self_conv fst_conv prod.collapse snd_conv)
qed

lemma reader_loop_open:
  "feed d [] = ([], d) \<Longrightarrow>
   reader_loop d None (map ReadOk cs) = map frame_event (fst (feed d (concat cs)))"
proof (induction cs arbitrary: d)
  case (Cons c cs)
  show ?case
  proof (cases c)
    case Nil
    with Cons show ?thesis by simp
  next
    case (Cons b bs)
    have "reader_loop (snd (feed d c)) None (map ReadOk cs) =
        map frame_event (fst (feed (snd (feed d c)) (concat cs)))"
      using Cons.IH feed_Nil_stable by blast
    with Cons show ?thesis
      by (simp add: case_prod_beta feed_append_wire [of d "b # bs" "concat cs", simplified])
  qed
qed simp

lemma default_decoder_stable: "feed default_decoder [] = ([], default_decoder)"
  by (simp add: feed_def default_decoder_def decode_loop_None decode_step_def)

lemma start_reader_stream:
  "start_reader_with None (map ReadOk cs) =
     map frame_event (fst (decode_loop (concat cs)))"
  using reader_loop_open [OF default_decoder_stable, of cs]
  by (simp add: start_reader_with_def feed_def default_decoder_def case_prod_beta)

section \<open>Port selection\<close>

definition AUTO_PORT :: string where "AUTO_PORT = ''auto''"

definition eq_ignore_ascii_case :: "string \<Rightarrow> string \<Rightarrow> bool" where
  "eq_ignore_ascii_case a b \<longleftrightarrow> map ascii_lower a = map ascii_lower b"

definition UTF8_BOM :: string where
  "UTF8_BOM = [char_of (239 :: nat), char_of (187 :: nat), char_of (191 :: nat)]"

fun trim_start_matches_bom :: "string \<Rightarrow> string" where
  "trim_start_matches_bom (a # b # c # s) =
     (if [a, b, c] = UTF8_BOM then trim_start_matches_bom s else a # b # c # s)"
| "trim_start_matches_bom s = s"

fun join :: "string \<Rightarrow> string list \<Rightarrow> string" where
  "join sep [] = []"
| "join sep [w] = w"
| "join sep (w # ws) = w @ sep @ join sep ws"

text \<open>The entries of the discovery result that name a port.\<close>

definition discovered_ports :: "json \<Rightarrow> string list" where
  "discovered_ports result =
     filter (\<lambda>p. p \<noteq> [])
       (List.map_filter (\<lambda>entry. Option.bind (jget ''port'' entry) as_str)
         (case Option.bind (jget ''ports'' result) as_array of None \<Rightarrow> [] | Some es \<Rightarrow> es))"

text \<open>
  \<open>discover_rp2040_port\<close>, given what the PowerShell command returned (an error, or its exit
  status with the text of its two streams) and the JSON parser of \<open>serde_json\<close>.
\<close>

definition discover_rp2040_port ::
  "(string \<Rightarrow> string + json) \<Rightarrow> string + bool \<times> string \<times> string \<Rightarrow> string + string" where
  "discover_rp2040_port from_str command =
     (case command of
        Inl error \<Rightarrow> Inl (''could not run RP2040 port discovery: '' @ error)
      | Inr (success, stdout, stderr) \<Rightarrow>
          if \<not> success then Inl (''RP2040 port discovery failed: '' @ trim stderr)
          else
            (case from_str (trim_start_matches_bom stdout) of
               Inl error \<Rightarrow> Inl (''RP2040 port discovery returned invalid JSON: '' @ error)
             | Inr result \<Rightarrow>
                 (case discovered_ports result of
                    [port] \<Rightarrow> Inr port
                  | [] \<Rightarrow> Inl ''no present RP2040 CDC port found (VID_303A&PID_8360)''
                  | ports \<Rightarrow> Inl (''multiple present RP2040 CDC ports found: '' @ join '', '' ports))))"

definition resolve_port ::
  "(string \<Rightarrow> string + json) \<Rightarrow> bool \<Rightarrow> string + bool \<times> string \<times> string \<Rightarrow> string \<Rightarrow> string + string"
  where
  "resolve_port from_str windows command requested =
     (if \<not> eq_ignore_ascii_case requested AUTO_PORT then Inr requested
      else if windows then discover_rp2040_port from_str command
      else Inl ''automatic RP2040 port discovery is only supported on Windows'')"

lemma discover_Inr:
  "discover_rp2040_port from_str command = Inr p \<longleftrightarrow>
     (\<exists>out err result. command = Inr (True, out, err) \<and>
        from_str (trim_start_matches_bom out) = Inr result \<and> discovered_ports result = [p])"
  by (auto simp: discover_rp2040_port_def split: sum.splits list.splits)

text \<open>
  The events of the reader thread do not depend on how the operating system cuts the
  byte stream into reads: two sequences of reads with the same bytes produce the same
  events, in the same order.
\<close>
theorem reader_fragmentation_independent:
  assumes "concat cs = concat ds"
  shows "start_reader_with None (map ReadOk cs) = start_reader_with None (map ReadOk ds)"
  by (simp add: start_reader_stream assms)

theorem reader_fragmentation_independent_witness:
  "start_reader_with None (map ReadOk [[0x43], [0x4D, 1], []]) =
   start_reader_with None (map ReadOk [[0x43, 0x4D], [1]])"
  by (rule reader_fragmentation_independent) simp

text \<open>
  A stream of frames, cut into reads at any places and with line noise before any frame,
  is delivered as exactly these frames, in order, without a protocol error.
\<close>
theorem reader_delivers_frames:
  assumes "concat cs = concat (map (\<lambda>(xs, f). xs @ encode f) items)"
    and "\<forall>(xs, f) \<in> set items. noise xs \<and> frame_ok f"
  shows "start_reader_with None (map ReadOk cs) = map (SerialFrame \<circ> snd) items"
  by (simp add: start_reader_stream assms decode_loop_stream frame_event_def comp_def)

theorem reader_delivers_frames_witness:
  "start_reader_with None (map ReadOk [[0xFF, 0x43, 0x4D, 1, 3, 1], [0, 0, 0, 0xBB, 0xE5]]) =
   [SerialFrame \<lparr>frame_type = Ping, sequence = 1, payload = []\<rparr>]"
proof -
  let ?f = "\<lparr>frame_type = Ping, sequence = 1, payload = []\<rparr>"
  have enc: "encode ?f = [0x43, 0x4D, 1, 3, 1, 0, 0, 0, 0xBB, 0xE5]"
    by (simp add: encode_eval)
  have "start_reader_with None (map ReadOk [[0xFF, 0x43, 0x4D, 1, 3, 1], [0, 0, 0, 0xBB, 0xE5]]) =
      map (SerialFrame \<circ> snd) [([0xFF :: u8], ?f)]"
    by (rule reader_delivers_frames) (simp_all add: enc noise_def MAGIC_def frame_ok_def)
  then show ?thesis by simp
qed

text \<open>
  Automatic discovery picks a port exactly when the discovery script succeeded, printed
  valid JSON, and lists one non-empty port name; every other outcome is an error.
\<close>
theorem discover_unique_port:
  "resolve_port from_str True command ''auto'' = Inr p \<longleftrightarrow>
     (\<exists>out err result. command = Inr (True, out, err) \<and>
        from_str (trim_start_matches_bom out) = Inr result \<and> discovered_ports result = [p])"
  by (simp add: resolve_port_def eq_ignore_ascii_case_def AUTO_PORT_def discover_Inr)

end
