(* ===== verification/Routing.thy ===== *)
theory Routing
  imports Json
begin

text \<open>
  Agents, the partition of the six physical keys among them, the event queues the agents
  poll, and the fused LCD state (\<open>routing.rs\<close>). The active set is a bit mask; it is shown to
  behave as a set. The queues are instances of the locale \<open>bounded_queue\<close>: a queue with a hard
  capacity that keeps the most recent events.
\<close>

section \<open>Agents\<close>

definition LCD_SLOTS :: nat where "LCD_SLOTS = 6"
definition AGENT_COUNT :: nat where "AGENT_COUNT = 4"
definition EVENT_QUEUE_CAPACITY :: nat where "EVENT_QUEUE_CAPACITY = 256"

datatype agent_id = Codex | ZCode | Hermes | Claude

definition AGENTS :: "agent_id list" where
  "AGENTS = [Codex, Claude, ZCode, Hermes]"

definition agent_parse :: "string \<Rightarrow> string + agent_id" where
  "agent_parse value =
     (if value = ''codex'' then Inr Codex
      else if value = ''zcode'' then Inr ZCode
      else if value = ''hermes'' then Inr Hermes
      else if value = ''claude'' then Inr Claude
      else Inl (''agent must be codex, claude, zcode, or hermes (got '' @ value @ '')''))"

fun agent_str :: "agent_id \<Rightarrow> string" where
  "agent_str Codex = ''codex''"
| "agent_str ZCode = ''zcode''"
| "agent_str Hermes = ''hermes''"
| "agent_str Claude = ''claude''"

fun agent_index :: "agent_id \<Rightarrow> nat" where
  "agent_index Codex = 0"
| "agent_index ZCode = 1"
| "agent_index Hermes = 2"
| "agent_index Claude = 3"

lemma agent_parse_str [simp]: "agent_parse (agent_str a) = Inr a"
  by (cases a) (simp_all add: agent_parse_def)

lemma agent_parse_InrD: "agent_parse s = Inr a \<Longrightarrow> s = agent_str a"
  by (simp add: agent_parse_def split: if_split_asm)

lemma agent_parse_Inr: "agent_parse s = Inr a \<longleftrightarrow> s = agent_str a"
  using agent_parse_InrD by auto

lemma agent_index_inj [simp]: "agent_index a = agent_index b \<longleftrightarrow> a = b"
  by (cases a; cases b) simp_all

lemma agent_index_less: "agent_index a < AGENT_COUNT"
  by (cases a) (simp_all add: AGENT_COUNT_def)

lemma set_AGENTS [simp]: "set AGENTS = UNIV"
  using agent_id.exhaust by (auto simp: AGENTS_def)

lemma distinct_AGENTS [simp]: "distinct AGENTS"
  by (simp add: AGENTS_def)

text \<open>The order of \<open>AGENTS\<close>: Codex first, then Claude, ZCode and Hermes.\<close>

fun agent_priority :: "agent_id \<Rightarrow> nat" where
  "agent_priority Codex = 0"
| "agent_priority Claude = 1"
| "agent_priority ZCode = 2"
| "agent_priority Hermes = 3"

instantiation agent_id :: linorder
begin

definition less_eq_agent_id :: "agent_id \<Rightarrow> agent_id \<Rightarrow> bool" where
  "less_eq_agent_id a b \<longleftrightarrow> agent_priority a \<le> agent_priority b"

definition less_agent_id :: "agent_id \<Rightarrow> agent_id \<Rightarrow> bool" where
  "less_agent_id a b \<longleftrightarrow> agent_priority a < agent_priority b"

instance
proof
  fix a b :: agent_id
  show "a \<le> b \<Longrightarrow> b \<le> a \<Longrightarrow> a = b"
    by (cases a; cases b) (simp_all add: less_eq_agent_id_def)
qed (auto simp: less_eq_agent_id_def less_agent_id_def)

end

lemma sorted_AGENTS: "sorted AGENTS"
  by (simp add: AGENTS_def less_eq_agent_id_def)

section \<open>The active set\<close>

record active_set =
  bits :: u8

definition active_new :: active_set where
  "active_new = \<lparr>bits = 0\<rparr>"

definition active_insert :: "agent_id \<Rightarrow> active_set \<Rightarrow> active_set" where
  "active_insert a s = s\<lparr>bits := or (bits s) (push_bit (agent_index a) 1)\<rparr>"

definition active_remove :: "agent_id \<Rightarrow> active_set \<Rightarrow> active_set" where
  "active_remove a s = s\<lparr>bits := and (bits s) (not (push_bit (agent_index a) 1))\<rparr>"

definition active_contains :: "active_set \<Rightarrow> agent_id \<Rightarrow> bool" where
  "active_contains s a \<longleftrightarrow> and (bits s) (push_bit (agent_index a) 1) \<noteq> 0"

definition active_from_single :: "agent_id \<Rightarrow> active_set" where
  "active_from_single a = active_insert a active_new"

definition count_ones :: "u8 \<Rightarrow> nat" where
  "count_ones w = length (filter (bit w) [0..<8])"

definition active_len :: "active_set \<Rightarrow> nat" where
  "active_len s = count_ones (bits s)"

definition active_is_empty :: "active_set \<Rightarrow> bool" where
  "active_is_empty s \<longleftrightarrow> bits s = 0"

definition active_iter :: "active_set \<Rightarrow> agent_id list" where
  "active_iter s = filter (active_contains s) AGENTS"

text \<open>The interface of a set of agents, in terms of its elements.\<close>

locale agent_set =
  fixes member :: "'s \<Rightarrow> agent_id \<Rightarrow> bool"
    and add :: "agent_id \<Rightarrow> 's \<Rightarrow> 's"
    and del :: "agent_id \<Rightarrow> 's \<Rightarrow> 's"
    and empty :: 's
  assumes member_empty: "\<not> member empty a"
    and member_add: "member (add b s) a \<longleftrightarrow> a = b \<or> member s a"
    and member_del: "member (del b s) a \<longleftrightarrow> a \<noteq> b \<and> member s a"
begin

lemmas member_simps = member_empty member_add member_del

lemma member_add_many: "member (fold add as s) a \<longleftrightarrow> a \<in> set as \<or> member s a"
  by (induction as arbitrary: s) (auto simp: member_add)

lemma member_del_many: "member (fold del as s) a \<longleftrightarrow> a \<notin> set as \<and> member s a"
  by (induction as arbitrary: s) (auto simp: member_del)

lemma member_del_add: "\<not> member s b \<Longrightarrow> member (del b (add b s)) a \<longleftrightarrow> member s a"
  by (auto simp: member_simps)

end

lemma and_mask_iff: "and (w :: u8) (2 ^ n) \<noteq> 0 \<longleftrightarrow> bit w n"
  by (simp add: and_exp_eq_0_iff_not_bit)

lemma bit_mask_iff: "bit (2 ^ n :: u8) m \<longleftrightarrow> m < 8 \<and> n = m"
  by (auto simp: bit_exp_iff)

lemma index_less_8: "agent_index a < 8"
  by (cases a) simp_all

lemma active_contains_bit: "active_contains s a \<longleftrightarrow> bit (bits s) (agent_index a)"
  by (simp add: active_contains_def and_mask_iff)

interpretation active: agent_set active_contains active_insert active_remove active_new
proof unfold_locales
  fix a b s
  have mask: "bit (push_bit (agent_index b) 1 :: u8) (agent_index a) \<longleftrightarrow> a = b"
    using index_less_8 [of a] by (auto simp: bit_mask_iff)
  show "\<not> active_contains active_new a"
    by (simp add: active_contains_bit active_new_def)
  show "active_contains (active_insert b s) a \<longleftrightarrow> a = b \<or> active_contains s a"
    using mask by (simp add: active_contains_bit active_insert_def bit_or_iff) auto
  show "active_contains (active_remove b s) a \<longleftrightarrow> a \<noteq> b \<and> active_contains s a"
    using mask index_less_8 [of a]
    by (auto simp: active_contains_bit active_remove_def bit_and_iff bit_not_iff)
qed

text \<open>Only the four low bits are ever set, so length and emptiness are those of the set.\<close>

definition active_wf :: "active_set \<Rightarrow> bool" where
  "active_wf s \<longleftrightarrow> (\<forall>n. bit (bits s) n \<longrightarrow> n < 4)"

lemma active_wf_ops:
  "active_wf active_new" "active_wf s \<Longrightarrow> active_wf (active_insert a s)"
  "active_wf s \<Longrightarrow> active_wf (active_remove a s)"
  using agent_index_less [of a]
  by (auto simp: active_wf_def active_new_def active_insert_def active_remove_def AGENT_COUNT_def
      bit_or_iff bit_and_iff bit_mask_iff)

lemma active_wf_many:
  "active_wf s \<Longrightarrow> active_wf (fold active_insert as s)"
  "active_wf s \<Longrightarrow> active_wf (fold active_remove as s)"
  by (induction as arbitrary: s) (simp_all add: active_wf_ops)

lemma agent_index_surj:
  assumes "n < 4"
  shows "\<exists>a. agent_index a = n"
proof -
  from assms have "n = 0 \<or> n = 1 \<or> n = 2 \<or> n = 3" by arith
  then show ?thesis
    by (metis agent_index.simps)
qed

lemma active_bits:
  "active_wf s \<Longrightarrow> {n. n < 8 \<and> bit (bits s) n} = agent_index ` {a. active_contains s a}"
  using agent_index_surj index_less_8
  by (fastforce simp: active_contains_bit active_wf_def image_iff)

lemma active_len_card: "active_wf s \<Longrightarrow> active_len s = card {a. active_contains s a}"
proof -
  assume wf: "active_wf s"
  have "active_len s = card {n. n < 8 \<and> bit (bits s) n}"
    unfolding active_len_def count_ones_def
    by (subst distinct_card [symmetric]) (auto intro: arg_cong [where f = card])
  with active_bits [OF wf] show ?thesis by (simp add: card_image inj_on_def)
qed

lemma active_is_empty_iff: "active_wf s \<Longrightarrow> active_is_empty s \<longleftrightarrow> (\<forall>a. \<not> active_contains s a)"
proof -
  assume wf: "active_wf s"
  have "bits s = 0 \<longleftrightarrow> {n. n < 8 \<and> bit (bits s) n} = {}"
    using bit_imp_le_length [of "bits s"] by (auto simp: bit_eq_iff)
  with active_bits [OF wf] show ?thesis by (auto simp: active_is_empty_def)
qed

lemma set_active_iter: "set (active_iter s) = {a. active_contains s a}"
  by (auto simp: active_iter_def)

lemma active_iter_sorted: "sorted (active_iter s)" "distinct (active_iter s)"
  by (simp_all add: active_iter_def sorted_AGENTS sorted_wrt_filter)

section \<open>The partition of the keys\<close>

record partition =
  owners :: "agent_id option list"

definition partition_empty :: partition where
  "partition_empty = \<lparr>owners = replicate LCD_SLOTS None\<rparr>"

definition partition_compute :: "active_set \<Rightarrow> partition" where
  "partition_compute active =
     \<lparr>owners =
        replicate 3 (if active_contains active Codex then Some Codex else None) @
        replicate 3
          (if active_contains active Claude then Some Claude
           else if active_contains active ZCode then Some ZCode
           else if active_contains active Hermes then Some Hermes
           else None)\<rparr>"

text \<open>Every partition the code builds has six entries.\<close>

definition partition_wf :: "partition \<Rightarrow> bool" where
  "partition_wf p \<longleftrightarrow> length (owners p) = LCD_SLOTS"

definition owner_of :: "partition \<Rightarrow> nat \<Rightarrow> agent_id option" where
  "owner_of p i = (if i < length (owners p) then owners p ! i else None)"

definition slots_for :: "partition \<Rightarrow> agent_id \<Rightarrow> nat list" where
  "slots_for p a =
     List.map_filter (\<lambda>(i, owner). if owner = Some a then Some i else None)
       (enumerate 0 (owners p))"

definition key_label :: "nat \<Rightarrow> string" where
  "key_label i = ''AG0'' @ show_nat i"

definition keys_for :: "partition \<Rightarrow> agent_id \<Rightarrow> string list" where
  "keys_for p a = map key_label (slots_for p a)"

definition owners_json :: "partition \<Rightarrow> json list" where
  "owners_json p = map (jopt (\<lambda>a. JStr (agent_str a))) (owners p)"

lemma enumerate_nth: "enumerate 0 xs = map (\<lambda>i. (i, xs ! i)) [0..<length xs]"
  by (rule nth_equalityI) (simp_all add: nth_enumerate_eq)

lemma map_filter_pairs:
  "List.map_filter (\<lambda>(i, x). if P x then Some i else None) (map (\<lambda>i. (i, f i)) is) =
   filter (\<lambda>i. P (f i)) is"
  by (induction "is") (simp_all add: map_filter_simps)

lemma slots_for_eq: "slots_for p a = filter (\<lambda>i. owner_of p i = Some a) [0..<length (owners p)]"
  unfolding slots_for_def enumerate_nth map_filter_pairs
  by (rule filter_cong) (simp_all add: owner_of_def)

lemma set_slots_for: "set (slots_for p a) = {i. owner_of p i = Some a}"
  by (auto simp: slots_for_eq owner_of_def split: if_splits)

lemma distinct_slots_for: "distinct (slots_for p a)" "sorted (slots_for p a)"
  by (simp_all add: slots_for_eq sorted_wrt_filter)

lemma partition_compute_wf: "partition_wf (partition_compute s)"
  by (simp add: partition_wf_def partition_compute_def LCD_SLOTS_def)

text \<open>What \<open>compute\<close> promises, slot by slot.\<close>

definition second_half_owner :: "active_set \<Rightarrow> agent_id option" where
  "second_half_owner s = List.find (\<lambda>a. active_contains s a) [Claude, ZCode, Hermes]"

lemma owner_of_compute:
  "owner_of (partition_compute s) i =
     (if i < 3 then (if active_contains s Codex then Some Codex else None)
      else if i < 6 then second_half_owner s else None)"
  by (auto simp: owner_of_def partition_compute_def second_half_owner_def nth_append)

lemma owner_of_compute_active:
  "owner_of (partition_compute s) i = Some a \<Longrightarrow> active_contains s a"
  by (auto simp: owner_of_compute second_half_owner_def split: if_splits)

section \<open>Buffered events and the event queues\<close>

datatype buffered_event =
    KeyEvent string bool nat
  | PartitionEvent "string list" "nat list" "string list" nat

fun event_timestamp_ms :: "buffered_event \<Rightarrow> nat" where
  "event_timestamp_ms (KeyEvent key pressed ts) = ts"
| "event_timestamp_ms (PartitionEvent keys slots agents ts) = ts"

fun event_to_json :: "buffered_event \<Rightarrow> json" where
  "event_to_json (KeyEvent key pressed ts) =
     jobj [(''type'', JStr ''key''), (''key'', JStr key), (''pressed'', JBool pressed), (''ts'', jnat ts)]"
| "event_to_json (PartitionEvent keys slots agents ts) =
     jobj [(''type'', JStr ''partition''), (''keys'', JArr (map JStr keys)),
           (''slots'', JArr (map jnat slots)), (''agents'', JArr (map JStr agents)), (''ts'', jnat ts)]"

record event_queue =
  queue :: "buffered_event list"

definition queue_new :: event_queue where
  "queue_new = \<lparr>queue = []\<rparr>"

definition queue_push :: "buffered_event \<Rightarrow> event_queue \<Rightarrow> event_queue" where
  "queue_push e q =
     (let q' = (if length (queue q) \<ge> EVENT_QUEUE_CAPACITY then tl (queue q) else queue q)
      in q\<lparr>queue := q' @ [e]\<rparr>)"

definition queue_drain :: "event_queue \<Rightarrow> buffered_event list \<times> event_queue" where
  "queue_drain q = (queue q, q\<lparr>queue := []\<rparr>)"

definition queue_len :: "event_queue \<Rightarrow> nat" where
  "queue_len q = length (queue q)"

definition queue_is_empty :: "event_queue \<Rightarrow> bool" where
  "queue_is_empty q \<longleftrightarrow> queue q = []"

text \<open>The last \<open>n\<close> elements of a list.\<close>

definition last_n :: "nat \<Rightarrow> 'a list \<Rightarrow> 'a list" where
  "last_n n xs = drop (length xs - n) xs"

lemma length_last_n [simp]: "length (last_n n xs) = min n (length xs)"
  by (simp add: last_n_def)

lemma last_n_all: "length xs \<le> n \<Longrightarrow> last_n n xs = xs"
  by (simp add: last_n_def)

lemma last_n_push:
  "0 < n \<Longrightarrow> last_n n (xs @ [e]) =
     (if n \<le> length (last_n n xs) then tl (last_n n xs) else last_n n xs) @ [e]"
  by (auto simp: last_n_def drop_Suc Suc_diff_le tl_drop)

locale bounded_queue =
  fixes cap :: nat
    and items :: "'q \<Rightarrow> 'e list"
    and push :: "'e \<Rightarrow> 'q \<Rightarrow> 'q"
    and drain :: "'q \<Rightarrow> 'e list \<times> 'q"
    and empty :: 'q
  assumes cap_pos: "0 < cap"
    and items_empty: "items empty = []"
    and items_push:
      "items (push e q) = (if cap \<le> length (items q) then tl (items q) else items q) @ [e]"
    and drain_items: "fst (drain q) = items q" "items (snd (drain q)) = []"
begin

lemma items_push_many:
  "items q = last_n cap xs \<Longrightarrow> items (fold push es q) = last_n cap (xs @ es)"
proof (induction es arbitrary: q xs)
  case (Cons e es)
  have "items (push e q) = last_n cap (xs @ [e])"
    by (simp add: items_push Cons.prems last_n_push [OF cap_pos])
  from Cons.IH [OF this] show ?case by simp
qed simp

lemma items_from_empty: "items (fold push es empty) = last_n cap es"
  using items_push_many [of empty "[]" es] by (simp add: items_empty last_n_def)

lemma length_push: "length (items q) \<le> cap \<Longrightarrow> length (items (push e q)) \<le> cap"
  using cap_pos by (auto simp: items_push)

lemma drain_push_many: "fst (drain (fold push es empty)) = last_n cap es"
  by (simp add: drain_items items_from_empty)

end

interpretation eq: bounded_queue EVENT_QUEUE_CAPACITY queue queue_push queue_drain queue_new
  by unfold_locales
    (simp_all add: EVENT_QUEUE_CAPACITY_def queue_new_def queue_push_def queue_drain_def)

section \<open>Event routing\<close>

record event_routing =
  queues :: "event_queue list"

definition routing_new :: event_routing where
  "routing_new = \<lparr>queues = [queue_new, queue_new, queue_new, queue_new]\<rparr>"

definition routing_wf :: "event_routing \<Rightarrow> bool" where
  "routing_wf r \<longleftrightarrow> length (queues r) = AGENT_COUNT"

definition queue_of :: "event_routing \<Rightarrow> agent_id \<Rightarrow> event_queue" where
  "queue_of r a = queues r ! agent_index a"

definition queue_mut :: "agent_id \<Rightarrow> (event_queue \<Rightarrow> event_queue) \<Rightarrow> event_routing \<Rightarrow> event_routing" where
  "queue_mut a f r = r\<lparr>queues := (queues r)[agent_index a := f (queue_of r a)]\<rparr>"

definition route_button ::
  "nat \<Rightarrow> bool \<Rightarrow> nat \<Rightarrow> partition \<Rightarrow> event_routing \<Rightarrow> event_routing" where
  "route_button index pressed ts p r =
     (case owner_of p index of
        None \<Rightarrow> r
      | Some owner \<Rightarrow> queue_mut owner (queue_push (KeyEvent (key_label index) pressed ts)) r)"

definition push_partition_event ::
  "agent_id \<Rightarrow> partition \<Rightarrow> agent_id list \<Rightarrow> nat \<Rightarrow> event_routing \<Rightarrow> event_routing" where
  "push_partition_event a p active ts r =
     queue_mut a
       (queue_push (PartitionEvent (keys_for p a) (slots_for p a) (map agent_str active) ts)) r"

lemma routing_wf_new [simp]: "routing_wf routing_new"
  by (simp add: routing_wf_def routing_new_def AGENT_COUNT_def)

lemma routing_wf_queue_mut [simp]: "routing_wf (queue_mut a f r) = routing_wf r"
  by (simp add: routing_wf_def queue_mut_def)

lemma queue_of_queue_mut:
  "routing_wf r \<Longrightarrow> queue_of (queue_mut a f r) b = (if a = b then f (queue_of r a) else queue_of r b)"
  using agent_index_less [of a] by (auto simp: queue_of_def queue_mut_def routing_wf_def)

lemma routing_wf_route [simp]: "routing_wf (route_button i pr ts p r) = routing_wf r"
  by (simp add: route_button_def split: option.splits)

lemma routing_wf_push_partition [simp]: "routing_wf (push_partition_event a p act ts r) = routing_wf r"
  by (simp add: push_partition_event_def)

text \<open>A burst of button events, each with its index, state and time.\<close>

definition route_all :: "(nat \<times> bool \<times> nat) list \<Rightarrow> partition \<Rightarrow> event_routing \<Rightarrow> event_routing" where
  "route_all es p r = fold (\<lambda>(i, pr, ts). route_button i pr ts p) es r"

definition events_of :: "partition \<Rightarrow> agent_id \<Rightarrow> (nat \<times> bool \<times> nat) list \<Rightarrow> buffered_event list" where
  "events_of p a es =
     map (\<lambda>(i, pr, ts). KeyEvent (key_label i) pr ts)
       (filter (\<lambda>(i, pr, ts). owner_of p i = Some a) es)"

lemma queue_of_route_all:
  "routing_wf r \<Longrightarrow> queue_of (route_all es p r) a = fold queue_push (events_of p a es) (queue_of r a)"
proof (induction es arbitrary: r)
  case (Cons e es)
  obtain i pr ts where e: "e = (i, pr, ts)" by (cases e)
  have "queue_of (route_all (e # es) p r) a =
      fold queue_push (events_of p a es) (queue_of (route_button i pr ts p r) a)"
    using Cons.IH [of "route_button i pr ts p r"] Cons.prems by (simp add: route_all_def e)
  also have "\<dots> = fold queue_push (events_of p a (e # es)) (queue_of r a)"
    using Cons.prems
    by (auto simp: route_button_def queue_of_queue_mut events_of_def e split: option.splits)
  finally show ?case .
qed (simp add: route_all_def events_of_def)

section \<open>The fused LCD state\<close>

record fused_lcd_state =
  entries :: "json option list list"

definition fused_new :: fused_lcd_state where
  "fused_new = \<lparr>entries = replicate AGENT_COUNT (replicate LCD_SLOTS None)\<rparr>"

definition fused_wf :: "fused_lcd_state \<Rightarrow> bool" where
  "fused_wf s \<longleftrightarrow> length (entries s) = AGENT_COUNT \<and> (\<forall>row \<in> set (entries s). length row = LCD_SLOTS)"

definition entry_of :: "fused_lcd_state \<Rightarrow> agent_id \<Rightarrow> nat \<Rightarrow> json option" where
  "entry_of s a i = entries s ! agent_index a ! i"

definition set_entry :: "agent_id \<Rightarrow> nat \<Rightarrow> json \<Rightarrow> fused_lcd_state \<Rightarrow> fused_lcd_state" where
  "set_entry a i v s =
     s\<lparr>entries := (entries s)[agent_index a := (entries s ! agent_index a)[i := Some v]]\<rparr>"

fun position :: "('a \<Rightarrow> bool) \<Rightarrow> 'a list \<Rightarrow> nat option" where
  "position P [] = None"
| "position P (x # xs) = (if P x then Some 0 else map_option Suc (position P xs))"

definition off_entry :: json where
  "off_entry = jobj [(''e'', jnat 0)]"

definition normalize_render_entry :: "json \<Rightarrow> nat \<Rightarrow> agent_id \<Rightarrow> json" where
  "normalize_render_entry entry slot a =
     (case entry of
        JObj m \<Rightarrow>
          (let m = bm_insert ''id'' (jnat slot) m;
               m = bm_insert ''i'' (jnat slot) m;
               m = bm_insert ''agent'' (JStr (agent_str a)) m
           in case Option.bind (map_of m ''b'') as_f64 of
                None \<Rightarrow> JObj m
              | Some value \<Rightarrow>
                  if value > 1
                  then JObj (bm_insert ''b'' (JNum (Float (clamp 0 1 (f64_div value 100)))) m)
                  else JObj m)
      | _ \<Rightarrow> entry)"

definition fused_slot :: "fused_lcd_state \<Rightarrow> partition \<Rightarrow> nat \<Rightarrow> json" where
  "fused_slot st p s =
     (case owner_of p s of
        None \<Rightarrow> off_entry
      | Some agent \<Rightarrow>
          (case position (\<lambda>slot. slot = s) (slots_for p agent) of
             None \<Rightarrow> off_entry
           | Some li \<Rightarrow>
               (case entry_of st agent li of
                  None \<Rightarrow> off_entry
                | Some entry \<Rightarrow> normalize_render_entry entry s agent)))"

definition fused_array :: "fused_lcd_state \<Rightarrow> partition \<Rightarrow> json list" where
  "fused_array st p = map (fused_slot st p) [0..<LCD_SLOTS]"

definition store_entries :: "agent_id \<Rightarrow> json list \<Rightarrow> fused_lcd_state \<Rightarrow> fused_lcd_state" where
  "store_entries a es st = fold (\<lambda>(i, e). set_entry a i e) (take LCD_SLOTS (enumerate 0 es)) st"

definition merge_from_agent ::
  "agent_id \<Rightarrow> json \<Rightarrow> partition \<Rightarrow> fused_lcd_state \<Rightarrow> string + json list \<times> fused_lcd_state" where
  "merge_from_agent a parameters p st =
     res_bind (ok_or ''thstatus payload must be an array'' (as_array parameters))
       (\<lambda>es. let st' = store_entries a es st in Inr (fused_array st' p, st'))"

definition replace_full :: "json list \<Rightarrow> partition \<Rightarrow> fused_lcd_state \<Rightarrow> fused_lcd_state" where
  "replace_full es p st =
     fold (\<lambda>(i, e) st.
         case owner_of p i of
           None \<Rightarrow> st
         | Some owner \<Rightarrow>
             (case position (\<lambda>slot. slot = i) (slots_for p owner) of
                None \<Rightarrow> st
              | Some local_index \<Rightarrow> set_entry owner local_index e st))
       (take LCD_SLOTS (enumerate 0 es)) st"

lemma fused_wf_new: "fused_wf fused_new"
  by (simp add: fused_wf_def fused_new_def)

lemma fused_wf_row: "fused_wf st \<Longrightarrow> length (entries st ! agent_index a) = LCD_SLOTS"
  using agent_index_less [of a] by (simp add: fused_wf_def)

lemma fused_wf_set_entry [simp]: "fused_wf st \<Longrightarrow> fused_wf (set_entry a i v st)"
  using fused_wf_row [of st a] by (auto simp: fused_wf_def set_entry_def dest!: set_update_subset_insert [THEN subsetD])

lemma entry_of_set_entry:
  "fused_wf st \<Longrightarrow> i < LCD_SLOTS \<Longrightarrow>
   entry_of (set_entry a i v st) b j = (if a = b \<and> i = j then Some v else entry_of st b j)"
  using agent_index_less [of a] fused_wf_row [of st a]
  by (auto simp: entry_of_def set_entry_def fused_wf_def nth_list_update)

lemma position_Some: "position P xs = Some i \<Longrightarrow> i < length xs \<and> P (xs ! i)"
  by (induction xs arbitrary: i) (auto split: if_splits)

lemma position_None: "position P xs = None \<longleftrightarrow> (\<forall>x \<in> set xs. \<not> P x)"
  by (induction xs) auto

lemma position_eq_nth:
  "distinct xs \<Longrightarrow> i < length xs \<Longrightarrow> position (\<lambda>x. x = xs ! i) xs = Some i"
  by (induction xs arbitrary: i) (auto simp: nth_Cons' )

lemma length_slots_for: "partition_wf p \<Longrightarrow> length (slots_for p a) \<le> LCD_SLOTS"
  unfolding slots_for_eq partition_wf_def by (metis diff_zero length_filter_le length_upt)

lemma take_enumerate: "take n (enumerate 0 xs) = enumerate 0 (take n xs)"
  by (rule nth_equalityI) (auto simp: nth_enumerate_eq)

text \<open>Storing entries of one agent: the first six replace, everything else stays.\<close>

lemma fold_set_entries:
  "fused_wf st \<Longrightarrow> k + length es \<le> LCD_SLOTS \<Longrightarrow>
   fused_wf (fold (\<lambda>(i, e). set_entry a i e) (enumerate k es) st) \<and>
   entry_of (fold (\<lambda>(i, e). set_entry a i e) (enumerate k es) st) b j =
     (if a = b \<and> k \<le> j \<and> j < k + length es then Some (es ! (j - k)) else entry_of st b j)"
proof (induction es arbitrary: st k)
  case (Cons e es)
  from Cons.prems have wf: "fused_wf (set_entry a k e st)" by simp
  from Cons.IH [OF wf, of "Suc k"] Cons.prems show ?case
    by (auto simp: entry_of_set_entry nth_Cons' Suc_le_eq)
qed auto

lemma fused_wf_store: "fused_wf st \<Longrightarrow> fused_wf (store_entries a es st)"
  using fold_set_entries [of st 0 "take LCD_SLOTS es" a]
  by (simp add: store_entries_def take_enumerate)

lemma entry_of_store:
  "fused_wf st \<Longrightarrow> entry_of (store_entries a es st) b j =
     (if a = b \<and> j < LCD_SLOTS \<and> j < length es then Some (es ! j) else entry_of st b j)"
  using fold_set_entries [of st 0 "take LCD_SLOTS es" a b j]
  by (auto simp: store_entries_def take_enumerate)

text \<open>The slot at position \<open>k\<close> of an agent's slots shows the entry \<open>k\<close> of the agent's buffer.\<close>

lemma fused_slot_local:
  assumes "k < length (slots_for p a)"
  shows "fused_slot st p (slots_for p a ! k) =
    (case entry_of st a k of None \<Rightarrow> off_entry
     | Some e \<Rightarrow> normalize_render_entry e (slots_for p a ! k) a)"
proof -
  have "slots_for p a ! k \<in> set (slots_for p a)" using assms by simp
  then have "owner_of p (slots_for p a ! k) = Some a" by (simp add: set_slots_for)
  with assms show ?thesis
    by (simp add: fused_slot_def position_eq_nth distinct_slots_for)
qed

lemma fused_slot_other:
  assumes "\<And>i. entry_of st' b i = entry_of st b i" and "owner_of p s = Some b"
  shows "fused_slot st' p s = fused_slot st p s"
  using assms by (auto simp: fused_slot_def split: option.splits)

lemma fused_slot_unowned: "owner_of p s = None \<Longrightarrow> fused_slot st p s = off_entry"
  by (simp add: fused_slot_def)

text \<open>A rendered entry names its slot and its owner, and its brightness is at most 1.\<close>

lemma normalize_fields:
  assumes "bm_invar m"
  shows "jget ''id'' (normalize_render_entry (JObj m) s a) = Some (jnat s)"
    "jget ''agent'' (normalize_render_entry (JObj m) s a) = Some (JStr (agent_str a))"
  using assms
  by (auto simp: normalize_render_entry_def Let_def bm.lookup_insert bm_invar_insert split: option.splits)

lemma fused_slot_merge_own:
  assumes "fused_wf st" and "partition_wf p" and "k < length (slots_for p a)" and "k < length es"
  shows "fused_slot (store_entries a es st) p (slots_for p a ! k) =
    normalize_render_entry (es ! k) (slots_for p a ! k) a"
proof -
  have "k < LCD_SLOTS" using assms(3) length_slots_for [OF assms(2), of a] by linarith
  with assms show ?thesis by (simp add: fused_slot_local entry_of_store)
qed

lemma fused_slot_merge_other:
  assumes "fused_wf st" and "owner_of p s \<noteq> Some a"
  shows "fused_slot (store_entries a es st) p s = fused_slot st p s"
proof (cases "owner_of p s")
  case None
  then show ?thesis by (simp add: fused_slot_unowned)
next
  case (Some b)
  with assms have "a \<noteq> b" by auto
  with assms(1) have "entry_of (store_entries a es st) b i = entry_of st b i" for i
    by (simp add: entry_of_store)
  then show ?thesis by (rule fused_slot_other) (rule Some)
qed

section \<open>Properties\<close>

text \<open>
  C13. The active set behaves as a set: after inserting some agents and removing others the
  members are exactly the inserted agents that were not removed, its length is their number,
  and iteration lists each once in priority order (Codex, Claude, ZCode, Hermes).
\<close>
theorem active_set_is_a_set:
  "let s = fold active_remove rem (fold active_insert add active_new) in
     set (active_iter s) = set add - set rem \<and> distinct (active_iter s) \<and> sorted (active_iter s) \<and>
     active_len s = card (set add - set rem) \<and> (active_is_empty s \<longleftrightarrow> set add \<subseteq> set rem)"
proof -
  define s where "s = fold active_remove rem (fold active_insert add active_new)"
  have mem: "{a. active_contains s a} = set add - set rem"
    by (auto simp: s_def active.member_del_many active.member_add_many active.member_empty)
  have wf: "active_wf s"
    by (simp add: s_def active_wf_ops active_wf_many)
  have "(\<forall>a. \<not> active_contains s a) \<longleftrightarrow> set add \<subseteq> set rem"
    using mem by auto
  with wf mem active_iter_sorted [of s] show ?thesis
    unfolding s_def [symmetric] Let_def
    by (simp add: set_active_iter active_len_card active_is_empty_iff)
qed

text \<open>
  The partition follows the documented rule for every active set: keys 0 to 2 belong to
  Codex exactly when it is active, keys 3 to 5 to the first active agent among Claude, ZCode
  and Hermes, every other key is unowned, and no inactive agent owns a key.
\<close>
theorem partition_rule:
  "owner_of (partition_compute s) i =
     (if i < 3 then (if active_contains s Codex then Some Codex else None)
      else if i < 6 then List.find (active_contains s) [Claude, ZCode, Hermes]
      else None) \<and>
   (\<forall>a. i \<in> set (slots_for (partition_compute s) a) \<longrightarrow> active_contains s a)"
proof (intro conjI allI impI)
  show "owner_of (partition_compute s) i =
     (if i < 3 then (if active_contains s Codex then Some Codex else None)
      else if i < 6 then List.find (active_contains s) [Claude, ZCode, Hermes]
      else None)"
    by (simp only: owner_of_compute second_half_owner_def)
next
  fix a
  assume "i \<in> set (slots_for (partition_compute s) a)"
  then have "owner_of (partition_compute s) i = Some a" by (simp only: set_slots_for mem_Collect_eq)
  then show "active_contains s a" by (rule owner_of_compute_active)
qed

theorem partition_rule_witness:
  "owner_of (partition_compute (active_insert Hermes (active_insert ZCode active_new))) 4 = Some ZCode \<and>
   active_contains (active_insert Hermes (active_insert ZCode active_new)) ZCode"
proof -
  let ?s = "active_insert Hermes (active_insert ZCode active_new)"
  have own: "owner_of (partition_compute ?s) 4 = Some ZCode"
    using partition_rule [of ?s 4] by (simp add: active.member_simps)
  then have "4 \<in> set (slots_for (partition_compute ?s) ZCode)" by (simp only: set_slots_for mem_Collect_eq)
  with partition_rule [of ?s 4] own show ?thesis by blast
qed

text \<open>
  Routing a burst of button events through a partition delivers to each agent exactly
  the events of the keys it owns, in order; of these the queue keeps the latest 256, and a
  poll drains them. Events of unowned keys reach nobody.
\<close>
theorem routed_events_reach_owner:
  "fst (queue_drain (queue_of (route_all es p routing_new) a)) =
     last_n EVENT_QUEUE_CAPACITY
       (map (\<lambda>(i, pr, ts). KeyEvent (key_label i) pr ts)
         (filter (\<lambda>(i, pr, ts). owner_of p i = Some a) es))"
proof -
  have "queue_of routing_new a = queue_new"
    by (cases a) (simp_all add: queue_of_def routing_new_def)
  then have "queue_of (route_all es p routing_new) a = fold queue_push (events_of p a es) queue_new"
    by (simp add: queue_of_route_all)
  then show ?thesis by (simp add: eq.drain_push_many events_of_def)
qed

text \<open>
  A status update of one agent changes only the LCD slots that agent owns: on its slots
  the k-th entry sent appears at the k-th slot, labelled with the slot and the agent, and
  the slots of every other agent render as before.
\<close>
theorem lcd_merge_isolated:
  assumes "fused_wf st" and "partition_wf p"
    and "merge_from_agent a (JArr es) p st = Inr (rendered, st')"
  shows "length rendered = LCD_SLOTS \<and>
    (\<forall>s < LCD_SLOTS. owner_of p s \<noteq> Some a \<longrightarrow> rendered ! s = fused_array st p ! s) \<and>
    (\<forall>k < length (slots_for p a). k < length es \<longrightarrow>
       rendered ! (slots_for p a ! k) = normalize_render_entry (es ! k) (slots_for p a ! k) a)"
proof -
  have r: "rendered = fused_array (store_entries a es st) p"
    using assms(3) by (auto simp: merge_from_agent_def Let_def)
  have "slots_for p a ! k < LCD_SLOTS" if "k < length (slots_for p a)" for k
    using nth_mem [OF that] assms(2)
    by (auto simp: set_slots_for owner_of_def partition_wf_def split: if_splits)
  with assms show ?thesis
    by (auto simp: r fused_array_def fused_slot_merge_other fused_slot_merge_own)
qed

theorem lcd_merge_isolated_witness:
  "length (fused_array (store_entries ZCode [jobj [(''e'', jnat 2)]] fused_new)
      (partition_compute (active_from_single ZCode))) = LCD_SLOTS"
proof -
  have "merge_from_agent ZCode (JArr [jobj [(''e'', jnat 2)]])
      (partition_compute (active_from_single ZCode)) fused_new =
      Inr (fused_array (store_entries ZCode [jobj [(''e'', jnat 2)]] fused_new)
        (partition_compute (active_from_single ZCode)),
        store_entries ZCode [jobj [(''e'', jnat 2)]] fused_new)"
    by (simp add: merge_from_agent_def Let_def)
  from lcd_merge_isolated [OF fused_wf_new partition_compute_wf this] show ?thesis by simp
qed

end
