(* ===== verification/Usage.thy ===== *)
theory Usage
  imports Routing
begin

text \<open>
  The usage limits of the agents (\<open>usage.rs\<close>): the parsers of the two provider payloads and the
  per-agent cache that refreshes in the background. The HTTP requests and the files
  with the tokens are functions of a record that a fetch gets as an argument, a finished
  background fetch is a message the cache polls, and instants are milliseconds of a monotonic clock.
\<close>

section \<open>Agents and snapshots\<close>

definition USAGE_REFRESH_INTERVAL :: nat where "USAGE_REFRESH_INTERVAL = 300 * 1000"

datatype usage_agent = UsageCodex | UsageZCode

definition usage_agent_parse :: "string \<Rightarrow> usage_agent option" where
  "usage_agent_parse value =
     (let v = map ascii_lower (trim value) in
      if v = ''codex'' then Some UsageCodex else if v = ''zcode'' then Some UsageZCode else None)"

fun usage_agent_str :: "usage_agent \<Rightarrow> string" where
  "usage_agent_str UsageCodex = ''codex''"
| "usage_agent_str UsageZCode = ''zcode''"

fun usage_from_agent :: "agent_id \<Rightarrow> usage_agent option" where
  "usage_from_agent Codex = Some UsageCodex"
| "usage_from_agent ZCode = Some UsageZCode"
| "usage_from_agent Hermes = None"
| "usage_from_agent Claude = None"

record usage_snapshot =
  five_hour_remaining :: "nat option"
  weekly_remaining :: "nat option"
  five_hour_reset_at :: "nat option"
  weekly_reset_at :: "nat option"

definition snapshot_default :: usage_snapshot where
  "snapshot_default =
     \<lparr>five_hour_remaining = None, weekly_remaining = None, five_hour_reset_at = None,
      weekly_reset_at = None\<rparr>"

definition snapshot_to_value :: "usage_snapshot \<Rightarrow> json" where
  "snapshot_to_value s =
     jobj [(''five_hour_remaining'', jopt jnat (five_hour_remaining s)),
           (''weekly_remaining'', jopt jnat (weekly_remaining s)),
           (''five_hour_reset_at'', jopt jnat (five_hour_reset_at s)),
           (''weekly_reset_at'', jopt jnat (weekly_reset_at s))]"

section \<open>Provider payloads\<close>

definition remaining_from_used :: "f64 \<Rightarrow> nat" where
  "remaining_from_used used = f64_as_u8 (clamp 0 100 (f64_nearest (f64_sub 100 used)))"

definition epoch_ms_to_secs :: "nat \<Rightarrow> nat" where
  "epoch_ms_to_secs v = (if v > 1000000000000 then v div 1000 else v)"

text \<open>One window of the Codex payload; \<open>now\<close> is the wall clock in seconds.\<close>

definition codex_window :: "nat \<Rightarrow> json \<Rightarrow> usage_snapshot \<Rightarrow> usage_snapshot" where
  "codex_window now window usage =
     (case Option.bind (jget ''limit_window_seconds'' window) as_u64 of
        None \<Rightarrow> usage
      | Some seconds \<Rightarrow>
          if seconds = 0 then usage
          else
            (case Option.bind (jget ''used_percent'' window) as_f64 of
               None \<Rightarrow> usage
             | Some used \<Rightarrow>
                 (let remaining = remaining_from_used used;
                      reset_at = or_else (Option.bind (jget ''reset_at'' window) as_u64)
                        (map_option (sat_add64 now)
                          (Option.bind (jget ''reset_after_seconds'' window) as_u64))
                  in if seconds \<le> 24 * 60 * 60 \<and> five_hour_remaining usage = None
                     then usage\<lparr>five_hour_remaining := Some remaining, five_hour_reset_at := reset_at\<rparr>
                     else if seconds \<ge> 3 * 24 * 60 * 60 \<and> weekly_remaining usage = None
                     then usage\<lparr>weekly_remaining := Some remaining, weekly_reset_at := reset_at\<rparr>
                     else usage)))"

definition parse_codex_usage :: "nat \<Rightarrow> json \<Rightarrow> usage_snapshot" where
  "parse_codex_usage now body =
     (case jget ''rate_limit'' body of
        None \<Rightarrow> snapshot_default
      | Some rate_limit \<Rightarrow>
          fold (\<lambda>key usage. case jget key rate_limit of
                  None \<Rightarrow> usage
                | Some window \<Rightarrow> codex_window now window usage)
            [''primary_window'', ''secondary_window''] snapshot_default)"

definition zcode_limit :: "json \<Rightarrow> usage_snapshot \<Rightarrow> usage_snapshot" where
  "zcode_limit limit usage =
     (let kind = (case Option.bind (jget ''type'' limit) as_str of None \<Rightarrow> [] | Some k \<Rightarrow> k);
          used = Option.bind (jget ''percentage'' limit) as_f64;
          remaining = or_else
            (map_option (\<lambda>r. f64_as_u8 (clamp 0 100 r)) (Option.bind (jget ''remaining'' limit) as_f64))
            (map_option remaining_from_used used);
          reset_at = map_option epoch_ms_to_secs (Option.bind (jget ''nextResetTime'' limit) as_u64)
      in if kind = ''TOKENS_LIMIT'' \<and> five_hour_remaining usage = None
         then usage\<lparr>five_hour_remaining := remaining, five_hour_reset_at := reset_at\<rparr>
         else if kind = ''TIME_LIMIT'' \<and> weekly_remaining usage = None
         then usage\<lparr>weekly_remaining := remaining, weekly_reset_at := reset_at\<rparr>
         else usage)"

definition parse_zcode_quota :: "json \<Rightarrow> usage_snapshot" where
  "parse_zcode_quota body =
     (case Option.bind (Option.bind (jget ''data'' body) (jget ''limits'')) as_array of
        None \<Rightarrow> snapshot_default
      | Some limits \<Rightarrow> fold zcode_limit limits snapshot_default)"

text \<open>
  The two fetches. What they ask the world for is a record of functions: an environment
  variable, the contents of a file by the components of its path, the JSON parser, the body
  that a GET with these headers returns within ten seconds, and the wall clock in seconds.
\<close>

record usage_world =
  env_var :: "string \<Rightarrow> string option"
  read_file :: "string list \<Rightarrow> string option"
  json_from_str :: "string \<Rightarrow> json option"
  http_get :: "string \<Rightarrow> (string \<times> string) list \<Rightarrow> json option"
  wall_clock :: nat

definition home_dir :: "usage_world \<Rightarrow> string" where
  "home_dir w = (case or_else (env_var w ''USERPROFILE'') (env_var w ''HOME'') of None \<Rightarrow> [] | Some h \<Rightarrow> h)"

definition codex_credentials :: "usage_world \<Rightarrow> (string \<times> string) option" where
  "codex_credentials w =
     Option.bind (read_file w [home_dir w, ''.codex'', ''auth.json'']) (\<lambda>content.
     Option.bind (json_from_str w content) (\<lambda>auth.
     Option.bind (jget ''tokens'' auth) (\<lambda>tokens.
     Option.bind (Option.bind (jget ''access_token'' tokens) as_str) (\<lambda>access_token.
     Option.bind (Option.bind (jget ''account_id'' tokens) as_str) (\<lambda>account_id.
       Some (access_token, account_id))))))"

definition fetch_codex_usage :: "usage_world \<Rightarrow> usage_snapshot" where
  "fetch_codex_usage w =
     (case codex_credentials w of
        None \<Rightarrow> snapshot_default
      | Some (access_token, account_id) \<Rightarrow>
          (case http_get w ''https://chatgpt.com/backend-api/wham/usage''
                  [(''Authorization'', ''Bearer '' @ access_token), (''ChatGPT-Account-Id'', account_id),
                   (''User-Agent'', ''codex-cli''), (''Accept'', ''application/json'')] of
             None \<Rightarrow> snapshot_default
           | Some body \<Rightarrow> parse_codex_usage (wall_clock w) body))"

definition read_zcode_api_key :: "usage_world \<Rightarrow> string option" where
  "read_zcode_api_key w =
     Option.bind (read_file w [home_dir w, ''.zcode'', ''v2'', ''config.json'']) (\<lambda>content.
     Option.bind (json_from_str w content) (\<lambda>config.
     Option.bind (Option.bind (jget ''provider'' config) (jget ''builtin:zai-coding-plan'')) (\<lambda>provider.
       if Option.bind (jget ''enabled'' provider) as_bool = Some False then None
       else
         Option.bind (Option.bind (Option.bind (jget ''options'' provider) (jget ''apiKey'')) as_str) (\<lambda>key.
           if trim key = [] then None else Some (trim key)))))"

definition fetch_zcode_usage :: "usage_world \<Rightarrow> usage_snapshot" where
  "fetch_zcode_usage w =
     (case read_zcode_api_key w of
        None \<Rightarrow> snapshot_default
      | Some api_key \<Rightarrow>
          (case http_get w ''https://api.z.ai/api/monitor/usage/quota/limit''
                  [(''Authorization'', ''Bearer '' @ api_key), (''User-Agent'', ''zcode''),
                   (''Accept-Language'', ''en-US,en''), (''Accept'', ''application/json'')] of
             None \<Rightarrow> snapshot_default
           | Some body \<Rightarrow> parse_zcode_quota body))"

fun fetch_usage :: "usage_world \<Rightarrow> usage_agent \<Rightarrow> usage_snapshot" where
  "fetch_usage w UsageCodex = fetch_codex_usage w"
| "fetch_usage w UsageZCode = fetch_zcode_usage w"

section \<open>The cache\<close>

text \<open>A pending fetch is the agent it was started for; its channel is the argument of \<open>poll_ready\<close>.\<close>

record usage_cache =
  codex_usage :: "usage_snapshot option"
  zcode_usage :: "usage_snapshot option"
  codex_refreshed_at :: "nat option"
  zcode_refreshed_at :: "nat option"
  pending_fetches :: "usage_agent list"

definition cache_default :: usage_cache where
  "cache_default =
     \<lparr>codex_usage = None, zcode_usage = None, codex_refreshed_at = None, zcode_refreshed_at = None,
      pending_fetches = []\<rparr>"

fun snapshot_of :: "usage_agent \<Rightarrow> usage_cache \<Rightarrow> usage_snapshot option" where
  "snapshot_of UsageCodex c = codex_usage c"
| "snapshot_of UsageZCode c = zcode_usage c"

fun refreshed_at :: "usage_agent \<Rightarrow> usage_cache \<Rightarrow> nat option" where
  "refreshed_at UsageCodex c = codex_refreshed_at c"
| "refreshed_at UsageZCode c = zcode_refreshed_at c"

definition refreshed_within :: "usage_agent \<Rightarrow> nat \<Rightarrow> nat \<Rightarrow> usage_cache \<Rightarrow> bool" where
  "refreshed_within a max_age now c \<longleftrightarrow>
     (case refreshed_at a c of None \<Rightarrow> False | Some t \<Rightarrow> now - t < max_age)"

fun store_usage :: "usage_agent \<Rightarrow> usage_snapshot \<Rightarrow> nat \<Rightarrow> usage_cache \<Rightarrow> usage_cache \<times> bool" where
  "store_usage UsageCodex s now c =
     (c\<lparr>codex_usage := Some s, codex_refreshed_at := Some now\<rparr>, codex_usage c \<noteq> Some s)"
| "store_usage UsageZCode s now c =
     (c\<lparr>zcode_usage := Some s, zcode_refreshed_at := Some now\<rparr>, zcode_usage c \<noteq> Some s)"

text \<open>\<open>request_refresh\<close>; the boolean says that a background fetch was started.\<close>

definition request_refresh :: "usage_agent \<Rightarrow> nat \<Rightarrow> usage_cache \<Rightarrow> usage_cache \<times> bool" where
  "request_refresh a now c =
     (if a \<in> set (pending_fetches c) \<or> refreshed_within a USAGE_REFRESH_INTERVAL now c then (c, False)
      else (c\<lparr>pending_fetches := pending_fetches c @ [a]\<rparr>, True))"

text \<open>What \<open>try_recv\<close> finds on the channel of a pending fetch.\<close>

datatype fetch_result = Fetched usage_snapshot | FetchRunning | FetchDied

fun poll_fetches ::
  "(usage_agent \<Rightarrow> fetch_result) \<Rightarrow> nat \<Rightarrow> usage_agent list \<Rightarrow> usage_cache \<Rightarrow> usage_cache \<times> bool" where
  "poll_fetches recv now [] c = (c, False)"
| "poll_fetches recv now (a # as) c =
     (case recv a of
        Fetched s \<Rightarrow>
          (let (c, x) = store_usage a s now c; (c, y) = poll_fetches recv now as c in (c, x \<or> y))
      | FetchRunning \<Rightarrow> poll_fetches recv now as (c\<lparr>pending_fetches := pending_fetches c @ [a]\<rparr>)
      | FetchDied \<Rightarrow>
          (let (c, x) = store_usage a snapshot_default now c; (c, y) = poll_fetches recv now as c
           in (c, x \<or> y)))"

definition poll_ready :: "(usage_agent \<Rightarrow> fetch_result) \<Rightarrow> nat \<Rightarrow> usage_cache \<Rightarrow> usage_cache \<times> bool" where
  "poll_ready recv now c = poll_fetches recv now (pending_fetches c) (c\<lparr>pending_fetches := []\<rparr>)"

definition usage_map :: "usage_cache \<Rightarrow> json" where
  "usage_map c =
     jobj (List.map_filter (\<lambda>a. map_option (\<lambda>s. (usage_agent_str a, snapshot_to_value s)) (snapshot_of a c))
       [UsageCodex, UsageZCode])"

section \<open>Bounds\<close>

lemma clamp_100: "f64_as_u8 (clamp 0 100 x) \<le> 100"
  using f64_as_u8_le [of "clamp 0 100 x" 100] clamp_bounds [of 0 100 x] by simp

lemma remaining_from_used_le: "remaining_from_used used \<le> 100"
  unfolding remaining_from_used_def by (rule clamp_100)

definition snapshot_bounded :: "usage_snapshot \<Rightarrow> bool" where
  "snapshot_bounded s \<longleftrightarrow>
     (case five_hour_remaining s of None \<Rightarrow> True | Some p \<Rightarrow> p \<le> 100) \<and>
     (case weekly_remaining s of None \<Rightarrow> True | Some p \<Rightarrow> p \<le> 100)"

lemma codex_window_bounded: "snapshot_bounded u \<Longrightarrow> snapshot_bounded (codex_window now w u)"
  by (auto simp: codex_window_def snapshot_bounded_def Let_def remaining_from_used_le split: option.splits)

lemma zcode_limit_bounded: "snapshot_bounded u \<Longrightarrow> snapshot_bounded (zcode_limit l u)"
  by (auto simp: zcode_limit_def snapshot_bounded_def Let_def remaining_from_used_le clamp_100
      or_else_def split: option.splits)

lemma fold_keeps: "P x \<Longrightarrow> (\<And>y a. P y \<Longrightarrow> P (f a y)) \<Longrightarrow> P (fold f as x)"
  by (induction as arbitrary: x) simp_all

section \<open>The cache: one fetch at a time\<close>

lemma store_usage_fields:
  "pending_fetches (fst (store_usage a s now c)) = pending_fetches c"
  "refreshed_at b (fst (store_usage a s now c)) = (if b = a then Some now else refreshed_at b c)"
  "snapshot_of b (fst (store_usage a s now c)) = (if b = a then Some s else snapshot_of b c)"
  by (cases a; cases b; simp)+

lemma refreshed_pending [simp]: "refreshed_at a (c\<lparr>pending_fetches := p\<rparr>) = refreshed_at a c"
  by (cases a) simp_all

lemma poll_fetches_pending:
  "pending_fetches (fst (poll_fetches recv now as c)) =
     pending_fetches c @ filter (\<lambda>a. recv a = FetchRunning) as"
  by (induction as arbitrary: c) (auto simp: case_prod_beta store_usage_fields split: fetch_result.splits)

lemma poll_fetches_refreshed:
  "refreshed_at b (fst (poll_fetches recv now as c)) =
     (if b \<in> set as \<and> recv b \<noteq> FetchRunning then Some now else refreshed_at b c)"
  by (induction as arbitrary: c) (auto simp: case_prod_beta store_usage_fields split: fetch_result.splits)

text \<open>The events of the cache, with the clock at which they happen.\<close>

datatype cache_event = RequestRefresh usage_agent nat | PollReady "usage_agent \<Rightarrow> fetch_result" nat

fun cache_step :: "cache_event \<Rightarrow> usage_cache \<Rightarrow> usage_cache" where
  "cache_step (RequestRefresh a now) c = fst (request_refresh a now c)"
| "cache_step (PollReady recv now) c = fst (poll_ready recv now c)"

lemma cache_step_pending:
  "distinct (pending_fetches c) \<Longrightarrow> distinct (pending_fetches (cache_step e c))"
  by (cases e) (auto simp: request_refresh_def poll_ready_def poll_fetches_pending)

section \<open>Properties\<close>

text \<open>
  Whatever the token files hold and the providers answer, the remaining percentages that a
  fetch reports are from 0 to 100; without usable credentials nothing is requested and the
  snapshot is empty.
\<close>
theorem usage_percentages_bounded:
  "snapshot_bounded (fetch_usage w a) \<and>
   (codex_credentials w = None \<longrightarrow> fetch_usage w UsageCodex = snapshot_default) \<and>
   (read_zcode_api_key w = None \<longrightarrow> fetch_usage w UsageZCode = snapshot_default)"
proof -
  have d: "snapshot_bounded snapshot_default" by (simp add: snapshot_bounded_def snapshot_default_def)
  then have "snapshot_bounded (parse_zcode_quota body)" for body
    by (auto simp: parse_zcode_quota_def zcode_limit_bounded fold_keeps [of snapshot_bounded]
        split: option.split)
  moreover have "snapshot_bounded (parse_codex_usage now body)" for now body
    using d by (auto simp: parse_codex_usage_def codex_window_bounded split: option.split)
  ultimately show ?thesis
    using d by (cases a) (auto simp: fetch_codex_usage_def fetch_zcode_usage_def split: option.split)
qed

definition offline :: usage_world where
  "offline = \<lparr>env_var = (\<lambda>_. None), read_file = (\<lambda>_. None), json_from_str = (\<lambda>_. None),
     http_get = (\<lambda>_ _. None), wall_clock = 0\<rparr>"

theorem usage_percentages_bounded_witness:
  "fetch_usage offline UsageCodex = snapshot_default \<and> fetch_usage offline UsageZCode = snapshot_default"
  using usage_percentages_bounded [of offline UsageCodex]
  by (simp add: codex_credentials_def read_zcode_api_key_def offline_def)

text \<open>
  At no time are two fetches of the same agent in flight, and once a fetch has ended,
  successfully or not, the next one is started at least five minutes later.
\<close>
theorem fetches_are_throttled:
  "distinct (pending_fetches (fold cache_step es cache_default)) \<and>
   (a \<in> set (pending_fetches c) \<and> recv a \<noteq> FetchRunning \<and> now \<le> later \<and>
      snd (request_refresh a later (fst (poll_ready recv now c))) \<longrightarrow> now + 300000 \<le> later)"
proof
  show "distinct (pending_fetches (fold cache_step es cache_default))"
    by (rule fold_keeps) (simp_all add: cache_default_def cache_step_pending)
  show "a \<in> set (pending_fetches c) \<and> recv a \<noteq> FetchRunning \<and> now \<le> later \<and>
      snd (request_refresh a later (fst (poll_ready recv now c))) \<longrightarrow> now + 300000 \<le> later"
    by (auto simp: request_refresh_def refreshed_within_def poll_ready_def poll_fetches_refreshed
        USAGE_REFRESH_INTERVAL_def split: if_splits)
qed

theorem fetches_are_throttled_witness:
  "snd (request_refresh UsageCodex 300010 (fst (poll_ready (\<lambda>_. FetchDied) 10
     (fst (request_refresh UsageCodex 5 cache_default))))) \<and> (10 :: nat) + 300000 \<le> 300010"
proof -
  let ?c = "fst (request_refresh UsageCodex 5 cache_default)"
  have s: "snd (request_refresh UsageCodex 300010 (fst (poll_ready (\<lambda>_. FetchDied) 10 ?c)))"
    by (simp add: request_refresh_def refreshed_within_def cache_default_def poll_ready_def
        USAGE_REFRESH_INTERVAL_def)
  have m: "UsageCodex \<in> set (pending_fetches ?c)"
    by (simp add: request_refresh_def refreshed_within_def cache_default_def)
  from fetches_are_throttled [of "[]" UsageCodex ?c "\<lambda>_. FetchDied" 10 300010] s m show ?thesis
    by simp
qed

end
