(* ===== verification/Codex_Protocol.thy ===== *)
theory Codex_Protocol
  imports Usage Wire
begin

text \<open>
  The vendor HID protocol of the Codex desktop app (\<open>codex.rs\<close>): 64-byte reports that carry
  pieces of a stream of JSON objects, the decoder that reassembles them, and the messages a
  physical event is translated to. The JSON parser and printer of \<open>serde_json\<close> are parameters:
  \<open>next_value\<close> is what \<open>StreamDeserializer::next\<close> and \<open>byte_offset\<close> return on a buffer, and
  \<open>to_vec\<close> is the printer.
\<close>

section \<open>Reports\<close>

definition REPORT_ID :: u8 where "REPORT_ID = 6"
definition REPORT_BYTES :: nat where "REPORT_BYTES = 64"
definition OPCODE_DATA :: u8 where "OPCODE_DATA = 2"
definition MAX_CHUNK_BYTES :: nat where "MAX_CHUNK_BYTES = 61"

lemmas report_consts = REPORT_ID_def REPORT_BYTES_def OPCODE_DATA_def MAX_CHUNK_BYTES_def

function chunks :: "nat \<Rightarrow> 'a list \<Rightarrow> 'a list list" where
  "chunks n xs = (if xs = [] \<or> n = 0 then [] else take n xs # chunks n (drop n xs))"
  by pat_completeness auto
termination
  by (relation "measure (\<lambda>(n, xs). length xs)") auto

declare chunks.simps [simp del]

definition report_of :: "u8 list \<Rightarrow> u8 list" where
  "report_of chunk =
     [REPORT_ID, OPCODE_DATA, of_nat (length chunk)] @ chunk @
     replicate (REPORT_BYTES - 3 - length chunk) 0"

definition frame_json :: "(json \<Rightarrow> string + u8 list) \<Rightarrow> json \<Rightarrow> string + u8 list list" where
  "frame_json to_vec message =
     (if as_object message = None then Inl ''Codex JSON message must be an object''
      else res_bind (to_vec message) (\<lambda>payload.
        Inr (map report_of (chunks MAX_CHUNK_BYTES (payload @ [13, 10])))))"

section \<open>The decoder\<close>

datatype stream_result = SOk json nat | SEof | SErr string | SNone

definition crlf :: "u8 \<Rightarrow> bool" where
  "crlf b \<longleftrightarrow> b = 13 \<or> b = 10"

definition invalid_prefix_length :: "u8 list \<Rightarrow> nat" where
  "invalid_prefix_length buf =
     (case position (\<lambda>(a, b). a = 13 \<and> b = 10) (zip buf (tl buf)) of
        Some e \<Rightarrow> e + 2
      | None \<Rightarrow>
          (case position (\<lambda>b. b = 123) buf of
             None \<Rightarrow> length buf
           | Some start \<Rightarrow>
               if start > 0 then start
               else (case position (\<lambda>b. b = 123) (tl buf) of
                       Some n \<Rightarrow> n + 1
                     | None \<Rightarrow> length buf)))"

lemma dropWhile_drop_shorter:
  "dropWhile p xs \<noteq> [] \<Longrightarrow> 0 < n \<Longrightarrow> length (drop n (dropWhile p xs)) < length xs"
  using length_dropWhile_le [of p xs] by (cases "dropWhile p xs") auto

text \<open>
  \<open>decode_available\<close>: the messages, or the error that discards them, and the bytes that stay
  in the buffer.
\<close>

function decode_available ::
  "(u8 list \<Rightarrow> stream_result) \<Rightarrow> u8 list \<Rightarrow> (string + json list) \<times> u8 list" where
  "decode_available next_value buf0 =
     (let buf = dropWhile crlf buf0 in
      if buf = [] then (Inr [], [])
      else
        (case next_value buf of
           SOk message consumed \<Rightarrow>
             if consumed = 0 then (Inl ''Codex decoder consumed zero bytes'', buf)
             else if as_object message = None
               then (Inl ''Codex JSON message must be an object'', drop consumed buf)
             else
               (let (r, rest) = decode_available next_value (drop consumed buf)
                in (map_sum id ((#) message) r, rest))
         | SEof \<Rightarrow> (Inr [], buf)
         | SErr error \<Rightarrow>
             (Inl (''invalid Codex JSON: '' @ error), drop (max (invalid_prefix_length buf) 1) buf)
         | SNone \<Rightarrow> (Inr [], buf)))"
  by pat_completeness auto
termination
  by (relation "measure (\<lambda>(f, buf). length buf)")
    (simp_all add: dropWhile_drop_shorter del: length_drop)

declare decode_available.simps [simp del]

text \<open>\<open>CodexDecoder::feed\<close> on the buffer and one report.\<close>

definition codex_feed ::
  "(u8 list \<Rightarrow> stream_result) \<Rightarrow> u8 list \<Rightarrow> u8 list \<Rightarrow> (string + json list) \<times> u8 list" where
  "codex_feed next_value buf report =
     (if length report \<noteq> REPORT_BYTES \<or> report ! 0 \<noteq> REPORT_ID
      then (Inl ''Codex report must be 64 bytes and start with Report ID 6'', buf)
      else if report ! 1 \<noteq> OPCODE_DATA
      then (Inl (''unsupported Codex opcode 0x'' @ hex2 (unat (report ! 1))), buf)
      else
        (let n = unat (report ! 2) in
         if \<not> (1 \<le> n \<and> n \<le> MAX_CHUNK_BYTES)
         then (Inl (''invalid Codex chunk length '' @ show_nat n), buf)
         else
           (let buf = buf @ take n (drop 3 report) in
            if length buf > 64 * 1024 then (Inl ''Codex message buffer exceeded 64 KiB'', [])
            else decode_available next_value buf)))"

fun feed_reports ::
  "(u8 list \<Rightarrow> stream_result) \<Rightarrow> u8 list \<Rightarrow> u8 list list \<Rightarrow> (string + json list) list \<times> u8 list" where
  "feed_reports next_value buf [] = ([], buf)"
| "feed_reports next_value buf (r # rs) =
     (let (x, buf) = codex_feed next_value buf r; (xs, buf) = feed_reports next_value buf rs
      in (x # xs, buf))"

section \<open>Reassembly\<close>

text \<open>
  The documented behaviour of the JSON library on one message and its text: the printer
  returns the text, which starts neither with a carriage return nor with a newline; the
  streaming parser finds the message at the front of any buffer that begins with the text
  (an object ends at its own closing brace), and reports the end of input on any proper
  part of it.
\<close>

definition json_text ::
  "(json \<Rightarrow> string + u8 list) \<Rightarrow> (u8 list \<Rightarrow> stream_result) \<Rightarrow> json \<times> u8 list \<Rightarrow> bool" where
  "json_text to_vec next_value p \<longleftrightarrow>
     (let (m, bs) = p in
        as_object m \<noteq> None \<and> to_vec m = Inr bs \<and> bs \<noteq> [] \<and> \<not> crlf (hd bs) \<and>
        (\<forall>rst. next_value (bs @ rst) = SOk m (length bs)) \<and>
        (\<forall>n. 0 < n \<and> n < length bs \<longrightarrow> next_value (take n bs) = SEof))"

definition stream_bytes :: "(json \<times> u8 list) list \<Rightarrow> u8 list" where
  "stream_bytes ps = concat (map (\<lambda>(m, bs). bs @ [13, 10]) ps)"

lemma stream_bytes_simps [simp]:
  "stream_bytes [] = []" "stream_bytes (p # ps) = snd p @ [13, 10] @ stream_bytes ps"
  by (simp_all add: stream_bytes_def case_prod_beta)

lemma append_split_le:
  assumes "x @ y = z @ w" and "length x \<le> length z"
  obtains u where "z = x @ u" "y = u @ w"
  using assms by (auto simp: append_eq_append_conv2)

lemma append_split_ge:
  assumes "x @ y = z @ w" and "length z \<le> length x"
  obtains u where "x = z @ u" "u @ y = w"
  using assms by (auto simp: append_eq_append_conv2)

lemma append_split_gt:
  assumes "x @ y = z @ w" and "\<not> length x \<le> length z"
  obtains u where "x = z @ u" "u \<noteq> []" "u @ y = w"
  using assms by (auto simp: append_eq_append_conv2)

lemma decode_crlf:
  "list_all crlf w \<Longrightarrow> decode_available nv (w @ b) = decode_available nv b"
  by (subst (1 2) decode_available.simps) (simp add: list_all_iff dropWhile_append2)

lemma decode_Nil [simp]: "decode_available nv [] = (Inr [], [])"
  by (simp add: decode_available.simps)

lemma decode_all_crlf: "list_all crlf w \<Longrightarrow> decode_available nv w = (Inr [], [])"
  using decode_crlf [of w nv "[]"] by simp

lemma dropWhile_hd: "b \<noteq> [] \<Longrightarrow> \<not> p (hd b) \<Longrightarrow> dropWhile p b = b"
  by (cases b) simp_all

lemma decode_message:
  assumes "json_text tv nv (m, bs)"
  shows "decode_available nv (bs @ b) =
    (map_sum id ((#) m) (fst (decode_available nv b)), snd (decode_available nv b))"
proof -
  have "dropWhile crlf (bs @ b) = bs @ b"
    using assms by (intro dropWhile_hd) (auto simp: json_text_def)
  then show ?thesis
    using assms by (subst decode_available.simps) (auto simp: json_text_def case_prod_beta)
qed

lemma decode_part:
  assumes "json_text tv nv (m, bs)" and "b \<noteq> []" and "b = take (length b) bs" and "length b < length bs"
  shows "decode_available nv b = (Inr [], b)"
proof -
  have "hd b = hd bs" using assms(2,3) by (metis hd_take length_greater_0_conv)
  then have "dropWhile crlf b = b"
    using assms(1,2) by (intro dropWhile_hd) (auto simp: json_text_def)
  moreover have "nv b = SEof"
    using assms by (auto simp: json_text_def)
  ultimately show ?thesis using assms(2) by (subst decode_available.simps) simp
qed

text \<open>
  The buffer always begins inside the text of the next message: \<open>b\<close> is a part of the stream,
  up to line ends, and \<open>rst\<close> is what is still to come.
\<close>

lemma decode_stream_part:
  assumes "list_all (json_text tv nv) ps" and "b @ rst = w @ stream_bytes ps" and "list_all crlf w"
    and "\<forall>p \<in> set ps. length (snd p) \<le> L"
  shows "\<exists>k w'. decode_available nv b = (Inr (map fst (take k ps)), snd (decode_available nv b)) \<and>
    snd (decode_available nv b) @ rst = w' @ stream_bytes (drop k ps) \<and> list_all crlf w' \<and>
    length (snd (decode_available nv b)) \<le> L \<and>
    (rst = [] \<longrightarrow> k = length ps \<and> snd (decode_available nv b) = [])"
  using assms
proof (induction ps arbitrary: w b)
  case Nil
  then have "list_all crlf b" by (metis append_Nil2 list_all_append stream_bytes_simps(1))
  with Nil show ?case by (intro exI [of _ 0] exI [of _ rst]) (auto simp: decode_all_crlf)
next
  case (Cons p ps)
  obtain m bs where p: "p = (m, bs)" by (cases p)
  show ?case
  proof (cases "length b \<le> length w")
    case True
    then obtain w2 where w: "w = b @ w2" "rst = w2 @ stream_bytes (p # ps)"
      using append_split_le [OF Cons.prems(2)] by metis
    with Cons.prems(3) have "decode_available nv b = (Inr [], [])"
      by (intro decode_all_crlf) simp
    with w Cons.prems(3) show ?thesis by (intro exI [of _ 0] exI [of _ w2]) simp
  next
    case False
    then obtain b1 where b: "b = w @ b1" "b1 \<noteq> []" "b1 @ rst = stream_bytes (p # ps)"
      using append_split_gt [OF Cons.prems(2)] by auto
    have d: "decode_available nv b = decode_available nv b1"
      using b Cons.prems(3) by (simp add: decode_crlf)
    have jt: "json_text tv nv (m, bs)" using Cons.prems(1) p by simp
    show ?thesis
    proof (cases "length b1 < length bs")
      case True
      then have "\<exists>u. bs = b1 @ u"
        using append_split_le [OF b(3) [unfolded p stream_bytes_simps snd_conv]] by (metis less_imp_le)
      then have "b1 = take (length b1) bs" by auto
      from decode_part [OF jt b(2) this True] have e: "decode_available nv b = (Inr [], b1)"
        using d by simp
      have "length b1 \<le> L" using True Cons.prems(4) p by simp
      moreover have "rst \<noteq> []" using b(3) True p by (cases rst) (auto dest: arg_cong [of _ _ length])
      ultimately show ?thesis using b(3) e by (intro exI [of _ 0] exI [of _ "[]"]) simp
    next
      case False
      then obtain b2 where b2: "b1 = bs @ b2" "b2 @ rst = [13, 10] @ stream_bytes ps"
        using append_split_ge [OF b(3) [unfolded p stream_bytes_simps snd_conv]] by auto
      have "list_all crlf [13, 10]" by (simp add: crlf_def)
      with Cons.IH [OF _ b2(2) this] Cons.prems(1,4) obtain k w' where k:
        "decode_available nv b2 = (Inr (map fst (take k ps)), snd (decode_available nv b2))"
        "snd (decode_available nv b2) @ rst = w' @ stream_bytes (drop k ps)" "list_all crlf w'"
        "length (snd (decode_available nv b2)) \<le> L"
        "rst = [] \<longrightarrow> k = length ps \<and> snd (decode_available nv b2) = []"
        by auto
      have "decode_available nv b1 = (Inr (m # map fst (take k ps)), snd (decode_available nv b2))"
        using decode_message [OF jt, of b2] k(1) b2(1) by (metis fst_conv map_sum.simps(2))
      with d k p show ?thesis by (intro exI [of _ "Suc k"] exI [of _ w']) simp
    qed
  qed
qed


text \<open>Feeding the reports of a stream that has been cut anywhere into pieces of 1 to 61 bytes.\<close>

lemma unat_len: "length c \<le> 61 \<Longrightarrow> unat (of_nat (length c) :: u8) = length c"
  by (simp add: unat_of_nat)

lemma codex_feed_report:
  assumes "c \<noteq> []" and "length c \<le> 61" and "length b \<le> 65475"
  shows "codex_feed nv b (report_of c) = decode_available nv (b @ c)"
proof -
  have "1 \<le> length c" using assms(1) by (cases c) simp_all
  moreover have "length (report_of c) = REPORT_BYTES" "report_of c ! 0 = REPORT_ID"
    "report_of c ! 1 = OPCODE_DATA" "unat (report_of c ! 2) = length c"
    "take (length c) (drop 3 (report_of c)) = c"
    using assms(2) unat_len [of c] by (simp_all add: report_of_def report_consts)
  ultimately show ?thesis using assms(2,3) by (simp add: codex_feed_def MAX_CHUNK_BYTES_def Let_def)
qed

lemma feed_pieces:
  assumes "list_all (json_text tv nv) ps" and "b @ concat cs = w @ stream_bytes ps" and "list_all crlf w"
    and "\<forall>p \<in> set ps. length (snd p) \<le> 65475" and "length b \<le> 65475"
    and "\<forall>c \<in> set cs. c \<noteq> [] \<and> length c \<le> 61" and "cs \<noteq> []"
  shows "\<exists>ms. feed_reports nv b (map report_of cs) = (map Inr ms, []) \<and> concat ms = map fst ps"
  using assms
proof (induction cs arbitrary: ps b w)
  case (Cons c cs)
  have f: "codex_feed nv b (report_of c) = decode_available nv (b @ c)"
    using Cons.prems(5,6) by (intro codex_feed_report) simp_all
  from Cons.prems(2) have "(b @ c) @ concat cs = w @ stream_bytes ps" by simp
  from decode_stream_part [OF Cons.prems(1) this Cons.prems(3,4)] obtain k w' where
    d: "decode_available nv (b @ c) = (Inr (map fst (take k ps)), snd (decode_available nv (b @ c)))"
    and rest: "snd (decode_available nv (b @ c)) @ concat cs = w' @ stream_bytes (drop k ps)"
      "list_all crlf w'" "length (snd (decode_available nv (b @ c))) \<le> 65475"
    and fin: "concat cs = [] \<longrightarrow> k = length ps \<and> snd (decode_available nv (b @ c)) = []"
    by auto
  show ?case
  proof (cases "cs = []")
    case True
    with d fin have "decode_available nv (b @ c) = (Inr (map fst ps), [])"
      by (metis concat.simps(1) order_refl take_all)
    with f True show ?thesis by (intro exI [of _ "[map fst ps]"]) simp
  next
    case False
    have "list_all (json_text tv nv) (drop k ps)" "\<forall>p \<in> set (drop k ps). length (snd p) \<le> 65475"
      using Cons.prems(1,4) by (auto simp: list_all_iff dest: in_set_dropD)
    from Cons.IH [OF this(1) rest(1,2) this(2) rest(3) _ False] Cons.prems(6) obtain ms where
      "feed_reports nv (snd (decode_available nv (b @ c))) (map report_of cs) = (map Inr ms, [])"
      "concat ms = map fst (drop k ps)"
      by auto
    with d f show ?thesis
      by (intro exI [of _ "map fst (take k ps) # ms"])
        (simp add: case_prod_beta, metis append_take_drop_id fst_conv map_append)
  qed
qed simp

lemma concat_chunks: "0 < n \<Longrightarrow> concat (chunks n xs) = xs"
  by (induction n xs rule: chunks.induct) (subst chunks.simps, simp)

lemma chunks_lengths: "c \<in> set (chunks n xs) \<Longrightarrow> c \<noteq> [] \<and> length c \<le> n"
proof (induction n xs rule: chunks.induct)
  case (1 n xs)
  then show ?case by (subst (asm) chunks.simps) (auto split: if_splits)
qed

lemma chunks_Nil_iff: "chunks n xs = [] \<longleftrightarrow> xs = [] \<or> n = 0"
  by (subst chunks.simps) simp

lemma report_of_length: "length c \<le> 61 \<Longrightarrow> length (report_of c) = REPORT_BYTES"
  by (simp add: report_of_def report_consts)

text \<open>The buffer: a decoding never makes it longer, and an error always makes it shorter.\<close>

lemma decode_shorter: "length (snd (decode_available nv b)) \<le> length b"
proof (induction nv b rule: decode_available.induct)
  case (1 nv b)
  show ?case
    using 1 length_dropWhile_le [of crlf b]
    by (subst decode_available.simps)
      (auto simp: Let_def case_prod_beta split: stream_result.splits, (fastforce intro: le_trans)+)
qed

lemma codex_feed_bounded: "length b \<le> 65536 \<Longrightarrow> length (snd (codex_feed nv b r)) \<le> 65536"
  by (auto simp: codex_feed_def Let_def intro!: le_trans [OF decode_shorter])

lemma feed_reports_bounded: "length b \<le> 65536 \<Longrightarrow> length (snd (feed_reports nv b rs)) \<le> 65536"
  by (induction rs arbitrary: b) (simp_all add: case_prod_beta codex_feed_bounded)


lemma frame_json_delivers:
  assumes "json_text to_vec next_value (m, bs)" and "length bs \<le> 65475"
  shows "\<exists>rs ms. frame_json to_vec m = Inr rs \<and> list_all (\<lambda>r. length r = REPORT_BYTES) rs \<and>
    feed_reports next_value [] rs = (map Inr ms, []) \<and> concat ms = [m]"
proof -
  let ?cs = "chunks MAX_CHUNK_BYTES (bs @ [13, 10])"
  have cs: "concat ?cs = stream_bytes [(m, bs)]" by (simp add: concat_chunks MAX_CHUNK_BYTES_def)
  have f: "frame_json to_vec m = Inr (map report_of ?cs)"
    using assms(1) by (auto simp: frame_json_def json_text_def)
  have l: "list_all (\<lambda>c. c \<noteq> [] \<and> length c \<le> MAX_CHUNK_BYTES) ?cs"
    by (auto simp: list_all_iff dest: chunks_lengths)
  from feed_pieces [of to_vec next_value "[(m, bs)]" "[]" ?cs "[]"] cs l assms obtain ms where
    "feed_reports next_value [] (map report_of ?cs) = (map Inr ms, [])" "concat ms = [m]"
    by (auto simp: list_all_iff MAX_CHUNK_BYTES_def chunks_Nil_iff)
  moreover have "list_all (\<lambda>r. length r = REPORT_BYTES) (map report_of ?cs)"
    using l by (auto simp: list_all_iff report_of_length MAX_CHUNK_BYTES_def)
  ultimately show ?thesis using f by blast
qed

section \<open>Properties\<close>

text \<open>
  C14. Reassembly: however a stream of messages is cut into reports of 1 to 61 bytes, and
  whether or not the cuts fall inside a message or a line end, the decoder answers every
  report without an error, delivers exactly the messages of the stream in their order, and
  ends with an empty buffer. The texts are of at most 65475 bytes, so that with one more chunk
  they stay within the buffer of 64 KiB.
\<close>
theorem codex_stream_reassembled:
  assumes "list_all (json_text to_vec next_value) ps"
    and "list_all (\<lambda>p. length (snd p) \<le> 65475) ps"
    and "list_all (\<lambda>c. c \<noteq> [] \<and> length c \<le> MAX_CHUNK_BYTES) cs"
    and "concat cs = stream_bytes ps"
  shows "\<exists>ms. feed_reports next_value [] (map report_of cs) = (map Inr ms, []) \<and>
    concat ms = map fst ps"
proof (cases "cs = []")
  case True
  with assms(4) have "ps = []" by (cases ps) simp_all
  with True show ?thesis by (intro exI [of _ "[]"]) simp
next
  case False
  with feed_pieces [OF assms(1), of "[]" cs "[]"] assms(2-4) show ?thesis
    by (simp add: list_all_iff MAX_CHUNK_BYTES_def)
qed

text \<open>A parser and a printer that know one value, the empty object and its text.\<close>

definition empty_object_printer :: "json \<Rightarrow> string + u8 list" where
  "empty_object_printer v = (if v = JObj [] then Inr [123, 125] else Inl ''unsupported'')"

definition empty_object_parser :: "u8 list \<Rightarrow> stream_result" where
  "empty_object_parser buf =
     (if take 2 buf = [123, 125] then SOk (JObj []) 2
      else if buf = [123] then SEof else SErr ''expected value'')"

lemma empty_object_text: "json_text empty_object_printer empty_object_parser (JObj [], [123, 125])"
proof -
  have "take n [123, 125 :: u8] = [123]" if "0 < n" "n < 2" for n
    using that by (cases n) simp_all
  then show ?thesis
    by (auto simp: json_text_def empty_object_printer_def empty_object_parser_def crlf_def)
qed

theorem codex_stream_reassembled_witness:
  "\<exists>ms. feed_reports empty_object_parser []
       (map report_of [[123], [125, 13], [10, 123, 125], [13, 10]]) = (map Inr ms, []) \<and>
     concat ms = [JObj [], JObj []]"
  using codex_stream_reassembled [of empty_object_printer empty_object_parser
      "[(JObj [], [123, 125]), (JObj [], [123, 125])]" "[[123], [125, 13], [10, 123, 125], [13, 10]]"]
  by (simp add: empty_object_text MAX_CHUNK_BYTES_def)

text \<open>
  Framing: a message that can be printed is sent as reports of exactly 64 bytes, one for
  every 61 bytes of its text and line end, and the decoder at the other end gets that message
  and nothing else from them; a value that is not an object is refused.
\<close>
theorem frame_json_decodes:
  assumes "json_text to_vec next_value (m, bs)" and "length bs \<le> 65475"
  shows "\<exists>rs ms. frame_json to_vec m = Inr rs \<and> list_all (\<lambda>r. length r = REPORT_BYTES) rs \<and>
    feed_reports next_value [] rs = (map Inr ms, []) \<and> concat ms = [m] \<and>
    frame_json to_vec (JArr [m]) = Inl ''Codex JSON message must be an object''"
  using frame_json_delivers [OF assms] by (simp add: frame_json_def [of _ "JArr _"])

theorem frame_json_decodes_witness:
  "\<exists>rs ms. frame_json empty_object_printer (JObj []) = Inr rs \<and>
     list_all (\<lambda>r. length r = REPORT_BYTES) rs \<and>
     feed_reports empty_object_parser [] rs = (map Inr ms, []) \<and> concat ms = [JObj []] \<and>
     frame_json empty_object_printer (JArr [JObj []]) = Inl ''Codex JSON message must be an object''"
  by (rule frame_json_decodes [OF empty_object_text]) simp

text \<open>
  Errors of the decoder: whatever the reports and the parser are, the buffer never exceeds
  64 KiB, and text that is not JSON, behind a complete message in the same buffer, makes the
  call fail; the message in front of it has left the buffer and is not delivered.
\<close>
theorem invalid_json_discards_messages:
  "length (snd (feed_reports next_value [] rs)) \<le> 64 * 1024 \<and>
   (json_text to_vec next_value (m, bs) \<and> b \<noteq> [] \<and> \<not> crlf (hd b) \<and> next_value b = SErr e \<longrightarrow>
      decode_available next_value (bs @ b) =
        (Inl (''invalid Codex JSON: '' @ e), drop (max (invalid_prefix_length b) 1) b))"
proof
  show "length (snd (feed_reports next_value [] rs)) \<le> 64 * 1024"
    using feed_reports_bounded [of "[]"] by simp
  show "json_text to_vec next_value (m, bs) \<and> b \<noteq> [] \<and> \<not> crlf (hd b) \<and> next_value b = SErr e \<longrightarrow>
      decode_available next_value (bs @ b) =
        (Inl (''invalid Codex JSON: '' @ e), drop (max (invalid_prefix_length b) 1) b)"
    by (auto simp: decode_message decode_available.simps [of next_value b] dropWhile_hd)
qed

theorem invalid_json_discards_messages_witness:
  "decode_available empty_object_parser ([123, 125] @ [65]) =
     (Inl ''invalid Codex JSON: expected value'', [])"
  using invalid_json_discards_messages [of empty_object_parser "[]" empty_object_printer "JObj []"
      "[123, 125]" "[65]" "''expected value''"] empty_object_text
  by (simp add: crlf_def empty_object_parser_def invalid_prefix_length_def)

end
