(* ===== verification/Codex_Events.thy ===== *)
theory Codex_Events
  imports Codex_Protocol
begin

text \<open>
  What a physical event becomes on the Codex HID protocol (\<open>codex.rs\<close>): the catalogue of logical
  actions, the event type shared by every controller, the two-level radial state of the lateral
  encoders, and the synthetic key presses of the command-line and MCP tools.
\<close>

section \<open>The action catalogue\<close>

datatype catalog_action =
    TaskPrevious | TaskNext | TaskFirst | TaskLast | TaskOpen | TaskRetry | TaskInterrupt
    | TaskFork | TaskArchive | TaskPin | TaskUnpin | TaskApprove | TaskReject | TaskCopyPrompt
    | TaskCopyResponse | TaskCopyPath | AgentNewTask | AgentSearch | AgentReviewChanges
    | AgentRunTests | AgentOpenTerminal | AgentOpenBrowser | AgentOpenEditor
    | AgentCompactContext | AgentSettings

definition catalog_table :: "(string \<times> catalog_action) list" where
  "catalog_table =
    [(''task.previous'', TaskPrevious),
     (''task.next'', TaskNext),
     (''task.first'', TaskFirst),
     (''task.last'', TaskLast),
     (''task.open'', TaskOpen),
     (''task.retry'', TaskRetry),
     (''task.interrupt'', TaskInterrupt),
     (''task.fork'', TaskFork),
     (''task.archive'', TaskArchive),
     (''task.pin'', TaskPin),
     (''task.unpin'', TaskUnpin),
     (''task.approve'', TaskApprove),
     (''task.reject'', TaskReject),
     (''task.copy-prompt'', TaskCopyPrompt),
     (''task.copy-response'', TaskCopyResponse),
     (''task.copy-path'', TaskCopyPath),
     (''agent.new-task'', AgentNewTask),
     (''agent.search'', AgentSearch),
     (''agent.review-changes'', AgentReviewChanges),
     (''agent.run-tests'', AgentRunTests),
     (''agent.open-terminal'', AgentOpenTerminal),
     (''agent.open-browser'', AgentOpenBrowser),
     (''agent.open-editor'', AgentOpenEditor),
     (''agent.compact-context'', AgentCompactContext),
     (''agent.settings'', AgentSettings)]"

definition catalog_parse :: "string \<Rightarrow> catalog_action option" where
  "catalog_parse value = map_of catalog_table value"

fun catalog_as_str :: "catalog_action \<Rightarrow> string" where
  "catalog_as_str TaskPrevious = ''task.previous''"
| "catalog_as_str TaskNext = ''task.next''"
| "catalog_as_str TaskFirst = ''task.first''"
| "catalog_as_str TaskLast = ''task.last''"
| "catalog_as_str TaskOpen = ''task.open''"
| "catalog_as_str TaskRetry = ''task.retry''"
| "catalog_as_str TaskInterrupt = ''task.interrupt''"
| "catalog_as_str TaskFork = ''task.fork''"
| "catalog_as_str TaskArchive = ''task.archive''"
| "catalog_as_str TaskPin = ''task.pin''"
| "catalog_as_str TaskUnpin = ''task.unpin''"
| "catalog_as_str TaskApprove = ''task.approve''"
| "catalog_as_str TaskReject = ''task.reject''"
| "catalog_as_str TaskCopyPrompt = ''task.copy-prompt''"
| "catalog_as_str TaskCopyResponse = ''task.copy-response''"
| "catalog_as_str TaskCopyPath = ''task.copy-path''"
| "catalog_as_str AgentNewTask = ''agent.new-task''"
| "catalog_as_str AgentSearch = ''agent.search''"
| "catalog_as_str AgentReviewChanges = ''agent.review-changes''"
| "catalog_as_str AgentRunTests = ''agent.run-tests''"
| "catalog_as_str AgentOpenTerminal = ''agent.open-terminal''"
| "catalog_as_str AgentOpenBrowser = ''agent.open-browser''"
| "catalog_as_str AgentOpenEditor = ''agent.open-editor''"
| "catalog_as_str AgentCompactContext = ''agent.compact-context''"
| "catalog_as_str AgentSettings = ''agent.settings''"

section \<open>Physical events\<close>

text \<open>An \<open>i8\<close> is the integer from -128 to 127 it denotes, a button or encoder index the natural.\<close>

datatype physical_event =
    Button nat bool
  | TaskButton nat bool "string option"
  | TaskToggle nat "string option"
  | TaskAction nat nat "string option"
  | MicroButton nat bool
  | CatalogEvent catalog_action
  | ModelCycle
  | UsageSelect usage_agent
  | EncoderTurn nat int
  | EncoderButton nat bool

record radial_state =
  levels :: "nat list"
  directions :: "int list"

definition radial_default :: radial_state where
  "radial_default = \<lparr>levels = [0, 0], directions = [0, 0]\<rparr>"

definition radial_message :: "f64 \<Rightarrow> f64 \<Rightarrow> json" where
  "radial_message angle distance =
     jobj [(''m'', JStr ''v.oai.rad''),
           (''p'', jobj [(''a'', JNum (Float angle)), (''d'', JNum (Float (clamp 0 1 distance)))])]"

definition radial_turn :: "nat \<Rightarrow> f64 \<Rightarrow> int \<Rightarrow> radial_state \<Rightarrow> json \<times> radial_state" where
  "radial_turn axis angle delta st =
     (let direction = sgn delta;
          st = (if directions st ! axis \<noteq> direction
                then st\<lparr>levels := (levels st)[axis := 0], directions := (directions st)[axis := direction]\<rparr>
                else st);
          level = min (levels st ! axis + 1) 2;
          st = st\<lparr>levels := (levels st)[axis := level]\<rparr>
      in (radial_message angle (f64_div (of_nat level) 2), st))"

definition hid_message :: "string \<Rightarrow> nat \<Rightarrow> nat option \<Rightarrow> json" where
  "hid_message key action agent =
     jobj [(''m'', JStr ''v.oai.hid''),
           (''p'', jobj ([(''k'', JStr key), (''act'', jnat action)] @
              (case agent of None \<Rightarrow> [] | Some a \<Rightarrow> [(''ag'', jnat a)])))]"

definition two_digits :: "nat \<Rightarrow> string" where
  "two_digits n = (if n < 10 then ''0'' @ show_nat n else show_nat n)"

definition button_message :: "nat \<Rightarrow> bool \<Rightarrow> json option" where
  "button_message index pressed =
     (if index \<le> 5 then Some (hid_message (''AG0'' @ show_nat index) (of_bool pressed) (Some index))
      else if index \<le> 8 then Some (hid_message (''ACT'' @ two_digits index) (of_bool pressed) None)
      else None)"

text \<open>\<open>RadialState::event\<close>\<close>

fun radial_event :: "physical_event \<Rightarrow> radial_state \<Rightarrow> json option \<times> radial_state" where
  "radial_event (Button index pressed) st = (button_message index pressed, st)"
| "radial_event (MicroButton index pressed) st = (button_message index pressed, st)"
| "radial_event (EncoderTurn index delta) st =
     (if index = 0 \<and> delta \<noteq> 0 then
        (let (v, st) = radial_turn 0 (if delta > 0 then 0 else 1 / 2) delta st in (Some v, st))
      else if index = 2 \<and> delta \<noteq> 0 then
        (let (v, st) = radial_turn 1 (if delta > 0 then 1 / 4 else 3 / 4) delta st in (Some v, st))
      else if index = 1 \<and> delta > 0 then (Some (hid_message ''ENC_CW'' 2 None), st)
      else if index = 1 \<and> delta < 0 then (Some (hid_message ''ENC_CC'' 2 None), st)
      else (None, st))"
| "radial_event (EncoderButton index pressed) st =
     (if index = 0 then (Some (hid_message ''ACT12'' (of_bool pressed) None), st)
      else if index = 2 then (Some (hid_message ''ACT10'' (of_bool pressed) None), st)
      else if index = 1 then (Some (hid_message ''ENC_CLK'' (of_bool pressed) None), st)
      else (None, st))"
| "radial_event _ st = (None, st)"

definition message_for_physical_event :: "physical_event \<Rightarrow> json option" where
  "message_for_physical_event e = fst (radial_event e radial_default)"

definition synthetic_events :: "string \<Rightarrow> physical_event list option" where
  "synthetic_events key =
     (if key \<in> set [''AG00'', ''AG01'', ''AG02'', ''AG03'', ''AG04'', ''AG05''] then
        (let index = of_char (key ! 3) - 48 in Some [Button index True, Button index False])
      else if key \<in> set [''ACT06'', ''ACT07'', ''ACT08''] then
        (let index = of_char (key ! 4) - 48 in Some [Button index True, Button index False])
      else if key = ''ENC_CW'' then Some [EncoderTurn 0 1]
      else if key = ''ENC_CC'' then Some [EncoderTurn 0 (- 1)]
      else if key = ''ENC_CLK'' then Some [EncoderButton 0 True, EncoderButton 0 False]
      else None)"

definition messages_for_synthetic_key :: "string \<Rightarrow> string + json list" where
  "messages_for_synthetic_key key =
     (case synthetic_events key of
        Some events \<Rightarrow> Inr (List.map_filter message_for_physical_event events)
      | None \<Rightarrow> Inl (''unsupported synthetic key '' @ key @ ''; use AG00-AG05, ACT06-ACT08, '' @
          ''ENC_CW, ENC_CC, or ENC_CLK''))"

text \<open>\<open>codex::method\<close>\<close>

definition method_of :: "json \<Rightarrow> string option" where
  "method_of message =
     Option.bind (or_else (jget ''m'' message) (jget ''method'' message)) as_str"

section \<open>The radial state\<close>

definition radial_after :: "physical_event list \<Rightarrow> radial_state" where
  "radial_after es = fold (\<lambda>e st. snd (radial_event e st)) es radial_default"

text \<open>The turns of one encoder, latest first, and how many of the latest go the same way.\<close>

fun turns :: "nat \<Rightarrow> physical_event list \<Rightarrow> int list" where
  "turns n [] = []"
| "turns n (EncoderTurn i d # es) = (if i = n \<and> d \<noteq> 0 then turns n es @ [d] else turns n es)"
| "turns n (_ # es) = turns n es"

definition same_way :: "int \<Rightarrow> int list \<Rightarrow> nat" where
  "same_way d ds = length (takeWhile (\<lambda>x. sgn x = sgn d) ds)"

definition axis_encoder :: "nat \<Rightarrow> nat" where
  "axis_encoder axis = (if axis = 0 then 0 else 2)"

text \<open>The state of an axis as a function of the turns of its encoder.\<close>

definition axis_ok :: "int list \<Rightarrow> nat \<Rightarrow> radial_state \<Rightarrow> bool" where
  "axis_ok ds axis st \<longleftrightarrow>
     (case ds of
        [] \<Rightarrow> directions st ! axis = 0 \<and> levels st ! axis = 0
      | d # _ \<Rightarrow> directions st ! axis = sgn d \<and> levels st ! axis = min 2 (same_way d ds))"

definition radial_wf :: "radial_state \<Rightarrow> bool" where
  "radial_wf st \<longleftrightarrow> length (levels st) = 2 \<and> length (directions st) = 2"

lemma turns_append: "turns n (es @ es') = turns n es' @ turns n es"
  by (induction n es rule: turns.induct) simp_all

lemma same_way_simps [simp]:
  "same_way d [] = 0" "same_way d (x # ds) = (if sgn x = sgn d then Suc (same_way d ds) else 0)"
  by (simp_all add: same_way_def)

lemma same_way_cong: "sgn d = sgn d' \<Longrightarrow> same_way d ds = same_way d' ds"
  by (simp add: same_way_def)

lemma min_level: "min (Suc (min 2 k)) 2 = min 2 (Suc k)"
  by (simp add: min_def)

lemma radial_turn_level:
  assumes "radial_wf st" and "axis < 2" and "axis_ok ds axis st" and "d \<noteq> 0"
  shows "radial_turn axis angle d st =
    (radial_message angle (f64_div (of_nat (min 2 (Suc (same_way d ds)))) 2), snd (radial_turn axis angle d st))"
    and "axis_ok (d # ds) axis (snd (radial_turn axis angle d st))"
    and "axis' < 2 \<Longrightarrow> axis' \<noteq> axis \<Longrightarrow> axis_ok ds' axis' st \<Longrightarrow>
      axis_ok ds' axis' (snd (radial_turn axis angle d st))"
    and "radial_wf (snd (radial_turn axis angle d st))"
proof -
  have "directions st ! axis = sgn d \<Longrightarrow> levels st ! axis = min 2 (same_way d ds)"
    using assms(3,4) by (auto simp: axis_ok_def same_way_def sgn_0_0 split: list.splits)
  moreover have "directions st ! axis \<noteq> sgn d \<Longrightarrow> same_way d ds = 0"
    using assms(3) by (auto simp: axis_ok_def split: list.splits)
  ultimately show "radial_turn axis angle d st =
      (radial_message angle (f64_div (of_nat (min 2 (Suc (same_way d ds)))) 2), snd (radial_turn axis angle d st))"
    and "axis_ok (d # ds) axis (snd (radial_turn axis angle d st))"
    and "radial_wf (snd (radial_turn axis angle d st))"
    using assms(1,2) min_level [of "same_way d ds"]
    by (auto simp: radial_turn_def Let_def axis_ok_def radial_wf_def)
  show "axis' < 2 \<Longrightarrow> axis' \<noteq> axis \<Longrightarrow> axis_ok ds' axis' st \<Longrightarrow>
      axis_ok ds' axis' (snd (radial_turn axis angle d st))"
    using assms(1,2) by (auto simp: radial_turn_def Let_def axis_ok_def radial_wf_def split: list.splits)
qed

lemma radial_step:
  assumes "radial_wf st" and "axis_ok (turns 0 es) 0 st" and "axis_ok (turns 2 es) 1 st"
  shows "radial_wf (snd (radial_event e st)) \<and>
    axis_ok (turns 0 (es @ [e])) 0 (snd (radial_event e st)) \<and>
    axis_ok (turns 2 (es @ [e])) 1 (snd (radial_event e st))"
proof (cases e)
  case (EncoderTurn i d)
  with assms radial_turn_level [OF assms(1) _ assms(2)] radial_turn_level [OF assms(1) _ assms(3)]
  show ?thesis by (auto simp: turns_append case_prod_beta)
qed (use assms in \<open>simp_all add: turns_append\<close>)

lemma radial_event_wf: "radial_wf st \<Longrightarrow> radial_wf (snd (radial_event e st))"
  by (cases e) (auto simp: radial_turn_def Let_def radial_wf_def case_prod_beta)

lemma radial_after_ok:
  "radial_wf (radial_after es) \<and> axis_ok (turns 0 es) 0 (radial_after es) \<and>
   axis_ok (turns 2 es) 1 (radial_after es)"
proof (induction es rule: rev_induct)
  case Nil
  show ?case by (simp add: radial_after_def radial_default_def radial_wf_def axis_ok_def)
next
  case (snoc e es)
  then show ?case using radial_step [of "radial_after es" es e] by (simp add: radial_after_def)
qed

section \<open>Properties\<close>

text \<open>
  The two levels of the lateral encoders: after any events, a turn of encoder 0 or 2 sends a
  radial message of distance 0.5 when it is the first one or reverses the direction of that
  encoder, and of distance 1.0 when the turn of that encoder before it went the same way,
  whatever other events came in between.
\<close>
theorem radial_levels:
  assumes "axis < 2" and "d \<noteq> 0"
  shows "fst (radial_event (EncoderTurn (axis_encoder axis) d) (radial_after es)) =
    Some (radial_message
      (if axis = 0 then (if d > 0 then 0 else 1 / 2) else (if d > 0 then 1 / 4 else 3 / 4))
      (case turns (axis_encoder axis) es of
         [] \<Rightarrow> 1 / 2
       | d' # _ \<Rightarrow> if sgn d' = sgn d then 1 else 1 / 2))"
proof -
  have half: "f64_div 1 2 = 1 / 2" "f64_div 2 2 = 1" by code_simp+
  have d: "f64_div (1 + of_nat (min (Suc 0) (same_way d ds))) 2 =
      (case ds of [] \<Rightarrow> 1 / 2 | d' # _ \<Rightarrow> if sgn d' = sgn d then 1 else 1 / 2)" for ds
    by (cases ds) (auto simp: half min_def)
  from assms(1) have "axis = 0 \<or> axis = 1" by auto
  then show ?thesis
  proof
    assume "axis = 0"
    with radial_turn_level(1) [of "radial_after es" 0 "turns 0 es" d] radial_after_ok [of es] assms(2)
    show ?thesis by (simp add: axis_encoder_def case_prod_beta d prod_eq_iff)
  next
    assume "axis = 1"
    with radial_turn_level(1) [of "radial_after es" 1 "turns 2 es" d] radial_after_ok [of es] assms(2)
    show ?thesis by (simp add: axis_encoder_def case_prod_beta d prod_eq_iff)
  qed
qed

theorem radial_levels_witness:
  "fst (radial_event (EncoderTurn 2 (- 3)) (radial_after [EncoderTurn 2 (- 1), Button 4 True])) =
     Some (radial_message (3 / 4) 1)"
  using radial_levels [of 1 "- 3" "[EncoderTurn 2 (- 1), Button 4 True]"]
  by (simp add: axis_encoder_def)

text \<open>
  Synthetic keys: a key of the tools that names a button or a command position is sent as
  a press and a release of that very key. The three encoder keys are not: they are translated
  as the left lateral encoder, so that \<open>ENC_CW\<close> and \<open>ENC_CC\<close> are sent as radial messages and
  \<open>ENC_CLK\<close> as the key \<open>ACT12\<close>, where the central encoder itself sends the keys of these names.
\<close>
theorem synthetic_key_messages:
  "map messages_for_synthetic_key [''AG00'', ''AG03'', ''AG05'', ''ACT06'', ''ACT08''] =
     [Inr [hid_message ''AG00'' 1 (Some 0), hid_message ''AG00'' 0 (Some 0)],
      Inr [hid_message ''AG03'' 1 (Some 3), hid_message ''AG03'' 0 (Some 3)],
      Inr [hid_message ''AG05'' 1 (Some 5), hid_message ''AG05'' 0 (Some 5)],
      Inr [hid_message ''ACT06'' 1 None, hid_message ''ACT06'' 0 None],
      Inr [hid_message ''ACT08'' 1 None, hid_message ''ACT08'' 0 None]] \<and>
   map messages_for_synthetic_key [''ENC_CW'', ''ENC_CC'', ''ENC_CLK''] =
     [Inr [radial_message 0 (1 / 2)], Inr [radial_message (1 / 2) (1 / 2)],
      Inr [hid_message ''ACT12'' 1 None, hid_message ''ACT12'' 0 None]] \<and>
   map message_for_physical_event [EncoderTurn 1 1, EncoderTurn 1 (- 1), EncoderButton 1 True] =
     [Some (hid_message ''ENC_CW'' 2 None), Some (hid_message ''ENC_CC'' 2 None),
      Some (hid_message ''ENC_CLK'' 1 None)]"
  by code_simp

end
