(* ===== verification/Bridge_Serial.thy ===== *)
theory Bridge_Serial
  imports Serial Codex_Events
begin

text \<open>
  The serial side of the bridge (\<open>main.rs\<close>, \<open>serial.rs\<close>): numbered frames on the port, the
  transmission of a Codex message, the start-up handshake, the periodic health check, and the
  acknowledgement and trace of a received message. A port is the bytes it has taken; it may have
  room for a limited number of bytes only, after which a write fails with the error of the
  system. Instants are milliseconds of a monotonic clock.
\<close>

section \<open>Writing frames\<close>

record serial_port =
  port_bytes :: "u8 list"
  port_room :: "nat option"
  port_error :: string

definition write_all :: "u8 list \<Rightarrow> serial_port \<Rightarrow> (string + unit) \<times> serial_port" where
  "write_all bs p =
     (case port_room p of
        None \<Rightarrow> (Inr (), p\<lparr>port_bytes := port_bytes p @ bs\<rparr>)
      | Some n \<Rightarrow>
          if length bs \<le> n
          then (Inr (), p\<lparr>port_bytes := port_bytes p @ bs, port_room := Some (n - length bs)\<rparr>)
          else (Inl (port_error p), p\<lparr>port_bytes := port_bytes p @ take n bs, port_room := Some 0\<rparr>))"

definition write_frame :: "frame \<Rightarrow> serial_port \<Rightarrow> (string + unit) \<times> serial_port" where
  "write_frame f p =
     (case write_all (encode f) p of
        (Inl e, p) \<Rightarrow> (Inl (''RP2040 bridge write failed: '' @ e), p)
      | (Inr _, p) \<Rightarrow> (Inr (), p))"

definition next_sequence :: "u16 \<Rightarrow> u16 \<times> u16" where
  "next_sequence s = (s, s + 1)"

definition send_numbered ::
  "frame_type \<Rightarrow> u8 list \<Rightarrow> serial_port \<times> u16 \<Rightarrow> (string + unit) \<times> serial_port \<times> u16" where
  "send_numbered t pl w =
     (let (n, s) = next_sequence (snd w) in
      case frame_new t n pl of
        Inl e \<Rightarrow> (Inl (wire_error_to_string e), fst w, s)
      | Inr f \<Rightarrow> (let (r, p) = write_frame f (fst w) in (r, p, s)))"

fun send_reports ::
  "u8 list list \<Rightarrow> serial_port \<times> u16 \<Rightarrow> (string + unit) \<times> serial_port \<times> u16" where
  "send_reports [] w = (Inr (), w)"
| "send_reports (r # rs) w =
     (case send_numbered CodexInputReport r w of
        (Inl e, w) \<Rightarrow> (Inl e, w)
      | (Inr _, w) \<Rightarrow> send_reports rs w)"

definition send_codex_message ::
  "(json \<Rightarrow> string + u8 list) \<Rightarrow> json \<Rightarrow> serial_port \<times> u16 \<Rightarrow> (string + unit) \<times> serial_port \<times> u16" where
  "send_codex_message to_vec message w =
     (case frame_json to_vec message of
        Inl e \<Rightarrow> (Inl e, w)
      | Inr rs \<Rightarrow> send_reports rs w)"

section \<open>The handshake\<close>

text \<open>\<open>String::from_utf8\<close>: the well-formed byte sequences of the Unicode standard.\<close>

fun utf8_ok :: "nat list \<Rightarrow> bool" where
  "utf8_ok [] = True"
| "utf8_ok (a # s) =
     (let cont = (\<lambda>x. 128 \<le> x \<and> x \<le> 191) in
      if a < 128 then utf8_ok s
      else if 194 \<le> a \<and> a \<le> 223 then
        (case s of b # s' \<Rightarrow> cont b \<and> utf8_ok s' | _ \<Rightarrow> False)
      else if 224 \<le> a \<and> a \<le> 239 then
        (case s of
           b # c # s' \<Rightarrow>
             cont b \<and> cont c \<and> (a = 224 \<longrightarrow> 160 \<le> b) \<and> (a = 237 \<longrightarrow> b \<le> 159) \<and> utf8_ok s'
         | _ \<Rightarrow> False)
      else if 240 \<le> a \<and> a \<le> 244 then
        (case s of
           b # c # d # s' \<Rightarrow>
             cont b \<and> cont c \<and> cont d \<and> (a = 240 \<longrightarrow> 144 \<le> b) \<and> (a = 244 \<longrightarrow> b \<le> 143) \<and> utf8_ok s'
         | _ \<Rightarrow> False)
      else False)"

definition from_utf8 :: "u8 list \<Rightarrow> string option" where
  "from_utf8 bs = (if utf8_ok (map unat bs) then Some (map (\<lambda>b. char_of (unat b)) bs) else None)"

text \<open>
  One pass of the loop of \<open>wait_for_firmware\<close> is what the clock shows when the remaining time is
  computed, when the next ping is checked, and after a ping was written, and what \<open>recv_timeout\<close>
  returns. (The last reading of a pass only bounds how long \<open>recv_timeout\<close> waits.)
\<close>

datatype received = Received serial_event | RecvTimeout | RecvClosed

definition HANDSHAKE_MS :: nat where "HANDSHAKE_MS = 3000"
definition PING_SPACING_MS :: nat where "PING_SPACING_MS = 250"

type_synonym wait_pass = "nat \<times> nat \<times> nat \<times> received"

definition maybe_ping ::
  "nat \<Rightarrow> nat \<Rightarrow> nat \<Rightarrow> serial_port \<times> u16 \<Rightarrow> (string + nat) \<times> serial_port \<times> u16" where
  "maybe_ping now written_at next_ping w =
     (if now \<ge> next_ping
      then (case send_numbered Ping [] w of
              (Inl e, w) \<Rightarrow> (Inl e, w)
            | (Inr _, w) \<Rightarrow> (Inr (written_at + PING_SPACING_MS), w))
      else (Inr next_ping, w))"

fun wait_loop ::
  "nat \<Rightarrow> nat \<Rightarrow> wait_pass list \<Rightarrow> serial_port \<times> u16 \<Rightarrow>
   (string + string) option \<times> serial_port \<times> u16" where
  "wait_loop deadline next_ping [] w = (None, w)"
| "wait_loop deadline next_ping ((now, now2, written_at, r) # ps) w =
     (if now \<ge> deadline
      then (Some (Inl ''RP2040 did not answer the bridge ping within 3 seconds''), w)
      else
        (case maybe_ping now2 written_at next_ping w of
           (Inl e, w) \<Rightarrow> (Some (Inl e), w)
         | (Inr next_ping, w) \<Rightarrow>
             (case r of
                Received (SerialFrame f) \<Rightarrow>
                  if frame_type f = Status
                  then (Some (ok_or ''RP2040 returned a non-UTF8 status'' (from_utf8 (payload f))), w)
                  else wait_loop deadline next_ping ps w
              | Received (ProtocolError _) \<Rightarrow> wait_loop deadline next_ping ps w
              | Received (Disconnected e) \<Rightarrow> (Some (Inl e), w)
              | RecvTimeout \<Rightarrow> wait_loop deadline next_ping ps w
              | RecvClosed \<Rightarrow> (Some (Inl ''RP2040 serial reader stopped''), w))))"

definition wait_for_firmware ::
  "nat \<Rightarrow> nat \<Rightarrow> wait_pass list \<Rightarrow> serial_port \<times> u16 \<Rightarrow>
   (string + string) option \<times> serial_port \<times> u16" where
  "wait_for_firmware start first_ping passes w = wait_loop (start + HANDSHAKE_MS) first_ping passes w"

section \<open>The health check\<close>

definition HEALTH_CHECK_INTERVAL :: nat where "HEALTH_CHECK_INTERVAL = 1000"
definition HEALTH_CHECK_TIMEOUT :: nat where "HEALTH_CHECK_TIMEOUT = 1000"

record health_check =
  next_probe_at :: nat
  pending_deadline :: "nat option"

definition health_new :: "nat \<Rightarrow> health_check" where
  "health_new now = \<lparr>next_probe_at = now + HEALTH_CHECK_INTERVAL, pending_deadline = None\<rparr>"

definition due_at :: "nat \<Rightarrow> health_check \<Rightarrow> bool" where
  "due_at now h \<longleftrightarrow> pending_deadline h = None \<and> now \<ge> next_probe_at h"

definition begin_at :: "nat \<Rightarrow> health_check \<Rightarrow> health_check" where
  "begin_at now h = h\<lparr>pending_deadline := Some (now + HEALTH_CHECK_TIMEOUT)\<rparr>"

definition observe_status_at :: "nat \<Rightarrow> health_check \<Rightarrow> health_check" where
  "observe_status_at now h = h\<lparr>pending_deadline := None, next_probe_at := now + HEALTH_CHECK_INTERVAL\<rparr>"

definition timed_out_at :: "nat \<Rightarrow> health_check \<Rightarrow> bool" where
  "timed_out_at now h \<longleftrightarrow> (case pending_deadline h of None \<Rightarrow> False | Some d \<Rightarrow> now \<ge> d)"

section \<open>Received messages\<close>

definition rpc_ack_response :: "json \<Rightarrow> json option" where
  "rpc_ack_response message =
     (if method_of message \<in> {Some ''v.oai.rgbcfg'', Some ''v.oai.thstatus''}
      then map_option (\<lambda>i. jobj [(''result'', JBool True), (''id'', i)]) (jget ''id'' message)
      else None)"

definition byte_at :: "nat \<Rightarrow> u8 list \<Rightarrow> nat" where
  "byte_at i bs = (if i < length bs then unat (bs ! i) else 0)"

definition codex_report_trace :: "u8 list \<Rightarrow> u16 \<Rightarrow> json" where
  "codex_report_trace report s =
     (let declared = byte_at 2 report;
          prefix_length = min (min declared (length report - 3)) 16;
          prefix = (if 3 + prefix_length \<le> length report then take prefix_length (drop 3 report) else [])
      in jobj [(''type'', JStr ''codex-report''), (''direction'', JStr ''host-to-bridge''),
           (''sequence'', jnat (unat s)), (''reportBytes'', jnat (length report)),
           (''reportId'', jnat (byte_at 0 report)), (''opcode'', jnat (byte_at 1 report)),
           (''declaredChunkBytes'', jnat declared),
           (''payloadPrefixHex'', JStr (concat (map (\<lambda>b. hex2 (unat b)) prefix)))])"

section \<open>Transmission\<close>

text \<open>The frames of a list of reports, numbered from \<open>s\<close> on.\<close>

fun numbered :: "u16 \<Rightarrow> u8 list list \<Rightarrow> frame list" where
  "numbered s [] = []"
| "numbered s (r # rs) = \<lparr>frame_type = CodexInputReport, sequence = s, payload = r\<rparr> # numbered (s + 1) rs"

lemma numbered_payloads [simp]: "map payload (numbered s rs) = rs"
  by (induction rs arbitrary: s) simp_all

lemma numbered_ok: "list_all (\<lambda>r. length r = REPORT_BYTES) rs \<Longrightarrow> \<forall>f \<in> set (numbered s rs). frame_ok f"
  by (induction rs arbitrary: s) (auto simp: frame_ok_def REPORT_BYTES_def MAX_PAYLOAD_def)

lemma send_reports_open:
  "list_all (\<lambda>r. length r = REPORT_BYTES) rs \<Longrightarrow> port_room p = None \<Longrightarrow>
   send_reports rs (p, s) =
     (Inr (), p\<lparr>port_bytes := port_bytes p @ concat (map encode (numbered s rs))\<rparr>, s + of_nat (length rs))"
proof (induction rs arbitrary: p s)
  case (Cons r rs)
  have "send_numbered CodexInputReport r (p, s) =
      (Inr (), p\<lparr>port_bytes := port_bytes p @ encode \<lparr>frame_type = CodexInputReport, sequence = s, payload = r\<rparr>\<rparr>,
       s + 1)"
    using Cons.prems by (simp add: send_numbered_def next_sequence_def frame_new_def write_frame_def
        write_all_def REPORT_BYTES_def MAX_PAYLOAD_def)
  with Cons show ?case by simp
qed simp

lemma decode_frames:
  "\<forall>f \<in> set fs. frame_ok f \<Longrightarrow> decode_loop (concat (map encode fs)) = (map Inr fs, [])"
  using decode_loop_stream [of "map (\<lambda>f. ([], f)) fs"] by (simp add: comp_def noise_def)

section \<open>Pings\<close>

lemma write_all_length:
  "length (port_bytes (snd (write_all bs p))) \<le> length (port_bytes p) + length bs"
  by (simp add: write_all_def split: option.split)

lemma send_ping_length:
  "length (port_bytes (fst (snd (send_numbered Ping [] w)))) \<le> length (port_bytes (fst w)) + 10"
proof -
  have "length (encode \<lparr>frame_type = Ping, sequence = s, payload = []\<rparr>) = 10" for s
    by (simp add: encode_def frame_body_def MAGIC_def)
  with write_all_length [of "encode \<lparr>frame_type = Ping, sequence = snd w, payload = []\<rparr>" "fst w"] show ?thesis
    by (simp add: send_numbered_def next_sequence_def frame_new_def write_frame_def case_prod_beta
        split: sum.split)
qed

definition pings_left :: "nat \<Rightarrow> nat \<Rightarrow> nat" where
  "pings_left deadline next_ping = (deadline - next_ping + 249) div 250"

lemma pings_left_step:
  assumes "next_ping \<le> now" and "now < deadline"
  shows "Suc (pings_left deadline (now + 250)) \<le> pings_left deadline next_ping"
proof (cases "deadline \<le> now + 250")
  case True
  have "(250 :: nat) div 250 \<le> (deadline - next_ping + 249) div 250"
    using assms by (intro div_le_mono) simp
  with True show ?thesis by (simp add: pings_left_def)
next
  case False
  then have "((deadline - (now + 250) + 249) + 250) div 250 \<le> (deadline - next_ping + 249) div 250"
    using assms by (intro div_le_mono) simp
  then show ?thesis unfolding pings_left_def by (simp only: div_add_self2 [of 250] Suc_eq_plus1)
qed

lemma pings_left_mono: "m \<le> n \<Longrightarrow> pings_left deadline n \<le> pings_left deadline m"
  unfolding pings_left_def by (intro div_le_mono add_right_mono diff_le_mono2)

text \<open>
  The readings of a pass, and the one ping that can still be written after the deadline, when the
  deadline passes between the first two readings.
\<close>

definition readings :: "wait_pass \<Rightarrow> nat list" where
  "readings pass = (case pass of (a, b, c, _) \<Rightarrow> [a, b, c])"

definition agreeing :: "wait_pass \<Rightarrow> bool" where
  "agreeing pass \<longleftrightarrow> (case pass of (a, b, c, _) \<Rightarrow> a = b \<and> b = c)"

definition late_ping :: "nat \<Rightarrow> nat \<Rightarrow> wait_pass list \<Rightarrow> nat" where
  "late_ping deadline earliest ps = (if earliest < deadline \<and> \<not> list_all agreeing ps then 1 else 0)"

lemma maybe_ping_length:
  assumes "maybe_ping now2 c next_ping w = (x, w1)" and "now < deadline" "now \<le> now2" "now2 \<le> c"
  shows "length (port_bytes (fst w1)) + 10 * (case x of Inl _ \<Rightarrow> 0 | Inr n \<Rightarrow> pings_left deadline n + late_ping deadline c ps)
      \<le> length (port_bytes (fst w)) + 10 * (pings_left deadline next_ping + late_ping deadline now ((now, now2, c, r) # ps))"
proof -
  have late: "late_ping deadline c ps \<le> late_ping deadline now ((now, now2, c, r) # ps)"
    using assms(2) by (simp add: late_ping_def)
  have "Suc (pings_left deadline (c + 250) + late_ping deadline c ps)
      \<le> pings_left deadline next_ping + late_ping deadline now ((now, now2, c, r) # ps)" if "next_ping \<le> now2"
  proof (cases "now2 < deadline")
    case True
    with pings_left_step [OF that True] pings_left_mono [of "now2 + 250" "c + 250" deadline] assms(4) late
    show ?thesis by linarith
  next
    case False
    then have "late_ping deadline c ps = 0" "late_ping deadline now ((now, now2, c, r) # ps) = 1"
      using assms by (auto simp: late_ping_def agreeing_def)
    moreover have "pings_left deadline (c + 250) = 0" using False assms(4) by (simp add: pings_left_def)
    ultimately show ?thesis by simp
  qed
  with late assms(1) send_ping_length [of w] show ?thesis
    by (auto simp: maybe_ping_def PING_SPACING_MS_def split: if_splits sum.splits prod.splits)
qed

lemma wait_loop_length:
  "sorted (earliest # concat (map readings ps)) \<Longrightarrow>
   length (port_bytes (fst (snd (wait_loop deadline next_ping ps w)))) \<le>
     length (port_bytes (fst w)) + 10 * (pings_left deadline next_ping + late_ping deadline earliest ps)"
proof (induction ps arbitrary: earliest next_ping w)
  case (Cons pass ps)
  obtain now now2 c r where pass: "pass = (now, now2, c, r)" by (cases pass)
  from Cons.prems have ord: "earliest \<le> now" "now \<le> now2" "now2 \<le> c" "sorted (c # concat (map readings ps))"
    unfolding pass by (simp_all add: readings_def [of "(now, now2, c, r)"])
  show ?case
  proof (cases "now \<ge> deadline")
    case False
    then have early: "late_ping deadline earliest (pass # ps) = late_ping deadline now (pass # ps)"
      using ord(1) by (simp add: late_ping_def)
    obtain x w1 where m: "maybe_ping now2 c next_ping w = (x, w1)" by (cases "maybe_ping now2 c next_ping w")
    have "now < deadline" using False by simp
    note len = maybe_ping_length [OF m this ord(2,3), of ps r]
    define bound where "bound = length (port_bytes (fst w)) +
        10 * (pings_left deadline next_ping + late_ping deadline earliest (pass # ps))"
    have le: "length (port_bytes (fst w1)) \<le> bound" using len early by (simp add: bound_def pass)
    have "length (port_bytes (fst (snd (wait_loop deadline next_ping (pass # ps) w)))) \<le> bound"
    proof (cases x)
      case (Inr n)
      from le_trans [OF Cons.IH [OF ord(4), of n w1]] len early Inr
      have "length (port_bytes (fst (snd (wait_loop deadline n ps w1)))) \<le> bound"
        by (simp add: bound_def pass)
      with m Inr False le show ?thesis unfolding pass by (simp split: received.split serial_event.split)
    qed (use m le False in \<open>simp add: pass\<close>)
    then show ?thesis by (simp add: bound_def)
  qed (simp add: pass)
qed simp

lemma wait_loop_ends:
  "\<exists>pass \<in> set ps. deadline \<le> fst pass \<Longrightarrow> fst (wait_loop deadline next_ping ps w) \<noteq> None"
proof (induction ps arbitrary: next_ping w)
  case (Cons pass ps)
  obtain now now2 c r where pass: "pass = (now, now2, c, r)" by (cases pass)
  obtain x w1 where m: "maybe_ping now2 c next_ping w = (x, w1)" by (cases "maybe_ping now2 c next_ping w")
  show ?case
  proof (cases "now \<ge> deadline")
    case False
    with Cons pass have "fst (wait_loop deadline n ps w1) \<noteq> None" for n by simp
    with False pass m show ?thesis
      by (cases x) (simp_all split: received.split serial_event.split)
  qed (simp add: pass)
qed simp

section \<open>Properties\<close>

text \<open>
  C19. End to end: the bytes written for a Codex message, cut in any way on their way to a reader
  of the wire format, arrive as frames only, without a protocol error, and the Codex decoder gets
  from their payloads exactly that message. The sequence number grows by the number of frames.
\<close>
theorem codex_message_end_to_end:
  assumes "json_text to_vec next_value (m, bs)" and "length bs \<le> 65475" and "port_room p = None"
  shows "\<exists>out fs ms. send_codex_message to_vec m (p, s) =
      (Inr (), p\<lparr>port_bytes := port_bytes p @ out\<rparr>, s + of_nat (length fs)) \<and>
    (\<forall>cs. concat cs = out \<longrightarrow> start_reader_with None (map ReadOk cs) = map SerialFrame fs) \<and>
    feed_reports next_value [] (map payload fs) = (map Inr ms, []) \<and> concat ms = [m]"
proof -
  from frame_json_delivers [OF assms(1,2)] obtain rs ms where rs: "frame_json to_vec m = Inr rs"
      "list_all (\<lambda>r. length r = REPORT_BYTES) rs" "feed_reports next_value [] rs = (map Inr ms, [])"
      "concat ms = [m]" by blast
  let ?fs = "numbered s rs"
  have len: "length ?fs = length rs" by (metis length_map numbered_payloads)
  have r: "start_reader_with None (map ReadOk cs) = map SerialFrame ?fs"
    if "concat cs = concat (map encode ?fs)" for cs
    using decode_frames [OF numbered_ok [OF rs(2)]] that
    by (simp add: start_reader_stream frame_event_def comp_def)
  show ?thesis
    using rs r len send_reports_open [OF rs(2) assms(3), of s]
    by (intro exI [of _ "concat (map encode ?fs)"] exI [of _ ?fs] exI [of _ ms])
      (simp add: send_codex_message_def)
qed

theorem codex_message_end_to_end_witness:
  "\<exists>out fs ms. send_codex_message empty_object_printer (JObj [])
       (\<lparr>port_bytes = [], port_room = None, port_error = []\<rparr>, 1) =
      (Inr (), \<lparr>port_bytes = out, port_room = None, port_error = []\<rparr>, 1 + of_nat (length fs)) \<and>
    (\<forall>cs. concat cs = out \<longrightarrow> start_reader_with None (map ReadOk cs) = map SerialFrame fs) \<and>
    feed_reports empty_object_parser [] (map payload fs) = (map Inr ms, []) \<and> concat ms = [JObj []]"
  using codex_message_end_to_end [OF empty_object_text, of "\<lparr>port_bytes = [], port_room = None, port_error = []\<rparr>" 1]
  by simp

text \<open>
  C20. The handshake ends: whatever the serial line delivers, the loop has returned once the clock
  is three seconds past its start. While the clock does not run backwards it has written at most
  thirteen pings of ten bytes, and at most twelve when the readings of each pass agree (the
  thirteenth is written when the deadline passes between two readings of one pass).
\<close>
theorem handshake_ends:
  assumes "\<exists>pass \<in> set passes. start + 3000 \<le> fst pass"
  shows "fst (wait_for_firmware start first_ping passes w) \<noteq> None \<and>
    (sorted (start # first_ping # concat (map readings passes)) \<longrightarrow>
      length (port_bytes (fst (snd (wait_for_firmware start first_ping passes w)))) \<le>
        length (port_bytes (fst w)) + (if list_all agreeing passes then 120 else 130))"
proof -
  have "length (port_bytes (fst (snd (wait_for_firmware start first_ping passes w)))) \<le>
      length (port_bytes (fst w)) + (if list_all agreeing passes then 120 else 130)"
    if "sorted (start # first_ping # concat (map readings passes))"
  proof -
    have "pings_left (start + 3000) first_ping \<le> pings_left (start + 3000) start"
      using that by (intro pings_left_mono) simp
    then have "pings_left (start + 3000) first_ping \<le> 12" by (simp add: pings_left_def)
    moreover have "sorted (start # concat (map readings passes))" using that by auto
    note wait_loop_length [OF this, of "start + 3000" first_ping w]
    moreover have "late_ping (start + 3000) start passes = (if list_all agreeing passes then 0 else 1)"
      by (simp add: late_ping_def)
    ultimately show ?thesis by (simp add: wait_for_firmware_def HANDSHAKE_MS_def split: if_splits)
  qed
  with wait_loop_ends [OF assms] show ?thesis by (auto simp: wait_for_firmware_def HANDSHAKE_MS_def)
qed

theorem handshake_ends_witness:
  "let passes = [(7, 7, 8, RecvTimeout), (3006, 3007, 3008, RecvTimeout), (3008, 3008, 3008, RecvTimeout)];
       port = (\<lparr>port_bytes = [], port_room = None, port_error = []\<rparr>, 1)
   in fst (wait_for_firmware 7 7 passes port) \<noteq> None \<and>
     length (port_bytes (fst (snd (wait_for_firmware 7 7 passes port)))) \<le> 130"
  using handshake_ends [of "[(7, 7, 8, RecvTimeout), (3006, 3007, 3008, RecvTimeout), (3008, 3008, 3008, RecvTimeout)]" 7 7
      "(\<lparr>port_bytes = [], port_room = None, port_error = []\<rparr>, 1)"]
  by (simp add: readings_def agreeing_def Let_def)

end
