(* ===== verification/Controller.thy ===== *)
theory Controller
  imports Codex_Events
begin

text \<open>
  What every controller shares (\<open>controller.rs\<close>): the display context that agents set and
  displays render, with its validating parser, the controller kinds of the command line, the
  device specifications of \<open>--device\<close>, and the default methods of the controller interface.
\<close>

section \<open>The display context\<close>

record display_context =
  dc_project :: "string option"
  dc_task :: "string option"
  dc_model :: "string option"
  dc_effort :: "string option"
  dc_status :: "string option"
  dc_progress :: "nat option"
  dc_task_id :: "string option"
  dc_weekly_remaining :: "nat option"
  dc_five_hour_remaining :: "nat option"
  dc_weekly_reset_at :: "nat option"
  dc_five_hour_reset_at :: "nat option"
  dc_usage_agent :: "string option"
  dc_agents_usage :: "json option"
  dc_wait_reason :: "string option"
  dc_prompt :: "string option"
  dc_interaction_id :: "string option"
  dc_short_action :: "string option"
  dc_long_action :: "string option"
  dc_pending_wait_count :: "nat option"

definition display_default :: display_context where
  "display_default =
     \<lparr>dc_project = None, dc_task = None, dc_model = None, dc_effort = None, dc_status = None,
      dc_progress = None, dc_task_id = None, dc_weekly_remaining = None,
      dc_five_hour_remaining = None, dc_weekly_reset_at = None, dc_five_hour_reset_at = None,
      dc_usage_agent = None, dc_agents_usage = None, dc_wait_reason = None, dc_prompt = None,
      dc_interaction_id = None, dc_short_action = None, dc_long_action = None,
      dc_pending_wait_count = None\<rparr>"

definition known_fields :: "string set" where
  "known_fields = set [
     ''project'', ''task'', ''model'', ''effort'', ''status'', ''progress'', ''task_id'',
     ''weekly_remaining'', ''five_hour_remaining'', ''weekly_reset_at'', ''five_hour_reset_at'',
     ''wait_reason'', ''prompt'', ''interaction_id'', ''short_action'', ''long_action'',
     ''pending_wait_count'']"

definition derived_fields :: "string set" where
  "derived_fields = set [''usage_agent'', ''agents_usage'']"

definition dc_string_field :: "(string, json) bmap \<Rightarrow> string \<Rightarrow> string + string option" where
  "dc_string_field obj name =
     (case map_of obj name of
        None \<Rightarrow> Inr None
      | Some JNull \<Rightarrow> Inr None
      | Some (JStr s) \<Rightarrow>
          if chars_count s \<le> 160 then Inr (Some s)
          else Inl (''display context field '' @ name @ '' must be at most 160 characters'')
      | Some _ \<Rightarrow> Inl (''display context field '' @ name @ '' must be a string or null''))"

definition dc_timestamp_field :: "(string, json) bmap \<Rightarrow> string \<Rightarrow> string + nat option" where
  "dc_timestamp_field obj name =
     (case map_of obj name of
        None \<Rightarrow> Inr None
      | Some JNull \<Rightarrow> Inr None
      | Some (JNum n) \<Rightarrow>
          res_bind (ok_or (''display context field '' @ name @ '' must be a non-negative integer'')
            (num_as_u64 n)) (\<lambda>v. Inr (Some v))
      | Some _ \<Rightarrow> Inl (''display context field '' @ name @ '' must be an integer or null''))"

definition dc_percentage_field :: "(string, json) bmap \<Rightarrow> string \<Rightarrow> string + nat option" where
  "dc_percentage_field obj name =
     (case map_of obj name of
        None \<Rightarrow> Inr None
      | Some JNull \<Rightarrow> Inr None
      | Some (JNum n) \<Rightarrow>
          res_bind (ok_or (''display context field '' @ name @ '' must be an integer'') (num_as_u64 n))
            (\<lambda>v. if v > 100 then Inl (''display context field '' @ name @ '' must be from 0 to 100'')
                 else Inr (Some v))
      | Some _ \<Rightarrow> Inl (''display context field '' @ name @ '' must be an integer or null''))"

definition dc_progress_field :: "(string, json) bmap \<Rightarrow> string + nat option" where
  "dc_progress_field obj =
     (case map_of obj ''progress'' of
        None \<Rightarrow> Inr None
      | Some JNull \<Rightarrow> Inr None
      | Some (JNum n) \<Rightarrow>
          res_bind (ok_or ''display context progress must be an integer'' (num_as_u64 n))
            (\<lambda>v. if v > 100 then Inl ''display context progress must be from 0 to 100''
                 else Inr (Some v))
      | Some _ \<Rightarrow> Inl ''display context progress must be an integer or null'')"

text \<open>\<open>DisplayContext::from_value\<close>: the first unknown field in key order is reported.\<close>

fun check_fields :: "string list \<Rightarrow> string + unit" where
  "check_fields [] = Inr ()"
| "check_fields (key # ks) =
     (if key \<in> derived_fields then check_fields ks
      else if key \<notin> known_fields then Inl (''unknown display context field: '' @ key)
      else check_fields ks)"

definition display_from_value :: "json \<Rightarrow> string + display_context" where
  "display_from_value v =
     res_bind (ok_or ''display context must be an object'' (as_object v)) (\<lambda>obj.
     res_bind (check_fields (map fst obj)) (\<lambda>_.
     res_bind (dc_string_field obj ''task_id'') (\<lambda>task_id.
     res_bind (dc_percentage_field obj ''weekly_remaining'') (\<lambda>weekly.
     res_bind (dc_percentage_field obj ''five_hour_remaining'') (\<lambda>five_hour.
     res_bind (dc_timestamp_field obj ''weekly_reset_at'') (\<lambda>weekly_reset.
     res_bind (dc_timestamp_field obj ''five_hour_reset_at'') (\<lambda>five_hour_reset.
     res_bind (dc_percentage_field obj ''pending_wait_count'') (\<lambda>waits.
     res_bind (dc_progress_field obj) (\<lambda>progress.
     res_bind (dc_string_field obj ''project'') (\<lambda>project.
     res_bind (dc_string_field obj ''task'') (\<lambda>task.
     res_bind (dc_string_field obj ''model'') (\<lambda>model.
     res_bind (dc_string_field obj ''effort'') (\<lambda>effort.
     res_bind (dc_string_field obj ''status'') (\<lambda>status.
     res_bind (dc_string_field obj ''wait_reason'') (\<lambda>wait_reason.
     res_bind (dc_string_field obj ''prompt'') (\<lambda>prompt.
     res_bind (dc_string_field obj ''interaction_id'') (\<lambda>interaction.
     res_bind (dc_string_field obj ''short_action'') (\<lambda>short_action.
     res_bind (dc_string_field obj ''long_action'') (\<lambda>long_action.
       Inr \<lparr>dc_project = project, dc_task = task, dc_model = model, dc_effort = effort,
            dc_status = status, dc_progress = progress, dc_task_id = task_id,
            dc_weekly_remaining = weekly, dc_five_hour_remaining = five_hour,
            dc_weekly_reset_at = weekly_reset, dc_five_hour_reset_at = five_hour_reset,
            dc_usage_agent = None, dc_agents_usage = None, dc_wait_reason = wait_reason,
            dc_prompt = prompt, dc_interaction_id = interaction, dc_short_action = short_action,
            dc_long_action = long_action, dc_pending_wait_count = waits\<rparr>)))))))))))))))))))"

definition context_fields :: "display_context \<Rightarrow> (string \<times> json) list" where
  "context_fields c =
    [(''project'', jopt JStr (dc_project c)),
     (''task'', jopt JStr (dc_task c)),
     (''model'', jopt JStr (dc_model c)),
     (''effort'', jopt JStr (dc_effort c)),
     (''status'', jopt JStr (dc_status c)),
     (''progress'', jopt jnat (dc_progress c)),
     (''task_id'', jopt JStr (dc_task_id c)),
     (''weekly_remaining'', jopt jnat (dc_weekly_remaining c)),
     (''five_hour_remaining'', jopt jnat (dc_five_hour_remaining c)),
     (''weekly_reset_at'', jopt jnat (dc_weekly_reset_at c)),
     (''five_hour_reset_at'', jopt jnat (dc_five_hour_reset_at c)),
     (''usage_agent'', jopt JStr (dc_usage_agent c)),
     (''agents_usage'', jopt id (dc_agents_usage c)),
     (''wait_reason'', jopt JStr (dc_wait_reason c)),
     (''prompt'', jopt JStr (dc_prompt c)),
     (''interaction_id'', jopt JStr (dc_interaction_id c)),
     (''short_action'', jopt JStr (dc_short_action c)),
     (''long_action'', jopt JStr (dc_long_action c)),
     (''pending_wait_count'', jopt jnat (dc_pending_wait_count c))]"

definition display_to_value :: "display_context \<Rightarrow> json" where
  "display_to_value c = jobj (context_fields c)"

section \<open>Controller kinds and device specifications\<close>

datatype controller_kind = Ajazz | StreamDeckPlus | StreamDeckPlusXl | StreamDeckXl | StreamDeckPlugin | NoController

definition kind_parse :: "string \<Rightarrow> string + controller_kind" where
  "kind_parse value =
     (if value = ''ajazz'' then Inr Ajazz
      else if value = ''streamdeck-plus'' then Inr StreamDeckPlus
      else if value = ''streamdeck-plus-xl'' then Inr StreamDeckPlusXl
      else if value = ''streamdeck-xl'' then Inr StreamDeckXl
      else if value = ''none'' then Inr NoController
      else Inl (''--controller must be ajazz, streamdeck-plus, streamdeck-plus-xl, '' @
        ''streamdeck-xl, or none (got '' @ value @ '')''))"

fun kind_str :: "controller_kind \<Rightarrow> string" where
  "kind_str Ajazz = ''ajazz''"
| "kind_str StreamDeckPlus = ''streamdeck-plus''"
| "kind_str StreamDeckPlusXl = ''streamdeck-plus-xl''"
| "kind_str StreamDeckXl = ''streamdeck-xl''"
| "kind_str StreamDeckPlugin = ''streamdeck-plugin''"
| "kind_str NoController = ''none''"

definition is_physical :: "controller_kind \<Rightarrow> bool" where
  "is_physical k \<longleftrightarrow> k \<noteq> NoController"

record device_spec =
  spec_kind :: controller_kind
  spec_serial :: "string option"
  spec_slots :: "nat option"

text \<open>One \<open>key=value\<close> option of \<open>--device\<close> on the serial and the slots read so far.\<close>

definition device_option ::
  "string \<Rightarrow> string option \<times> nat option \<Rightarrow> string + (string option \<times> nat option)" where
  "device_option part acc =
     res_bind (ok_or (''--device option must be key=value (got '' @ part @ '')'') (split_once ''='' part))
       (\<lambda>(key, raw).
         if key = ''serial'' \<and> raw \<noteq> [] then Inr (Some raw, snd acc)
         else if key = ''task-slots'' then
           res_bind (ok_or ''--device task-slots must be an integer'' (parse_usize raw)) (\<lambda>slots.
             if slots = 0 \<or> slots > 64 then Inl ''--device task-slots must be from 1 to 64''
             else Inr (fst acc, Some slots))
         else if key = ''serial'' then Inl ''--device serial must not be empty''
         else Inl (''unknown --device option: '' @ key))"

fun device_options ::
  "string list \<Rightarrow> string option \<times> nat option \<Rightarrow> string + (string option \<times> nat option)" where
  "device_options [] acc = Inr acc"
| "device_options (part # parts) acc = res_bind (device_option part acc) (device_options parts)"

definition device_parse :: "string \<Rightarrow> string + device_spec" where
  "device_parse arg =
     (let parts = split_on CHR '','' arg in
      res_bind (kind_parse (case parts of [] \<Rightarrow> [] | p # _ \<Rightarrow> p)) (\<lambda>kind.
      res_bind (device_options (tl parts) (None, None)) (\<lambda>(serial, slots).
        if \<not> is_physical kind then Inl ''--device requires a physical controller''
        else Inr \<lparr>spec_kind = kind, spec_serial = serial, spec_slots = slots\<rparr>)))"

section \<open>Defaults of the controller interface\<close>

fun default_task_slot_count :: "controller_kind \<Rightarrow> nat" where
  "default_task_slot_count Ajazz = 6"
| "default_task_slot_count StreamDeckPlus = 8"
| "default_task_slot_count StreamDeckPlusXl = 8"
| "default_task_slot_count StreamDeckXl = 8"
| "default_task_slot_count StreamDeckPlugin = 0"
| "default_task_slot_count NoController = 0"

definition default_device_id :: "controller_kind \<Rightarrow> string option \<Rightarrow> string" where
  "default_device_id kind serial =
     (case serial of Some s \<Rightarrow> kind_str kind @ '':'' @ s | None \<Rightarrow> kind_str kind)"

section \<open>Accepted contexts\<close>

definition opt_all :: "('a \<Rightarrow> bool) \<Rightarrow> 'a option \<Rightarrow> bool" where
  "opt_all P x = (case x of None \<Rightarrow> True | Some y \<Rightarrow> P y)"

lemma opt_all_simps [simp]: "opt_all P None" "opt_all P (Some y) = P y"
  by (simp_all add: opt_all_def)

lemma opt_all_if: "opt_all P x \<Longrightarrow> opt_all P y \<Longrightarrow> opt_all P (if b then x else y)"
  by simp

lemma opt_all_bind: "(\<And>x. a = Some x \<Longrightarrow> opt_all P (f x)) \<Longrightarrow> opt_all P (Option.bind a f)"
  by (cases a) simp_all

lemma opt_all_map: "(\<And>x. a = Some x \<Longrightarrow> P (f x)) \<Longrightarrow> opt_all P (map_option f a)"
  by (cases a) simp_all

lemmas opt_all_intros = opt_all_if opt_all_bind opt_all_map

definition display_wf :: "display_context \<Rightarrow> bool" where
  "display_wf c \<longleftrightarrow>
     list_all (opt_all (\<lambda>s. chars_count s \<le> 160))
       [dc_project c, dc_task c, dc_model c, dc_effort c, dc_status c, dc_task_id c,
        dc_wait_reason c, dc_prompt c, dc_interaction_id c, dc_short_action c, dc_long_action c] \<and>
     list_all (opt_all (\<lambda>v. v \<le> 100))
       [dc_progress c, dc_weekly_remaining c, dc_five_hour_remaining c, dc_pending_wait_count c]"

lemma dc_string_field_Inr:
  "dc_string_field obj name = Inr r \<Longrightarrow> opt_all (\<lambda>s. chars_count s \<le> 160) r"
  by (auto simp: dc_string_field_def split: option.splits json.splits if_splits)

lemma dc_percentage_field_Inr: "dc_percentage_field obj name = Inr r \<Longrightarrow> opt_all (\<lambda>v. v \<le> 100) r"
  by (auto simp: dc_percentage_field_def res_bind_Inr_iff split: option.splits json.splits if_splits)

lemma dc_progress_field_Inr: "dc_progress_field obj = Inr r \<Longrightarrow> opt_all (\<lambda>v. v \<le> 100) r"
  by (auto simp: dc_progress_field_def res_bind_Inr_iff split: option.splits json.splits if_splits)

lemma check_fields_iff:
  "check_fields ks = Inr () \<longleftrightarrow> set ks \<subseteq> known_fields \<union> derived_fields"
  by (induction ks) auto

lemma map_of_rev_distinct: "distinct (map fst kvs) \<Longrightarrow> map_of (rev kvs) = map_of kvs"
  by (induction kvs) (auto simp: map_add_upd_left dom_map_of_conv_image_fst)

lemma context_fields_known: "set (map fst (context_fields c)) \<subseteq> known_fields \<union> derived_fields"
  by (simp add: context_fields_def known_fields_def derived_fields_def)

lemma fields_read:
  "map_of obj name = Some (jopt JStr x) \<Longrightarrow> opt_all (\<lambda>s. chars_count s \<le> 160) x \<Longrightarrow>
    dc_string_field obj name = Inr x"
  "map_of obj name = Some (jopt jnat y) \<Longrightarrow> opt_all (\<lambda>v. v \<le> 100) y \<Longrightarrow>
    dc_percentage_field obj name = Inr y"
  "map_of obj ''progress'' = Some (jopt jnat y) \<Longrightarrow> opt_all (\<lambda>v. v \<le> 100) y \<Longrightarrow>
    dc_progress_field obj = Inr y"
  "map_of obj name = Some (jopt jnat y) \<Longrightarrow> dc_timestamp_field obj name = Inr y"
  by (cases x; cases y; simp add: dc_string_field_def dc_percentage_field_def dc_progress_field_def
      dc_timestamp_field_def jnat_def)+

section \<open>Accepted device specifications\<close>

lemma device_option_Inr:
  "device_option part acc = Inr acc' \<Longrightarrow> opt_all (\<lambda>s. s \<noteq> []) (fst acc) \<Longrightarrow>
   opt_all (\<lambda>n. 1 \<le> n \<and> n \<le> 64) (snd acc) \<Longrightarrow>
   opt_all (\<lambda>s. s \<noteq> []) (fst acc') \<and> opt_all (\<lambda>n. 1 \<le> n \<and> n \<le> 64) (snd acc')"
  by (auto simp: device_option_def res_bind_Inr_iff split: if_splits prod.splits)

lemma device_options_Inr:
  "device_options parts acc = Inr acc' \<Longrightarrow> opt_all (\<lambda>s. s \<noteq> []) (fst acc) \<Longrightarrow>
   opt_all (\<lambda>n. 1 \<le> n \<and> n \<le> 64) (snd acc) \<Longrightarrow>
   opt_all (\<lambda>s. s \<noteq> []) (fst acc') \<and> opt_all (\<lambda>n. 1 \<le> n \<and> n \<le> 64) (snd acc')"
proof (induction parts arbitrary: acc)
  case (Cons part parts)
  then obtain acc1 where a: "device_option part acc = Inr acc1" "device_options parts acc1 = Inr acc'"
    by (auto simp: res_bind_Inr_iff)
  from device_option_Inr [OF a(1) Cons.prems(2,3)] Cons.IH [OF a(2)] show ?case by simp
qed simp

section \<open>Properties\<close>

text \<open>
  C15. Whatever value an agent sends, a display context that is accepted has only known fields,
  strings of at most 160 characters, percentages of at most 100, and no usage labels: those are
  derived by the bridge and never read from agent input.
\<close>
theorem display_context_typed:
  assumes "display_from_value v = Inr c"
  shows "display_wf c \<and> dc_usage_agent c = None \<and> dc_agents_usage c = None \<and>
    (\<exists>obj. v = JObj obj \<and> set (map fst obj) \<subseteq> known_fields \<union> derived_fields)"
proof -
  from assms obtain obj where obj: "v = JObj obj" "check_fields (map fst obj) = Inr ()"
    by (cases v) (auto simp: display_from_value_def res_bind_Inr_iff)
  then have "set (map fst obj) \<subseteq> known_fields \<union> derived_fields"
    by (simp only: check_fields_iff)
  with assms obj show ?thesis
    by (auto simp: display_from_value_def res_bind_Inr_iff display_wf_def dest: dc_string_field_Inr
        dc_percentage_field_Inr dc_progress_field_Inr)
qed

theorem display_context_typed_witness:
  "\<exists>c. display_from_value (jobj [(''progress'', jnat 42), (''usage_agent'', JStr ''zcode'')]) = Inr c \<and>
     display_wf c \<and> dc_usage_agent c = None"
proof -
  let ?v = "jobj [(''progress'', jnat 42), (''usage_agent'', JStr ''zcode'')]"
  have "display_from_value ?v = Inr (display_default\<lparr>dc_progress := Some 42\<rparr>)" by code_simp
  with display_context_typed [of ?v] show ?thesis by blast
qed

text \<open>
  The context written for the displays reads back as itself, without the two usage labels
  that only the bridge fills in.
\<close>
theorem display_context_roundtrip:
  assumes "display_wf c"
  shows "display_from_value (display_to_value c) = Inr (c\<lparr>dc_usage_agent := None, dc_agents_usage := None\<rparr>)"
proof -
  obtain obj where obj: "display_to_value c = JObj obj" by (simp add: display_to_value_def jobj_def)
  have "map_of obj k = map_of (rev (context_fields c)) k" for k
    using obj jget_jobj [of k "context_fields c"] by (simp add: display_to_value_def)
  then have get: "map_of obj = map_of (rev (context_fields c))" by (rule ext)
  have "set (map fst obj) = dom (map_of obj)" by (simp add: dom_map_of_conv_image_fst)
  also have "\<dots> = set (map fst (context_fields c))"
    unfolding get by (simp add: dom_map_of_conv_image_fst)
  finally have k: "check_fields (map fst obj) = Inr ()"
    by (simp only: check_fields_iff context_fields_known)
  have "map_of (rev (context_fields c)) = map_of (context_fields c)"
    by (rule map_of_rev_distinct) (simp add: context_fields_def)
  with get have "map_of obj = map_of (context_fields c)" by simp
  with k show ?thesis
    using assms by (simp add: obj display_from_value_def fields_read display_wf_def context_fields_def)
qed

theorem display_context_roundtrip_witness:
  "display_from_value (display_to_value (display_default\<lparr>dc_progress := Some 42, dc_usage_agent := Some ''zcode''\<rparr>)) =
     Inr (display_default\<lparr>dc_progress := Some 42\<rparr>)"
  using display_context_roundtrip [of "display_default\<lparr>dc_progress := Some 42, dc_usage_agent := Some ''zcode''\<rparr>"]
  by (simp add: display_wf_def display_default_def)

text \<open>
  A device specification that is accepted names a physical controller that the command line
  can select, with a serial that is not empty and a slot count from 1 to 64 where one is given.
\<close>
theorem device_spec_valid:
  assumes "device_parse arg = Inr spec"
  shows "is_physical (spec_kind spec) \<and> spec_kind spec \<noteq> StreamDeckPlugin \<and>
    kind_parse (hd (split_on CHR '','' arg)) = Inr (spec_kind spec) \<and>
    opt_all (\<lambda>s. s \<noteq> []) (spec_serial spec) \<and> opt_all (\<lambda>n. 1 \<le> n \<and> n \<le> 64) (spec_slots spec)"
proof -
  have "split_on CHR '','' arg \<noteq> []" by (cases arg) (auto split: list.splits)
  then obtain p ps where p: "split_on CHR '','' arg = p # ps" by (cases "split_on CHR '','' arg") auto
  with assms have r: "res_bind (kind_parse p) (\<lambda>kind. res_bind (device_options ps (None, None))
      (\<lambda>(serial, slots). if \<not> is_physical kind then Inl ''--device requires a physical controller''
        else Inr \<lparr>spec_kind = kind, spec_serial = serial, spec_slots = slots\<rparr>)) = Inr spec"
    by (simp add: device_parse_def)
  then obtain kind acc where s: "kind_parse p = Inr kind" "device_options ps (None, None) = Inr acc"
    by (auto simp: res_bind_Inr_iff)
  with r have "is_physical kind"
      "spec = \<lparr>spec_kind = kind, spec_serial = fst acc, spec_slots = snd acc\<rparr>"
    by (auto simp: case_prod_beta split: if_splits)
  moreover from s(1) have "kind \<noteq> StreamDeckPlugin"
    by (auto simp: kind_parse_def split: if_splits)
  ultimately show ?thesis using device_options_Inr [OF s(2)] p s(1) by simp
qed

theorem device_spec_valid_witness:
  "\<exists>spec. device_parse ''streamdeck-plus,serial=ABC,task-slots=8'' = Inr spec \<and>
     opt_all (\<lambda>n. 1 \<le> n \<and> n \<le> 64) (spec_slots spec)"
proof -
  have "device_parse ''streamdeck-plus,serial=ABC,task-slots=8'' =
      Inr \<lparr>spec_kind = StreamDeckPlus, spec_serial = Some ''ABC'', spec_slots = Some 8\<rparr>"
    by (simp add: device_parse_def kind_parse_def device_option_def is_physical_def parse_usize_def
        from_str_radix_def to_digit_def)
  with device_spec_valid show ?thesis by blast
qed

end
