(* ===== verification/Plugin_Controller.thy ===== *)
theory Plugin_Controller
  imports Controller Routing
begin

text \<open>
  The virtual controller of a Stream Deck plugin session (\<open>plugin_controller.rs\<close>): its inbound
  messages (events, capacity, ping, new task) and its four outbound render channels, each of
  which suppresses a value equal to the last one it sent. The two ends of the session's channels
  are the environment: the messages waiting on the inbound side and whether that side is closed,
  and the lines written on the outbound side and whether it still has a reader. The foreground
  windows of the desktop are an argument of the step.
\<close>

section \<open>Inbound events\<close>

definition MAX_PLUGIN_TASK_SLOTS :: nat where "MAX_PLUGIN_TASK_SLOTS = 64"

text \<open>\<open>as u8\<close> truncates.\<close>

definition as_u8 :: "nat \<Rightarrow> nat" where
  "as_u8 n = n mod 256"

definition msg_str :: "string \<Rightarrow> json \<Rightarrow> string option" where
  "msg_str k v = Option.bind (jget k v) as_str"

definition msg_index :: "json \<Rightarrow> nat option" where
  "msg_index v = map_option as_u8 (Option.bind (jget ''index'' v) as_u64)"

definition msg_pressed :: "json \<Rightarrow> bool" where
  "msg_pressed v = (case Option.bind (jget ''pressed'' v) as_bool of None \<Rightarrow> True | Some b \<Rightarrow> b)"

definition event_task_id :: "json \<Rightarrow> string option option" where
  "event_task_id message =
     (case jget ''task_id'' message of
        None \<Rightarrow> Some None
      | Some (JStr task_id) \<Rightarrow>
          if task_id \<noteq> [] \<and> chars_count task_id \<le> 160 then Some (Some task_id) else None
      | Some _ \<Rightarrow> None)"

definition micro_key_index :: "string \<Rightarrow> nat option" where
  "micro_key_index key =
     (if key \<in> set [''AG00'', ''AG01'', ''AG02'', ''AG03'', ''AG04'', ''AG05'']
      then Some (of_char (key ! 3) - 48)
      else if key \<in> set [''ACT06'', ''ACT07'', ''ACT08''] then Some (of_char (key ! 4) - 48)
      else None)"

definition parse_event :: "json \<Rightarrow> physical_event option" where
  "parse_event message =
     Option.bind (msg_str ''kind'' message) (\<lambda>kind.
       if kind = ''button'' then
         map_option (\<lambda>i. Button i (msg_pressed message)) (msg_index message)
       else if kind = ''task-button'' then
         Option.bind (msg_index message) (\<lambda>i.
           map_option (TaskButton i (msg_pressed message)) (event_task_id message))
       else if kind = ''task-toggle'' then
         Option.bind (msg_index message) (\<lambda>i. map_option (TaskToggle i) (event_task_id message))
       else if kind = ''task-action'' then
         Option.bind (msg_index message) (\<lambda>i.
         Option.bind (msg_str ''gesture'' message) (\<lambda>g.
         Option.bind (if g = ''short'' then Some 0 else if g = ''long'' then Some 1 else None) (\<lambda>gesture.
           map_option (TaskAction i gesture) (event_task_id message))))
       else if kind = ''micro-key'' then
         Option.bind (msg_str ''key'' message) (\<lambda>key.
           map_option (\<lambda>i. MicroButton i (msg_pressed message)) (micro_key_index key))
       else if kind = ''catalog-action'' then
         Option.bind (msg_str ''action'' message) (\<lambda>a. map_option CatalogEvent (catalog_parse a))
       else if kind = ''model-cycle'' then Some ModelCycle
       else if kind = ''usage-agent'' then
         map_option UsageSelect (Option.bind (msg_str ''agent'' message) usage_agent_parse)
       else if kind = ''encoder-turn'' then
         map_option (\<lambda>i. EncoderTurn i (clamp (- 127) 127
           (case Option.bind (jget ''delta'' message) as_i64 of None \<Rightarrow> 1 | Some d \<Rightarrow> d)))
           (msg_index message)
       else if kind = ''encoder-button'' then
         map_option (\<lambda>i. EncoderButton i (msg_pressed message)) (msg_index message)
       else None)"

section \<open>The controller\<close>

record plugin_controller =
  pc_device_id :: string
  pc_instance_id :: string
  pc_task_slots :: nat
  pc_slot_agents :: "(nat, agent_id) bmap"
  pc_disconnected :: bool
  last_task_cards :: "json option"
  last_thread_status :: "json option"
  last_display_context :: "json option"
  last_rgb_config :: "json option"
  pc_inbox :: "json list"
  pc_inbox_closed :: bool
  pc_writer_closed :: bool
  pc_sent :: "json list"

definition plugin_new :: "string \<Rightarrow> nat \<Rightarrow> plugin_controller" where
  "plugin_new instance_id task_slots =
     \<lparr>pc_device_id = ''streamdeck-plugin:'' @ instance_id, pc_instance_id = instance_id,
      pc_task_slots = min task_slots MAX_PLUGIN_TASK_SLOTS, pc_slot_agents = [],
      pc_disconnected = False, last_task_cards = None, last_thread_status = None,
      last_display_context = None, last_rgb_config = None, pc_inbox = [], pc_inbox_closed = False,
      pc_writer_closed = False, pc_sent = []\<rparr>"

definition plugin_send :: "json \<Rightarrow> plugin_controller \<Rightarrow> (string + unit) \<times> plugin_controller" where
  "plugin_send message c =
     (if pc_disconnected c then (Inl ''plugin controller disconnected'', c)
      else if pc_writer_closed c then (Inl ''plugin session writer closed'', c)
      else (Inr (), c\<lparr>pc_sent := pc_sent c @ [message]\<rparr>))"

definition send_or_disconnect :: "json \<Rightarrow> plugin_controller \<Rightarrow> plugin_controller" where
  "send_or_disconnect message c =
     (case plugin_send message c of
        (Inl _, c) \<Rightarrow> c\<lparr>pc_disconnected := True\<rparr>
      | (Inr _, c) \<Rightarrow> c)"

definition plugin_agent :: "json \<Rightarrow> agent_id option" where
  "plugin_agent v = Option.bind (as_str v) (map_of
     [(''codex'', Codex), (''zcode'', ZCode), (''hermes'', Hermes), (''claude'', Claude)])"

definition override_entry ::
  "nat \<Rightarrow> string \<times> json \<Rightarrow> (nat, agent_id) bmap \<Rightarrow> (nat, agent_id) bmap" where
  "override_entry slots e m =
     (case parse_usize (fst e) of
        None \<Rightarrow> m
      | Some slot \<Rightarrow>
          if slot \<ge> slots then m
          else (case plugin_agent (snd e) of None \<Rightarrow> m | Some agent \<Rightarrow> bm_insert slot agent m))"

definition apply_capacity :: "json \<Rightarrow> plugin_controller \<Rightarrow> plugin_controller" where
  "apply_capacity message c =
     (let c = (case Option.bind (jget ''taskSlots'' message) as_u64 of
                 None \<Rightarrow> c
               | Some slots \<Rightarrow> c\<lparr>pc_task_slots := min slots MAX_PLUGIN_TASK_SLOTS\<rparr>)
      in case Option.bind (jget ''slotAgents'' message) as_object of
           None \<Rightarrow> c
         | Some m \<Rightarrow> c\<lparr>pc_slot_agents := fold (override_entry (pc_task_slots c)) m []\<rparr>)"

text \<open>
  The desktop as \<open>new-task\<close> sees it: whether ZCode or Hermes is the foreground window, and
  whether the new-session shortcut of Hermes succeeds.
\<close>

record desktop =
  zcode_foreground :: bool
  hermes_foreground :: bool
  hermes_shortcut_ok :: bool

definition new_task_handled :: "desktop \<Rightarrow> bool" where
  "new_task_handled d =
     (if zcode_foreground d then True else if hermes_foreground d then hermes_shortcut_ok d else False)"

definition handle_inbound ::
  "desktop \<Rightarrow> json \<Rightarrow> plugin_controller \<Rightarrow> physical_event option \<times> plugin_controller" where
  "handle_inbound d message c =
     (let kind = (case msg_str ''type'' message of None \<Rightarrow> [] | Some k \<Rightarrow> k) in
      if kind = ''event'' then (parse_event message, c)
      else if kind = ''capacity'' then (None, apply_capacity message c)
      else if kind = ''ping'' then
        (let timestamp = (case jget ''timestamp'' message of None \<Rightarrow> JNull | Some t \<Rightarrow> t) in
         (None, send_or_disconnect (jobj [(''type'', JStr ''pong''), (''timestamp'', timestamp)]) c))
      else if kind = ''new-task'' then
        (None, send_or_disconnect (jobj [(''type'', JStr ''new-task-result''),
           (''handled'', JBool (new_task_handled d))]) c)
      else (None, c))"

fun handle_all ::
  "desktop \<Rightarrow> json list \<Rightarrow> plugin_controller \<Rightarrow> physical_event list \<times> plugin_controller" where
  "handle_all d [] c = ([], c)"
| "handle_all d (m # ms) c =
     (let (e, c) = handle_inbound d m c; (es, c) = handle_all d ms c
      in ((case e of None \<Rightarrow> es | Some e \<Rightarrow> e # es), c))"

text \<open>
  \<open>poll\<close>: everything waiting on the channel is handled; when the channel then turns out to be
  closed, the events are dropped with the error.
\<close>

definition plugin_poll ::
  "desktop \<Rightarrow> plugin_controller \<Rightarrow> (string + physical_event list) \<times> plugin_controller" where
  "plugin_poll d c =
     (let (es, c') = handle_all d (pc_inbox c) (c\<lparr>pc_inbox := []\<rparr>)
      in if pc_inbox_closed c' then (Inl ''plugin session closed'', c'\<lparr>pc_disconnected := True\<rparr>)
         else (Inr es, c'))"

section \<open>Outbound channels\<close>

definition render_line :: "string \<Rightarrow> json \<Rightarrow> json" where
  "render_line name v = jobj [(''type'', JStr ''render''), (''render'', JStr name), (name, v)]"

definition apply_task_cards ::
  "json list \<Rightarrow> plugin_controller \<Rightarrow> (string + unit) \<times> plugin_controller" where
  "apply_task_cards cards c =
     (let v = JArr cards in
      if last_task_cards c = Some v then (Inr (), c)
      else (case plugin_send (render_line ''taskCards'' v) c of
              (Inl e, c) \<Rightarrow> (Inl e, c)
            | (Inr _, c) \<Rightarrow> (Inr (), c\<lparr>last_task_cards := Some v\<rparr>)))"

definition apply_thread_status ::
  "json \<Rightarrow> plugin_controller \<Rightarrow> (string + unit) \<times> plugin_controller" where
  "apply_thread_status v c =
     (if last_thread_status c = Some v then (Inr (), c)
      else (case plugin_send (render_line ''threadStatus'' v) c of
              (Inl e, c) \<Rightarrow> (Inl e, c)
            | (Inr _, c) \<Rightarrow> (Inr (), c\<lparr>last_thread_status := Some v\<rparr>)))"

definition apply_rgb_config ::
  "json \<Rightarrow> plugin_controller \<Rightarrow> (string + unit) \<times> plugin_controller" where
  "apply_rgb_config v c =
     (if last_rgb_config c = Some v then (Inr (), c)
      else (case plugin_send (render_line ''rgbConfig'' v) c of
              (Inl e, c) \<Rightarrow> (Inl e, c)
            | (Inr _, c) \<Rightarrow> (Inr (), c\<lparr>last_rgb_config := Some v\<rparr>)))"

definition apply_display_context ::
  "display_context \<Rightarrow> plugin_controller \<Rightarrow> (string + unit) \<times> plugin_controller" where
  "apply_display_context ctx c =
     (let v = display_to_value ctx in
      if last_display_context c = Some v then (Inr (), c)
      else (case plugin_send (render_line ''displayContext'' v) c of
              (Inl e, c) \<Rightarrow> (Inl e, c)
            | (Inr _, c) \<Rightarrow> (Inr (), c\<lparr>last_display_context := Some v\<rparr>)))"

definition slot_agent_overrides :: "plugin_controller \<Rightarrow> (nat \<times> agent_id) list option" where
  "slot_agent_overrides c = (if pc_slot_agents c = [] then None else Some (pc_slot_agents c))"

text \<open>\<open>shutdown\<close>: the goodbye is written past the disconnection flag, its failure ignored.\<close>

definition plugin_shutdown :: "plugin_controller \<Rightarrow> plugin_controller" where
  "plugin_shutdown c =
     (let c = c\<lparr>pc_disconnected := True\<rparr>
      in if pc_writer_closed c then c
         else c\<lparr>pc_sent := pc_sent c @ [jobj [(''type'', JStr ''goodbye'')]]\<rparr>)"

text \<open>\<open>parse_controller_hello\<close>; the JSON parser is the argument \<open>from_str\<close>.\<close>

definition parse_controller_hello :: "(string \<Rightarrow> json option) \<Rightarrow> string \<Rightarrow> (string \<times> nat) option" where
  "parse_controller_hello from_str line =
     Option.bind (from_str line) (\<lambda>v.
       if msg_str ''bridge'' v \<noteq> Some ''hello'' then None
       else if msg_str ''role'' v \<noteq> Some ''controller'' then None
       else if msg_str ''controller'' v \<noteq> Some ''streamdeck-plugin'' then None
       else
         Option.bind (msg_str ''instance_id'' v) (\<lambda>instance_id.
           if instance_id \<noteq> [] \<and> chars_count instance_id \<le> 160 then
             Some (instance_id, min MAX_PLUGIN_TASK_SLOTS
               (case Option.bind (jget ''taskSlots'' v) as_u64 of None \<Rightarrow> 0 | Some n \<Rightarrow> n))
           else None))"

section \<open>A channel that suppresses repetitions\<close>

fun dedup_after :: "'a option \<Rightarrow> 'a list \<Rightarrow> 'a list" where
  "dedup_after l [] = []"
| "dedup_after l (x # xs) = (if l = Some x then dedup_after l xs else x # dedup_after (Some x) xs)"

lemma remdups_adj_dedup: "remdups_adj (x # xs) = x # dedup_after (Some x) xs"
  by (induction xs arbitrary: x) auto

lemma dedup_after_None: "dedup_after None xs = remdups_adj xs"
  by (cases xs) (simp_all add: remdups_adj_dedup)

text \<open>
  The contract of one channel: \<open>last_of\<close> is the last value it transmitted, \<open>lines\<close> the values
  transmitted so far and \<open>enc\<close> the value that is compared and sent for an argument.
\<close>

locale render_channel =
  fixes apply_op :: "'v \<Rightarrow> 'c \<Rightarrow> (string + unit) \<times> 'c"
    and last_of :: "'c \<Rightarrow> json option"
    and lines :: "'c \<Rightarrow> json list"
    and enc :: "'v \<Rightarrow> json"
    and is_open :: "'c \<Rightarrow> bool"
  assumes same: "last_of c = Some (enc v) \<Longrightarrow> apply_op v c = (Inr (), c)"
    and fresh: "is_open c \<Longrightarrow> last_of c \<noteq> Some (enc v) \<Longrightarrow>
      fst (apply_op v c) = Inr () \<and> last_of (snd (apply_op v c)) = Some (enc v) \<and>
      lines (snd (apply_op v c)) = lines c @ [enc v] \<and> is_open (snd (apply_op v c))"
    and failed: "\<not> is_open c \<Longrightarrow> last_of c \<noteq> Some (enc v) \<Longrightarrow> \<exists>e. apply_op v c = (Inl e, c)"
begin

lemma apply_open:
  "is_open c \<Longrightarrow> fst (apply_op v c) = Inr () \<and> is_open (snd (apply_op v c)) \<and>
   last_of (snd (apply_op v c)) = Some (enc v)"
  using same [of c v] fresh [of c v] by (cases "last_of c = Some (enc v)") simp_all

lemma apply_lines:
  "is_open c \<Longrightarrow> lines (snd (apply_op v c)) @ dedup_after (Some (enc v)) vs =
     lines c @ dedup_after (last_of c) (enc v # vs)"
  using same [of c v] fresh [of c v] by (cases "last_of c = Some (enc v)") simp_all

text \<open>
  Operations of this channel among others that leave it alone: \<open>mine\<close> picks the argument of an
  operation of this channel.
\<close>

lemma run_lines:
  assumes "\<And>r c v. mine r = Some v \<Longrightarrow> step r c = snd (apply_op v c)"
    and "\<And>r c. mine r = None \<Longrightarrow> is_open c \<Longrightarrow> last_of (step r c) = last_of c \<and>
      lines (step r c) = lines c \<and> is_open (step r c)"
    and "is_open c"
  shows "lines (fold step rs c) = lines c @ dedup_after (last_of c) (map enc (List.map_filter mine rs))"
  using assms(3)
proof (induction rs arbitrary: c)
  case (Cons r rs)
  show ?case
  proof (cases "mine r")
    case None
    with assms(2) [of r c] Cons show ?thesis by (simp add: List.map_filter_simps)
  next
    case (Some v)
    with assms(1) [of r v c] apply_open [OF Cons.prems, of v] Cons.IH [of "step r c"]
      apply_lines [OF Cons.prems, of v] show ?thesis
      by (simp add: List.map_filter_simps)
  qed
qed (simp add: List.map_filter_simps)

end

section \<open>The four channels\<close>

definition plugin_open :: "plugin_controller \<Rightarrow> bool" where
  "plugin_open c \<longleftrightarrow> \<not> pc_disconnected c \<and> \<not> pc_writer_closed c"

text \<open>The values among the written lines that belong to one channel.\<close>

definition channel_value :: "string \<Rightarrow> json \<Rightarrow> json option" where
  "channel_value name l = (if jget ''render'' l = Some (JStr name) then jget name l else None)"

definition channel_lines :: "string \<Rightarrow> plugin_controller \<Rightarrow> json list" where
  "channel_lines name c = List.map_filter (channel_value name) (pc_sent c)"

lemma channel_value_line:
  "name \<notin> {''type'', ''render''} \<Longrightarrow>
   channel_value n (render_line name v) = (if n = name then Some v else None)"
  by (auto simp: channel_value_def render_line_def jget_jobj)

lemma map_filter_append: "List.map_filter f (xs @ ys) = List.map_filter f xs @ List.map_filter f ys"
  by (simp add: List.map_filter_def)

lemma plugin_send_open:
  "plugin_open c \<Longrightarrow> plugin_send m c = (Inr (), c\<lparr>pc_sent := pc_sent c @ [m]\<rparr>)"
  by (simp add: plugin_send_def plugin_open_def)

lemma plugin_send_closed: "\<not> plugin_open c \<Longrightarrow> \<exists>e. \<forall>m. plugin_send m c = (Inl e, c)"
  by (cases "pc_disconnected c") (simp_all add: plugin_send_def plugin_open_def)

lemmas channel_defs = apply_task_cards_def apply_thread_status_def apply_rgb_config_def
  apply_display_context_def Let_def channel_lines_def map_filter_append List.map_filter_simps
  channel_value_line

lemma plugin_open_update [simp]:
  "plugin_open (c\<lparr>pc_sent := l\<rparr>) = plugin_open c"
  "plugin_open (c\<lparr>last_task_cards := x\<rparr>) = plugin_open c"
  "plugin_open (c\<lparr>last_thread_status := x\<rparr>) = plugin_open c"
  "plugin_open (c\<lparr>last_rgb_config := x\<rparr>) = plugin_open c"
  "plugin_open (c\<lparr>last_display_context := x\<rparr>) = plugin_open c"
  by (simp_all add: plugin_open_def)

interpretation cards: render_channel apply_task_cards last_task_cards "channel_lines ''taskCards''" JArr plugin_open
proof
  show "\<not> plugin_open c \<Longrightarrow> last_task_cards c \<noteq> Some (JArr v) \<Longrightarrow> \<exists>e. apply_task_cards v c = (Inl e, c)" for c v
    using plugin_send_closed [of c] by (auto simp: channel_defs)
qed (simp_all add: channel_defs plugin_send_open)

interpretation status: render_channel apply_thread_status last_thread_status "channel_lines ''threadStatus''" id plugin_open
proof
  show "\<not> plugin_open c \<Longrightarrow> last_thread_status c \<noteq> Some (id v) \<Longrightarrow> \<exists>e. apply_thread_status v c = (Inl e, c)" for c v
    using plugin_send_closed [of c] by (auto simp: channel_defs)
qed (simp_all add: channel_defs plugin_send_open)

interpretation rgb: render_channel apply_rgb_config last_rgb_config "channel_lines ''rgbConfig''" id plugin_open
proof
  show "\<not> plugin_open c \<Longrightarrow> last_rgb_config c \<noteq> Some (id v) \<Longrightarrow> \<exists>e. apply_rgb_config v c = (Inl e, c)" for c v
    using plugin_send_closed [of c] by (auto simp: channel_defs)
qed (simp_all add: channel_defs plugin_send_open)

interpretation display: render_channel apply_display_context last_display_context
  "channel_lines ''displayContext''" display_to_value plugin_open
proof
  show "\<not> plugin_open c \<Longrightarrow> last_display_context c \<noteq> Some (display_to_value v) \<Longrightarrow>
      \<exists>e. apply_display_context v c = (Inl e, c)" for c v
    using plugin_send_closed [of c] by (auto simp: channel_defs)
qed (simp_all add: channel_defs plugin_send_open)

text \<open>A render request of the daemon, for any of the channels.\<close>

datatype render = RCards "json list" | RStatus json | RRgb json | RDisplay display_context

fun apply_render :: "render \<Rightarrow> plugin_controller \<Rightarrow> (string + unit) \<times> plugin_controller" where
  "apply_render (RCards v) c = apply_task_cards v c"
| "apply_render (RStatus v) c = apply_thread_status v c"
| "apply_render (RRgb v) c = apply_rgb_config v c"
| "apply_render (RDisplay v) c = apply_display_context v c"

definition renders :: "render list \<Rightarrow> plugin_controller \<Rightarrow> plugin_controller" where
  "renders = fold (\<lambda>r c. snd (apply_render r c))"

fun cards_of :: "render \<Rightarrow> json list option" where
  "cards_of (RCards v) = Some v" | "cards_of _ = None"

fun status_of :: "render \<Rightarrow> json option" where
  "status_of (RStatus v) = Some v" | "status_of _ = None"

fun rgb_of :: "render \<Rightarrow> json option" where
  "rgb_of (RRgb v) = Some v" | "rgb_of _ = None"

fun display_of :: "render \<Rightarrow> display_context option" where
  "display_of (RDisplay v) = Some v" | "display_of _ = None"

lemma plugin_new_fresh:
  "plugin_open (plugin_new i n)" "channel_lines name (plugin_new i n) = []"
  "last_task_cards (plugin_new i n) = None" "last_thread_status (plugin_new i n) = None"
  "last_rgb_config (plugin_new i n) = None" "last_display_context (plugin_new i n) = None"
  by (simp_all add: plugin_new_def plugin_open_def channel_lines_def List.map_filter_simps)

lemma render_frame:
  "plugin_open c \<Longrightarrow> plugin_open (snd (apply_render r c))"
  "cards_of r = None \<Longrightarrow> plugin_open c \<Longrightarrow> last_task_cards (snd (apply_render r c)) = last_task_cards c \<and>
     channel_lines ''taskCards'' (snd (apply_render r c)) = channel_lines ''taskCards'' c"
  "status_of r = None \<Longrightarrow> plugin_open c \<Longrightarrow> last_thread_status (snd (apply_render r c)) = last_thread_status c \<and>
     channel_lines ''threadStatus'' (snd (apply_render r c)) = channel_lines ''threadStatus'' c"
  "rgb_of r = None \<Longrightarrow> plugin_open c \<Longrightarrow> last_rgb_config (snd (apply_render r c)) = last_rgb_config c \<and>
     channel_lines ''rgbConfig'' (snd (apply_render r c)) = channel_lines ''rgbConfig'' c"
  "display_of r = None \<Longrightarrow> plugin_open c \<Longrightarrow> last_display_context (snd (apply_render r c)) = last_display_context c \<and>
     channel_lines ''displayContext'' (snd (apply_render r c)) = channel_lines ''displayContext'' c"
  by (cases r; simp add: channel_defs plugin_send_open)+

lemma render_mine:
  "cards_of r = Some v1 \<Longrightarrow> apply_render r c = apply_task_cards v1 c"
  "status_of r = Some v2 \<Longrightarrow> apply_render r c = apply_thread_status v2 c"
  "rgb_of r = Some v2 \<Longrightarrow> apply_render r c = apply_rgb_config v2 c"
  "display_of r = Some v3 \<Longrightarrow> apply_render r c = apply_display_context v3 c"
  by (cases r; simp)+

section \<open>Events and capacity\<close>

text \<open>An event that fits the Rust type: \<open>u8\<close> and \<open>i8\<close> fields, bounded task identifiers.\<close>

definition task_id_ok :: "string option \<Rightarrow> bool" where
  "task_id_ok t = opt_all (\<lambda>s. s \<noteq> [] \<and> chars_count s \<le> 160) t"

fun event_ok :: "physical_event \<Rightarrow> bool" where
  "event_ok (Button i _) = (i < 256)"
| "event_ok (TaskButton i _ t) = (i < 256 \<and> task_id_ok t)"
| "event_ok (TaskToggle i t) = (i < 256 \<and> task_id_ok t)"
| "event_ok (TaskAction i g t) = (i < 256 \<and> g \<le> 1 \<and> task_id_ok t)"
| "event_ok (MicroButton i _) = (i \<le> 8)"
| "event_ok (EncoderTurn i d) = (i < 256 \<and> - 127 \<le> d \<and> d \<le> 127)"
| "event_ok (EncoderButton i _) = (i < 256)"
| "event_ok _ = True"

lemma msg_index_less: "msg_index m = Some i \<Longrightarrow> i < 256"
  by (auto simp: msg_index_def as_u8_def)

lemma event_task_id_ok: "event_task_id m = Some t \<Longrightarrow> task_id_ok t"
  by (auto simp: event_task_id_def task_id_ok_def split: option.splits json.splits if_splits)

lemma micro_key_index_le: "micro_key_index key = Some i \<Longrightarrow> i \<le> 8"
proof -
  have ag: "\<forall>k \<in> set [''AG00'', ''AG01'', ''AG02'', ''AG03'', ''AG04'', ''AG05'']. of_char (k ! 3) - 48 \<le> (8 :: nat)"
    and act: "\<forall>k \<in> set [''ACT06'', ''ACT07'', ''ACT08'']. of_char (k ! 4) - 48 \<le> (8 :: nat)"
    by code_simp+
  show "micro_key_index key = Some i \<Longrightarrow> i \<le> 8"
    unfolding micro_key_index_def by (metis ag act option.inject option.distinct(1))
qed

lemma clamp_i8: "- 127 \<le> clamp (- 127) 127 (x :: int) \<and> clamp (- 127) 127 x \<le> 127"
  by (rule clamp_bounds) simp

lemma parse_event_ok: "opt_all event_ok (parse_event m)"
  unfolding parse_event_def
  by (intro opt_all_intros)
    (simp_all add: clamp_i8 msg_index_less event_task_id_ok micro_key_index_le split: if_splits)

lemma override_entry_keys:
  assumes "bm_invar m" and "fst ` set m \<subseteq> {..<n}"
  shows "bm_invar (override_entry n e m) \<and> fst ` set (override_entry n e m) \<subseteq> {..<n}"
  using assms by (auto simp: override_entry_def bm.invar_insert split: option.splits)

lemma override_entries_keys:
  "bm_invar m \<Longrightarrow> fst ` set m \<subseteq> {..<n} \<Longrightarrow>
   bm_invar (fold (override_entry n) es m) \<and> fst ` set (fold (override_entry n) es m) \<subseteq> {..<n}"
proof (induction es arbitrary: m)
  case (Cons e es)
  with override_entry_keys [of m n e] show ?case by simp
qed simp

text \<open>The overrides are a map on slots below the maximum, whatever the plugin sends.\<close>

definition overrides_ok :: "plugin_controller \<Rightarrow> bool" where
  "overrides_ok c \<longleftrightarrow> pc_task_slots c \<le> MAX_PLUGIN_TASK_SLOTS \<and> bm_invar (pc_slot_agents c) \<and>
     fst ` set (pc_slot_agents c) \<subseteq> {..<MAX_PLUGIN_TASK_SLOTS}"

lemma apply_capacity_ok: "overrides_ok c \<Longrightarrow> overrides_ok (apply_capacity m c)"
proof -
  assume c: "overrides_ok c"
  have e: "n \<le> MAX_PLUGIN_TASK_SLOTS \<Longrightarrow> bm_invar (fold (override_entry n) es []) \<and>
      fst ` set (fold (override_entry n) es []) \<subseteq> {..<MAX_PLUGIN_TASK_SLOTS}" for n es
    using override_entries_keys [of "[]" n es] by auto
  show ?thesis
    using c e by (simp add: apply_capacity_def overrides_ok_def Let_def split: option.split)
qed

lemma send_or_disconnect_fields:
  "pc_task_slots (send_or_disconnect m c) = pc_task_slots c"
  "pc_slot_agents (send_or_disconnect m c) = pc_slot_agents c"
  by (simp_all add: send_or_disconnect_def plugin_send_def)

lemma handle_inbound_ok: "overrides_ok c \<Longrightarrow> overrides_ok (snd (handle_inbound d m c))"
  using apply_capacity_ok [of c m]
  by (simp add: handle_inbound_def Let_def overrides_ok_def send_or_disconnect_fields)

lemma handle_inbound_event: "fst (handle_inbound d m c) = Some e \<Longrightarrow> event_ok e"
  using parse_event_ok [of m] by (auto simp: handle_inbound_def Let_def split: if_splits)

lemma handle_all_ok:
  "overrides_ok c \<Longrightarrow> overrides_ok (snd (handle_all d ms c)) \<and> list_all event_ok (fst (handle_all d ms c))"
proof (induction ms arbitrary: c)
  case (Cons m ms)
  from Cons.IH [OF handle_inbound_ok [OF Cons.prems, of d m]] handle_inbound_event [of d m c]
  show ?case by (simp add: case_prod_beta split: option.split)
qed simp

section \<open>Properties\<close>

text \<open>
  C16. Each of the four render channels of a plugin session writes exactly the values requested of
  it, in their order, with every repetition of the value written last left out, whatever the
  requests to the other channels in between.
\<close>
theorem renders_deduplicated:
  "channel_lines ''taskCards'' (renders rs (plugin_new i n)) =
     remdups_adj (map JArr (List.map_filter cards_of rs)) \<and>
   channel_lines ''threadStatus'' (renders rs (plugin_new i n)) =
     remdups_adj (List.map_filter status_of rs) \<and>
   channel_lines ''rgbConfig'' (renders rs (plugin_new i n)) =
     remdups_adj (List.map_filter rgb_of rs) \<and>
   channel_lines ''displayContext'' (renders rs (plugin_new i n)) =
     remdups_adj (map display_to_value (List.map_filter display_of rs))"
  unfolding renders_def
  using cards.run_lines [of cards_of "\<lambda>r c. snd (apply_render r c)" "plugin_new i n" rs]
    status.run_lines [of status_of "\<lambda>r c. snd (apply_render r c)" "plugin_new i n" rs]
    rgb.run_lines [of rgb_of "\<lambda>r c. snd (apply_render r c)" "plugin_new i n" rs]
    display.run_lines [of display_of "\<lambda>r c. snd (apply_render r c)" "plugin_new i n" rs]
  by (simp add: render_mine render_frame plugin_new_fresh dedup_after_None)

text \<open>
  Whatever messages a plugin session sends, every event a poll delivers fits the fields of
  the event type (an index is a byte, a turn is from -127 to 127, a task identifier has 1 to 160
  characters), and the slot overrides stay a map on at most 64 slots.
\<close>
theorem plugin_poll_typed:
  assumes "overrides_ok c"
  shows "overrides_ok (snd (plugin_poll d c)) \<and>
    (case fst (plugin_poll d c) of Inl _ \<Rightarrow> True | Inr es \<Rightarrow> list_all event_ok es)"
proof -
  have "overrides_ok (c\<lparr>pc_inbox := []\<rparr>)" using assms by (simp add: overrides_ok_def)
  from handle_all_ok [OF this, of d "pc_inbox c"] show ?thesis
    by (simp add: plugin_poll_def case_prod_beta overrides_ok_def)
qed

theorem plugin_poll_typed_witness:
  "overrides_ok (snd (plugin_poll \<lparr>zcode_foreground = False, hermes_foreground = False, hermes_shortcut_ok = False\<rparr>
     (plugin_new ''i'' 100)))"
  using plugin_poll_typed [of "plugin_new ''i'' 100"]
  by (simp add: overrides_ok_def plugin_new_def MAX_PLUGIN_TASK_SLOTS_def)

text \<open>
  Two messages the controller accepts although they name no slot of the plugin: the index of
  an event is truncated to a byte, so that 256 is taken as a press of slot 0, and a capacity
  message that lowers the number of slots without a new owner map keeps the overrides of slots
  that no longer exist.
\<close>
theorem plugin_message_aliases:
  "parse_event (jobj [(''kind'', JStr ''button''), (''index'', jnat (256 * k + i))]) =
     parse_event (jobj [(''kind'', JStr ''button''), (''index'', jnat i)]) \<and>
   slot_agent_overrides (apply_capacity (jobj [(''taskSlots'', jnat 2)])
     (apply_capacity (jobj [(''taskSlots'', jnat 6), (''slotAgents'', jobj [(''5'', JStr ''zcode'')])])
        (plugin_new ''i'' 0))) = Some [(5, ZCode)]"
proof
  show "parse_event (jobj [(''kind'', JStr ''button''), (''index'', jnat (256 * k + i))]) =
      parse_event (jobj [(''kind'', JStr ''button''), (''index'', jnat i)])"
    by (simp add: parse_event_def msg_str_def msg_index_def msg_pressed_def as_u8_def jget_jobj)
  have m: "as_object (jobj [(''5'', JStr ''zcode'')]) = Some [(''5'', JStr ''zcode'')]"
    by (simp add: jobj_def)
  show "slot_agent_overrides (apply_capacity (jobj [(''taskSlots'', jnat 2)])
      (apply_capacity (jobj [(''taskSlots'', jnat 6), (''slotAgents'', jobj [(''5'', JStr ''zcode'')])])
        (plugin_new ''i'' 0))) = Some [(5, ZCode)]"
    by (simp add: slot_agent_overrides_def apply_capacity_def jget_jobj m plugin_new_def override_entry_def
        plugin_agent_def parse_usize_def from_str_radix_def to_digit_def MAX_PLUGIN_TASK_SLOTS_def)
qed

end
