(* ===== verification/Task_Model.thy ===== *)
theory Task_Model
  imports Routing
begin

text \<open>
  Task cards and the parsing of what agents publish (first and last part of \<open>tasks.rs\<close>): task
  states, the controller-facing title, interactions, and \<open>parse_task\<close> with its field parsers.
  Every error return of the code is an \<open>Inl\<close> with the message of the code; the order of the
  checks is the order of the code.
\<close>

section \<open>Constants and task states\<close>

definition RECONNECT_GRACE_MS :: nat where "RECONNECT_GRACE_MS = 30000"
definition CODEX_TASK_SLOTS :: nat where "CODEX_TASK_SLOTS = 9"
definition CODEX_HID_SLOTS :: nat where "CODEX_HID_SLOTS = 6"

datatype task_state =
    Queued | Running | Thinking | Waiting | Error | Paused | Completed | Reconnecting

definition task_state_parse :: "string option \<Rightarrow> string + task_state" where
  "task_state_parse value =
     (let v = (case value of None \<Rightarrow> ''queued'' | Some s \<Rightarrow> s) in
      if v \<in> {''queued'', ''idle'', ''ready''} then Inr Queued
      else if v \<in> {''running'', ''active'', ''working''} then Inr Running
      else if v = ''thinking'' then Inr Thinking
      else if v \<in> {''waiting'', ''blocked''} then Inr Waiting
      else if v \<in> {''error'', ''failed''} then Inr Error
      else if v = ''paused'' then Inr Paused
      else if v \<in> {''completed'', ''complete'', ''done''} then Inr Completed
      else if v = ''reconnecting'' then Inr Reconnecting
      else Inl (''unsupported task state: '' @ v))"

fun task_state_str :: "task_state \<Rightarrow> string" where
  "task_state_str Queued = ''queued''"
| "task_state_str Running = ''running''"
| "task_state_str Thinking = ''thinking''"
| "task_state_str Waiting = ''waiting''"
| "task_state_str Error = ''error''"
| "task_state_str Paused = ''paused''"
| "task_state_str Completed = ''completed''"
| "task_state_str Reconnecting = ''reconnecting''"

fun rank :: "task_state \<Rightarrow> nat" where
  "rank Waiting = 0"
| "rank Error = 0"
| "rank Running = 1"
| "rank Thinking = 1"
| "rank Queued = 2"
| "rank Paused = 2"
| "rank Completed = 3"
| "rank Reconnecting = 4"

definition state_active :: "task_state \<Rightarrow> bool" where
  "state_active s \<longleftrightarrow> s = Running \<or> s = Thinking"

definition eligible :: "task_state \<Rightarrow> bool" where
  "eligible s \<longleftrightarrow> s \<noteq> Reconnecting"

fun display_color :: "task_state \<Rightarrow> nat" where
  "display_color Queued = 0x37474F"
| "display_color Reconnecting = 0x37474F"
| "display_color Running = 0x1565C0"
| "display_color Thinking = 0x6A1B9A"
| "display_color Waiting = 0xEF6C00"
| "display_color Paused = 0xEF6C00"
| "display_color Error = 0xB71C1C"
| "display_color Completed = 0x1B5E20"

definition from_hid_color :: "nat \<Rightarrow> task_state option" where
  "from_hid_color color =
     (if color = 0x1565C0 then Some Running
      else if color = 0x6A1B9A then Some Thinking
      else if color = 0xEF6C00 then Some Waiting
      else if color = 0xB71C1C then Some Error
      else if color = 0x2E7D32 \<or> color = 0x1B5E20 then Some Completed
      else if color = 0x0277BD \<or> color = 0x37474F then Some Queued
      else None)"

lemma task_state_parse_str [simp]: "task_state_parse (Some (task_state_str s)) = Inr s"
  by (cases s) (simp_all add: task_state_parse_def)

lemma from_hid_color_display:
  "from_hid_color (display_color s) =
     Some (if s = Reconnecting then Queued else if s = Paused then Waiting else s)"
  by (cases s) (simp_all add: from_hid_color_def)

section \<open>Controller-facing titles\<close>

text \<open>The separator: a space, an em dash (three bytes) and a space.\<close>

definition DASH :: string where
  "DASH = [CHR '' '', char_of (226 :: nat), char_of (128 :: nat), char_of (148 :: nat), CHR '' '']"

definition strip_slot_number :: "string \<Rightarrow> string" where
  "strip_slot_number title =
     (case split_once DASH title of
        Some (number, remainder) \<Rightarrow>
          (case parse_usize number of
             Some n \<Rightarrow> if 1 \<le> n \<and> n \<le> CODEX_TASK_SLOTS then remainder else title
           | None \<Rightarrow> title)
      | None \<Rightarrow> title)"

definition display_task_title :: "nat \<Rightarrow> string \<Rightarrow> string" where
  "display_task_title slot title =
     (if slot \<ge> CODEX_TASK_SLOTS then title
      else
        let title = strip_slot_number title;
            prefix = show_nat (slot + 1) @ DASH;
            remaining = 160 - chars_count prefix
        in if title = [] then show_nat (slot + 1) else prefix @ chars_take remaining title)"

section \<open>Cards\<close>

record task_action =
  action_id :: string
  action_label :: string
  action_name :: string
  action_payload :: json

record task_interaction =
  interaction_id :: string
  interaction_kind :: string
  interaction_prompt :: string
  short_action :: "task_action option"
  long_action :: "task_action option"
  expires_at_ms :: "nat option"

record task_card =
  task_id :: string
  owner_session :: nat
  owner_agent :: agent_id
  title :: string
  project :: "string option"
  workspace_path :: "string option"
  model :: "string option"
  effort :: "string option"
  task_state :: task_state
  priority :: nat
  color :: "nat option"
  brightness :: nat
  progress :: "nat option"
  task_context :: json
  legacy_key :: "string option"
  source_slot :: "nat option"
  timing_authoritative :: bool
  updated_at_ms :: nat
  started_at_ms :: "nat option"
  finished_at_ms :: "nat option"
  reconnect_until_ms :: "nat option"
  interaction :: "task_interaction option"

text \<open>\<open>task_order\<close>: state rank, then higher priority, then latest update, then the id.\<close>

definition task_order :: "task_card \<Rightarrow> task_card \<Rightarrow> ordering" where
  "task_order a b =
     then_cmp (cmp (rank (task_state a)) (rank (task_state b)))
       (then_cmp (cmp (priority b) (priority a))
         (then_cmp (cmp (updated_at_ms b) (updated_at_ms a))
           (cmp (task_id a) (task_id b))))"

definition is_selection_transition :: "task_state \<Rightarrow> task_state \<Rightarrow> bool" where
  "is_selection_transition previous observed \<longleftrightarrow>
     previous \<noteq> observed \<and> (previous = Queued \<or> state_active previous) \<and>
     (observed = Queued \<or> state_active observed)"

section \<open>Field parsers\<close>

definition parse_timestamp_ms :: "json option \<Rightarrow> string + nat option" where
  "parse_timestamp_ms value =
     (case value of
        None \<Rightarrow> Inr None
      | Some JNull \<Rightarrow> Inr None
      | Some (JNum n) \<Rightarrow>
          (case num_as_u64 n of
             Some t \<Rightarrow> Inr (Some t)
           | None \<Rightarrow> Inl ''task timestamp must be a non-negative integer'')
      | Some _ \<Rightarrow> Inl ''task timestamp must be an integer or null'')"

definition parse_color :: "json option \<Rightarrow> string + nat option" where
  "parse_color value =
     (case value of
        None \<Rightarrow> Inr None
      | Some JNull \<Rightarrow> Inr None
      | Some (JNum n) \<Rightarrow>
          (case num_as_u64 n of
             Some v \<Rightarrow> Inr (Some (take_bit 24 v))
           | None \<Rightarrow> Inl ''color must be an integer or #RRGGBB'')
      | Some (JStr s) \<Rightarrow>
          (let raw = (case strip_prefix ''#'' s of Some r \<Rightarrow> r | None \<Rightarrow> s) in
           if length raw \<noteq> 6 then Inl ''color must be #RRGGBB''
           else
             (case from_str_radix 16 0xFFFFFFFF raw of
                Some c \<Rightarrow> Inr (Some c)
              | None \<Rightarrow> Inl ''color must be #RRGGBB''))
      | Some _ \<Rightarrow> Inl ''color must be an integer, #RRGGBB, or null'')"

definition parse_brightness :: "json option \<Rightarrow> string + nat" where
  "parse_brightness value =
     (case value of
        None \<Rightarrow> Inr 100
      | Some JNull \<Rightarrow> Inr 100
      | Some (JNum n) \<Rightarrow>
          (case num_as_f64 n of
             None \<Rightarrow> Inl ''brightness must be numeric''
           | Some v \<Rightarrow>
               (let normalized = (if v \<le> 1 then f64_mul v 100 else v) in
                if \<not> (0 \<le> normalized \<and> normalized \<le> 100)
                then Inl ''brightness must be from 0 to 100''
                else Inr (f64_as_u8 (f64_nearest normalized))))
      | Some _ \<Rightarrow> Inl ''brightness must be numeric or null'')"

definition parse_progress :: "json option \<Rightarrow> string + nat option" where
  "parse_progress value =
     (case value of
        None \<Rightarrow> Inr None
      | Some JNull \<Rightarrow> Inr None
      | Some v \<Rightarrow>
          res_bind (ok_or ''progress must be an integer'' (as_u64 v))
            (\<lambda>p. if p \<le> 255 then Inr (Some p) else Inl ''progress must be from 0 to 100''))"

text \<open>\<open>text(key, true)\<close> of \<open>parse_interaction\<close>: the three required texts.\<close>

definition interaction_text :: "(string, json) bmap \<Rightarrow> string \<Rightarrow> string + string" where
  "interaction_text object key =
     (case map_of object key of
        Some (JStr v) \<Rightarrow>
          if chars_count v \<le> 160 \<and> trim v \<noteq> [] then Inr v
          else Inl (''interaction field '' @ key @ '' must be non-empty and at most 160 characters'')
      | None \<Rightarrow> Inl (''interaction field '' @ key @ '' is required'')
      | Some _ \<Rightarrow> Inl (''interaction field '' @ key @ '' must be a string''))"

definition interaction_action :: "(string, json) bmap \<Rightarrow> string \<Rightarrow> string + task_action option" where
  "interaction_action object key =
     (case map_of object key of
        None \<Rightarrow> Inr None
      | Some v \<Rightarrow>
          res_bind (ok_or (''interaction action '' @ key @ '' must be an object'') (as_object v))
            (\<lambda>item.
               let field = (\<lambda>f. ok_or (''interaction action '' @ key @ ''.'' @ f @ '' is required'')
                                 (Option.bind (map_of item f) as_str))
               in res_bind (field ''id'') (\<lambda>i.
                  res_bind (field ''label'') (\<lambda>l.
                  res_bind (field ''action'') (\<lambda>a.
                    Inr (Some \<lparr>action_id = i, action_label = l, action_name = a,
                      action_payload =
                        (case map_of item ''payload'' of None \<Rightarrow> JNull | Some p \<Rightarrow> p)\<rparr>))))))"

definition approve_action :: task_action where
  "approve_action = \<lparr>action_id = ''approve'', action_label = ''Approve'',
     action_name = ''approve'', action_payload = JNull\<rparr>"

definition reject_action :: task_action where
  "reject_action = \<lparr>action_id = ''reject'', action_label = ''Reject'',
     action_name = ''reject'', action_payload = JNull\<rparr>"

definition parse_interaction :: "json option \<Rightarrow> string + task_interaction option" where
  "parse_interaction value =
     (case value of
        None \<Rightarrow> Inr None
      | Some v \<Rightarrow>
          res_bind (ok_or ''interaction must be an object'' (as_object v)) (\<lambda>object.
          res_bind (interaction_text object ''id'') (\<lambda>i.
          res_bind (interaction_text object ''kind'') (\<lambda>k.
          res_bind (interaction_text object ''prompt'') (\<lambda>p.
          res_bind (parse_timestamp_ms (map_of object ''expires_at_ms'')) (\<lambda>e.
          res_bind (interaction_action object ''short'') (\<lambda>s.
          res_bind (interaction_action object ''long'') (\<lambda>l.
            let s = (if k = ''approval'' then or_else s (Some approve_action) else s);
                l = (if k = ''approval'' then or_else l (Some reject_action) else l)
            in Inr (Some \<lparr>interaction_id = i, interaction_kind = k, interaction_prompt = p,
                          short_action = s, long_action = l, expires_at_ms = e\<rparr>)))))))))"

definition interaction_action_value :: "task_action \<Rightarrow> json" where
  "interaction_action_value a =
     jobj [(''id'', JStr (action_id a)), (''label'', JStr (action_label a)),
           (''action'', JStr (action_name a)), (''payload'', action_payload a)]"

definition interaction_value :: "task_interaction \<Rightarrow> json" where
  "interaction_value i =
     jobj [(''id'', JStr (interaction_id i)), (''kind'', JStr (interaction_kind i)),
           (''prompt'', JStr (interaction_prompt i)),
           (''short'', jopt interaction_action_value (short_action i)),
           (''long'', jopt interaction_action_value (long_action i)),
           (''expires_at_ms'', jopt jnat (expires_at_ms i))]"

section \<open>Parsing a task\<close>

text \<open>\<open>text_field\<close>: the field of the object or, when it is absent there, of its context.\<close>

definition text_field :: "(string, json) bmap \<Rightarrow> json \<Rightarrow> string \<Rightarrow> string option" where
  "text_field object ctx key =
     (case Option.bind (or_else (map_of object key) (jget key ctx)) as_str of
        None \<Rightarrow> None
      | Some v \<Rightarrow> if trim v = [] then None else Some (chars_take 160 (trim v)))"

definition task_identity ::
  "(string, json) bmap \<Rightarrow> (string \<times> string) option \<Rightarrow> string + string \<times> string option" where
  "task_identity object legacy =
     (case legacy of
        Some (i, key) \<Rightarrow> Inr (i, Some key)
      | None \<Rightarrow>
          res_bind (ok_or ''task_id is required''
              (Option.bind (or_else (map_of object ''task_id'') (map_of object ''id'')) as_str))
            (\<lambda>i. Inr (i, Option.bind (map_of object ''legacy_key'') as_str)))"

definition task_title :: "(string, json) bmap \<Rightarrow> json \<Rightarrow> string option \<Rightarrow> string" where
  "task_title object ctx legacy =
     (let t = (case or_else (text_field object ctx ''title'')
                 (or_else (text_field object ctx ''task'')
                   (map_option (chars_take 160) (Option.bind (map_of object ''t'') as_str))) of
                 None \<Rightarrow> [] | Some t \<Rightarrow> t)
      in if legacy = Some t then [] else t)"

definition hid_color_state :: "(string, json) bmap \<Rightarrow> string option \<Rightarrow> task_state option" where
  "hid_color_state object legacy =
     (case legacy of
        None \<Rightarrow> None
      | Some _ \<Rightarrow>
          (case or_else (map_of object ''color'') (map_of object ''c'') of
             None \<Rightarrow> None
           | Some v \<Rightarrow>
               (case parse_color (Some v) of
                  Inr (Some c) \<Rightarrow> from_hid_color c
                | _ \<Rightarrow> None)))"

definition task_lifecycle :: "(string, json) bmap \<Rightarrow> string option \<Rightarrow> string + task_state" where
  "task_lifecycle object legacy =
     (let explicit = Option.bind (or_else (map_of object ''state'') (map_of object ''status'')) as_str;
          effect = Option.bind (map_of object ''e'') as_u64
      in case hid_color_state object legacy of
           Some s \<Rightarrow> Inr s
         | None \<Rightarrow>
             (case explicit of
                Some s \<Rightarrow> task_state_parse (Some s)
              | None \<Rightarrow>
                  if legacy \<noteq> None \<and> effect = Some 1 then Inr Queued
                  else if legacy \<noteq> None \<and> (case effect of None \<Rightarrow> 1 | Some e \<Rightarrow> e) > 1 then Inr Running
                  else task_state_parse None))"

definition task_source_slot :: "(string, json) bmap \<Rightarrow> string option \<Rightarrow> nat option" where
  "task_source_slot object legacy =
     or_else (Option.bind (map_of object ''source_slot'') as_u64)
       (Option.bind legacy (\<lambda>key. Option.bind (strip_prefix ''AG0'' key) parse_usize))"

definition parse_task ::
  "nat \<Rightarrow> agent_id \<Rightarrow> json \<Rightarrow> nat \<Rightarrow> (string \<times> string) option \<Rightarrow> string + task_card" where
  "parse_task session agent item now_ms legacy =
     res_bind (ok_or ''each task must be an object'' (as_object item)) (\<lambda>object.
     res_bind (task_identity object legacy) (\<lambda>(tid, key).
     if tid = [] \<or> chars_count tid > 160 then Inl ''task_id must be from 1 to 160 characters''
     else
       let key = (if key = Some [] then None else key);
           ctx = (case map_of object ''context'' of None \<Rightarrow> JNull | Some c \<Rightarrow> c)
       in
     res_bind (parse_interaction (map_of object ''interaction'')) (\<lambda>inter.
     res_bind (task_lifecycle object key) (\<lambda>state.
     let prio = (case Option.bind (map_of object ''priority'') as_u64 of None \<Rightarrow> 50 | Some p \<Rightarrow> p) in
     if prio > 100 then Inl ''priority must be from 0 to 100''
     else
     res_bind (parse_progress (map_of object ''progress'')) (\<lambda>prog.
     res_bind (parse_color (or_else (map_of object ''color'') (map_of object ''c''))) (\<lambda>col.
     res_bind (parse_brightness (or_else (map_of object ''brightness'') (map_of object ''b''))) (\<lambda>bright.
     res_bind (parse_timestamp_ms (map_of object ''started_at_ms'')) (\<lambda>started.
     res_bind (parse_timestamp_ms (map_of object ''finished_at_ms'')) (\<lambda>finished.
     let timing =
           (Option.bind (map_of object ''timing_authoritative'') as_bool = Some True \<or>
            map_of object ''started_at_ms'' \<noteq> None \<or> map_of object ''finished_at_ms'' \<noteq> None)
     in Inr
       \<lparr>task_id = tid, owner_session = session, owner_agent = agent,
        title = task_title object ctx key,
        project = text_field object ctx ''project'',
        workspace_path = text_field object ctx ''workspace_path'',
        model = text_field object ctx ''model'',
        effort = text_field object ctx ''effort'',
        task_state = state, priority = prio, color = col, brightness = bright, progress = prog,
        task_context = ctx, legacy_key = key,
        source_slot = task_source_slot object key,
        timing_authoritative = timing, updated_at_ms = now_ms,
        started_at_ms =
          or_else started (if \<not> timing \<and> state_active state then Some now_ms else None),
        finished_at_ms =
          or_else finished (if \<not> timing \<and> state = Completed then Some now_ms else None),
        reconnect_until_ms = None, interaction = inter\<rparr>)))))))))"

section \<open>Bounds of the field parsers\<close>

lemma parse_color_less: "parse_color v = Inr (Some c) \<Longrightarrow> c < 16777216"
  using take_bit_nat_less_exp [of 24]
  by (auto simp: parse_color_def Let_def split: option.splits json.splits if_splits
      dest!: from_str_radix_less [where n = 6])

lemma parse_brightness_Inr:
  assumes "parse_brightness v = Inr b"
  shows "b = 100 \<or> (\<exists>x. 0 \<le> x \<and> x \<le> 100 \<and> b = f64_as_u8 (f64_nearest x))"
proof (cases "v = None \<or> v = Some JNull")
  case True
  with assms show ?thesis by (auto simp: parse_brightness_def)
next
  case False
  with assms obtain n x where v: "v = Some (JNum n)" "num_as_f64 n = Some x"
    by (auto simp: parse_brightness_def split: option.splits json.splits)
  define y where "y = (if x \<le> 1 then f64_mul x 100 else x)"
  from assms v have "(if \<not> (0 \<le> y \<and> y \<le> 100) then Inl ''brightness must be from 0 to 100''
      else Inr (f64_as_u8 (f64_nearest y))) = Inr b"
    by (simp only: parse_brightness_def option.case json.case Let_def y_def)
  then have "0 \<le> y" "y \<le> 100" "b = f64_as_u8 (f64_nearest y)"
    by (simp_all split: if_split_asm)
  then show ?thesis by blast
qed

lemma parse_brightness_le: "parse_brightness v = Inr b \<Longrightarrow> b \<le> 100"
  using parse_brightness_Inr [of v b] f64_nearest_bounds [of _ 100] f64_as_u8_le [of _ 100]
  by fastforce

lemma parse_progress_le: "parse_progress v = Inr (Some p) \<Longrightarrow> p \<le> 255"
  by (auto simp: parse_progress_def res_bind_Inr_iff split: option.splits json.splits if_splits)

lemma text_field_le: "text_field object ctx key = Some v \<Longrightarrow> chars_count v \<le> 160 \<and> v \<noteq> []"
  by (auto simp: text_field_def chars_take_le chars_take_eq_Nil split: option.splits if_splits)

lemma task_title_le: "chars_count (task_title object ctx legacy) \<le> 160"
proof -
  have none: "chars_count [] \<le> 160" by (simp add: chars_count_def)
  let ?c = "or_else (text_field object ctx ''title'')
     (or_else (text_field object ctx ''task'')
       (map_option (chars_take 160) (Option.bind (map_of object ''t'') as_str)))"
  have "chars_count t \<le> 160" if "?c = Some t" for t
    using that text_field_le [of object ctx _ t]
    by (auto simp: or_else_def chars_take_le split: option.splits)
  with none show ?thesis
    by (cases ?c) (simp_all add: task_title_def Let_def)
qed

text \<open>What \<open>parse_task\<close> guarantees of every card it returns.\<close>

definition card_bounds :: "task_card \<Rightarrow> bool" where
  "card_bounds t \<longleftrightarrow>
     task_id t \<noteq> [] \<and> chars_count (task_id t) \<le> 160 \<and> chars_count (title t) \<le> 160 \<and>
     (\<forall>f \<in> {project t, workspace_path t, model t, effort t}.
        \<forall>v. f = Some v \<longrightarrow> v \<noteq> [] \<and> chars_count v \<le> 160) \<and>
     priority t \<le> 100 \<and> brightness t \<le> 100 \<and>
     (\<forall>c. color t = Some c \<longrightarrow> c < 16777216) \<and> (\<forall>p. progress t = Some p \<longrightarrow> p \<le> 255) \<and>
     legacy_key t \<noteq> Some [] \<and> reconnect_until_ms t = None"

lemma parse_task_unfold:
  assumes "parse_task session agent item now legacy = Inr t"
  obtains object key
  where "as_object item = Some object" "task_identity object legacy = Inr (task_id t, key)"
    "task_id t \<noteq> []" "chars_count (task_id t) \<le> 160"
    "legacy_key t = (if key = Some [] then None else key)"
    "owner_session t = session" "owner_agent t = agent" "updated_at_ms t = now"
    "reconnect_until_ms t = None" "priority t \<le> 100"
    "task_lifecycle object (legacy_key t) = Inr (task_state t)"
    "parse_progress (map_of object ''progress'') = Inr (progress t)"
    "parse_color (or_else (map_of object ''color'') (map_of object ''c'')) = Inr (color t)"
    "parse_brightness (or_else (map_of object ''brightness'') (map_of object ''b'')) = Inr (brightness t)"
    "title t = task_title object (task_context t) (legacy_key t)"
    "project t = text_field object (task_context t) ''project''"
    "workspace_path t = text_field object (task_context t) ''workspace_path''"
    "model t = text_field object (task_context t) ''model''"
    "effort t = text_field object (task_context t) ''effort''"
    "source_slot t = task_source_slot object (legacy_key t)"
    "parse_interaction (map_of object ''interaction'') = Inr (interaction t)"
proof -
  obtain object where o: "as_object item = Some object"
    using assms by (cases "as_object item") (simp_all add: parse_task_def)
  obtain tid key where i: "task_identity object legacy = Inr (tid, key)"
    using assms o by (cases "task_identity object legacy") (auto simp: parse_task_def)
  have tid: "tid \<noteq> []" "chars_count tid \<le> 160"
    using assms o i by (simp_all add: parse_task_def split: if_split_asm)
  define k where "k = (if key = Some [] then None else key)"
  note unfold = assms [unfolded parse_task_def, simplified o i ok_or_simps res_bind_simps
      prod.case Let_def, folded k_def]
  obtain inter where inter: "parse_interaction (map_of object ''interaction'') = Inr inter"
    using unfold tid by (cases "parse_interaction (map_of object ''interaction'')") simp_all
  obtain st where st: "task_lifecycle object k = Inr st"
    using unfold tid inter by (cases "task_lifecycle object k") simp_all
  define prio where "prio = (case Option.bind (map_of object ''priority'') as_u64 of None \<Rightarrow> 50 | Some p \<Rightarrow> p)"
  have prio: "prio \<le> 100"
    using unfold tid inter st by (simp add: prio_def split: if_split_asm)
  let ?c = "parse_color (or_else (map_of object ''color'') (map_of object ''c''))"
  let ?b = "parse_brightness (or_else (map_of object ''brightness'') (map_of object ''b''))"
  let ?s = "parse_timestamp_ms (map_of object ''started_at_ms'')"
  let ?f = "parse_timestamp_ms (map_of object ''finished_at_ms'')"
  obtain prog where prog: "parse_progress (map_of object ''progress'') = Inr prog"
    using unfold tid inter st prio [unfolded prio_def]
    by (cases "parse_progress (map_of object ''progress'')") simp_all
  obtain col where col: "?c = Inr col"
    using unfold tid inter st prio [unfolded prio_def] prog by (cases ?c) simp_all
  obtain bright where bright: "?b = Inr bright"
    using unfold tid inter st prio [unfolded prio_def] prog col by (cases ?b) simp_all
  obtain started where started: "?s = Inr started"
    using unfold tid inter st prio [unfolded prio_def] prog col bright by (cases ?s) simp_all
  obtain finished where finished: "?f = Inr finished"
    using unfold tid inter st prio [unfolded prio_def] prog col bright started by (cases ?f) simp_all
  from unfold tid inter st prio [unfolded prio_def] prog col bright started finished
  show ?thesis
    using o i by (intro that [of object key]) (auto simp: k_def [symmetric])
qed

lemma parse_task_owner:
  "parse_task session agent item now legacy = Inr t \<Longrightarrow>
   owner_session t = session \<and> owner_agent t = agent \<and> reconnect_until_ms t = None"
  by (erule parse_task_unfold) simp

lemma parse_task_legacy_id:
  "parse_task session agent item now (Some (i, k)) = Inr t \<Longrightarrow> task_id t = i"
  by (erule parse_task_unfold) (simp add: task_identity_def)

interpretation task_order: comparator task_order
  unfolding task_order_def
  by (intro comparator_then comparator_cmp comparator_rev [OF comparator_cmp])

lemma task_order_Equal: "task_order a b = Equal \<Longrightarrow> task_id a = task_id b"
  by (auto simp: task_order_def then_cmp_eq cmp_def split: if_splits)

section \<open>Titles\<close>

lemma chars_count_DASH: "chars_count DASH = 3"
  by (simp add: DASH_def chars_count_def cont_byte_def)

lemma show_nat_digit: "n < 10 \<Longrightarrow> show_nat n = [digit_char n]"
  by (simp add: show_nat.simps)

lemma split_once_prefix:
  assumes "slot < 9"
  shows "split_once DASH (show_nat (slot + 1) @ DASH @ t) = Some (show_nat (slot + 1), t)"
proof -
  have digit: "show_nat (slot + 1) = [digit_char (slot + 1)]"
    using assms by (simp add: show_nat_digit)
  have "digit_char (slot + 1) \<noteq> CHR '' ''"
    using assms to_digit_digit_char [of "slot + 1"] by (auto simp: to_digit_def)
  then have "strip_prefix DASH (digit_char (slot + 1) # DASH @ t) = None"
    by (simp add: DASH_def)
  moreover have "split_once DASH (DASH @ t) = Some ([], t)"
    using strip_prefix_append [of DASH t] by (simp add: DASH_def)
  ultimately show ?thesis using digit by simp
qed

lemma strip_slot_number_prefix:
  "slot < CODEX_TASK_SLOTS \<Longrightarrow> strip_slot_number (show_nat (slot + 1) @ DASH @ t) = t"
  by (simp add: strip_slot_number_def CODEX_TASK_SLOTS_def split_once_prefix [simplified] parse_show_nat)

lemma chars_count_prefix: "slot < 9 \<Longrightarrow> chars_count (show_nat (slot + 1) @ DASH) = 4"
proof -
  assume "slot < 9"
  then have "\<not> cont_byte (digit_char (slot + 1))"
    by (simp add: cont_byte_def digit_char_def)
  with \<open>slot < 9\<close> show ?thesis
    using chars_count_append [of "[digit_char (slot + 1)]" DASH]
    by (simp add: show_nat_digit chars_count_DASH) (simp add: chars_count_def)
qed

lemma display_task_title_small:
  assumes "slot < CODEX_TASK_SLOTS"
  shows "display_task_title slot t =
    (if strip_slot_number t = [] then show_nat (slot + 1)
     else show_nat (slot + 1) @ DASH @ chars_take 156 (strip_slot_number t))"
  using assms chars_count_prefix [of slot]
  by (simp add: display_task_title_def CODEX_TASK_SLOTS_def Let_def)

section \<open>Properties\<close>

text \<open>
  A card that \<open>parse_task\<close> accepts is within the documented limits: an identifier of 1 to
  160 characters, titles and labels of at most 160 characters, priority and brightness of
  at most 100, a 24-bit colour, no empty legacy key and no reconnect lease. (Progress is
  only limited to 255, see \<open>progress_above_100_accepted\<close>.)
\<close>
theorem parsed_card_within_limits:
  assumes "parse_task session agent item now legacy = Inr t"
  shows "card_bounds t \<and> owner_session t = session \<and> owner_agent t = agent \<and> updated_at_ms t = now"
  using assms
  by (elim parse_task_unfold)
    (auto simp: card_bounds_def task_title_le dest: text_field_le
      intro: parse_brightness_le parse_color_less parse_progress_le)

lemmas parse_eval = parse_task_def task_identity_def task_title_def text_field_def task_lifecycle_def
  task_state_parse_def hid_color_state_def task_source_slot_def parse_interaction_def
  parse_progress_def parse_color_def parse_brightness_def parse_timestamp_ms_def Let_def

theorem parsed_card_within_limits_witness:
  "\<exists>t. parse_task 3 ZCode (JObj [(''priority'', jnat 100), (''task_id'', JStr ''a'')]) 7 None = Inr t \<and>
     card_bounds t"
proof -
  let ?item = "JObj [(''priority'', jnat 100), (''task_id'', JStr ''a'')]"
  obtain t where "parse_task 3 ZCode ?item 7 None = Inr t"
    by (simp add: parse_eval chars_count_def cont_byte_def)
  with parsed_card_within_limits [OF this] show ?thesis by blast
qed

text \<open>
  The LCD effect and brightness are presentation only: for an entry of the status array
  without a state and without one of the semantic colours the lifecycle state is Queued or
  Running, never Completed, Error or Waiting.
\<close>
theorem hid_effect_is_presentation_only:
  assumes "parse_task session agent (JObj m) now (Some (i, key)) = Inr t"
    and "key \<noteq> []" and "map_of m ''state'' = None" and "map_of m ''status'' = None"
    and "hid_color_state m (Some key) = None"
  shows "task_state t =
     (if Option.bind (map_of m ''e'') as_u64 \<in> {None, Some 0, Some 1} then Queued else Running)"
  using assms
  by (elim parse_task_unfold)
    (auto simp: task_identity_def task_lifecycle_def task_state_parse_def Let_def
      split: if_splits option.splits)

theorem hid_effect_is_presentation_only_witness:
  "\<exists>t. parse_task 0 Codex (JObj [(''e'', jnat 4)]) 7 (Some (''codex-hid:2'', ''AG02'')) = Inr t \<and>
     task_state t = Running"
proof -
  let ?r = "parse_task 0 Codex (JObj [(''e'', jnat 4)]) 7 (Some (''codex-hid:2'', ''AG02''))"
  obtain t where r: "?r = Inr t"
    by (simp add: parse_eval chars_count_def cont_byte_def)
  from hid_effect_is_presentation_only [OF r] have "task_state t = Running"
    by (simp add: hid_color_state_def)
  with r show ?thesis by blast
qed

text \<open>
  The controller-facing title is idempotent, as its comment requires, whenever there is
  a title to show: a second pass through the render path neither adds a second slot number
  nor shortens the title further.
\<close>
theorem display_title_idempotent:
  assumes "strip_slot_number t \<noteq> []"
  shows "display_task_title slot (display_task_title slot t) = display_task_title slot t"
proof (cases "slot < CODEX_TASK_SLOTS")
  case True
  with assms show ?thesis
    by (simp add: display_task_title_small strip_slot_number_prefix [simplified] chars_take_eq_Nil)
next
  case False
  then show ?thesis by (simp add: display_task_title_def)
qed

theorem display_title_idempotent_witness:
  "display_task_title 0 (display_task_title 0 ''Deploy'') = display_task_title 0 ''Deploy''"
  by (rule display_title_idempotent) (simp add: strip_slot_number_def DASH_def)

text \<open>
  Without a title it is not: the first pass shows the bare slot number, and the second one
  takes that number for a title.
\<close>
lemma display_title_empty_not_idempotent:
  "display_task_title 0 (display_task_title 0 []) \<noteq> display_task_title 0 []"
  by (simp add: display_task_title_small CODEX_TASK_SLOTS_def strip_slot_number_def DASH_def
      show_nat_digit digit_char_def)

text \<open>
  The message says that progress must be from 0 to 100; the conversion only checks that it
  fits a byte. The same holds of a colour with a sign, which \<open>from_str_radix\<close> accepts.
\<close>
lemma progress_above_100_accepted: "parse_progress (Some (jnat 200)) = Inr (Some 200)"
  by (simp add: parse_progress_def jnat_def as_u64_def)

lemma signed_color_accepted: "parse_color (Some (JStr ''+12345'')) = Inr (Some 0x12345)"
  by (simp add: parse_color_def from_str_radix_def to_digit_def)

end
