(* ===== verification/Task_Alloc.thy ===== *)
theory Task_Alloc
  imports Task_Model
begin

text \<open>
  The state of the task board and its allocator (\<open>TaskBoard\<close> and \<open>reallocate\<close> in \<open>tasks.rs\<close>):
  tasks compete for the slots of the connected controllers. A reallocation evicts
  assignments that have become invalid, returns cards to the slot they held, pins Codex
  cards to their logical positions, and fills the free slots fairly. Each phase is a
  definition of its own; the theory \<open>Task_Alloc_Inv\<close> proves what they promise.
\<close>

section \<open>The board\<close>

datatype device_slot = DeviceSlot (device_id: string) (slot_index: nat)

text \<open>A \<open>TaskAssignment\<close> has the slot as its only field and is kept as that slot.\<close>

record task_board =
  tasks :: "(string, task_card) hmap"
  assignments :: "(string, device_slot) hmap"
  devices :: "(string, device_slot list) bmap"
  selected :: "string option"
  pending_selection :: "(string \<times> nat) option"
  reviewed_completions :: "string set"
  board_now_ms :: nat
  slot_owners :: "agent_id option list"
  partitioned_device_id :: "string option"
  selection_activation_guards :: "(string, nat) hmap"
  last_slots :: "(string, device_slot) hmap"
  primary_preferences :: "(string, nat) bmap"

definition board_new :: task_board where
  "board_new =
     \<lparr>tasks = [], assignments = [], devices = [], selected = None, pending_selection = None,
      reviewed_completions = {}, board_now_ms = 0, slot_owners = [],
      partitioned_device_id = None, selection_activation_guards = [], last_slots = [],
      primary_preferences = []\<rparr>"

type_synonym slots = "(string, device_slot) hmap"

text \<open>\<open>devices.values().flatten()\<close>, and \<open>assignments.values().any(|a| a.slot == slot)\<close>\<close>

definition available :: "task_board \<Rightarrow> device_slot list" where
  "available b = concat (map snd (devices b))"

definition occupied :: "slots \<Rightarrow> device_slot \<Rightarrow> bool" where
  "occupied asg s \<longleftrightarrow> list_ex (\<lambda>(i, s'). s' = s) asg"

definition get_opt :: "'a list \<Rightarrow> nat \<Rightarrow> 'a option" where
  "get_opt xs i = (if i < length xs then Some (xs ! i) else None)"

text \<open>
  The owner required of a slot: \<open>None\<close> without restriction, \<open>Some None\<close> for a slot that is
  reserved as unowned.
\<close>

definition slot_owner :: "task_board \<Rightarrow> device_slot \<Rightarrow> agent_id option option" where
  "slot_owner b s =
     (if partitioned_device_id b \<noteq> Some (device_id s) \<or> slot_owners b = [] then None
      else
        case get_opt (slot_owners b) (slot_index s) of
          Some None \<Rightarrow> if slot_index s \<ge> LCD_SLOTS then None else Some None
        | owner \<Rightarrow> owner)"

section \<open>The phases of a reallocation\<close>

definition drop_stale_selection :: "task_board \<Rightarrow> task_board" where
  "drop_stale_selection b =
     (case selected b of
        Some i \<Rightarrow>
          if map_of (tasks b) i = None then b\<lparr>selected := None, pending_selection := None\<rparr> else b
      | None \<Rightarrow> b)"

text \<open>Eviction: the closure given to \<open>assignments.retain\<close>.\<close>

definition keeps_slot :: "task_board \<Rightarrow> string \<Rightarrow> device_slot \<Rightarrow> bool" where
  "keeps_slot b i s =
     (case map_of (tasks b) i of
        None \<Rightarrow> False
      | Some t \<Rightarrow>
          (eligible (task_state t) \<or> reconnect_until_ms t \<noteq> None) \<and>
          s \<in> set (available b) \<and>
          (partitioned_device_id b \<noteq> Some (device_id s) \<or>
           (case get_opt (slot_owners b) (slot_index s) of
              None \<Rightarrow> True
            | Some owner \<Rightarrow>
                owner = Some (owner_agent t) \<or> (owner = None \<and> slot_index s \<ge> LCD_SLOTS))))"

definition evict :: "task_board \<Rightarrow> slots" where
  "evict b = hm_retain (keeps_slot b) (assignments b)"

text \<open>The sticky pass: the slot a card prefers, when it is free and compatible.\<close>

definition preferred_slot :: "task_board \<Rightarrow> string \<Rightarrow> device_slot option" where
  "preferred_slot b i =
     or_else
       (Option.bind (map_of (primary_preferences b) i)
         (\<lambda>slot. map_option (\<lambda>d. DeviceSlot d slot) (partitioned_device_id b)))
       (map_of (last_slots b) i)"

definition sticky_slot :: "task_board \<Rightarrow> slots \<Rightarrow> task_card \<Rightarrow> (string \<times> device_slot) option" where
  "sticky_slot b asg t =
     (if eligible (task_state t) \<and> map_of asg (task_id t) = None then
        (case preferred_slot b (task_id t) of
           None \<Rightarrow> None
         | Some s \<Rightarrow>
             (let free = (s \<in> set (available b) \<and> \<not> occupied asg s);
                  compatible =
                    (case slot_owner b s of None \<Rightarrow> True | Some owner \<Rightarrow> owner = Some (owner_agent t))
              in if free \<and> compatible then Some (task_id t, s) else None))
      else None)"

definition sticky_pass :: "task_board \<Rightarrow> slots \<Rightarrow> slots" where
  "sticky_pass b asg =
     fold (\<lambda>(i, s) a. if occupied a s then a else AList.update i s a)
       (List.map_filter (\<lambda>(i, t). sticky_slot b asg t) (tasks b)) asg"

text \<open>\<open>pin_codex_hid_primary_slots\<close>\<close>

definition HID_PREFIX :: string where "HID_PREFIX = ''codex-hid:''"

definition is_hid_id :: "string \<Rightarrow> bool" where
  "is_hid_id i \<longleftrightarrow> strip_prefix HID_PREFIX i \<noteq> None"

definition codex_may_own :: "task_board \<Rightarrow> nat \<Rightarrow> bool" where
  "codex_may_own b slot \<longleftrightarrow>
     slot_owners b = [] \<or>
     (case get_opt (slot_owners b) slot of Some (Some owner) \<Rightarrow> owner = Codex | _ \<Rightarrow> True)"

definition pin_of ::
  "task_board \<Rightarrow> slots \<Rightarrow> string \<Rightarrow> device_slot list \<Rightarrow> task_card \<Rightarrow> (string \<times> device_slot) option" where
  "pin_of b asg primary primary_slots t =
     (if \<not> is_hid_id (task_id t) \<and>
         (map_of asg (task_id t) \<noteq> None \<or>
          (case source_slot t of
             None \<Rightarrow> False
           | Some source \<Rightarrow>
               list_ex (\<lambda>(i, s). device_id s = primary \<and> slot_index s = source) asg))
      then None
      else if owner_agent t \<noteq> Codex then None
      else
        (case source_slot t of
           None \<Rightarrow> None
         | Some slot \<Rightarrow>
             if codex_may_own b slot
             then map_option (\<lambda>s. (task_id t, s)) (get_opt primary_slots slot)
             else None))"

definition pins :: "task_board \<Rightarrow> slots \<Rightarrow> (string \<times> device_slot) list" where
  "pins b asg =
     (case partitioned_device_id b of
        None \<Rightarrow> []
      | Some primary \<Rightarrow>
          (case map_of (devices b) primary of
             None \<Rightarrow> []
           | Some primary_slots \<Rightarrow>
               sort_by (\<lambda>x y. cmp (fst x) (fst y))
                 (List.map_filter (\<lambda>(i, t). pin_of b asg primary primary_slots t) (tasks b))))"

definition pin_slot :: "string \<times> device_slot \<Rightarrow> slots \<Rightarrow> slots" where
  "pin_slot p asg =
     AList.update (fst p) (snd p) (hm_retain (\<lambda>i s. i = fst p \<or> s \<noteq> snd p) asg)"

definition pin_pass :: "task_board \<Rightarrow> slots \<Rightarrow> slots" where
  "pin_pass b asg = fold pin_slot (pins b asg) asg"

text \<open>The free slots, primary controller first, and the waiting tasks of each session.\<close>

definition free_order :: "task_board \<Rightarrow> device_slot \<Rightarrow> device_slot \<Rightarrow> ordering" where
  "free_order b x y =
     then_cmp
       (cmp (partitioned_device_id b = Some (device_id y)) (partitioned_device_id b = Some (device_id x)))
       (then_cmp (cmp (device_id x) (device_id y)) (cmp (slot_index x) (slot_index y)))"

definition free_slots :: "task_board \<Rightarrow> slots \<Rightarrow> device_slot list" where
  "free_slots b asg = sort_by (free_order b) (filter (\<lambda>s. \<not> occupied asg s) (available b))"

definition candidates :: "task_board \<Rightarrow> slots \<Rightarrow> task_card list" where
  "candidates b asg =
     sort_by task_order
       (filter (\<lambda>t. eligible (task_state t) \<and> map_of asg (task_id t) = None) (map snd (tasks b)))"

type_synonym sessions = "(nat, task_card list) bmap"

definition waiting_of :: "sessions \<Rightarrow> nat \<Rightarrow> task_card list" where
  "waiting_of bs k = (case map_of bs k of None \<Rightarrow> [] | Some ts \<Rightarrow> ts)"

definition by_session :: "task_card list \<Rightarrow> sessions" where
  "by_session ts =
     fold (\<lambda>t bs. bm_insert (owner_session t) (waiting_of bs (owner_session t) @ [t]) bs) ts []"

text \<open>How many cards each session and each agent already shows.\<close>

definition visible_sessions :: "task_board \<Rightarrow> slots \<Rightarrow> nat \<Rightarrow> nat" where
  "visible_sessions b asg k =
     length (filter (\<lambda>(i, s). case map_of (tasks b) i of None \<Rightarrow> False | Some t \<Rightarrow> owner_session t = k) asg)"

definition visible_agents :: "task_board \<Rightarrow> slots \<Rightarrow> agent_id \<Rightarrow> nat" where
  "visible_agents b asg a =
     length (filter (\<lambda>(i, s). case map_of (tasks b) i of None \<Rightarrow> False | Some t \<Rightarrow> owner_agent t = a) asg)"

record fill_state =
  sessions_left :: sessions
  filled :: slots
  by_sess :: "nat \<Rightarrow> nat"
  by_agent :: "agent_id \<Rightarrow> nat"

definition session_order ::
  "fill_state \<Rightarrow> nat \<times> task_card list \<Rightarrow> nat \<times> task_card list \<Rightarrow> ordering" where
  "session_order f x y =
     then_cmp (cmp (by_agent f (owner_agent (hd (snd x)))) (by_agent f (owner_agent (hd (snd y)))))
       (then_cmp (cmp (by_sess f (fst x)) (by_sess f (fst y)))
         (then_cmp (task_order (hd (snd x)) (hd (snd y))) (cmp (fst x) (fst y))))"

definition slot_accepts :: "task_board \<Rightarrow> device_slot \<Rightarrow> task_card \<Rightarrow> bool" where
  "slot_accepts b s t \<longleftrightarrow>
     (case slot_owner b s of None \<Rightarrow> True | Some owner \<Rightarrow> owner = Some (owner_agent t))"

definition pick_session :: "task_board \<Rightarrow> fill_state \<Rightarrow> device_slot \<Rightarrow> (nat \<times> task_card list) option" where
  "pick_session b f s =
     min_by (session_order f)
       (filter (\<lambda>(k, ts). ts \<noteq> [] \<and> slot_accepts b s (hd ts)) (sessions_left f))"

definition fill_slot :: "task_board \<Rightarrow> device_slot \<Rightarrow> fill_state \<Rightarrow> fill_state" where
  "fill_slot b s f =
     (case pick_session b f s of
        None \<Rightarrow> f
      | Some (k, ts) \<Rightarrow>
          (let t = hd ts in
           f\<lparr>sessions_left := bm_insert k (tl ts) (sessions_left f),
             filled := AList.update (task_id t) s (filled f),
             by_sess := (by_sess f)(k := by_sess f k + 1),
             by_agent := (by_agent f)(owner_agent t := by_agent f (owner_agent t) + 1)\<rparr>))"

definition fill_start :: "task_board \<Rightarrow> slots \<Rightarrow> fill_state" where
  "fill_start b asg =
     \<lparr>sessions_left = by_session (candidates b asg), filled = asg,
      by_sess = visible_sessions b asg, by_agent = visible_agents b asg\<rparr>"

definition fill_pass :: "task_board \<Rightarrow> slots \<Rightarrow> fill_state" where
  "fill_pass b asg = fold (fill_slot b) (free_slots b asg) (fill_start b asg)"

text \<open>Remembering where every card is now.\<close>

definition remember_slots :: "task_board \<Rightarrow> task_board" where
  "remember_slots b =
     (let ls = fold (\<lambda>(i, s). AList.update i s) (assignments b) (last_slots b);
          pp = fold (\<lambda>(i, s) m. if partitioned_device_id b = Some (device_id s)
                                then bm_insert i (slot_index s) m else m)
                 (assignments b) (primary_preferences b);
          pp = (if length pp > 256 then hm_retain (\<lambda>i _. map_of (tasks b) i \<noteq> None) pp else pp);
          ls = hm_retain (\<lambda>i _. map_of (tasks b) i \<noteq> None \<or> map_of (assignments b) i \<noteq> None) ls
      in b\<lparr>last_slots := ls, primary_preferences := pp\<rparr>)"

definition settled :: "task_board \<Rightarrow> slots" where
  "settled b = pin_pass b (sticky_pass b (evict b))"

definition reallocate :: "task_board \<Rightarrow> task_board" where
  "reallocate b =
     (let b = drop_stale_selection b
      in remember_slots (b\<lparr>assignments := filled (fill_pass b (settled b))\<rparr>))"

end
