(* ===== verification/Task_Alloc_Inv.thy ===== *)
theory Task_Alloc_Inv
  imports Task_Alloc
begin

text \<open>
  What a reallocation of the task board promises. The invariant \<open>valid_alloc\<close> of an
  assignment (no slot twice, connected slots only, existing cards only, the partition of the
  primary controller respected) is kept by every phase of \<open>reallocate\<close>; the fill pass has an
  invariant of its own, from which work conservation and the order within a session follow.
  Nothing here depends on the order of the entries of a hash map.
\<close>

section \<open>Invariants\<close>

definition slot_permitted :: "task_board \<Rightarrow> task_card \<Rightarrow> device_slot \<Rightarrow> bool" where
  "slot_permitted b t s \<longleftrightarrow>
     (case slot_owner b s of
        None \<Rightarrow> True
      | Some (Some a) \<Rightarrow> owner_agent t = a
      | Some None \<Rightarrow> owner_agent t = Codex \<and> source_slot t = Some (slot_index s))"

text \<open>A card may be placed on a slot: it exists, and the slot is connected and permitted.\<close>

definition placeable :: "task_board \<Rightarrow> string \<Rightarrow> device_slot \<Rightarrow> bool" where
  "placeable b i s \<longleftrightarrow>
     s \<in> set (available b) \<and>
     (case map_of (tasks b) i of None \<Rightarrow> False | Some t \<Rightarrow> slot_permitted b t s)"

definition slots_injective :: "slots \<Rightarrow> bool" where
  "slots_injective asg \<longleftrightarrow>
     (\<forall>i j s. map_of asg i = Some s \<longrightarrow> map_of asg j = Some s \<longrightarrow> i = j)"

definition valid_alloc :: "task_board \<Rightarrow> slots \<Rightarrow> bool" where
  "valid_alloc b asg \<longleftrightarrow>
     hm_invar asg \<and> slots_injective asg \<and>
     (\<forall>i s. map_of asg i = Some s \<longrightarrow> placeable b i s)"

definition devices_wf :: "(string, device_slot list) bmap \<Rightarrow> bool" where
  "devices_wf ds \<longleftrightarrow>
     bm_invar ds \<and> list_all (\<lambda>(d, ss). ss = map (DeviceSlot d) [0..<length ss]) ds"

definition tasks_wf :: "(string, task_card) hmap \<Rightarrow> bool" where
  "tasks_wf ts \<longleftrightarrow> hm_invar ts \<and> list_all (\<lambda>(i, t). task_id t = i) ts"

text \<open>
  The well-formedness every operation keeps. It does not say that the assignments are valid:
  between a change and the next reallocation they need not be.
\<close>

definition board_wf :: "task_board \<Rightarrow> bool" where
  "board_wf b \<longleftrightarrow>
     tasks_wf (tasks b) \<and> devices_wf (devices b) \<and> hm_invar (assignments b) \<and>
     slots_injective (assignments b) \<and> hm_invar (last_slots b) \<and>
     bm_invar (primary_preferences b) \<and> hm_invar (selection_activation_guards b)"

lemma tasks_wf_id: "tasks_wf ts \<Longrightarrow> map_of ts i = Some t \<Longrightarrow> task_id t = i"
  by (auto simp: tasks_wf_def list_all_iff dest!: map_of_SomeD)

lemma tasks_wf_mem: "tasks_wf ts \<Longrightarrow> (i, t) \<in> set ts \<longleftrightarrow> map_of ts i = Some t"
  unfolding tasks_wf_def by (auto simp: hm.in_entries_iff)

lemma tasks_wf_values:
  assumes "tasks_wf ts"
  shows "t \<in> snd ` set ts \<longleftrightarrow> map_of ts (task_id t) = Some t"
proof
  assume "t \<in> snd ` set ts"
  then obtain i where "(i, t) \<in> set ts" by auto
  with assms show "map_of ts (task_id t) = Some t"
    by (auto simp: tasks_wf_mem dest: tasks_wf_id)
next
  assume "map_of ts (task_id t) = Some t"
  then show "t \<in> snd ` set ts" by (auto dest: map_of_SomeD intro: rev_image_eqI)
qed

lemma board_wf_tasks: "board_wf b \<Longrightarrow> tasks_wf (tasks b)"
  by (simp add: board_wf_def)

lemma devices_wf_slot:
  assumes "devices_wf ds" and "map_of ds d = Some ss" and "get_opt ss n = Some s"
  shows "s = DeviceSlot d n" "s \<in> set (concat (map snd ds))"
proof -
  have mem: "(d, ss) \<in> set ds" using assms(2) by (rule map_of_SomeD)
  with assms(1) have "ss = map (DeviceSlot d) [0..<length ss]"
    by (auto simp: devices_wf_def list_all_iff)
  moreover from assms(3) have n: "n < length ss" "s = ss ! n"
    by (auto simp: get_opt_def split: if_splits)
  ultimately show "s = DeviceSlot d n"
    by (metis add_0 diff_zero length_upt nth_map nth_upt)
  from n mem show "s \<in> set (concat (map snd ds))" by force
qed

lemma get_opt_Nil [simp]: "get_opt [] n = None"
  by (simp add: get_opt_def)

lemma occupied_iff: "hm_invar asg \<Longrightarrow> occupied asg s \<longleftrightarrow> (\<exists>i. map_of asg i = Some s)"
  by (auto simp: occupied_def list_ex_iff hm.in_entries_iff [symmetric])

lemma available_devices [simp]:
  "available (b\<lparr>assignments := a\<rparr>) = available b" "available (drop_stale_selection b) = available b"
  by (simp_all add: available_def drop_stale_selection_def split: option.splits)

section \<open>One rule for every insertion\<close>

text \<open>
  A card may be put on a slot that is connected, permitted, and held by nobody else. Every
  phase of the allocator establishes exactly these conditions.
\<close>

lemma valid_alloc_put:
  assumes "valid_alloc b asg" and "placeable b i s" and "\<And>j. map_of asg j = Some s \<Longrightarrow> j = i"
  shows "valid_alloc b (AList.update i s asg)"
  using assms unfolding valid_alloc_def slots_injective_def
  by (auto simp: update_conv' hm_invar_update split: if_splits)

lemma valid_alloc_retain: "valid_alloc b asg \<Longrightarrow> valid_alloc b (hm_retain P asg)"
  unfolding valid_alloc_def slots_injective_def
  by (auto simp: hm_invar_retain hm.lookup_retain_Some)

lemma valid_alloc_invar: "valid_alloc b asg \<Longrightarrow> hm_invar asg"
  by (simp add: valid_alloc_def)

lemma placeableI:
  "s \<in> set (available b) \<Longrightarrow> map_of (tasks b) i = Some t \<Longrightarrow> slot_permitted b t s \<Longrightarrow> placeable b i s"
  by (simp add: placeable_def)

section \<open>Eviction, sticky pass and pins\<close>

lemma keeps_slot_placeable: "keeps_slot b i s \<Longrightarrow> placeable b i s"
  by (auto simp: keeps_slot_def placeable_def slot_permitted_def slot_owner_def split: option.splits)

lemma valid_alloc_evict:
  "hm_invar (assignments b) \<Longrightarrow> slots_injective (assignments b) \<Longrightarrow> valid_alloc b (evict b)"
  unfolding valid_alloc_def slots_injective_def evict_def
  using keeps_slot_placeable [of b] by (auto simp: hm_invar_retain hm.lookup_retain_Some)

lemma compatible_permitted: "slot_accepts b s t \<Longrightarrow> slot_permitted b t s"
  by (auto simp: slot_accepts_def slot_permitted_def split: option.splits)

lemma sticky_slot_Some:
  assumes "sticky_slot b asg t = Some (i, s)"
  shows "i = task_id t" "eligible (task_state t)" "map_of asg i = None" "s \<in> set (available b)"
    "\<not> occupied asg s" "slot_accepts b s t"
  using assms by (auto simp: sticky_slot_def slot_accepts_def Let_def split: option.splits if_splits)

lemma valid_alloc_put_many:
  assumes "valid_alloc b asg" and "\<And>p. p \<in> set xs \<Longrightarrow> placeable b (fst p) (snd p)"
  shows "valid_alloc b (fold (\<lambda>(i, s) a. if occupied a s then a else AList.update i s a) xs asg)"
  using assms
proof (induction xs arbitrary: asg)
  case (Cons x xs)
  obtain i s where x: "x = (i, s)" by (cases x)
  let ?a = "if occupied asg s then asg else AList.update i s asg"
  have "placeable b i s" using Cons.prems(2) [of x] by (simp add: x)
  with Cons.prems(1) occupied_iff [OF valid_alloc_invar [OF Cons.prems(1)], of s]
  have "valid_alloc b ?a" by (auto intro: valid_alloc_put)
  then have "valid_alloc b (fold (\<lambda>(i, s) a. if occupied a s then a else AList.update i s a) xs ?a)"
    using Cons.prems(2) by (intro Cons.IH) simp_all
  then show ?case by (simp only: x fold_simps comp_def prod.case)
qed simp

lemma in_map_filterE:
  assumes "y \<in> set (List.map_filter f xs)"
  obtains x where "x \<in> set xs" "f x = Some y"
  using assms by (induction xs) (auto simp: List.map_filter_simps split: option.splits)

lemma in_map_filterI: "x \<in> set xs \<Longrightarrow> f x = Some y \<Longrightarrow> y \<in> set (List.map_filter f xs)"
  by (induction xs) (auto simp: List.map_filter_simps split: option.splits)

lemma valid_alloc_sticky:
  assumes "tasks_wf (tasks b)" and "valid_alloc b asg"
  shows "valid_alloc b (sticky_pass b asg)"
  unfolding sticky_pass_def
proof (rule valid_alloc_put_many [OF assms(2)])
  fix p
  assume "p \<in> set (List.map_filter (\<lambda>(i, t). sticky_slot b asg t) (tasks b))"
  then obtain j t where t: "(j, t) \<in> set (tasks b)" "sticky_slot b asg t = Some (fst p, snd p)"
    by (elim in_map_filterE) auto
  with assms(1) have "map_of (tasks b) (fst p) = Some t"
    using sticky_slot_Some(1) [OF t(2)] by (auto simp: tasks_wf_mem dest: tasks_wf_id)
  with sticky_slot_Some [OF t(2)] show "placeable b (fst p) (snd p)"
    by (intro placeableI compatible_permitted)
qed

text \<open>A pin is a slot of the primary controller at the logical position of its Codex card.\<close>

lemma pin_of_Some:
  assumes "pin_of b asg primary ss t = Some (i, s)"
  obtains n where "task_id t = i" "owner_agent t = Codex" "source_slot t = Some n"
    "codex_may_own b n" "get_opt ss n = Some s"
    "is_hid_id i \<or> map_of asg i = None \<and>
       \<not> list_ex (\<lambda>(j, s'). device_id s' = primary \<and> slot_index s' = n) asg"
  using assms by (auto simp: pin_of_def split: option.splits if_splits)

lemma pins_mem:
  assumes "tasks_wf (tasks b)" and "devices_wf (devices b)" and "p \<in> set (pins b asg)"
  obtains t where "map_of (tasks b) (fst p) = Some t"
    "partitioned_device_id b = Some (device_id (snd p))" "owner_agent t = Codex"
    "source_slot t = Some (slot_index (snd p))" "snd p \<in> set (available b)"
    "codex_may_own b (slot_index (snd p))"
    "is_hid_id (fst p) \<or> map_of asg (fst p) = None \<and> \<not> occupied asg (snd p)"
proof -
  obtain primary where pr: "partitioned_device_id b = Some primary"
    using assms(3) by (cases "partitioned_device_id b") (simp_all add: pins_def)
  obtain ss where ss: "map_of (devices b) primary = Some ss"
    using assms(3) pr by (cases "map_of (devices b) primary") (simp_all add: pins_def)
  from assms(3) pr ss obtain j t
    where t: "(j, t) \<in> set (tasks b)" "pin_of b asg primary ss t = Some (fst p, snd p)"
    by (auto simp: pins_def elim!: in_map_filterE)
  obtain n where n: "task_id t = fst p" "owner_agent t = Codex" "source_slot t = Some n"
    "codex_may_own b n" "get_opt ss n = Some (snd p)"
    "is_hid_id (fst p) \<or> map_of asg (fst p) = None \<and>
       \<not> list_ex (\<lambda>(j, s'). device_id s' = primary \<and> slot_index s' = n) asg"
    using t(2) by (rule pin_of_Some)
  from devices_wf_slot [OF assms(2) ss n(5)]
  have s: "snd p = DeviceSlot primary n" "snd p \<in> set (available b)"
    by (simp_all add: available_def)
  have "map_of (tasks b) (fst p) = Some t"
    using t(1) n(1) assms(1) by (auto simp: tasks_wf_mem dest: tasks_wf_id)
  moreover have "is_hid_id (fst p) \<or> map_of asg (fst p) = None \<and> \<not> occupied asg (snd p)"
    using n(6) s(1) by (auto simp: occupied_def list_ex_iff)
  ultimately show ?thesis
    using pr n(2-4) s by (intro that [of t]) simp_all
qed

lemma pin_permitted:
  "owner_agent t = Codex \<Longrightarrow> source_slot t = Some (slot_index s) \<Longrightarrow> codex_may_own b (slot_index s) \<Longrightarrow>
   slot_permitted b t s"
  by (auto simp: slot_permitted_def slot_owner_def codex_may_own_def split: option.splits if_splits)

lemma pins_placeable:
  assumes "tasks_wf (tasks b)" and "devices_wf (devices b)" and "p \<in> set (pins b asg)"
  shows "placeable b (fst p) (snd p)"
  using assms by (elim pins_mem) (auto intro: placeableI pin_permitted)

lemma map_of_pin_slot:
  "hm_invar asg \<Longrightarrow> map_of (pin_slot p asg) j =
     (if j = fst p then Some (snd p) else if map_of asg j = Some (snd p) then None else map_of asg j)"
  by (auto simp: pin_slot_def update_conv' map_of_hm_retain split: option.splits)

lemma valid_alloc_pin_slot:
  "valid_alloc b asg \<Longrightarrow> placeable b (fst p) (snd p) \<Longrightarrow> valid_alloc b (pin_slot p asg)"
  unfolding pin_slot_def
  by (intro valid_alloc_put valid_alloc_retain) (auto simp: hm.lookup_retain_Some valid_alloc_invar)

lemma valid_alloc_fold_pin:
  "valid_alloc b asg \<Longrightarrow> (\<And>p. p \<in> set ps \<Longrightarrow> placeable b (fst p) (snd p)) \<Longrightarrow>
   valid_alloc b (fold pin_slot ps asg)"
  by (induction ps arbitrary: asg) (auto intro: valid_alloc_pin_slot)

lemma valid_alloc_pins:
  assumes "tasks_wf (tasks b)" and "devices_wf (devices b)" and "valid_alloc b asg"
  shows "valid_alloc b (pin_pass b asg)"
  unfolding pin_pass_def
  by (rule valid_alloc_fold_pin [OF assms(3)]) (rule pins_placeable [OF assms(1,2)])

lemma valid_alloc_settled: "board_wf b \<Longrightarrow> valid_alloc b (settled b)"
  unfolding settled_def board_wf_def
  by (intro valid_alloc_pins valid_alloc_sticky valid_alloc_evict) simp_all


section \<open>The fill pass\<close>

lemma device_slots_id:
  "list_all (\<lambda>(d, ss). ss = map (DeviceSlot d) [0..<length ss]) ds \<Longrightarrow>
   s \<in> set (concat (map snd ds)) \<Longrightarrow> device_id s \<in> fst ` set ds"
proof (induction ds)
  case (Cons x ds)
  obtain d ss where x: "x = (d, ss)" by (cases x)
  from Cons.prems(1) have ss: "set ss = DeviceSlot d ` {0..<length ss}"
    by (simp add: x) (metis atLeastLessThan_upt list.set_map)
  show ?case
  proof (cases "s \<in> set ss")
    case True
    with ss have "device_id s = d" by auto
    then show ?thesis by (simp add: x)
  next
    case False
    with Cons show ?thesis by (simp add: x)
  qed
qed simp

lemma distinct_device_slots:
  "distinct (map fst ds) \<Longrightarrow> list_all (\<lambda>(d, ss). ss = map (DeviceSlot d) [0..<length ss]) ds \<Longrightarrow>
   distinct (concat (map snd ds))"
proof (induction ds)
  case (Cons x ds)
  obtain d ss where x: "x = (d, ss)" by (cases x)
  from Cons.prems(2) have ss: "ss = map (DeviceSlot d) [0..<length ss]" by (simp add: x)
  have "distinct (map (DeviceSlot d) [0..<length ss])" by (simp add: distinct_map inj_on_def)
  then have "distinct ss" using ss by simp
  moreover have "device_id s = d" if "s \<in> set ss" for s
    using that by (subst (asm) ss) auto
  then have "set ss \<inter> set (concat (map snd ds)) = {}"
    using device_slots_id [of ds] Cons.prems by (auto simp: x)
  ultimately show ?case using Cons by (simp add: x)
qed simp

lemma distinct_available: "devices_wf (devices b) \<Longrightarrow> distinct (available b)"
  unfolding available_def devices_wf_def
  by (intro distinct_device_slots bm_invar_distinct) simp_all

text \<open>The waiting list of a session is the session's part of the sorted candidates.\<close>

lemma by_session_spec:
  "bm_invar bs \<Longrightarrow>
   bm_invar (fold (\<lambda>t bs. bm_insert (owner_session t) (waiting_of bs (owner_session t) @ [t]) bs) ts bs) \<and>
   waiting_of (fold (\<lambda>t bs. bm_insert (owner_session t) (waiting_of bs (owner_session t) @ [t]) bs) ts bs) k =
     waiting_of bs k @ filter (\<lambda>t. owner_session t = k) ts"
proof (induction ts arbitrary: bs)
  case (Cons t ts)
  let ?bs = "bm_insert (owner_session t) (waiting_of bs (owner_session t) @ [t]) bs"
  have "bm_invar ?bs" using Cons.prems by (rule bm.invar_insert)
  from Cons.IH [OF this] show ?case
    by (simp add: waiting_of_def bm.lookup_insert [OF Cons.prems])
qed simp

lemma by_session_waiting:
  "bm_invar (by_session ts)" "waiting_of (by_session ts) k = filter (\<lambda>t. owner_session t = k) ts"
  using by_session_spec [of "[]" ts k] by (simp_all add: by_session_def waiting_of_def)

definition session_queue :: "task_board \<Rightarrow> slots \<Rightarrow> nat \<Rightarrow> task_card list" where
  "session_queue b asg k = filter (\<lambda>t. owner_session t = k) (candidates b asg)"

text \<open>
  The invariant of the pass: the assignment is valid, entries are only added, and of the
  waiting list of every session exactly a prefix has been placed.
\<close>

definition fill_inv :: "task_board \<Rightarrow> slots \<Rightarrow> fill_state \<Rightarrow> bool" where
  "fill_inv b asg f \<longleftrightarrow>
     valid_alloc b (filled f) \<and> bm_invar (sessions_left f) \<and>
     (\<forall>i s. map_of asg i = Some s \<longrightarrow> map_of (filled f) i = Some s) \<and>
     (\<forall>k. \<exists>n. waiting_of (sessions_left f) k = drop n (session_queue b asg k) \<and>
        (\<forall>t \<in> set (session_queue b asg k).
           map_of (filled f) (task_id t) \<noteq> None \<longleftrightarrow> t \<in> set (take n (session_queue b asg k))))"

lemma fill_inv_parts:
  "fill_inv b asg f \<Longrightarrow> bm_invar (sessions_left f)" "fill_inv b asg f \<Longrightarrow> hm_invar (filled f)"
  "fill_inv b asg f \<Longrightarrow> valid_alloc b (filled f)"
  "fill_inv b asg f \<Longrightarrow> map_of asg i = Some s \<Longrightarrow> map_of (filled f) i = Some s"
  by (simp_all add: fill_inv_def valid_alloc_def)

lemma candidates_mem:
  "tasks_wf (tasks b) \<Longrightarrow> t \<in> set (candidates b asg) \<longleftrightarrow>
   map_of (tasks b) (task_id t) = Some t \<and> eligible (task_state t) \<and> map_of asg (task_id t) = None"
  using tasks_wf_values [of "tasks b" t] by (auto simp: candidates_def)

lemma distinct_values: "tasks_wf ts \<Longrightarrow> distinct (map snd ts)"
proof -
  assume wf: "tasks_wf ts"
  have "map fst ts = map task_id (map snd ts)"
    using wf by (auto simp: tasks_wf_def list_all_iff)
  moreover have "distinct (map fst ts)" using wf by (simp add: tasks_wf_def hm_invar_def)
  ultimately show ?thesis by (simp only: distinct_map [of task_id])
qed

lemma distinct_queue: "tasks_wf (tasks b) \<Longrightarrow> distinct (session_queue b asg k)"
  using distinct_values [of "tasks b"] by (simp add: session_queue_def candidates_def)

lemma queue_mem:
  "tasks_wf (tasks b) \<Longrightarrow> t \<in> set (session_queue b asg k) \<longleftrightarrow>
   owner_session t = k \<and> map_of (tasks b) (task_id t) = Some t \<and> eligible (task_state t) \<and>
   map_of asg (task_id t) = None"
  by (auto simp: session_queue_def candidates_mem)

lemma queue_id_inj:
  "tasks_wf (tasks b) \<Longrightarrow> t \<in> set (session_queue b asg k) \<Longrightarrow> u \<in> set (session_queue b asg j) \<Longrightarrow>
   task_id t = task_id u \<Longrightarrow> t = u"
  by (simp add: queue_mem)

lemma fill_inv_start:
  assumes "tasks_wf (tasks b)" and "valid_alloc b asg"
  shows "fill_inv b asg (fill_start b asg)"
  unfolding fill_inv_def
proof (intro conjI allI exI [of _ 0])
  fix k
  show "waiting_of (sessions_left (fill_start b asg)) k = drop 0 (session_queue b asg k)"
    by (simp add: fill_start_def by_session_waiting session_queue_def)
  show "\<forall>t \<in> set (session_queue b asg k). map_of (filled (fill_start b asg)) (task_id t) \<noteq> None \<longleftrightarrow>
      t \<in> set (take 0 (session_queue b asg k))"
    using assms(1) by (simp add: fill_start_def queue_mem)
qed (use assms in \<open>simp_all add: fill_start_def by_session_waiting\<close>)

lemma pick_session_Some:
  assumes "pick_session b f s = Some (k, ts)" and "bm_invar (sessions_left f)"
  shows "waiting_of (sessions_left f) k = ts" "ts \<noteq> []" "slot_accepts b s (hd ts)"
proof -
  from assms(1) have "(k, ts) \<in> set (filter (\<lambda>(k, ts). ts \<noteq> [] \<and> slot_accepts b s (hd ts)) (sessions_left f))"
    unfolding pick_session_def by (rule min_by_in)
  with assms(2) show "waiting_of (sessions_left f) k = ts" "ts \<noteq> []" "slot_accepts b s (hd ts)"
    by (auto simp: waiting_of_def bm.in_entries_iff)
qed

lemma fill_inv_step:
  assumes wf: "tasks_wf (tasks b)" and inv: "fill_inv b asg f"
    and s: "s \<in> set (available b)" "\<not> occupied (filled f) s"
    and pick: "pick_session b f s = Some (k, ts)"
  shows "fill_inv b asg (fill_slot b s f)"
proof -
  let ?Q = "session_queue b asg"
  note pk = pick_session_Some [OF pick]
  from inv have bm: "bm_invar (sessions_left f)" and va: "valid_alloc b (filled f)"
    by (simp_all add: fill_inv_def)
  from inv obtain n where n: "waiting_of (sessions_left f) k = drop n (?Q k)"
    and pre: "\<And>t. t \<in> set (?Q k) \<Longrightarrow>
      map_of (filled f) (task_id t) \<noteq> None \<longleftrightarrow> t \<in> set (take n (?Q k))"
    unfolding fill_inv_def by blast
  have ts: "ts = drop n (?Q k)" "ts \<noteq> []" using pk [OF bm] n by simp_all
  then have len: "n < length (?Q k)" by simp
  let ?t = "?Q k ! n"
  have hd: "hd ts = ?t" using ts len by (simp add: hd_drop_conv_nth)
  have tl: "tl ts = drop (Suc n) (?Q k)" using ts by (simp add: drop_Suc tl_drop)
  have tQ: "?t \<in> set (?Q k)" using len by simp
  have fresh: "map_of (filled f) (task_id ?t) = None"
    using pre [OF tQ] distinct_queue [OF wf, of asg k] len
    by (auto simp: in_set_conv_nth nth_eq_iff_index_eq)
  have f': "sessions_left (fill_slot b s f) = bm_insert k (tl ts) (sessions_left f)"
    "filled (fill_slot b s f) = AList.update (task_id ?t) s (filled f)"
    by (simp_all add: fill_slot_def pick Let_def hd)
  have "placeable b (task_id ?t) s"
    using tQ s(1) pk(3) [OF bm] wf hd
    by (intro placeableI [of _ _ _ ?t] compatible_permitted) (simp_all add: queue_mem)
  then have 1: "valid_alloc b (filled (fill_slot b s f))"
    unfolding f' using va s(2) occupied_iff [OF valid_alloc_invar [OF va], of s]
    by (intro valid_alloc_put) auto
  have 2: "bm_invar (sessions_left (fill_slot b s f))"
    unfolding f' using bm by (rule bm.invar_insert)
  have 3: "map_of (filled (fill_slot b s f)) i = Some s'" if "map_of asg i = Some s'" for i s'
    using that inv fresh by (auto simp: f' update_conv' fill_inv_def)
  have 4: "\<exists>m. waiting_of (sessions_left (fill_slot b s f)) j = drop m (?Q j) \<and>
      (\<forall>u \<in> set (?Q j). map_of (filled (fill_slot b s f)) (task_id u) \<noteq> None \<longleftrightarrow> u \<in> set (take m (?Q j)))"
    for j
  proof (cases "j = k")
    case True
    have "map_of (filled (fill_slot b s f)) (task_id u) \<noteq> None \<longleftrightarrow> u \<in> set (take (Suc n) (?Q k))"
      if "u \<in> set (?Q k)" for u
      using pre [OF that] queue_id_inj [OF wf that tQ] len
      by (auto simp: f' update_conv' take_Suc_conv_app_nth)
    with True show ?thesis
      by (intro exI [of _ "Suc n"]) (simp add: f' waiting_of_def bm.lookup_insert [OF bm] tl)
  next
    case False
    from inv obtain m where m: "waiting_of (sessions_left f) j = drop m (?Q j)"
      and prem: "\<And>t. t \<in> set (?Q j) \<Longrightarrow>
        map_of (filled f) (task_id t) \<noteq> None \<longleftrightarrow> t \<in> set (take m (?Q j))"
      unfolding fill_inv_def by blast
    have "task_id u \<noteq> task_id ?t" if "u \<in> set (?Q j)" for u
      using that tQ False queue_id_inj [OF wf that tQ] by (auto simp: queue_mem [OF wf])
    with m prem False show ?thesis
      by (intro exI [of _ m]) (auto simp: f' waiting_of_def bm.lookup_insert [OF bm] update_conv')
  qed
  from 1 2 3 4 show ?thesis unfolding fill_inv_def by blast
qed


lemma fill_slot_None: "pick_session b f s = None \<Longrightarrow> fill_slot b s f = f"
  by (simp add: fill_slot_def)

lemma occupied_fill_slot:
  assumes "hm_invar (filled f)" and "s' \<noteq> s" and "\<not> occupied (filled f) s'"
  shows "\<not> occupied (filled (fill_slot b s f)) s'"
  using assms
  by (auto simp: fill_slot_def Let_def occupied_iff hm_invar_update update_conv' split: option.splits if_splits)

text \<open>
  After the pass over the slots \<open>ss\<close>: the invariant holds, and a slot of \<open>ss\<close> that stayed
  empty was refused by the first waiting card of every session.
\<close>

definition fill_done :: "task_board \<Rightarrow> slots \<Rightarrow> fill_state \<Rightarrow> device_slot \<Rightarrow> bool" where
  "fill_done b asg f s \<longleftrightarrow>
     occupied (filled f) s \<or>
     (\<exists>f'. pick_session b f' s = None \<and> fill_inv b asg f' \<and>
       (\<forall>k. \<exists>n. waiting_of (sessions_left f) k = drop n (waiting_of (sessions_left f') k)))"

lemma fill_slot_shrinks:
  assumes "bm_invar (sessions_left f)"
  shows "\<exists>n. waiting_of (sessions_left (fill_slot b s f)) k = drop n (waiting_of (sessions_left f) k)"
proof (cases "pick_session b f s")
  case None
  then show ?thesis by (intro exI [of _ 0]) (simp add: fill_slot_None)
next
  case (Some p)
  obtain j ts where p: "p = (j, ts)" by (cases p)
  show ?thesis
  proof (cases "j = k")
    case True
    with Some p pick_session_Some(1) [of b f s k ts] assms show ?thesis
      by (intro exI [of _ 1])
        (simp add: fill_slot_def Let_def waiting_of_def bm.lookup_insert drop_Suc)
  next
    case False
    with Some p assms show ?thesis
      by (intro exI [of _ 0]) (simp add: fill_slot_def Let_def waiting_of_def bm.lookup_insert)
  qed
qed

lemma occupied_fill_slot_mono:
  assumes "tasks_wf (tasks b)" and "fill_inv b asg f" and "fill_inv b asg (fill_slot b s f)"
    and "occupied (filled f) s'"
  shows "occupied (filled (fill_slot b s f)) s'"
proof (cases "pick_session b f s")
  case None
  with assms(4) show ?thesis by (simp add: fill_slot_None)
next
  case (Some p)
  obtain k ts where p: "p = (k, ts)" by (cases p)
  have bm: "bm_invar (sessions_left f)" using assms(2) by (simp add: fill_inv_def)
  note pk = pick_session_Some [OF Some [unfolded p] bm]
  have inv: "hm_invar (filled f)" using fill_inv_parts [OF assms(2)] by simp
  obtain n where n: "ts = drop n (session_queue b asg k)"
    and pre: "\<forall>t \<in> set (session_queue b asg k).
      map_of (filled f) (task_id t) \<noteq> None \<longleftrightarrow> t \<in> set (take n (session_queue b asg k))"
    using assms(2) pk(1) unfolding fill_inv_def by metis
  from n pk(2) have len: "n < length (session_queue b asg k)" by simp
  then have hd: "hd ts = session_queue b asg k ! n" using n by (simp add: hd_drop_conv_nth)
  have "hd ts \<notin> set (take n (session_queue b asg k))"
    using distinct_queue [OF assms(1), of asg k] len hd
    by (auto simp: in_set_conv_nth nth_eq_iff_index_eq)
  moreover have "hd ts \<in> set (session_queue b asg k)" using len hd by simp
  ultimately have "map_of (filled f) (task_id (hd ts)) = None" using pre by blast
  moreover obtain i where "map_of (filled f) i = Some s'"
    using assms(4) inv by (auto simp: occupied_iff)
  ultimately have "map_of (filled (fill_slot b s f)) i = Some s'" "i \<noteq> task_id (hd ts)"
    by (auto simp: fill_slot_def Some p Let_def update_conv')
  then show ?thesis
    using fill_inv_parts(2) [OF assms(3)] by (auto simp: occupied_iff)
qed

lemma fill_fold:
  assumes wf: "tasks_wf (tasks b)"
  shows "fill_inv b asg f \<Longrightarrow> set ss \<subseteq> set (available b) \<Longrightarrow> distinct ss \<Longrightarrow>
    (\<And>s. s \<in> set ss \<Longrightarrow> \<not> occupied (filled f) s) \<Longrightarrow>
    fill_inv b asg (fold (fill_slot b) ss f) \<and>
    (\<forall>s. fill_done b asg f s \<or> s \<in> set ss \<longrightarrow> fill_done b asg (fold (fill_slot b) ss f) s)"
proof (induction ss arbitrary: f)
  case (Cons s ss)
  let ?f = "fill_slot b s f"
  have bm: "bm_invar (sessions_left f)" and hm: "hm_invar (filled f)"
    using fill_inv_parts [OF Cons.prems(1)] by simp_all
  have inv: "fill_inv b asg ?f"
  proof (cases "pick_session b f s")
    case None
    then show ?thesis using Cons.prems(1) by (simp add: fill_slot_None)
  next
    case (Some p)
    then show ?thesis
      using fill_inv_step [OF wf Cons.prems(1)] Cons.prems by (cases p) simp
  qed
  have rest: "\<not> occupied (filled ?f) s'" if "s' \<in> set ss" for s'
    using occupied_fill_slot [OF hm, of s' s b] Cons.prems that by auto
  have step: "fill_done b asg ?f s'" if "fill_done b asg f s'" for s'
  proof (cases "occupied (filled f) s'")
    case True
    with occupied_fill_slot_mono [OF wf Cons.prems(1) inv] show ?thesis by (simp add: fill_done_def)
  next
    case False
    with that obtain f' where f': "pick_session b f' s' = None" "fill_inv b asg f'"
      "\<forall>k. \<exists>n. waiting_of (sessions_left f) k = drop n (waiting_of (sessions_left f') k)"
      by (auto simp: fill_done_def)
    have "\<exists>n. waiting_of (sessions_left ?f) k = drop n (waiting_of (sessions_left f') k)" for k
      using f'(3) fill_slot_shrinks [OF bm, of b s k] by (metis drop_drop)
    with f' show ?thesis unfolding fill_done_def by blast
  qed
  have now: "fill_done b asg ?f s"
  proof (cases "pick_session b f s")
    case None
    then show ?thesis
      using Cons.prems(1) by (auto simp: fill_done_def fill_slot_None intro!: exI [of _ f] exI [of _ 0])
  next
    case (Some p)
    then show ?thesis
      using hm by (cases p) (auto simp: fill_done_def fill_slot_def Let_def occupied_iff
          hm_invar_update update_conv' intro!: exI [of _ "task_id (hd (snd p))"])
  qed
  from Cons.IH [OF inv] Cons.prems rest
  have "fill_inv b asg (fold (fill_slot b) ss ?f) \<and>
    (\<forall>s. fill_done b asg ?f s \<or> s \<in> set ss \<longrightarrow> fill_done b asg (fold (fill_slot b) ss ?f) s)"
    by simp
  with step now show ?case by auto
qed simp


lemma set_free_slots: "set (free_slots b asg) = {s \<in> set (available b). \<not> occupied asg s}"
  by (auto simp: free_slots_def)

lemma fill_pass_spec:
  assumes "board_wf b" and "valid_alloc b asg"
  shows "fill_inv b asg (fill_pass b asg)"
    and "\<And>s. s \<in> set (available b) \<Longrightarrow> \<not> occupied asg s \<Longrightarrow> fill_done b asg (fill_pass b asg) s"
proof -
  have wf: "tasks_wf (tasks b)" "devices_wf (devices b)"
    using assms(1) by (simp_all add: board_wf_def)
  have "fill_inv b asg (fold (fill_slot b) (free_slots b asg) (fill_start b asg)) \<and>
    (\<forall>s. fill_done b asg (fill_start b asg) s \<or> s \<in> set (free_slots b asg) \<longrightarrow>
       fill_done b asg (fold (fill_slot b) (free_slots b asg) (fill_start b asg)) s)"
  proof (rule fill_fold [OF wf(1) fill_inv_start [OF wf(1) assms(2)]])
    show "distinct (free_slots b asg)"
      using distinct_available [OF wf(2)] by (simp add: free_slots_def)
    fix s
    assume "s \<in> set (free_slots b asg)"
    then show "\<not> occupied (filled (fill_start b asg)) s"
      by (simp add: fill_start_def set_free_slots)
  qed (auto simp: set_free_slots)
  then show "fill_inv b asg (fill_pass b asg)"
    "\<And>s. s \<in> set (available b) \<Longrightarrow> \<not> occupied asg s \<Longrightarrow> fill_done b asg (fill_pass b asg) s"
    by (simp_all add: fill_pass_def set_free_slots)
qed

section \<open>The whole reallocation\<close>

lemma drop_stale_fields [simp]:
  "tasks (drop_stale_selection b) = tasks b" "devices (drop_stale_selection b) = devices b"
  "assignments (drop_stale_selection b) = assignments b"
  "last_slots (drop_stale_selection b) = last_slots b"
  "primary_preferences (drop_stale_selection b) = primary_preferences b"
  "slot_owners (drop_stale_selection b) = slot_owners b"
  "partitioned_device_id (drop_stale_selection b) = partitioned_device_id b"
  "selection_activation_guards (drop_stale_selection b) = selection_activation_guards b"
  "reviewed_completions (drop_stale_selection b) = reviewed_completions b"
  "board_now_ms (drop_stale_selection b) = board_now_ms b"
  by (simp_all add: drop_stale_selection_def split: option.splits)

lemma remember_fields [simp]:
  "tasks (remember_slots b) = tasks b" "devices (remember_slots b) = devices b"
  "assignments (remember_slots b) = assignments b" "selected (remember_slots b) = selected b"
  "pending_selection (remember_slots b) = pending_selection b"
  "slot_owners (remember_slots b) = slot_owners b"
  "partitioned_device_id (remember_slots b) = partitioned_device_id b"
  "selection_activation_guards (remember_slots b) = selection_activation_guards b"
  "reviewed_completions (remember_slots b) = reviewed_completions b"
  "board_now_ms (remember_slots b) = board_now_ms b"
  by (simp_all add: remember_slots_def Let_def)

lemma reallocate_fields [board_frame, simp]:
  "tasks (reallocate b) = tasks b" "devices (reallocate b) = devices b"
  "slot_owners (reallocate b) = slot_owners b"
  "partitioned_device_id (reallocate b) = partitioned_device_id b"
  "selection_activation_guards (reallocate b) = selection_activation_guards b"
  "reviewed_completions (reallocate b) = reviewed_completions b"
  "board_now_ms (reallocate b) = board_now_ms b"
  by (simp_all add: reallocate_def Let_def)

lemma selected_reallocate [board_frame]:
  "selected (reallocate b) = selected (drop_stale_selection b)"
  "pending_selection (reallocate b) = pending_selection (drop_stale_selection b)"
  by (simp_all add: reallocate_def Let_def)

text \<open>The allocation ignores the selection.\<close>

lemma drop_stale_irrelevant:
  "settled (drop_stale_selection b) = settled b"
  "fill_pass (drop_stale_selection b) asg = fill_pass b asg"
proof -
  let ?b = "drop_stale_selection b"
  have eqs: "keeps_slot ?b = keeps_slot b" "slot_owner ?b = slot_owner b"
    "preferred_slot ?b = preferred_slot b" "codex_may_own ?b = codex_may_own b"
    by (simp_all add: fun_eq_iff keeps_slot_def slot_owner_def preferred_slot_def codex_may_own_def
        cong: option.case_cong)
  have "evict ?b = evict b" by (simp add: evict_def eqs)
  moreover have "sticky_slot ?b = sticky_slot b" by (simp add: fun_eq_iff sticky_slot_def eqs cong: option.case_cong)
  then have "sticky_pass ?b = sticky_pass b" by (simp add: fun_eq_iff sticky_pass_def)
  moreover have "pin_of ?b = pin_of b" by (simp add: fun_eq_iff pin_of_def eqs cong: option.case_cong)
  then have "pin_pass ?b = pin_pass b" by (simp add: fun_eq_iff pin_pass_def pins_def cong: option.case_cong)
  ultimately show "settled ?b = settled b" by (simp add: settled_def)
  have "slot_accepts ?b = slot_accepts b" by (simp add: fun_eq_iff slot_accepts_def eqs cong: option.case_cong)
  then have "fill_slot ?b = fill_slot b" by (simp add: fun_eq_iff fill_slot_def pick_session_def)
  moreover have "fill_start ?b asg = fill_start b asg"
    by (simp add: fill_start_def candidates_def fun_eq_iff visible_sessions_def visible_agents_def)
  moreover have "free_slots ?b asg = free_slots b asg"
    by (simp add: free_slots_def free_order_def [abs_def])
  ultimately show "fill_pass ?b asg = fill_pass b asg" by (simp add: fill_pass_def)
qed

lemma assignments_reallocate: "assignments (reallocate b) = filled (fill_pass b (settled b))"
  by (simp add: reallocate_def Let_def drop_stale_irrelevant)

lemma placeable_reallocate [simp]: "placeable (reallocate b) = placeable b"
  by (simp add: fun_eq_iff placeable_def available_def slot_permitted_def slot_owner_def cong: option.case_cong)

lemma valid_alloc_reallocate_iff [simp]: "valid_alloc (reallocate b) asg = valid_alloc b asg"
  by (simp add: valid_alloc_def)

lemma reallocate_inv: "board_wf b \<Longrightarrow> fill_inv b (settled b) (fill_pass b (settled b))"
  using fill_pass_spec(1) valid_alloc_settled by blast

lemma bm_invar_fold_prefs:
  "bm_invar m \<Longrightarrow> bm_invar (fold (\<lambda>(i, s) m. if P s then bm_insert i (slot_index s) m else m) xs m)"
  by (induction xs arbitrary: m) (simp_all add: case_prod_beta bm.invar_insert)

lemma remember_slots_invar:
  "hm_invar (last_slots b) \<Longrightarrow> hm_invar (last_slots (remember_slots b))"
  "bm_invar (primary_preferences b) \<Longrightarrow> bm_invar (primary_preferences (remember_slots b))"
  by (auto simp: remember_slots_def Let_def intro!: hm.invars hm.invar_insert_many bm.invar_retain
      bm_invar_fold_prefs)

lemma board_wf_reallocate [board_keep]:
  assumes "board_wf b"
  shows "board_wf (reallocate b)"
proof -
  have "valid_alloc b (assignments (reallocate b))"
    using fill_inv_parts(3) [OF reallocate_inv [OF assms]] by (simp add: assignments_reallocate)
  then have "hm_invar (assignments (reallocate b))" "slots_injective (assignments (reallocate b))"
    by (simp_all add: valid_alloc_def)
  moreover have "hm_invar (last_slots (reallocate b))" "bm_invar (primary_preferences (reallocate b))"
    using assms unfolding reallocate_def Let_def
    by (auto intro!: remember_slots_invar simp: board_wf_def)
  ultimately show ?thesis
    using assms by (simp add: board_wf_def)
qed


section \<open>What the phases leave alone\<close>

lemma sticky_keeps:
  assumes "tasks_wf (tasks b)" and "map_of asg i = Some s"
  shows "map_of (sticky_pass b asg) i = Some s"
proof -
  have "map_of (fold (\<lambda>(i, s) a. if occupied a s then a else AList.update i s a) xs a) i = map_of a i"
    if "i \<notin> fst ` set xs" for xs a
    using that
  proof (induction xs arbitrary: a)
    case (Cons x xs)
    then show ?case by (cases x) (auto simp: update_conv')
  qed simp
  moreover have "i \<notin> fst ` set (List.map_filter (\<lambda>(i, t). sticky_slot b asg t) (tasks b))"
    using assms(2) sticky_slot_Some(3) [of b asg]
    by (auto elim!: in_map_filterE)
  ultimately show ?thesis using assms(2) by (simp add: sticky_pass_def)
qed

lemma pins_keep:
  assumes "hm_invar asg" and "map_of asg i = Some s"
    and "\<And>p. p \<in> set ps \<Longrightarrow> fst p \<noteq> i \<and> snd p \<noteq> s"
  shows "map_of (fold pin_slot ps asg) i = Some s"
  using assms
proof (induction ps arbitrary: asg)
  case (Cons p ps)
  have "fst p \<noteq> i" "snd p \<noteq> s" using Cons.prems(3) [of p] by simp_all
  then have "map_of (pin_slot p asg) i = Some s"
    using Cons.prems(1,2) by (auto simp: map_of_pin_slot)
  moreover have "hm_invar (pin_slot p asg)"
    using Cons.prems(1) unfolding pin_slot_def by (intro hm.invars)
  ultimately show ?case using Cons.IH [of "pin_slot p asg"] Cons.prems(3) by simp
qed simp

text \<open>
  The claim of a logical Codex HID position on the slot of its own index: it is made on the
  partitioned controller, and only where Codex may own the slot.
\<close>

definition hid_claims :: "task_board \<Rightarrow> device_slot \<Rightarrow> task_card \<Rightarrow> bool" where
  "hid_claims b s t \<longleftrightarrow>
     is_hid_id (task_id t) \<and> owner_agent t = Codex \<and> source_slot t = Some (slot_index s) \<and>
     partitioned_device_id b = Some (device_id s) \<and> codex_may_own b (slot_index s)"

lemma settled_keeps:
  assumes "board_wf b" and "map_of (evict b) i = Some s" and "\<not> is_hid_id i"
    and "\<forall>(j, t) \<in> set (tasks b). \<not> hid_claims b s t"
  shows "map_of (settled b) i = Some s"
  unfolding settled_def pin_pass_def
proof (rule pins_keep)
  have wf: "tasks_wf (tasks b)" "devices_wf (devices b)"
    using assms(1) by (simp_all add: board_wf_def)
  let ?a = "sticky_pass b (evict b)"
  have va: "valid_alloc b ?a"
    using assms(1) wf by (intro valid_alloc_sticky valid_alloc_evict) (simp_all add: board_wf_def)
  then show hm: "hm_invar ?a" by (rule valid_alloc_invar)
  show keep: "map_of ?a i = Some s" by (rule sticky_keeps [OF wf(1) assms(2)])
  fix p
  assume "p \<in> set (pins b ?a)"
  with wf obtain t where t: "map_of (tasks b) (fst p) = Some t"
    "partitioned_device_id b = Some (device_id (snd p))" "owner_agent t = Codex"
    "source_slot t = Some (slot_index (snd p))" "codex_may_own b (slot_index (snd p))"
    "is_hid_id (fst p) \<or> map_of ?a (fst p) = None \<and> \<not> occupied ?a (snd p)"
    by (rule pins_mem)
  show "fst p \<noteq> i \<and> snd p \<noteq> s"
  proof (cases "is_hid_id (fst p)")
    case True
    have "\<not> hid_claims b s t" using assms(4) t(1) by (auto dest: map_of_SomeD)
    with True t tasks_wf_id [OF wf(1) t(1)] assms(3) show ?thesis
      by (auto simp: hid_claims_def)
  next
    case False
    with t(6) keep hm show ?thesis by (auto simp: occupied_iff)
  qed
qed

lemma assignment_survives:
  assumes "board_wf b" and "map_of (assignments b) i = Some s" and "keeps_slot b i s"
    and "\<not> is_hid_id i" and "\<forall>(j, t) \<in> set (tasks b). \<not> hid_claims b s t"
  shows "map_of (assignments (reallocate b)) i = Some s"
proof -
  have "hm_invar (assignments b)" using assms(1) by (simp add: board_wf_def)
  with assms have "map_of (evict b) i = Some s" by (simp add: evict_def hm.lookup_retain_Some)
  from settled_keeps [OF assms(1) this assms(4,5)] show ?thesis
    using fill_inv_parts(4) [OF reallocate_inv [OF assms(1)]] by (simp add: assignments_reallocate)
qed

section \<open>Properties\<close>

text \<open>
  C2. Whatever the board looked like before (any order of its hash maps, stale assignments
  included), a reallocation leaves a valid assignment: no slot is given to two cards, every
  assigned card exists and every assigned slot is connected, and a slot of the partitioned
  controller goes to its owner, an unowned one only to the Codex card of that position.
\<close>
theorem reallocation_valid:
  assumes "board_wf b"
  shows "valid_alloc (reallocate b) (assignments (reallocate b))"
  using fill_inv_parts(3) [OF reallocate_inv [OF assms]] by (simp add: assignments_reallocate)

text \<open>
  C3. The allocator is work conserving: when every session publishes for one agent (as the
  daemon's sessions do), a slot stays empty only if its owner rule refuses every eligible
  card that has no slot.
\<close>
theorem reallocation_work_conserving:
  assumes "board_wf b"
    and agents: "\<forall>(i, u) \<in> set (tasks b). \<forall>(j, v) \<in> set (tasks b).
      owner_session u = owner_session v \<longrightarrow> owner_agent u = owner_agent v"
    and s: "s \<in> set (available b)" "\<not> occupied (assignments (reallocate b)) s"
    and t: "map_of (tasks b) i = Some t" "eligible (task_state t)"
      "map_of (assignments (reallocate b)) i = None"
  shows "\<not> slot_accepts b s t"
proof
  assume acc: "slot_accepts b s t"
  let ?a = "settled b" and ?f = "fill_pass b (settled b)"
  note wf = board_wf_tasks [OF assms(1)] and va = valid_alloc_settled [OF assms(1)]
  note inv = reallocate_inv [OF assms(1)]
  have id: "task_id t = i" using tasks_wf_id [OF wf t(1)] .
  have "map_of ?a i = None"
    using t(3) fill_inv_parts(4) [OF inv, of i] by (cases "map_of ?a i") (auto simp: assignments_reallocate)
  with t id have tQ: "t \<in> set (session_queue b ?a (owner_session t))" by (simp add: queue_mem [OF wf])
  obtain n where n: "waiting_of (sessions_left ?f) (owner_session t) = drop n (session_queue b ?a (owner_session t))"
    "map_of (filled ?f) (task_id t) \<noteq> None \<longleftrightarrow> t \<in> set (take n (session_queue b ?a (owner_session t)))"
    using inv tQ unfolding fill_inv_def by blast
  with t(3) id tQ have tw: "t \<in> set (waiting_of (sessions_left ?f) (owner_session t))"
    by (metis Un_iff append_take_drop_id assignments_reallocate set_append)
  have unocc: "\<not> occupied ?a s"
    using s(2) fill_inv_parts(4) [OF inv]
    by (auto simp: assignments_reallocate occupied_iff valid_alloc_invar [OF va] fill_inv_parts(2) [OF inv])
  from fill_pass_spec(2) [OF assms(1) va s(1) unocc] s(2)
  obtain f' where f': "pick_session b f' s = None" "fill_inv b ?a f'"
    "\<exists>m. waiting_of (sessions_left ?f) (owner_session t) = drop m (waiting_of (sessions_left f') (owner_session t))"
    unfolding fill_done_def assignments_reallocate by blast
  with tw have tw': "t \<in> set (waiting_of (sessions_left f') (owner_session t))"
    by (metis in_set_dropD)
  then obtain ts where ts: "map_of (sessions_left f') (owner_session t) = Some ts" "t \<in> set ts"
    by (cases "map_of (sessions_left f') (owner_session t)") (simp_all add: waiting_of_def)
  then have mem: "(owner_session t, ts) \<in> set (sessions_left f')" by (auto dest: map_of_SomeD)
  obtain m where "ts = drop m (session_queue b ?a (owner_session t))"
    using f'(2) ts(1) unfolding fill_inv_def waiting_of_def by (metis option.simps(5))
  moreover have "hd ts \<in> set ts" using ts(2) by (cases ts) simp_all
  ultimately have "hd ts \<in> set (session_queue b ?a (owner_session t))" by (metis in_set_dropD)
  then have h: "owner_session (hd ts) = owner_session t" "(task_id (hd ts), hd ts) \<in> set (tasks b)"
    by (auto simp: queue_mem [OF wf] dest: map_of_SomeD)
  moreover have "(i, t) \<in> set (tasks b)" using t(1) by (rule map_of_SomeD)
  ultimately have "owner_agent (hd ts) = owner_agent t" using agents by fast
  with acc have "slot_accepts b s (hd ts)" by (simp add: slot_accepts_def split: option.splits)
  moreover have "ts \<noteq> []" using ts(2) by auto
  ultimately show False using f'(1) mem by (auto simp: pick_session_def filter_empty_conv)
qed

text \<open>
  C4. Within a session the free slots go to the cards in priority order: of two eligible cards
  that no earlier phase placed, the one that comes later in \<open>task_order\<close> is shown only if the
  earlier one is shown too.
\<close>
theorem no_priority_inversion:
  assumes "board_wf b"
    and t: "map_of (tasks b) (task_id t) = Some t" "eligible (task_state t)"
      "map_of (settled b) (task_id t) = None"
    and u: "map_of (tasks b) (task_id u) = Some u" "eligible (task_state u)"
      "map_of (settled b) (task_id u) = None"
    and "owner_session t = owner_session u" and "task_order t u = Less"
    and "map_of (assignments (reallocate b)) (task_id u) \<noteq> None"
  shows "map_of (assignments (reallocate b)) (task_id t) \<noteq> None"
proof -
  let ?Q = "session_queue b (settled b) (owner_session u)"
  note wf = board_wf_tasks [OF assms(1)]
  have tQ: "t \<in> set ?Q" "u \<in> set ?Q" using assms by (simp_all add: queue_mem [OF wf])
  obtain n where n: "\<forall>v \<in> set ?Q.
      map_of (filled (fill_pass b (settled b))) (task_id v) \<noteq> None \<longleftrightarrow> v \<in> set (take n ?Q)"
    using reallocate_inv [OF assms(1)] unfolding fill_inv_def by blast
  then have un: "u \<in> set (take n ?Q)" using tQ(2) assms(10) by (simp add: assignments_reallocate)
  have sorted: "sorted_wrt (\<lambda>x y. task_order x y \<noteq> Greater) (take n ?Q @ drop n ?Q)"
    unfolding append_take_drop_id
    unfolding session_queue_def candidates_def
    by (intro sorted_wrt_filter task_order.sorted_sort_by)
  have ord: "task_order x y \<noteq> Greater" if "x \<in> set (take n ?Q)" "y \<in> set (drop n ?Q)" for x y
    using that sorted unfolding sorted_wrt_append by blast
  note un
  moreover have "task_order u t = Greater" using assms(9) by (simp add: task_order.greater_iff)
  ultimately have "t \<notin> set (drop n ?Q)" using ord [of u t] by blast
  with tQ(1) have "t \<in> set (take n ?Q)" by (metis Un_iff append_take_drop_id set_append)
  with n tQ(1) show ?thesis by (simp add: assignments_reallocate)
qed

text \<open>
  C5. Cards do not move: an assignment survives the reallocation, whatever else changed on the
  board, under three conditions: it is still good (\<open>keeps_slot\<close>: the card exists and is shown
  or leased, its slot is connected, and on the partitioned controller the owner table names the
  agent of the card for that slot, or nobody for a slot past the LCD keys, or ends before it),
  the card itself is not a logical Codex HID position (\<open>codex-hid:\<close>n, which
  is always moved to its own index), and no such position claims the slot (\<open>hid_claims\<close>, which
  it can only do where Codex may own the slot). The positions that desktop threads report move
  no assigned card.
\<close>
theorem valid_assignment_survives:
  assumes "board_wf b" and "map_of (assignments b) i = Some s" and "keeps_slot b i s"
    and "\<not> is_hid_id i" and "\<forall>(j, t) \<in> set (tasks b). \<not> hid_claims b s t"
  shows "map_of (assignments (reallocate b)) i = Some s"
  using assms by (rule assignment_survives)

section \<open>Concrete boards\<close>

text \<open>Two cards of one session, and a controller with \<open>n\<close> task keys.\<close>

definition sample_card :: "string \<Rightarrow> agent_id \<Rightarrow> nat \<Rightarrow> task_card" where
  "sample_card i a p =
     \<lparr>task_id = i, owner_session = 1, owner_agent = a, title = i, project = None,
      workspace_path = None, model = None, effort = None, task_state = Running, priority = p,
      color = None, brightness = 100, progress = None, task_context = JNull, legacy_key = None,
      source_slot = None, timing_authoritative = False, updated_at_ms = 1, started_at_ms = None,
      finished_at_ms = None, reconnect_until_ms = None, interaction = None\<rparr>"

definition sample_board :: "nat \<Rightarrow> task_board" where
  "sample_board n = board_new
     \<lparr>tasks := [(''a'', sample_card ''a'' ZCode 50), (''b'', sample_card ''b'' ZCode 90)],
      devices := [(''d'', map (DeviceSlot ''d'') [0..<n])]\<rparr>"

lemma sample_board_wf: "board_wf (sample_board n)"
  by (simp add: sample_board_def sample_card_def board_new_def board_wf_def tasks_wf_def
      devices_wf_def hm_invar_def bm_invar_def slots_injective_def)

theorem reallocation_valid_witness:
  "valid_alloc (reallocate (sample_board 1)) (assignments (reallocate (sample_board 1))) \<and>
   assignments (reallocate (sample_board 1)) = [(''b'', DeviceSlot ''d'' 0)]"
  by (rule conjI [OF reallocation_valid [OF sample_board_wf]]) code_simp

theorem reallocation_work_conserving_witness:
  "\<not> slot_accepts (sample_board 1\<lparr>partitioned_device_id := Some ''d'', slot_owners := [Some Codex]\<rparr>)
     (DeviceSlot ''d'' 0) (sample_card ''a'' ZCode 50)"
proof (rule reallocation_work_conserving [where i = "''a''"])
  let ?b = "sample_board 1\<lparr>partitioned_device_id := Some ''d'', slot_owners := [Some Codex]\<rparr>"
  show "board_wf ?b" using sample_board_wf [of 1] by (simp add: board_wf_def)
  have none: "assignments (reallocate ?b) = []" by code_simp
  then show "\<not> occupied (assignments (reallocate ?b)) (DeviceSlot ''d'' 0)"
    "map_of (assignments (reallocate ?b)) ''a'' = None"
    by (simp_all add: occupied_def)
qed (simp_all add: sample_board_def sample_card_def available_def eligible_def)

theorem no_priority_inversion_witness:
  "map_of (assignments (reallocate (sample_board 2))) ''b'' \<noteq> None"
proof -
  have "settled (sample_board 2) = []" by code_simp
  moreover have "map_of (assignments (reallocate (sample_board 2))) ''a'' \<noteq> None" by code_simp
  moreover have "task_order (sample_card ''b'' ZCode 90) (sample_card ''a'' ZCode 50) = Less"
    by code_simp
  ultimately show ?thesis
    using no_priority_inversion [OF sample_board_wf, of 2 "sample_card ''b'' ZCode 90"
        "sample_card ''a'' ZCode 50"]
    by (simp add: sample_board_def sample_card_def eligible_def)
qed

theorem valid_assignment_survives_witness:
  "map_of (assignments (reallocate (sample_board 1\<lparr>assignments := [(''a'', DeviceSlot ''d'' 0)]\<rparr>))) ''a''
     = Some (DeviceSlot ''d'' 0)"
proof (rule valid_assignment_survives)
  show "board_wf (sample_board 1\<lparr>assignments := [(''a'', DeviceSlot ''d'' 0)]\<rparr>)"
    using sample_board_wf [of 1] by (simp add: board_wf_def hm_invar_def slots_injective_def)
qed (simp_all add: sample_board_def sample_card_def board_new_def keeps_slot_def eligible_def
    available_def is_hid_id_def HID_PREFIX_def hid_claims_def)

end
