(* ===== verification/Task_Board.thy ===== *)
theory Task_Board
  imports Task_Alloc_Inv
begin

text \<open>
  The operations of the task board (\<open>TaskBoard\<close> in \<open>tasks.rs\<close>): publication by the agents,
  the Codex HID feed, sessions that leave and return, selection, and the projections that
  the controllers render. An operation takes the board and returns the new one, with a
  result where the method has one; an error return carries the message of the code.
  Timestamps are milliseconds, JSON numbers where the code serialises them.
\<close>

section \<open>Preferences, devices and the partition\<close>

definition preference_entry :: "string \<times> json \<Rightarrow> (string \<times> nat) option" where
  "preference_entry p =
     (case as_u64 (snd p) of
        None \<Rightarrow> None
      | Some slot \<Rightarrow> if length (fst p) \<le> 160 \<and> slot < 64 then Some (fst p, slot) else None)"

definition restore_slot_preferences :: "json \<Rightarrow> task_board \<Rightarrow> task_board" where
  "restore_slot_preferences value b =
     (case Option.bind (jget ''slots'' value) as_object of
        None \<Rightarrow> b
      | Some slots \<Rightarrow>
          b\<lparr>primary_preferences :=
              fold (\<lambda>(k, v). bm_insert k v) (List.map_filter preference_entry (take 256 slots)) []\<rparr>)"

definition slot_preferences :: "task_board \<Rightarrow> json" where
  "slot_preferences b =
     jobj [(''version'', jnat 1), (''slots'', JObj (map (\<lambda>(i, n). (i, jnat n)) (primary_preferences b)))]"

definition guard_selection_activation :: "string \<Rightarrow> nat \<Rightarrow> task_board \<Rightarrow> task_board" where
  "guard_selection_activation i now b =
     (case map_of (tasks b) i of
        None \<Rightarrow> b
      | Some t \<Rightarrow>
          if state_active (task_state t) then b
          else b\<lparr>selection_activation_guards := AList.update i (sat_add128 now 1000) []\<rparr>)"

definition set_device :: "string \<Rightarrow> nat \<Rightarrow> bool \<Rightarrow> task_board \<Rightarrow> task_board" where
  "set_device d n online b =
     reallocate
       (if online then b\<lparr>devices := bm_insert d (map (DeviceSlot d) [0..<n]) (devices b)\<rparr>
        else b\<lparr>devices := bm_remove d (devices b),
               assignments := hm_retain (\<lambda>_ s. device_id s \<noteq> d) (assignments b)\<rparr>)"

definition clear_devices :: "task_board \<Rightarrow> task_board" where
  "clear_devices b = b\<lparr>devices := [], assignments := []\<rparr>"

definition set_slot_owners :: "string \<Rightarrow> agent_id option list \<Rightarrow> task_board \<Rightarrow> task_board" where
  "set_slot_owners d os b =
     (if partitioned_device_id b \<noteq> Some d \<or> slot_owners b \<noteq> os
      then reallocate (b\<lparr>partitioned_device_id := Some d, slot_owners := os\<rparr>)
      else b)"

section \<open>Merging cards\<close>

text \<open>A completion that was reviewed before is stored as queued.\<close>

definition acknowledged :: "task_card \<Rightarrow> task_card" where
  "acknowledged t =
     t\<lparr>task_state := Queued, color := Some (display_color Queued), started_at_ms := None,
       finished_at_ms := None\<rparr>"

text \<open>The timing of a source without timestamps, from the previous card.\<close>

definition fallback_started :: "nat \<Rightarrow> task_card \<Rightarrow> task_state \<Rightarrow> nat option" where
  "fallback_started now previous s =
     (let in_flight = (started_at_ms previous \<noteq> None \<and> task_state previous \<notin> {Queued, Completed})
      in if state_active s then (if in_flight then started_at_ms previous else Some now)
         else if s = Completed then started_at_ms previous
         else if s \<in> {Waiting, Paused, Reconnecting} then started_at_ms previous
         else None)"

definition fallback_finished :: "nat \<Rightarrow> task_card \<Rightarrow> task_state \<Rightarrow> nat option" where
  "fallback_finished now previous s =
     (if s = Completed then
        (if task_state previous = Completed then or_else (finished_at_ms previous) (Some now)
         else Some now)
      else None)"

definition timed :: "nat \<Rightarrow> task_card option \<Rightarrow> task_card \<Rightarrow> task_card" where
  "timed now previous t =
     (case previous of
        None \<Rightarrow> t
      | Some p \<Rightarrow>
          if timing_authoritative t then t
          else t\<lparr>started_at_ms := fallback_started now p (task_state t),
                 finished_at_ms := fallback_finished now p (task_state t)\<rparr>)"

definition merge_card :: "nat \<Rightarrow> task_card \<Rightarrow> task_board \<Rightarrow> task_board" where
  "merge_card now t b =
     (let reviewed = task_id t \<in> reviewed_completions b;
          t' = (if task_state t = Completed \<and> reviewed then acknowledged t else t);
          rs = (if task_state t = Completed then reviewed_completions b
                else reviewed_completions b - {task_id t})
      in b\<lparr>reviewed_completions := rs,
           tasks := AList.update (task_id t) (timed now (map_of (tasks b) (task_id t)) t') (tasks b)\<rparr>)"

definition merge_session_tasks :: "task_card list \<Rightarrow> nat \<Rightarrow> task_board \<Rightarrow> task_board" where
  "merge_session_tasks cards now b =
     reallocate (fold (merge_card now) cards (b\<lparr>board_now_ms := now\<rparr>))"

text \<open>Removal of cards by id, as \<open>replace_session_tasks\<close>, \<open>clear_session\<close> and \<open>expire\<close> do it.\<close>

definition remove_card :: "string \<Rightarrow> task_board \<Rightarrow> task_board" where
  "remove_card i b =
     b\<lparr>tasks := AList.delete i (tasks b), assignments := AList.delete i (assignments b),
       reviewed_completions := reviewed_completions b - {i}\<rparr>"

definition remove_cards :: "string list \<Rightarrow> task_board \<Rightarrow> task_board" where
  "remove_cards ids b = fold remove_card ids b"

definition ids_where :: "(string \<Rightarrow> task_card \<Rightarrow> bool) \<Rightarrow> task_board \<Rightarrow> string list" where
  "ids_where P b = map fst (filter (\<lambda>(i, t). P i t) (tasks b))"

definition replace_session_tasks :: "nat \<Rightarrow> task_card list \<Rightarrow> nat \<Rightarrow> task_board \<Rightarrow> task_board" where
  "replace_session_tasks session cards now b =
     (let ids = set (map task_id cards);
          old = ids_where (\<lambda>i t. owner_session t = session \<and> i \<notin> ids) b
      in merge_session_tasks cards now (remove_cards old b))"

definition assignments_for_session :: "nat \<Rightarrow> task_board \<Rightarrow> json" where
  "assignments_for_session session b =
     (let entry = (\<lambda>t. jobj
             [(''task_id'', JStr (task_id t)),
              (''assignment'',
                 jopt (\<lambda>s. jobj [(''device_id'', JStr (device_id s)), (''slot'', jnat (slot_index s))])
                   (map_of (assignments b) (task_id t)))]);
          mine = filter (\<lambda>t. owner_session t = session) (map snd (tasks b));
          text = (\<lambda>v. Option.bind (jget ''task_id'' v) as_str)
      in jobj [(''tasks'',
            JArr (sort_by (\<lambda>x y. case (text x, text y) of
                      (Some a, Some c) \<Rightarrow> cmp a c
                    | (None, None) \<Rightarrow> Equal | (None, Some _) \<Rightarrow> Less | (Some _, None) \<Rightarrow> Greater)
                  (map entry mine)))])"

section \<open>Publication\<close>

definition foreign_owner :: "nat \<Rightarrow> agent_id \<Rightarrow> task_card option \<Rightarrow> nat option" where
  "foreign_owner session agent existing =
     (case existing of
        None \<Rightarrow> None
      | Some e \<Rightarrow>
          if owner_session e \<noteq> session \<and> \<not> (owner_agent e = agent \<and> reconnect_until_ms e \<noteq> None)
          then Some (owner_session e) else None)"

fun published_cards ::
  "task_board \<Rightarrow> nat \<Rightarrow> agent_id \<Rightarrow> nat \<Rightarrow> string set \<Rightarrow> json list \<Rightarrow> string + task_card list" where
  "published_cards b session agent now seen [] = Inr []"
| "published_cards b session agent now seen (item # items) =
     res_bind (parse_task session agent item now None) (\<lambda>t.
       case foreign_owner session agent (map_of (tasks b) (task_id t)) of
         Some other \<Rightarrow>
           Inl (''task_id is already owned by session '' @ show_nat other @ '': '' @ task_id t)
       | None \<Rightarrow>
           if task_id t \<in> seen then Inl (''duplicate task_id in publish_tasks: '' @ task_id t)
           else res_bind (published_cards b session agent now (insert (task_id t) seen) items)
                  (\<lambda>ts. Inr (t # ts)))"

definition publish_tasks ::
  "nat \<Rightarrow> agent_id \<Rightarrow> json \<Rightarrow> nat \<Rightarrow> task_board \<Rightarrow> task_board \<times> (string + json)" where
  "publish_tasks session agent value now b =
     (case res_bind (ok_or ''publish_tasks requires a tasks array'' (Option.bind (jget ''tasks'' value) as_array))
             (published_cards b session agent now {}) of
        Inl e \<Rightarrow> (b, Inl e)
      | Inr cards \<Rightarrow>
          (let b' = replace_session_tasks session cards now b
           in (b', Inr (assignments_for_session session b'))))"

definition reconcile_authoritative_selection :: "string option \<Rightarrow> nat \<Rightarrow> task_board \<Rightarrow> task_board" where
  "reconcile_authoritative_selection authoritative now b =
     (case authoritative of
        None \<Rightarrow> b
      | Some i \<Rightarrow>
          if map_of (tasks b) i = None then b
          else if (case Option.bind (selected b) (map_of (tasks b)) of
                     None \<Rightarrow> False | Some t \<Rightarrow> owner_agent t \<noteq> Codex) then b
          else
            (case pending_selection b of
               None \<Rightarrow> b\<lparr>selected := Some i, pending_selection := None\<rparr>
             | Some (p, deadline) \<Rightarrow>
                 if p = i then b\<lparr>selected := Some i, pending_selection := None\<rparr>
                 else if now \<le> deadline \<and> map_of (tasks b) p \<noteq> None then b\<lparr>selected := Some p\<rparr>
                 else b\<lparr>selected := Some i, pending_selection := None\<rparr>))"

definition publish_codex_snapshot :: "json \<Rightarrow> nat \<Rightarrow> task_board \<Rightarrow> task_board \<times> (string + json)" where
  "publish_codex_snapshot value now b =
     (let authoritative = Option.bind (jget ''selected_task_id'' value) as_str
      in case publish_tasks 0 Codex value now b of
           (b', Inl e) \<Rightarrow> (b', Inl e)
         | (b', Inr r) \<Rightarrow> (reconcile_authoritative_selection authoritative now b', Inr r))"

text \<open>The six-entry status array of a session without task publication.\<close>

fun legacy_cards :: "nat \<Rightarrow> agent_id \<Rightarrow> nat \<Rightarrow> nat \<Rightarrow> json list \<Rightarrow> string + task_card list" where
  "legacy_cards session agent now index [] = Inr []"
| "legacy_cards session agent now index (entry # es) =
     (if (case Option.bind (jget ''e'' entry) as_u64 of None \<Rightarrow> 1 | Some e \<Rightarrow> e) = 0
      then legacy_cards session agent now (index + 1) es
      else
        res_bind (parse_task session agent entry now
            (Some (''legacy:'' @ show_nat session @ '':'' @ show_nat index, ''AG0'' @ show_nat index)))
          (\<lambda>t. res_bind (legacy_cards session agent now (index + 1) es) (\<lambda>ts. Inr (t # ts))))"

definition publish_legacy_status ::
  "nat \<Rightarrow> agent_id \<Rightarrow> json \<Rightarrow> nat \<Rightarrow> task_board \<Rightarrow> task_board \<times> (string + json)" where
  "publish_legacy_status session agent value now b =
     (case res_bind (ok_or ''status must be an array'' (as_array value)) (legacy_cards session agent now 0) of
        Inl e \<Rightarrow> (b, Inl e)
      | Inr cards \<Rightarrow>
          (let b' = replace_session_tasks session cards now b
           in (b', Inr (assignments_for_session session b'))))"

section \<open>The Codex HID feed\<close>

type_synonym hid_card = "task_card option \<times> task_state \<times> task_card"

text \<open>One entry: \<open>Inr None\<close> when the frame says nothing about the lifecycle of a card.\<close>

definition hid_entry :: "task_board \<Rightarrow> nat \<Rightarrow> nat \<Rightarrow> json \<Rightarrow> string + hid_card option" where
  "hid_entry b now pos entry =
     (let index = (case Option.bind (or_else (jget ''id'' entry) (jget ''i'' entry)) as_u64 of
                     None \<Rightarrow> pos | Some n \<Rightarrow> n)
      in if index \<ge> CODEX_HID_SLOTS then Inr None
         else
           (let i = HID_PREFIX @ show_nat index;
                effect = Option.bind (jget ''e'' entry) as_u64;
                dark = (case Option.bind (jget ''b'' entry) as_f64 of
                          None \<Rightarrow> False | Some x \<Rightarrow> x \<le> f64_epsilon)
            in if effect = Some 0 \<or> dark then Inr None
               else res_bind (parse_task 0 Codex entry now (Some (i, ''AG0'' @ show_nat index)))
                      (\<lambda>t. Inr (Some (map_of (tasks b) i, task_state t, t)))))"

fun hid_cards :: "task_board \<Rightarrow> nat \<Rightarrow> nat \<Rightarrow> json list \<Rightarrow> string + hid_card list" where
  "hid_cards b now pos [] = Inr []"
| "hid_cards b now pos (entry # es) =
     res_bind (hid_entry b now pos entry) (\<lambda>c.
     res_bind (hid_cards b now (pos + 1) es) (\<lambda>cs.
       Inr (case c of None \<Rightarrow> cs | Some x \<Rightarrow> x # cs)))"

definition demoted :: "hid_card \<Rightarrow> bool" where
  "demoted c \<longleftrightarrow>
     (case c of (Some p, observed, _) \<Rightarrow> state_active (task_state p) \<and> observed = Queued | _ \<Rightarrow> False)"

definition promoted :: "hid_card \<Rightarrow> bool" where
  "promoted c \<longleftrightarrow>
     (case c of (Some p, observed, _) \<Rightarrow> task_state p = Queued \<and> state_active observed | _ \<Rightarrow> False)"

definition selection_only :: "hid_card \<Rightarrow> bool" where
  "selection_only c \<longleftrightarrow>
     (case c of
        (Some p, observed, _) \<Rightarrow> task_state p = observed \<or> is_selection_transition (task_state p) observed
      | _ \<Rightarrow> True)"

definition selection_handoff :: "hid_card list \<Rightarrow> bool" where
  "selection_handoff cs \<longleftrightarrow> list_ex demoted cs \<and> list_ex promoted cs \<and> list_all selection_only cs"

text \<open>The thread behind the promoted position; the synthetic card when there is none.\<close>

definition handoff_target :: "task_board \<Rightarrow> task_card \<Rightarrow> string" where
  "handoff_target b t =
     (case Option.bind (source_slot t) (\<lambda>source.
             List.find (\<lambda>u. owner_session u = 0 \<and> owner_agent u = Codex \<and> \<not> is_hid_id (task_id u) \<and>
                            source_slot u = Some source) (map snd (tasks b))) of
        None \<Rightarrow> task_id t
      | Some u \<Rightarrow> task_id u)"

definition apply_handoff :: "hid_card list \<Rightarrow> task_board \<Rightarrow> task_board" where
  "apply_handoff cs b =
     (if \<not> selection_handoff cs then b
      else
        (case List.find promoted cs of
           None \<Rightarrow> b
         | Some (_, _, t) \<Rightarrow>
             (let i = handoff_target b t
              in if map_of (assignments b) i = None then b
                 else b\<lparr>selected := Some i, pending_selection := None\<rparr>)))"

definition keep_lifecycle :: "bool \<Rightarrow> hid_card \<Rightarrow> task_card" where
  "keep_lifecycle quiet c =
     (case c of
        (Some p, observed, t) \<Rightarrow>
          if quiet \<and> is_selection_transition (task_state p) observed
          then t\<lparr>task_state := task_state p, color := Some (display_color (task_state p)),
                 brightness := brightness p\<rparr>
          else t
      | (None, _, t) \<Rightarrow> t)"

definition publish_codex_hid_status :: "json \<Rightarrow> nat \<Rightarrow> task_board \<Rightarrow> task_board \<times> (string + unit)" where
  "publish_codex_hid_status value now b =
     (case as_array value of
        None \<Rightarrow> (b, Inl ''thstatus payload must be an array'')
      | Some es \<Rightarrow>
          (let b = b\<lparr>selection_activation_guards :=
                       hm_retain (\<lambda>_ expires. now \<le> expires) (selection_activation_guards b)\<rparr>;
               guarded = (selection_activation_guards b \<noteq> [])
           in case hid_cards b now 0 (take CODEX_HID_SLOTS es) of
                Inl e \<Rightarrow> (b, Inl e)
              | Inr cs \<Rightarrow>
                  (let cards = map (keep_lifecycle (guarded \<or> selection_handoff cs)) cs
                   in (merge_session_tasks cards now (apply_handoff cs b), Inr ()))))"

section \<open>Sessions\<close>

definition lease :: "nat \<Rightarrow> nat \<Rightarrow> task_card \<Rightarrow> task_card" where
  "lease session now t =
     (if owner_session t = session
      then t\<lparr>task_state := Reconnecting, reconnect_until_ms := Some (now + RECONNECT_GRACE_MS)\<rparr>
      else t)"

definition disconnect_session :: "nat \<Rightarrow> nat \<Rightarrow> task_board \<Rightarrow> task_board" where
  "disconnect_session session now b =
     b\<lparr>tasks := map (\<lambda>(i, t). (i, lease session now t)) (tasks b)\<rparr>"

definition clear_session :: "nat \<Rightarrow> task_board \<Rightarrow> task_board" where
  "clear_session session b =
     (let removed = ids_where (\<lambda>_ t. owner_session t = session) b
      in if removed = [] then b else reallocate (remove_cards removed b))"

definition has_session_tasks :: "nat \<Rightarrow> task_board \<Rightarrow> bool" where
  "has_session_tasks session b \<longleftrightarrow> list_ex (\<lambda>(i, t). owner_session t = session) (tasks b)"

definition has_agent_tasks_except :: "agent_id \<Rightarrow> nat \<Rightarrow> task_board \<Rightarrow> bool" where
  "has_agent_tasks_except agent excluded b \<longleftrightarrow>
     list_ex (\<lambda>(i, t). owner_agent t = agent \<and> owner_session t \<noteq> excluded) (tasks b)"

definition expire :: "nat \<Rightarrow> task_board \<Rightarrow> task_board" where
  "expire now b =
     (let b = b\<lparr>board_now_ms := now\<rparr>;
          expired = ids_where (\<lambda>_ t. case reconnect_until_ms t of None \<Rightarrow> False | Some u \<Rightarrow> u \<le> now) b
      in if expired = [] then b else reallocate (remove_cards expired b))"

section \<open>Selection\<close>

definition slot_holder :: "string \<Rightarrow> nat \<Rightarrow> task_board \<Rightarrow> string option" where
  "slot_holder d n b =
     map_option fst (List.find (\<lambda>(i, s). device_id s = d \<and> slot_index s = n) (assignments b))"

definition pending_until :: "task_card \<Rightarrow> string \<Rightarrow> nat \<Rightarrow> (string \<times> nat) option" where
  "pending_until t i now =
     (if owner_agent t = Codex then Some (i, sat_add128 now 2000) else None)"

definition select_task :: "string \<Rightarrow> nat \<Rightarrow> task_board \<Rightarrow> task_board \<times> json option" where
  "select_task i now b =
     (let b = b\<lparr>board_now_ms := now\<rparr>
      in case (map_of (assignments b) i, map_of (tasks b) i) of
           (Some s, Some t) \<Rightarrow>
             (let b = (if task_state t = Completed
                       then b\<lparr>tasks := AList.update i (acknowledged t) (tasks b),
                              reviewed_completions := insert i (reviewed_completions b)\<rparr>
                       else b)
              in (b\<lparr>selected := Some i, pending_selection := pending_until t i now\<rparr>,
                  Some (jobj [(''type'', JStr ''task_selected''), (''task_id'', JStr i),
                    (''device_id'', JStr (device_id s)), (''slot'', jnat (slot_index s)),
                    (''owner_session'', jnat (owner_session t)),
                    (''legacy_key'', jopt JStr (legacy_key t)), (''ts'', jnat now)])))
         | _ \<Rightarrow> (b, None))"

definition select_slot :: "string \<Rightarrow> nat \<Rightarrow> nat \<Rightarrow> task_board \<Rightarrow> task_board \<times> json option" where
  "select_slot d n now b =
     (case slot_holder d n b of None \<Rightarrow> (b, None) | Some i \<Rightarrow> select_task i now b)"

definition set_selected_model :: "string \<Rightarrow> task_board \<Rightarrow> task_board \<times> bool" where
  "set_selected_model m b =
     (case selected b of
        None \<Rightarrow> (b, False)
      | Some i \<Rightarrow>
          (case map_of (tasks b) i of
             None \<Rightarrow> (b, False)
           | Some t \<Rightarrow> (b\<lparr>tasks := AList.update i (t\<lparr>model := Some m\<rparr>) (tasks b)\<rparr>, True)))"

definition waiting_order :: "task_card \<Rightarrow> task_card \<Rightarrow> ordering" where
  "waiting_order x y =
     then_cmp (cmp (priority y) (priority x))
       (then_cmp (cmp (updated_at_ms x) (updated_at_ms y)) (cmp (task_id y) (task_id x)))"

definition awaits_user :: "nat \<Rightarrow> task_card \<Rightarrow> bool" where
  "awaits_user now t \<longleftrightarrow>
     task_state t = Waiting \<and>
     (case interaction t of
        None \<Rightarrow> False
      | Some i \<Rightarrow> (case expires_at_ms i of None \<Rightarrow> True | Some e \<Rightarrow> e > now))"

definition shown_on :: "string \<Rightarrow> task_board \<Rightarrow> task_card \<Rightarrow> bool" where
  "shown_on d b t \<longleftrightarrow>
     (case map_of (assignments b) (task_id t) of None \<Rightarrow> False | Some s \<Rightarrow> device_id s = d)"

definition auto_select_waiting :: "string \<Rightarrow> nat \<Rightarrow> task_board \<Rightarrow> task_board \<times> json option" where
  "auto_select_waiting d now b =
     (case max_by waiting_order
             (filter (shown_on d b) (filter (awaits_user now) (map snd (tasks b)))) of
        None \<Rightarrow> (b, None)
      | Some w \<Rightarrow>
          (let i = task_id w
           in if selected b = Some i then (b, None)
              else
                (case (map_of (assignments b) i, map_of (tasks b) i) of
                   (Some s, Some t) \<Rightarrow>
                     (b\<lparr>selected := Some i, pending_selection := pending_until t i now\<rparr>,
                      Some (jobj [(''type'', JStr ''task_selected''), (''task_id'', JStr i),
                        (''device_id'', JStr (device_id s)), (''slot'', jnat (slot_index s)),
                        (''owner_session'', jnat (owner_session t)), (''legacy_key'', JNull),
                        (''automatic'', JBool True), (''ts'', jnat now)]))
                 | _ \<Rightarrow> (b, None))))"

section \<open>Queries and projections\<close>

definition task_at :: "string \<Rightarrow> nat \<Rightarrow> task_board \<Rightarrow> task_card option" where
  "task_at d n b = Option.bind (slot_holder d n b) (map_of (tasks b))"

definition selected_task :: "task_board \<Rightarrow> task_card option" where
  "selected_task b = Option.bind (selected b) (map_of (tasks b))"

definition selected_on :: "string \<Rightarrow> task_board \<Rightarrow> string option" where
  "selected_on d b =
     Option.bind (selected b) (\<lambda>i. Option.bind (map_of (assignments b) i)
       (\<lambda>s. if device_id s = d then Some i else None))"

definition selected_slot :: "string \<Rightarrow> task_board \<Rightarrow> nat option" where
  "selected_slot d b =
     Option.bind (selected_on d b) (\<lambda>i. map_option slot_index (map_of (assignments b) i))"

definition selected_context :: "string \<Rightarrow> task_board \<Rightarrow> json option" where
  "selected_context d b =
     Option.bind (selected_on d b) (\<lambda>i. map_option task_context (map_of (tasks b) i))"

definition CONTEXT_KEYS :: "string list" where
  "CONTEXT_KEYS = [''project'', ''task'', ''model'', ''effort'', ''status'', ''progress'', ''task_id'',
     ''wait_reason'', ''prompt'', ''interaction_id'', ''short_action'', ''long_action'']"

definition put_opt :: "string \<Rightarrow> json option \<Rightarrow> (string, json) bmap \<Rightarrow> (string, json) bmap" where
  "put_opt k v m = (case v of None \<Rightarrow> m | Some x \<Rightarrow> bm_insert k x m)"

definition interaction_fields :: "task_interaction \<Rightarrow> (string, json) bmap \<Rightarrow> (string, json) bmap" where
  "interaction_fields i m =
     put_opt ''long_action'' (map_option (\<lambda>a. JStr (action_label a)) (long_action i))
       (put_opt ''short_action'' (map_option (\<lambda>a. JStr (action_label a)) (short_action i))
         (bm_insert ''interaction_id'' (JStr (interaction_id i))
           (bm_insert ''prompt'' (JStr (interaction_prompt i))
             (bm_insert ''wait_reason'' (JStr (interaction_kind i)) m))))"

definition display_fields :: "task_card \<Rightarrow> nat \<Rightarrow> (string, json) bmap" where
  "display_fields t n =
     (let source = (case as_object (task_context t) of None \<Rightarrow> [] | Some m \<Rightarrow> m);
          c = fold (\<lambda>k. put_opt k (map_of source k)) CONTEXT_KEYS [];
          c = put_opt ''project'' (map_option JStr (project t)) c;
          c = put_opt ''model'' (map_option JStr (model t)) c;
          c = put_opt ''effort'' (map_option JStr (effort t)) c;
          text = (case or_else (Option.bind (map_of c ''task'') as_str)
                          (if title t = [] then None else Some (title t)) of
                    None \<Rightarrow> [] | Some x \<Rightarrow> x);
          c = bm_insert ''task'' (JStr (display_task_title n text)) c;
          c = bm_insert ''status'' (JStr (task_state_str (task_state t))) c;
          c = (case interaction t of None \<Rightarrow> c | Some i \<Rightarrow> interaction_fields i c);
          c = put_opt ''progress'' (map_option jnat (progress t)) c
      in if map_of c ''task_id'' = None then bm_insert ''task_id'' (JStr (task_id t)) c else c)"

definition selected_display_context :: "string \<Rightarrow> task_board \<Rightarrow> json option" where
  "selected_display_context d b =
     Option.bind (selected_on d b) (\<lambda>i.
     Option.bind (map_of (tasks b) i) (\<lambda>t.
     Option.bind (selected_slot d b) (\<lambda>n. Some (JObj (display_fields t n)))))"

definition rendered_color :: "task_card \<Rightarrow> nat" where
  "rendered_color t =
     (if legacy_key t \<noteq> None \<or> task_state t = Waiting then display_color (task_state t)
      else if task_state t \<in> {Queued, Completed, Reconnecting} then display_color (task_state t)
      else (case color t of None \<Rightarrow> display_color (task_state t) | Some c \<Rightarrow> c))"

definition rendered_slot :: "string \<Rightarrow> task_board \<Rightarrow> nat \<Rightarrow> json" where
  "rendered_slot d b n =
     (case task_at d n b of
        None \<Rightarrow> jobj [(''id'', jnat n), (''e'', jnat 0), (''selected'', JBool False)]
      | Some t \<Rightarrow>
          (let label = (if title t = []
                        then (case legacy_key t of None \<Rightarrow> ''Task '' @ show_nat (n + 1) | Some k \<Rightarrow> k)
                        else title t)
           in jobj
             [(''e'', jnat 1), (''id'', jnat n),
              (''selected'', JBool (selected_on d b = Some (task_id t))),
              (''recently_finished'', JBool (task_state t = Completed)),
              (''title'', JStr (title t)), (''t'', JStr label), (''project'', jopt JStr (project t)),
              (''workspace_path'', jopt JStr (workspace_path t)), (''model'', jopt JStr (model t)),
              (''effort'', jopt JStr (effort t)), (''status'', JStr (task_state_str (task_state t))),
              (''c'', jnat (rendered_color t)),
              (''b'', JNum (Float (f64_div (of_nat (brightness t)) 100))),
              (''progress'', jopt jnat (progress t)), (''task_id'', JStr (task_id t)),
              (''agent'', JStr (agent_str (owner_agent t))),
              (''started_at_ms'', jopt jnat (started_at_ms t)),
              (''finished_at_ms'', jopt jnat (finished_at_ms t)),
              (''source_slot'', jopt jnat (source_slot t)),
              (''interaction'', jopt interaction_value (interaction t))]))"

definition rendered_slots :: "string \<Rightarrow> nat \<Rightarrow> task_board \<Rightarrow> json list" where
  "rendered_slots d n b = map (rendered_slot d b) [0..<n]"

definition status_json :: "task_board \<Rightarrow> json" where
  "status_json b =
     (let entry = (\<lambda>t. jobj
            [(''task_id'', JStr (task_id t)), (''owner_session'', jnat (owner_session t)),
             (''owner_agent'', JStr (agent_str (owner_agent t))), (''title'', JStr (title t)),
             (''project'', jopt JStr (project t)), (''workspace_path'', jopt JStr (workspace_path t)),
             (''model'', jopt JStr (model t)), (''effort'', jopt JStr (effort t)),
             (''state'', JStr (task_state_str (task_state t))), (''priority'', jnat (priority t)),
             (''progress'', jopt jnat (progress t)), (''started_at_ms'', jopt jnat (started_at_ms t)),
             (''finished_at_ms'', jopt jnat (finished_at_ms t)),
             (''source_slot'', jopt jnat (source_slot t)),
             (''assignment'',
                jopt (\<lambda>s. jobj [(''device_id'', JStr (device_id s)), (''slot'', jnat (slot_index s))])
                  (map_of (assignments b) (task_id t))),
             (''reconnect_until_ms'', jopt jnat (reconnect_until_ms t))])
      in jobj [(''selected_task_id'', jopt JStr (selected b)), (''tasks'', JArr (map entry (map snd (tasks b))))])"

end
