(* ===== verification/Bridge_State.thy ===== *)
theory Bridge_State
  imports Bridge_Serial Plugin_Controller Task_Board
begin

text \<open>
  The state of the bridge (\<open>BridgeRuntime\<close> in \<open>main.rs\<close>) and the operations that keep the
  controllers in step with it: the cards and the display context a controller should show, their
  transmission, start-up, reconnection and detachment. A boxed controller is a value of the type
  \<open>'c\<close> with its method table; what a method does to the device is part of its result. Times are
  milliseconds, \<open>now\<close> the wall clock and \<open>inst\<close> the monotonic one.
\<close>

section \<open>Controllers as method tables\<close>

record 'c controller_ops =
  c_kind :: "'c \<Rightarrow> controller_kind"
  c_model :: "'c \<Rightarrow> string"
  c_serial :: "'c \<Rightarrow> string option"
  c_device_id :: "'c \<Rightarrow> string"
  c_slot_count :: "'c \<Rightarrow> nat"
  c_overrides :: "'c \<Rightarrow> (nat \<times> agent_id) list option"
  c_poll :: "'c \<Rightarrow> (string + physical_event list) \<times> 'c"
  c_apply_cards :: "json list \<Rightarrow> 'c \<Rightarrow> (string + unit) \<times> 'c"
  c_apply_status :: "json \<Rightarrow> 'c \<Rightarrow> (string + unit) \<times> 'c"
  c_apply_rgb :: "json \<Rightarrow> 'c \<Rightarrow> (string + unit) \<times> 'c"
  c_apply_context :: "display_context \<Rightarrow> 'c \<Rightarrow> (string + unit) \<times> 'c"
  c_shutdown :: "'c \<Rightarrow> 'c"

text \<open>The method table of the plugin controller.\<close>

definition plugin_ops :: "desktop \<Rightarrow> plugin_controller controller_ops" where
  "plugin_ops d =
     \<lparr>c_kind = (\<lambda>_. StreamDeckPlugin), c_model = (\<lambda>_. ''streamdeck-plugin''),
      c_serial = (\<lambda>c. Some (pc_instance_id c)), c_device_id = pc_device_id,
      c_slot_count = pc_task_slots, c_overrides = slot_agent_overrides, c_poll = plugin_poll d,
      c_apply_cards = apply_task_cards, c_apply_status = apply_thread_status,
      c_apply_rgb = apply_rgb_config, c_apply_context = apply_display_context,
      c_shutdown = plugin_shutdown\<rparr>"

section \<open>The bridge\<close>

text \<open>What the bridge asks of the desktop apps, in the order in which it asks.\<close>

datatype desktop_command =
    MinimizeApp agent_id
  | ShowApp agent_id
  | SelectSession agent_id string string
  | SetMicrophone agent_id bool
  | SearchTasks
  | ToggleTerminal
  | CycleModel

text \<open>A serial runtime is its writer, absent once it has been dropped.\<close>

type_synonym serial_runtime = "serial_port option"

record 'c bridge =
  br_serial :: "serial_runtime option"
  br_sequence :: u16
  br_controller :: "'c option"
  br_aux :: "(string \<times> 'c \<times> nat) list"
  br_choice :: controller_kind
  br_choice_serial :: "string option"
  br_devices :: "device_spec list"
  br_retry_at :: nat
  br_retry_delay :: nat
  br_thread_status :: "json option"
  br_explicit_tasks :: bool
  br_rgb :: "json option"
  br_context :: "display_context option"
  br_explicit_context :: bool
  br_usage_agent :: usage_agent
  br_usage :: usage_cache
  br_firmware :: string
  br_port :: string
  br_decoder :: "u8 list"
  br_radial :: radial_state
  br_health :: health_check
  br_routing :: event_routing
  br_fused :: fused_lcd_state
  br_partition :: partition
  br_board :: task_board
  br_task_mode :: bool
  br_device_id :: string
  br_slot_count :: nat
  br_events :: "(nat \<times> json) list"
  br_desktop :: "desktop_command list"

definition has_serial :: "'c bridge \<Rightarrow> bool" where
  "has_serial b \<longleftrightarrow> br_serial b \<noteq> None"

definition send_codex ::
  "(json \<Rightarrow> string + u8 list) \<Rightarrow> json \<Rightarrow> 'c bridge \<Rightarrow> (string + unit) \<times> 'c bridge" where
  "send_codex to_vec message b =
     (case br_serial b of
        Some (Some port) \<Rightarrow>
          (let (r, port, s) = send_codex_message to_vec message (port, br_sequence b)
           in (r, b\<lparr>br_serial := Some (Some port), br_sequence := s\<rparr>))
      | _ \<Rightarrow> (Inr (), b))"

section \<open>What a controller should show\<close>

definition DEFAULT_COLORS :: "nat list" where
  "DEFAULT_COLORS =
     [0x1565c0, 0x00897b, 0x6a1b9a, 0xef6c00, 0x2e7d32, 0xad1457, 0x0277bd, 0x5d4037, 0x455a64]"

definition default_card :: "partition option \<Rightarrow> nat \<Rightarrow> json" where
  "default_card p i =
     (let owner = Option.bind p (\<lambda>p. owner_of p i);
          enabled = (p \<noteq> None \<longrightarrow> owner \<noteq> None)
      in jobj ([(''id'', jnat i), (''e'', jnat (of_bool enabled)), (''c'', jnat (DEFAULT_COLORS ! i)),
           (''status'', JStr ''idle''), (''b'', JNum (Float (if enabled then f64_round (7 / 10) else 0)))] @
           (case owner of None \<Rightarrow> [] | Some a \<Rightarrow> [(''agent'', JStr (agent_str a))])))"

definition connection_default_cards :: "nat \<Rightarrow> partition option \<Rightarrow> json list" where
  "connection_default_cards slot_count p = map (default_card p) [0..<min slot_count CODEX_TASK_SLOTS]"

definition connection_default_context :: display_context where
  "connection_default_context =
     display_default\<lparr>dc_project := Some ''MICRO-EMU'', dc_task := Some ''BRIDGE'',
       dc_effort := Some ''LIVE'', dc_status := Some ''READY'', dc_progress := Some 0\<rparr>"

definition desired_primary_cards :: "'c bridge \<Rightarrow> json list" where
  "desired_primary_cards b =
     (if br_task_mode b then
        (if br_explicit_tasks b \<or> br_thread_status b \<noteq> None then
           (if tasks (br_board b) \<noteq> [] \<or> br_thread_status b = None
            then rendered_slots (br_device_id b) (br_slot_count b) (br_board b)
            else fused_array (br_fused b) (br_partition b))
         else connection_default_cards (br_slot_count b) (Some (br_partition b)))
      else if br_explicit_tasks b \<or> br_thread_status b \<noteq> None
      then fused_array (br_fused b) (br_partition b)
      else connection_default_cards (br_slot_count b) None)"

definition overlay_display_context :: "display_context \<Rightarrow> display_context \<Rightarrow> display_context" where
  "overlay_display_context base s =
     \<lparr>dc_project = or_else (dc_project s) (dc_project base),
      dc_task = or_else (dc_task s) (dc_task base),
      dc_model = or_else (dc_model s) (dc_model base),
      dc_effort = or_else (dc_effort s) (dc_effort base),
      dc_status = or_else (dc_status s) (dc_status base),
      dc_progress = or_else (dc_progress s) (dc_progress base),
      dc_task_id = or_else (dc_task_id s) (dc_task_id base),
      dc_weekly_remaining = or_else (dc_weekly_remaining s) (dc_weekly_remaining base),
      dc_five_hour_remaining = or_else (dc_five_hour_remaining s) (dc_five_hour_remaining base),
      dc_weekly_reset_at = or_else (dc_weekly_reset_at s) (dc_weekly_reset_at base),
      dc_five_hour_reset_at = or_else (dc_five_hour_reset_at s) (dc_five_hour_reset_at base),
      dc_usage_agent = or_else (dc_usage_agent s) (dc_usage_agent base),
      dc_agents_usage = dc_agents_usage base,
      dc_wait_reason = or_else (dc_wait_reason s) (dc_wait_reason base),
      dc_prompt = or_else (dc_prompt s) (dc_prompt base),
      dc_interaction_id = or_else (dc_interaction_id s) (dc_interaction_id base),
      dc_short_action = or_else (dc_short_action s) (dc_short_action base),
      dc_long_action = or_else (dc_long_action s) (dc_long_action base),
      dc_pending_wait_count = or_else (dc_pending_wait_count s) (dc_pending_wait_count base)\<rparr>"

definition display_context_for_controller ::
  "'c bridge \<Rightarrow> display_context \<Rightarrow> string \<Rightarrow> display_context" where
  "display_context_for_controller b ctx device =
     (let resolved =
        (case selected_display_context device (br_board b) of
           None \<Rightarrow> ctx
         | Some v \<Rightarrow>
             (case display_from_value v of
                Inl _ \<Rightarrow> ctx
              | Inr s \<Rightarrow> overlay_display_context ctx s))
      in resolved\<lparr>dc_agents_usage := Some (usage_map (br_usage b))\<rparr>)"

definition desired_context_for_device :: "'c bridge \<Rightarrow> string \<Rightarrow> display_context option" where
  "desired_context_for_device b device =
     (let base = (case br_context b of None \<Rightarrow> connection_default_context | Some c \<Rightarrow> c)
      in Some (display_context_for_controller b base device))"

definition desired_context :: "'c bridge \<Rightarrow> display_context option" where
  "desired_context b = desired_context_for_device b (br_device_id b)"

section \<open>The context derived from the Codex files\<close>

definition quoted_with :: "char \<Rightarrow> string \<Rightarrow> bool" where
  "quoted_with q s \<longleftrightarrow> length s \<ge> 2 \<and> hd s = q \<and> last s = q"

definition parse_toml_kv :: "string \<Rightarrow> string \<Rightarrow> string option" where
  "parse_toml_kv line key =
     map_option (\<lambda>rest.
       let rest = trim rest in
       if quoted_with CHR 0x22 rest \<or> quoted_with CHR 0x27 rest then butlast (tl rest) else rest)
     (strip_prefix (key @ '' = '') line)"

text \<open>The top-level \<open>model\<close> and \<open>model_reasoning_effort\<close>; the last of each before a section.\<close>

fun config_lines ::
  "string list \<Rightarrow> string option \<times> string option \<Rightarrow> string option \<times> string option" where
  "config_lines [] acc = acc"
| "config_lines (line # ls) acc =
     (let line = trim line in
      if line \<noteq> [] \<and> hd line = CHR ''['' then acc
      else config_lines ls
        (or_else (parse_toml_kv line ''model'') (fst acc),
         or_else (parse_toml_kv line ''model_reasoning_effort'') (snd acc)))"

definition read_codex_config :: "usage_world \<Rightarrow> string option \<times> string option" where
  "read_codex_config w =
     (case read_file w [home_dir w, ''.codex'', ''config.toml''] of
        None \<Rightarrow> (None, None)
      | Some content \<Rightarrow> config_lines (str_lines content) (None, None))"

text \<open>
  The directory tree of the session files: a file with its path, extension and time of
  modification, or a directory, whose entries may be unreadable.
\<close>

datatype fs_node = FsFile string "string option" "nat option" | FsDir "fs_node list option"

definition newer :: "(string \<times> nat) option \<Rightarrow> (string \<times> nat) option \<Rightarrow> (string \<times> nat) option" where
  "newer latest found =
     (case (latest, found) of
        (_, None) \<Rightarrow> latest
      | (None, Some f) \<Rightarrow> Some f
      | (Some l, Some f) \<Rightarrow> if snd f > snd l then Some f else latest)"

fun find_latest_session_file :: "fs_node \<Rightarrow> (string \<times> nat) option" where
  "find_latest_session_file (FsFile path ext modified) =
     (if ext = Some ''jsonl'' then map_option (Pair path) modified else None)"
| "find_latest_session_file (FsDir None) = None"
| "find_latest_session_file (FsDir (Some es)) =
     fold (\<lambda>f latest. newer latest f) (map find_latest_session_file es) None"

text \<open>
  The project of the newest session: \<open>read\<close> gives the contents of a file, \<open>from_str\<close> parses JSON,
  and \<open>file_name\<close> is the last component of a path of the platform.
\<close>

definition read_latest_codex_session_cwd ::
  "(string \<Rightarrow> string option) \<Rightarrow> (string \<Rightarrow> json option) \<Rightarrow> (string \<Rightarrow> string option) \<Rightarrow> fs_node \<Rightarrow> string option" where
  "read_latest_codex_session_cwd read from_str file_name tree =
     Option.bind (find_latest_session_file tree) (\<lambda>(path, _).
     Option.bind (read path) (\<lambda>content.
     Option.bind (case str_lines content of [] \<Rightarrow> None | l # _ \<Rightarrow> Some l) (\<lambda>first.
     Option.bind (from_str first) (\<lambda>v.
     Option.bind (Option.bind (Option.bind (jget ''payload'' v) (jget ''cwd'')) as_str) (\<lambda>cwd.
       Some (case file_name cwd of None \<Rightarrow> cwd | Some n \<Rightarrow> n))))))"

text \<open>The values \<open>auto_derive_display_context\<close> takes from those files.\<close>

record codex_files =
  file_model :: "string option"
  file_effort :: "string option"
  file_project :: "string option"

definition slot_key :: "task_board \<Rightarrow> task_card \<Rightarrow> nat" where
  "slot_key tb t = (case map_of (assignments tb) (task_id t) of None \<Rightarrow> u64_max | Some s \<Rightarrow> slot_index s)"

definition context_task :: "task_board \<Rightarrow> task_card option" where
  "context_task tb =
     or_else (selected_task tb)
       (min_by (\<lambda>x y. cmp (slot_key tb x) (slot_key tb y))
         (filter (\<lambda>t. task_state t \<noteq> Completed) (map snd (tasks tb))))"

definition auto_derive_display_context :: "codex_files \<Rightarrow> 'c bridge \<Rightarrow> 'c bridge" where
  "auto_derive_display_context f b =
     (if br_explicit_context b then b
      else
        (let usage = (case snapshot_of (br_usage_agent b) (br_usage b) of
                        None \<Rightarrow> snapshot_default | Some s \<Rightarrow> s);
             base = display_default\<lparr>dc_weekly_remaining := weekly_remaining usage,
               dc_five_hour_remaining := five_hour_remaining usage,
               dc_weekly_reset_at := weekly_reset_at usage,
               dc_five_hour_reset_at := five_hour_reset_at usage,
               dc_usage_agent := Some (usage_agent_str (br_usage_agent b))\<rparr>;
             ctx = (case context_task (br_board b) of
               Some t \<Rightarrow> base\<lparr>dc_project := or_else (project t) (file_project f),
                 dc_task := (if title t = [] then None else Some (title t)),
                 dc_model := or_else (model t) (file_model f),
                 dc_effort := or_else (effort t) (file_effort f),
                 dc_status := Some (task_state_str (task_state t)),
                 dc_progress := progress t, dc_task_id := Some (task_id t)\<rparr>
             | None \<Rightarrow> base\<lparr>dc_project := file_project f, dc_model := file_model f,
                 dc_effort := file_effort f, dc_status := Some ''idle''\<rparr>)
         in b\<lparr>br_context := Some ctx\<rparr>))"

text \<open>\<open>patch_display_context_usage\<close>: an explicit context keeps everything but the usage fields.\<close>

definition patch_display_context_usage :: "'c bridge \<Rightarrow> 'c bridge" where
  "patch_display_context_usage b =
     (if \<not> br_explicit_context b then b
      else
        (case br_context b of
           None \<Rightarrow> b
         | Some c \<Rightarrow>
             (let s = (case snapshot_of (br_usage_agent b) (br_usage b) of
                         None \<Rightarrow> snapshot_default | Some s \<Rightarrow> s)
              in b\<lparr>br_context := Some (c\<lparr>dc_weekly_remaining := weekly_remaining s,
                   dc_five_hour_remaining := five_hour_remaining s,
                   dc_weekly_reset_at := weekly_reset_at s,
                   dc_five_hour_reset_at := five_hour_reset_at s,
                   dc_usage_agent := Some (usage_agent_str (br_usage_agent b))\<rparr>)\<rparr>)))"

section \<open>Keeping the controllers in step\<close>

definition apply_controller_state ::
  "'c controller_ops \<Rightarrow> json list \<Rightarrow> display_context option \<Rightarrow> json option \<Rightarrow> 'c \<Rightarrow> (string + unit) \<times> 'c" where
  "apply_controller_state ops cards ctx rgb dev =
     (case c_apply_cards ops cards dev of
        (Inl e, dev) \<Rightarrow> (Inl e, dev)
      | (Inr _, dev) \<Rightarrow>
          (case (case ctx of None \<Rightarrow> (Inr (), dev) | Some c \<Rightarrow> c_apply_context ops c dev) of
             (Inl e, dev) \<Rightarrow> (Inl e, dev)
           | (Inr _, dev) \<Rightarrow>
               (case rgb of None \<Rightarrow> (Inr (), dev) | Some v \<Rightarrow> c_apply_rgb ops v dev)))"

definition CONTROLLER_RETRY_INITIAL_DELAY :: nat where "CONTROLLER_RETRY_INITIAL_DELAY = 250"
definition CONTROLLER_RETRY_MAX_DELAY :: nat where "CONTROLLER_RETRY_MAX_DELAY = 1000"

definition schedule_controller_retry :: "nat \<Rightarrow> 'c bridge \<Rightarrow> 'c bridge" where
  "schedule_controller_retry inst b =
     (if is_physical (br_choice b)
      then b\<lparr>br_retry_at := inst + br_retry_delay b,
             br_retry_delay := min (br_retry_delay b * 2) CONTROLLER_RETRY_MAX_DELAY\<rparr>
      else b)"

text \<open>The detached controller is shut down and dropped.\<close>

definition detach_controller :: "nat \<Rightarrow> 'c bridge \<Rightarrow> 'c bridge" where
  "detach_controller inst b = schedule_controller_retry inst (b\<lparr>br_controller := None\<rparr>)"

definition auto_select_event :: "nat \<Rightarrow> 'c bridge \<Rightarrow> 'c bridge" where
  "auto_select_event now b =
     (case auto_select_waiting (br_device_id b) now (br_board b) of
        (tb, None) \<Rightarrow> b\<lparr>br_board := tb\<rparr>
      | (tb, Some selection) \<Rightarrow>
          (let session = (case Option.bind (jget ''owner_session'' selection) as_u64 of
                            None \<Rightarrow> 0 | Some n \<Rightarrow> n)
           in b\<lparr>br_board := tb, br_events := br_events b @ [(session, selection)]\<rparr>))"

definition replay_primary_controller_state ::
  "'c controller_ops \<Rightarrow> nat \<Rightarrow> 'c bridge \<Rightarrow> (string + unit) \<times> 'c bridge" where
  "replay_primary_controller_state ops now b =
     (let b = auto_select_event now b
      in case br_controller b of
           None \<Rightarrow> (Inr (), b)
         | Some dev \<Rightarrow>
             (let (r, dev) = apply_controller_state ops (desired_primary_cards b) (desired_context b) (br_rgb b) dev
              in (r, b\<lparr>br_controller := Some dev\<rparr>)))"

definition aux_cards :: "'c bridge \<Rightarrow> string \<Rightarrow> nat \<Rightarrow> json list" where
  "aux_cards b device slots =
     (if br_explicit_tasks b \<or> br_thread_status b \<noteq> None then
        (if tasks (br_board b) \<noteq> [] then rendered_slots device slots (br_board b)
         else fused_array (br_fused b) (br_partition b))
      else connection_default_cards slots None)"

text \<open>
  The auxiliary controllers, one after the other; one whose rendering fails is shut down, dropped
  and taken off the task board, and the others are rendered from the board without it.
\<close>

fun refresh_aux ::
  "'c controller_ops \<Rightarrow> json option \<Rightarrow> (string \<times> 'c \<times> nat) list \<Rightarrow> 'c bridge \<Rightarrow>
   (string \<times> 'c \<times> nat) list \<times> 'c bridge" where
  "refresh_aux ops rgb [] b = ([], b)"
| "refresh_aux ops rgb ((device, dev, slots) # ds) b =
     (case apply_controller_state ops (aux_cards b device slots) (desired_context_for_device b device) rgb dev of
        (Inl _, _) \<Rightarrow> refresh_aux ops rgb ds (b\<lparr>br_board := set_device device 0 False (br_board b)\<rparr>)
      | (Inr _, dev) \<Rightarrow>
          (let (survivors, b) = refresh_aux ops rgb ds b in ((device, dev, slots) # survivors, b)))"

definition refresh_task_board ::
  "'c controller_ops \<Rightarrow> nat \<Rightarrow> nat \<Rightarrow> 'c bridge \<Rightarrow> (string + unit) \<times> 'c bridge" where
  "refresh_task_board ops now inst b =
     (if \<not> br_task_mode b then (Inr (), b)
      else
        (let b = auto_select_event now b; rgb = br_rgb b;
             primary = (case br_controller b of
               None \<Rightarrow> (Inr (), b)
             | Some dev \<Rightarrow>
                 (let (r, dev) = apply_controller_state ops (desired_primary_cards b) (desired_context b) rgb dev
                  in (r, b\<lparr>br_controller := Some dev\<rparr>)))
         in case primary of
              (Inl e, b) \<Rightarrow> (Inl e, detach_controller inst b)
            | (Inr _, b) \<Rightarrow>
                (let (survivors, b) = refresh_aux ops rgb (br_aux b) (b\<lparr>br_aux := []\<rparr>)
                 in (Inr (), b\<lparr>br_aux := survivors\<rparr>))))"

section \<open>Connecting\<close>

text \<open>
  \<open>connect_controller\<close> opens a device of the kind and serial; opening hardware is the argument
  \<open>open_device\<close>.
\<close>

definition connect_controller ::
  "(controller_kind \<Rightarrow> string option \<Rightarrow> string + 'c) \<Rightarrow> controller_kind \<Rightarrow> string option \<Rightarrow> string + 'c option" where
  "connect_controller open_device choice serial =
     (if choice = NoController then Inr None
      else if choice = StreamDeckPlugin then
        Inl (''streamdeck-plugin controller is daemon-managed and not selectable '' @ ''from the CLI'')
      else map_sum id Some (open_device choice serial))"

text \<open>
  \<open>replace_runtime\<close>: \<open>opened\<close> is what opening the requested port returned.
\<close>

definition replace_runtime ::
  "string \<Rightarrow> string + serial_port \<times> string \<times> string \<times> u16 \<Rightarrow> nat \<Rightarrow> 'c bridge \<Rightarrow> (string + unit) \<times> 'c bridge" where
  "replace_runtime port opened inst b =
     (let b = b\<lparr>br_serial := None\<rparr>
      in if port = ''none'' then
           (Inr (), b\<lparr>br_sequence := 1, br_firmware := ''standalone'', br_port := ''none'',
                      br_decoder := [], br_health := health_new inst\<rparr>)
         else
           (case opened of
              Inl e \<Rightarrow> (Inl e, b)
            | Inr (writer, firmware, port, s) \<Rightarrow>
                (Inr (), b\<lparr>br_serial := Some (Some writer), br_sequence := s, br_firmware := firmware,
                           br_port := port, br_decoder := [], br_health := health_new inst\<rparr>)))"

definition reconnect_controller_if_due ::
  "'c controller_ops \<Rightarrow> (controller_kind \<Rightarrow> string option \<Rightarrow> string + 'c) \<Rightarrow> nat \<Rightarrow> nat \<Rightarrow> 'c bridge \<Rightarrow> 'c bridge" where
  "reconnect_controller_if_due ops open_device now inst b =
     (if br_controller b \<noteq> None \<or> \<not> is_physical (br_choice b) \<or> inst < br_retry_at b then b
      else
        (case connect_controller open_device (br_choice b) (br_choice_serial b) of
           Inl _ \<Rightarrow> schedule_controller_retry inst b
         | Inr None \<Rightarrow> b
         | Inr (Some dev) \<Rightarrow>
             (let b = b\<lparr>br_controller := Some dev\<rparr>;
                  b = (if br_task_mode b
                       then b\<lparr>br_board := set_device (br_device_id b) (br_slot_count b) True (br_board b)\<rparr>
                       else b)
              in case replay_primary_controller_state ops now b of
                   (Inl _, b) \<Rightarrow> detach_controller inst b
                 | (Inr _, b) \<Rightarrow>
                     (let b = (if br_task_mode b then snd (refresh_task_board ops now inst b) else b)
                      in b\<lparr>br_retry_at := inst + 5000, br_retry_delay := CONTROLLER_RETRY_INITIAL_DELAY\<rparr>))))"

section \<open>Start-up\<close>

record bridge_options =
  opt_port :: string
  opt_controller :: controller_kind
  opt_controller_serial :: "string option"
  opt_devices :: "device_spec list"

text \<open>The auxiliary devices: each is opened and registered on the task board.\<close>

fun connect_aux ::
  "'c controller_ops \<Rightarrow> (controller_kind \<Rightarrow> string option \<Rightarrow> string + 'c) \<Rightarrow> device_spec list \<Rightarrow> task_board \<Rightarrow>
   string + (string \<times> 'c \<times> nat) list \<times> task_board" where
  "connect_aux ops open_device [] tb = Inr ([], tb)"
| "connect_aux ops open_device (spec # specs) tb =
     res_bind (connect_controller open_device (spec_kind spec) (spec_serial spec)) (\<lambda>opened.
     res_bind (ok_or (''device '' @ kind_str (spec_kind spec) @ '' did not produce a controller'') opened) (\<lambda>dev.
       let device = c_device_id ops dev;
           slots = (case spec_slots spec of None \<Rightarrow> c_slot_count ops dev | Some n \<Rightarrow> n);
           tb = (if slots > 0 then set_device device slots True tb else tb)
       in res_bind (connect_aux ops open_device specs tb) (\<lambda>(ds, tb). Inr ((device, dev, slots) # ds, tb))))"

definition open_serial ::
  "string \<Rightarrow> string + serial_port \<times> string \<times> string \<times> u16 \<Rightarrow>
   string + (serial_runtime option \<times> string \<times> string \<times> u16)" where
  "open_serial port opened =
     (if port = ''none'' then Inr (None, ''standalone'', ''none'', 1)
      else
        (case opened of
           Inr (writer, firmware, p, s) \<Rightarrow> Inr (Some (Some writer), firmware, p, s)
         | Inl e \<Rightarrow> if port = ''auto'' then Inr (None, ''disconnected'', ''auto'', 1) else Inl e))"

text \<open>
  \<open>open_runtime\<close>. The devices opened by \<open>connect_aux\<close> are not stored in the runtime, whose list
  of auxiliary controllers starts empty.
\<close>

definition open_runtime ::
  "'c controller_ops \<Rightarrow> (controller_kind \<Rightarrow> string option \<Rightarrow> string + 'c) \<Rightarrow> bridge_options \<Rightarrow>
   string + serial_port \<times> string \<times> string \<times> u16 \<Rightarrow> nat \<Rightarrow> nat \<Rightarrow> string + 'c bridge" where
  "open_runtime ops open_device options opened now inst =
     res_bind (open_serial (opt_port options) opened) (\<lambda>(serial, firmware, port, s).
     res_bind (connect_controller open_device (opt_controller options) (opt_controller_serial options)) (\<lambda>dev.
       let device = (case dev of None \<Rightarrow> kind_str (opt_controller options) | Some d \<Rightarrow> c_device_id ops d);
           slots = (case dev of
             None \<Rightarrow> 0
           | Some d \<Rightarrow>
               (case Option.bind (case opt_devices options of [] \<Rightarrow> None | x # _ \<Rightarrow> Some x) spec_slots of
                  None \<Rightarrow> c_slot_count ops d | Some n \<Rightarrow> n));
           tb = (if slots > 0 then set_device device slots True board_new else board_new)
       in res_bind (connect_aux ops open_device (drop 1 (opt_devices options)) tb) (\<lambda>(aux, tb).
            let b = \<lparr>br_serial = serial, br_sequence = s, br_controller = dev, br_aux = [],
                  br_choice = opt_controller options, br_choice_serial = opt_controller_serial options,
                  br_devices = opt_devices options, br_retry_at = inst + CONTROLLER_RETRY_INITIAL_DELAY,
                  br_retry_delay = CONTROLLER_RETRY_INITIAL_DELAY, br_thread_status = None,
                  br_explicit_tasks = False, br_rgb = None, br_context = None,
                  br_explicit_context = False, br_usage_agent = UsageCodex, br_usage = cache_default,
                  br_firmware = firmware, br_port = port, br_decoder = [], br_radial = radial_default,
                  br_health = health_new inst, br_routing = routing_new, br_fused = fused_new,
                  br_partition = partition_compute (active_from_single Codex), br_board = tb,
                  br_task_mode = False, br_device_id = device, br_slot_count = slots,
                  br_events = [], br_desktop = []\<rparr>
            in case replay_primary_controller_state ops now b of
                 (Inl e, _) \<Rightarrow> Inl e
               | (Inr _, b) \<Rightarrow> Inr b)))"

end
