(* ===== verification/Bridge_Routes.thy ===== *)
theory Bridge_Routes
  imports Bridge_State
begin

text \<open>
  Routing (\<open>main.rs\<close>): what a physical event of a controller does to the bridge. A task card gets
  first refusal, then the partition decides between the event queue of an agent and the Codex HID
  path on the serial line. The desktop apps answer according to the commands they were given so
  far: \<open>view\<close> maps those commands to what the bridge can see of them.
\<close>

section \<open>Effects\<close>

record desktop_view =
  app_foreground :: "agent_id \<Rightarrow> string + bool"
  mic_active :: "agent_id \<Rightarrow> bool"
  cycled_model :: "string + string"

type_synonym desktop_world = "desktop_command list \<Rightarrow> desktop_view"

definition push_event :: "nat \<Rightarrow> json \<Rightarrow> 'c bridge \<Rightarrow> 'c bridge" where
  "push_event session v b = b\<lparr>br_events := br_events b @ [(session, v)]\<rparr>"

definition command :: "desktop_command \<Rightarrow> 'c bridge \<Rightarrow> 'c bridge" where
  "command c b = b\<lparr>br_desktop := br_desktop b @ [c]\<rparr>"

definition is_foreground :: "desktop_world \<Rightarrow> agent_id \<Rightarrow> 'c bridge \<Rightarrow> bool" where
  "is_foreground view a b = (case app_foreground (view (br_desktop b)) a of Inl _ \<Rightarrow> False | Inr x \<Rightarrow> x)"

text \<open>The sessions of the feeds the daemon polls itself, and of the catalogue actions.\<close>

definition ZCODE_POLL_SESSION :: nat where "ZCODE_POLL_SESSION = 999"
definition HERMES_POLL_SESSION :: nat where "HERMES_POLL_SESSION = 998"
definition CLAUDE_POLL_SESSION :: nat where "CLAUDE_POLL_SESSION = 997"

lemmas poll_sessions = ZCODE_POLL_SESSION_def HERMES_POLL_SESSION_def CLAUDE_POLL_SESSION_def

fun catalog_action_session :: "agent_id \<Rightarrow> nat" where
  "catalog_action_session Codex = u64_max"
| "catalog_action_session ZCode = u64_max - 1"
| "catalog_action_session Hermes = u64_max - 2"
| "catalog_action_session Claude = u64_max - 3"

definition catalog_action_agent :: "nat \<Rightarrow> agent_id option" where
  "catalog_action_agent session =
     (if session = u64_max then Some Codex
      else if session = u64_max - 1 then Some ZCode
      else if session = u64_max - 2 then Some Hermes
      else if session = u64_max - 3 then Some Claude
      else None)"

section \<open>Task cards\<close>

definition resolve_task_target :: "'c bridge \<Rightarrow> string \<Rightarrow> nat \<Rightarrow> string option \<Rightarrow> task_card option" where
  "resolve_task_target b device index tid =
     (case tid of
        Some i \<Rightarrow> map_of (tasks (br_board b)) i
      | None \<Rightarrow> task_at device index (br_board b))"

text \<open>The press of a card: the selection event, and the app of an agent that is fed by polling.\<close>

definition press_card :: "string \<Rightarrow> nat \<Rightarrow> string option \<Rightarrow> nat \<Rightarrow> task_card \<Rightarrow> 'c bridge \<Rightarrow> 'c bridge" where
  "press_card device index tid now t b =
     (let (tb, selection) = (case tid of
             Some i \<Rightarrow> select_task i now (br_board b)
           | None \<Rightarrow> select_slot device index now (br_board b));
          b = b\<lparr>br_board := tb\<rparr>;
          b = (case selection of None \<Rightarrow> b | Some s \<Rightarrow> push_event (owner_session t) s b)
      in if (owner_agent t = ZCode \<and> owner_session t = ZCODE_POLL_SESSION) \<or>
            (owner_agent t = Hermes \<and> owner_session t = HERMES_POLL_SESSION) \<or>
            (owner_agent t = Claude \<and> owner_session t = CLAUDE_POLL_SESSION)
         then command (SelectSession (owner_agent t) (task_id t) (title t)) b else b)"

definition synthetic_edge :: "string \<Rightarrow> bool \<Rightarrow> json option" where
  "synthetic_edge key pressed =
     (case messages_for_synthetic_key key of
        Inl _ \<Rightarrow> None
      | Inr [] \<Rightarrow> None
      | Inr ms \<Rightarrow> Some (if pressed then hd ms else last ms))"

text \<open>The key of a card that stands for a Codex position.\<close>

definition legacy_key_edge ::
  "(json \<Rightarrow> string + u8 list) \<Rightarrow> bool \<Rightarrow> nat \<Rightarrow> task_card \<Rightarrow> string \<Rightarrow> 'c bridge \<Rightarrow> 'c bridge" where
  "legacy_key_edge to_vec pressed now t key b =
     (let b = (if pressed \<and> owner_session t = 0
               then b\<lparr>br_board := guard_selection_activation (task_id t) now (br_board b)\<rparr> else b);
          b = push_event (owner_session t) (jobj [(''type'', JStr ''key''), (''key'', JStr key),
                (''pressed'', JBool pressed), (''ts'', jnat now)]) b
      in if owner_session t = 0 \<and> has_serial b
         then (case synthetic_edge key pressed of
                 None \<Rightarrow> b | Some m \<Rightarrow> snd (send_codex to_vec m b))
         else b)"

definition route_task_button ::
  "(json \<Rightarrow> string + u8 list) \<Rightarrow> string \<Rightarrow> nat \<Rightarrow> nat \<Rightarrow> bool \<Rightarrow> string option \<Rightarrow> nat \<Rightarrow> 'c bridge \<Rightarrow> bool \<times> 'c bridge" where
  "route_task_button to_vec device slot_count index pressed tid now b =
     (if \<not> br_task_mode b \<or> index \<ge> slot_count then (False, b)
      else
        (case resolve_task_target b device index tid of
           None \<Rightarrow> (tid \<noteq> None, b)
         | Some t \<Rightarrow>
             (let b = (if pressed then press_card device index tid now t b else b)
              in (True, (case legacy_key t of
                           None \<Rightarrow> b | Some key \<Rightarrow> legacy_key_edge to_vec pressed now t key b)))))"

definition interaction_event :: "task_card \<Rightarrow> task_interaction \<Rightarrow> task_action \<Rightarrow> string \<Rightarrow> nat \<Rightarrow> json" where
  "interaction_event t i a gesture now =
     jobj [(''type'', JStr ''task_action''), (''task_id'', JStr (task_id t)),
       (''interaction_id'', JStr (interaction_id i)), (''action_id'', JStr (action_id a)),
       (''action'', JStr (action_name a)), (''payload'', action_payload a),
       (''gesture'', JStr gesture), (''ts'', jnat now)]"

definition route_task_action ::
  "string \<Rightarrow> nat \<Rightarrow> nat \<Rightarrow> string \<Rightarrow> string option \<Rightarrow> nat \<Rightarrow> 'c bridge \<Rightarrow> bool \<times> 'c bridge" where
  "route_task_action device slot_count index gesture tid now b =
     (if \<not> br_task_mode b \<or> index \<ge> slot_count then (False, b)
      else
        (case resolve_task_target b device index tid of
           None \<Rightarrow> (tid \<noteq> None, b)
         | Some t \<Rightarrow>
             (True,
              if task_state t \<noteq> Waiting \<or>
                 (case selected_task (br_board b) of None \<Rightarrow> True | Some s \<Rightarrow> task_id s \<noteq> task_id t)
              then b
              else
                (case interaction t of
                   None \<Rightarrow> b
                 | Some i \<Rightarrow>
                     if (case expires_at_ms i of None \<Rightarrow> False | Some e \<Rightarrow> e \<le> now) then b
                     else
                       (case (if gesture = ''short'' then short_action i
                              else if gesture = ''long'' then long_action i else None) of
                          None \<Rightarrow> b
                        | Some a \<Rightarrow> push_event (owner_session t) (interaction_event t i a gesture now) b)))))"

definition route_task_toggle ::
  "(json \<Rightarrow> string + u8 list) \<Rightarrow> desktop_world \<Rightarrow> string \<Rightarrow> nat \<Rightarrow> nat \<Rightarrow> string option \<Rightarrow> nat \<Rightarrow> 'c bridge \<Rightarrow> bool \<times> 'c bridge" where
  "route_task_toggle to_vec view device slot_count index tid now b =
     (if \<not> br_task_mode b \<or> index \<ge> slot_count then (False, b)
      else
        (case resolve_task_target b device index tid of
           None \<Rightarrow> (tid \<noteq> None, b)
         | Some t \<Rightarrow>
             (True,
              if is_foreground view (owner_agent t) b then command (MinimizeApp (owner_agent t)) b
              else
                (let b = snd (route_task_button to_vec device slot_count index True (Some (task_id t)) now b);
                     b = snd (route_task_button to_vec device slot_count index False (Some (task_id t)) now b)
                 in command (ShowApp (owner_agent t)) b))))"

section \<open>Dictation and the catalogue\<close>

definition dictation_app :: "desktop_world \<Rightarrow> 'c bridge \<Rightarrow> agent_id option" where
  "dictation_app view b =
     List.find (\<lambda>a. mic_active (view (br_desktop b)) a \<or> is_foreground view a b) [ZCode, Hermes, Claude]"

definition route_desktop_dictation :: "desktop_world \<Rightarrow> bool \<Rightarrow> 'c bridge \<Rightarrow> bool \<times> 'c bridge" where
  "route_desktop_dictation view pressed b =
     (case dictation_app view b of
        None \<Rightarrow> (False, b)
      | Some a \<Rightarrow> (True, command (SetMicrophone a pressed) b))"

definition catalog_target_session :: "task_card option \<Rightarrow> nat \<times> agent_id" where
  "catalog_target_session t =
     (let agent = (case t of None \<Rightarrow> Codex | Some t \<Rightarrow> owner_agent t);
          session = (case t of
            Some t \<Rightarrow>
              if owner_session t \<noteq> 0 \<and> owner_session t \<noteq> ZCODE_POLL_SESSION \<and>
                 owner_session t \<noteq> HERMES_POLL_SESSION \<and> owner_session t \<noteq> CLAUDE_POLL_SESSION
              then owner_session t else catalog_action_session agent
          | None \<Rightarrow> catalog_action_session agent)
      in (session, agent))"

definition device_slots :: "string \<Rightarrow> task_board \<Rightarrow> nat list" where
  "device_slots device tb =
     remdups_adj (sort (map slot_index (filter (\<lambda>s. device_id s = device)
       (List.map_filter (\<lambda>(i, t). map_of (assignments tb) (task_id t)) (tasks tb)))))"

fun navigation_target :: "catalog_action \<Rightarrow> nat list \<Rightarrow> nat option \<Rightarrow> nat option" where
  "navigation_target TaskFirst slots current = Some (hd slots)"
| "navigation_target TaskLast slots current = Some (last slots)"
| "navigation_target TaskNext slots current =
     Some (case Option.bind current (\<lambda>s. List.find (\<lambda>c. c > s) slots) of
             None \<Rightarrow> hd slots | Some n \<Rightarrow> n)"
| "navigation_target TaskPrevious slots current =
     Some (case Option.bind current (\<lambda>s. List.find (\<lambda>c. c < s) (rev slots)) of
             None \<Rightarrow> last slots | Some n \<Rightarrow> n)"
| "navigation_target _ slots current = None"

definition route_catalog_task_navigation ::
  "string \<Rightarrow> catalog_action \<Rightarrow> nat \<Rightarrow> 'c bridge \<Rightarrow> 'c bridge" where
  "route_catalog_task_navigation device action now b =
     (let slots = device_slots device (br_board b) in
      if slots = [] then b
      else
        (case navigation_target action slots (selected_slot device (br_board b)) of
           None \<Rightarrow> b
         | Some target \<Rightarrow>
             (case task_at device target (br_board b) of
                None \<Rightarrow> b
              | Some t \<Rightarrow>
                  (case select_slot device target now (br_board b) of
                     (tb, None) \<Rightarrow> b\<lparr>br_board := tb\<rparr>
                   | (tb, Some s) \<Rightarrow> push_event (fst (catalog_target_session (Some t))) s (b\<lparr>br_board := tb\<rparr>)))))"

definition route_catalog_action :: "string \<Rightarrow> catalog_action \<Rightarrow> nat \<Rightarrow> 'c bridge \<Rightarrow> 'c bridge" where
  "route_catalog_action device action now b =
     (if action \<in> {TaskPrevious, TaskNext, TaskFirst, TaskLast}
      then route_catalog_task_navigation device action now b
      else
        (let t = selected_task (br_board b); (session, agent) = catalog_target_session t in
         if action = AgentSearch \<and> agent = Codex then command SearchTasks b
         else if action = AgentOpenTerminal \<and> agent = Codex then command ToggleTerminal b
         else push_event session
           (jobj [(''type'', JStr ''catalog_action''), (''action'', JStr (catalog_as_str action)),
              (''agent'', JStr (agent_str agent)), (''task_id'', jopt (\<lambda>t. JStr (task_id t)) t),
              (''device_id'', JStr device), (''ts'', jnat now)]) b))"

section \<open>Usage source and model\<close>

definition route_usage_select ::
  "'c controller_ops \<Rightarrow> codex_files \<Rightarrow> nat \<Rightarrow> nat \<Rightarrow> usage_agent \<Rightarrow> 'c bridge \<Rightarrow> 'c bridge" where
  "route_usage_select ops files now inst agent b =
     (let changed = (br_usage_agent b \<noteq> agent);
          b = b\<lparr>br_usage_agent := agent\<rparr>;
          b = (if changed \<or> \<not> refreshed_within agent USAGE_REFRESH_INTERVAL inst (br_usage b)
               then b\<lparr>br_usage := fst (request_refresh agent inst (br_usage b))\<rparr> else b)
      in snd (refresh_task_board ops now inst
           (patch_display_context_usage (auto_derive_display_context files b))))"

text \<open>The model the Codex app reports after it was asked to advance its list.\<close>

definition cycle_codex_model ::
  "'c controller_ops \<Rightarrow> desktop_world \<Rightarrow> nat \<Rightarrow> nat \<Rightarrow> 'c bridge \<Rightarrow> 'c bridge" where
  "cycle_codex_model ops view now inst b =
     (let b = command CycleModel b in
      case cycled_model (view (br_desktop b)) of
        Inl _ \<Rightarrow> b
      | Inr m \<Rightarrow>
          snd (refresh_task_board ops now inst
            (b\<lparr>br_board := fst (set_selected_model m (br_board b)),
               br_context := map_option (\<lambda>c. c\<lparr>dc_model := Some m\<rparr>) (br_context b)\<rparr>)))"

definition route_model_cycle ::
  "'c controller_ops \<Rightarrow> desktop_world \<Rightarrow> nat \<Rightarrow> nat \<Rightarrow> 'c bridge \<Rightarrow> 'c bridge" where
  "route_model_cycle ops view now inst b =
     (case selected_task (br_board b) of
        Some t \<Rightarrow>
          if owner_agent t \<noteq> Codex then
            (let (session, agent) = catalog_target_session (Some t)
             in push_event session
                  (jobj [(''type'', JStr ''catalog_action''), (''action'', JStr ''agent.cycle-model''),
                     (''agent'', JStr (agent_str agent)), (''task_id'', JStr (task_id t)),
                     (''device_id'', JStr (br_device_id b)), (''ts'', jnat now)]) b)
          else cycle_codex_model ops view now inst b
      | None \<Rightarrow> cycle_codex_model ops view now inst b)"

section \<open>Events of a controller\<close>

text \<open>
  The end of the chain: a button goes to the queue of the agent that owns its key, except that a
  Codex key, and everything without an owner, goes to the Codex HID path on the serial line; a
  Codex key is queued as well when there is no serial line.
\<close>

definition hid_event ::
  "(json \<Rightarrow> string + u8 list) \<Rightarrow> physical_event \<Rightarrow> 'c bridge \<Rightarrow> (string + unit) \<times> 'c bridge" where
  "hid_event to_vec e b =
     (let (m, st) = radial_event e (br_radial b); b = b\<lparr>br_radial := st\<rparr> in
      case m of
        None \<Rightarrow> (Inr (), b)
      | Some v \<Rightarrow> if has_serial b then send_codex to_vec v b else (Inr (), b))"

definition queue_button :: "nat \<Rightarrow> bool \<Rightarrow> nat \<Rightarrow> 'c bridge \<Rightarrow> 'c bridge" where
  "queue_button index pressed now b =
     b\<lparr>br_routing := route_button index pressed now (br_partition b) (br_routing b)\<rparr>"

definition partition_event ::
  "(json \<Rightarrow> string + u8 list) \<Rightarrow> nat \<Rightarrow> physical_event \<Rightarrow> nat \<Rightarrow> bool \<Rightarrow> 'c bridge \<Rightarrow> (string + unit) \<times> 'c bridge" where
  "partition_event to_vec now e index pressed b =
     (case owner_of (br_partition b) index of
        None \<Rightarrow> hid_event to_vec e b
      | Some owner \<Rightarrow>
          if owner \<noteq> Codex then (Inr (), queue_button index pressed now b)
          else hid_event to_vec e (if has_serial b then b else queue_button index pressed now b))"

text \<open>The microphone key; \<open>None\<close> when it is left to the HID path.\<close>

definition microphone_event :: "desktop_world \<Rightarrow> bool \<Rightarrow> 'c bridge \<Rightarrow> 'c bridge option" where
  "microphone_event view pressed b =
     (case route_desktop_dictation view pressed b of
        (True, b) \<Rightarrow> Some b
      | (False, b) \<Rightarrow> if has_serial b then None else Some (command (SetMicrophone Codex pressed) b))"

definition gesture_name :: "nat \<Rightarrow> string" where
  "gesture_name g = (if g = 0 then ''short'' else ''long'')"

text \<open>One pass of the loop of \<open>poll_controller\<close>, for the primary controller.\<close>

fun primary_event ::
  "'c controller_ops \<Rightarrow> (json \<Rightarrow> string + u8 list) \<Rightarrow> desktop_world \<Rightarrow> codex_files \<Rightarrow> nat \<Rightarrow> nat \<Rightarrow>
   physical_event \<Rightarrow> 'c bridge \<Rightarrow> (string + unit) \<times> 'c bridge" where
  "primary_event ops to_vec view files now inst (EncoderButton index pressed) b =
     (case (if index = 2 then microphone_event view pressed b else None) of
        Some b \<Rightarrow> (Inr (), b)
      | None \<Rightarrow> hid_event to_vec (EncoderButton index pressed) b)"
| "primary_event ops to_vec view files now inst ModelCycle b =
     (Inr (), route_model_cycle ops view now inst b)"
| "primary_event ops to_vec view files now inst (UsageSelect agent) b =
     (Inr (), route_usage_select ops files now inst agent b)"
| "primary_event ops to_vec view files now inst (TaskAction index g tid) b =
     (Inr (), snd (route_task_action (br_device_id b) (br_slot_count b) index (gesture_name g) tid now b))"
| "primary_event ops to_vec view files now inst (TaskButton index pressed tid) b =
     (Inr (), snd (route_task_button to_vec (br_device_id b) (br_slot_count b) index pressed tid now b))"
| "primary_event ops to_vec view files now inst (CatalogEvent action) b =
     (Inr (), route_catalog_action (br_device_id b) action now b)"
| "primary_event ops to_vec view files now inst (Button index pressed) b =
     (case route_task_button to_vec (br_device_id b) (br_slot_count b) index pressed None now b of
        (True, b') \<Rightarrow> (Inr (), b')
      | (False, b) \<Rightarrow>
          if br_task_mode b \<and>
             (case br_controller b of None \<Rightarrow> False | Some d \<Rightarrow> c_device_id ops d = br_device_id b) \<and>
             index < br_slot_count b
          then (Inr (), b)
          else partition_event to_vec now (Button index pressed) index pressed b)"
| "primary_event ops to_vec view files now inst (MicroButton index pressed) b =
     partition_event to_vec now (MicroButton index pressed) index pressed b"
| "primary_event ops to_vec view files now inst e b = hid_event to_vec e b"

text \<open>One pass of \<open>route_task_device_events\<close>, for an auxiliary controller; it ignores send errors.\<close>

fun aux_event ::
  "'c controller_ops \<Rightarrow> (json \<Rightarrow> string + u8 list) \<Rightarrow> desktop_world \<Rightarrow> codex_files \<Rightarrow> nat \<Rightarrow> nat \<Rightarrow>
   string \<Rightarrow> nat \<Rightarrow> physical_event \<Rightarrow> 'c bridge \<Rightarrow> 'c bridge" where
  "aux_event ops to_vec view files now inst device slots (EncoderButton index pressed) b =
     (case (if index = 2 then microphone_event view pressed b else None) of
        Some b \<Rightarrow> b
      | None \<Rightarrow> snd (hid_event to_vec (EncoderButton index pressed) b))"
| "aux_event ops to_vec view files now inst device slots ModelCycle b =
     route_model_cycle ops view now inst b"
| "aux_event ops to_vec view files now inst device slots (UsageSelect agent) b =
     route_usage_select ops files now inst agent b"
| "aux_event ops to_vec view files now inst device slots (TaskToggle index tid) b =
     snd (route_task_toggle to_vec view device slots index tid now b)"
| "aux_event ops to_vec view files now inst device slots (TaskAction index g tid) b =
     snd (route_task_action device slots index (gesture_name g) tid now b)"
| "aux_event ops to_vec view files now inst device slots (TaskButton index pressed tid) b =
     snd (route_task_button to_vec device slots index pressed tid now b)"
| "aux_event ops to_vec view files now inst device slots (CatalogEvent action) b =
     route_catalog_action device action now b"
| "aux_event ops to_vec view files now inst device slots (Button index pressed) b =
     (case route_task_button to_vec device slots index pressed None now b of
        (True, b') \<Rightarrow> b'
      | (False, b) \<Rightarrow>
          if br_task_mode b \<and> index < slots then b
          else snd (partition_event to_vec now (Button index pressed) index pressed b))"
| "aux_event ops to_vec view files now inst device slots (MicroButton index pressed) b =
     snd (partition_event to_vec now (MicroButton index pressed) index pressed b)"
| "aux_event ops to_vec view files now inst device slots e b = snd (hid_event to_vec e b)"

definition route_task_device_events ::
  "'c controller_ops \<Rightarrow> (json \<Rightarrow> string + u8 list) \<Rightarrow> desktop_world \<Rightarrow> codex_files \<Rightarrow> nat \<Rightarrow> nat \<Rightarrow>
   string \<Rightarrow> nat \<Rightarrow> physical_event list \<Rightarrow> 'c bridge \<Rightarrow> 'c bridge" where
  "route_task_device_events ops to_vec view files now inst device slots es b =
     fold (aux_event ops to_vec view files now inst device slots) es b"

section \<open>Polling the controllers\<close>

fun primary_events ::
  "'c controller_ops \<Rightarrow> (json \<Rightarrow> string + u8 list) \<Rightarrow> desktop_world \<Rightarrow> codex_files \<Rightarrow> nat \<Rightarrow> nat \<Rightarrow>
   physical_event list \<Rightarrow> 'c bridge \<Rightarrow> (string + unit) \<times> 'c bridge" where
  "primary_events ops to_vec view files now inst [] b = (Inr (), b)"
| "primary_events ops to_vec view files now inst (e # es) b =
     (case primary_event ops to_vec view files now inst e b of
        (Inl x, b) \<Rightarrow> (Inl x, b)
      | (Inr _, b) \<Rightarrow> primary_events ops to_vec view files now inst es b)"

text \<open>A poll that fails takes the controller off the board, and resets a bridge that rested on it.\<close>

definition drop_aux :: "string \<Rightarrow> 'c bridge \<Rightarrow> 'c bridge" where
  "drop_aux device b =
     (let b = b\<lparr>br_board := set_device device 0 False (br_board b)\<rparr> in
      if br_controller b = None \<and> br_device_id b = device
      then b\<lparr>br_device_id := ''none'', br_slot_count := 0, br_board := set_slot_owners ''none'' [] (br_board b)\<rparr>
      else b)"

fun poll_aux ::
  "'c controller_ops \<Rightarrow> (json \<Rightarrow> string + u8 list) \<Rightarrow> desktop_world \<Rightarrow> codex_files \<Rightarrow> nat \<Rightarrow> nat \<Rightarrow>
   (string \<times> 'c \<times> nat) list \<Rightarrow> 'c bridge \<Rightarrow> (string \<times> 'c \<times> nat) list \<times> 'c bridge" where
  "poll_aux ops to_vec view files now inst [] b = ([], b)"
| "poll_aux ops to_vec view files now inst ((device, dev, slots) # ds) b =
     (case c_poll ops dev of
        (Inl _, _) \<Rightarrow> poll_aux ops to_vec view files now inst ds (drop_aux device b)
      | (Inr es, dev) \<Rightarrow>
          (let b = route_task_device_events ops to_vec view files now inst device slots es b;
               (survivors, b) = poll_aux ops to_vec view files now inst ds b
           in ((device, dev, slots) # survivors, b)))"

definition poll_controller ::
  "'c controller_ops \<Rightarrow> (json \<Rightarrow> string + u8 list) \<Rightarrow> desktop_world \<Rightarrow> codex_files \<Rightarrow> nat \<Rightarrow> nat \<Rightarrow>
   'c bridge \<Rightarrow> (string + unit) \<times> 'c bridge" where
  "poll_controller ops to_vec view files now inst b =
     (let primary = (case br_controller b of
            None \<Rightarrow> (Inr (), b)
          | Some dev \<Rightarrow>
              (case c_poll ops dev of
                 (Inl _, _) \<Rightarrow> (Inr (), detach_controller inst b)
               | (Inr es, dev) \<Rightarrow>
                   primary_events ops to_vec view files now inst es (b\<lparr>br_controller := Some dev\<rparr>)))
      in case primary of
           (Inl e, b) \<Rightarrow> (Inl e, b)
         | (Inr _, b) \<Rightarrow>
             (let (survivors, b) = poll_aux ops to_vec view files now inst (br_aux b) (b\<lparr>br_aux := []\<rparr>)
              in (Inr (), b\<lparr>br_aux := survivors\<rparr>)))"

end
