(* ===== verification/Mcp.thy ===== *)
theory Mcp
  imports Json Routing
begin

text \<open>
  The MCP messages of the bridge (\<open>mcp.rs\<close>): JSON-RPC responses, tool results, the list of tools
  and the tools each agent may call. The pretty printer of the JSON library is a parameter.
\<close>

section \<open>Responses\<close>

definition PROTOCOL_VERSION :: string where "PROTOCOL_VERSION = ''2025-06-18''"

definition DISPLAY_CONTEXT_INSTRUCTIONS :: string where
  "DISPLAY_CONTEXT_INSTRUCTIONS =
     ''The RP2040 v.oai.thstatus path updates task cards only; it does not publish live '' @
     ''dashboard context. Model, effort, weekly_remaining, and five_hour_remaining values '' @
     ''shown before an explicit update may be standby or auto-derived placeholders and are not '' @
     ''live context. Call set_display_context with the current live metadata at task start and '' @
     ''again whenever any display-context value changes.''"

definition response :: "json \<Rightarrow> json \<Rightarrow> json" where
  "response i result = jobj [(''jsonrpc'', JStr ''2.0''), (''id'', i), (''result'', result)]"

definition jint :: "int \<Rightarrow> json" where
  "jint i = JNum (if i < 0 then NegInt i else PosInt (nat i))"

definition error_response :: "json option \<Rightarrow> int \<Rightarrow> string \<Rightarrow> json" where
  "error_response i code message =
     jobj [(''jsonrpc'', JStr ''2.0''), (''id'', (case i of None \<Rightarrow> JNull | Some v \<Rightarrow> v)),
       (''error'', jobj [(''code'', jint code), (''message'', JStr message)])]"

definition text_result :: "(json \<Rightarrow> string) \<Rightarrow> json \<Rightarrow> json" where
  "text_result pretty v =
     jobj [(''content'', JArr [jobj [(''type'', JStr ''text''), (''text'', JStr (pretty v))]]),
       (''structuredContent'', v)]"

definition tool_error :: "string \<Rightarrow> json" where
  "tool_error message =
     jobj [(''isError'', JBool True),
       (''content'', JArr [jobj [(''type'', JStr ''text''), (''text'', JStr message)]])]"

section \<open>The tools\<close>

definition object_schema :: "(string \<times> json) list \<Rightarrow> string list \<Rightarrow> json" where
  "object_schema props required =
     jobj ([(''type'', JStr ''object''), (''properties'', jobj props)] @
       (if required = [] then [] else [(''required'', JArr (map JStr required))]) @
       [(''additionalProperties'', JBool False)])"

definition tool_entry :: "string \<Rightarrow> string \<Rightarrow> json \<Rightarrow> json" where
  "tool_entry name description schema =
     jobj [(''name'', JStr name), (''description'', JStr description), (''inputSchema'', schema)]"

definition typed :: "string \<Rightarrow> json" where
  "typed t = jobj [(''type'', JStr t)]"

definition objects_array :: json where
  "objects_array = jobj [(''type'', JStr ''array''), (''items'', typed ''object'')]"

definition nullable :: "string \<Rightarrow> (string \<times> json) list \<Rightarrow> json" where
  "nullable t bounds = jobj ((''type'', JArr [JStr t, JStr ''null'']) # bounds)"

definition poll_events_tool :: json where
  "poll_events_tool =
     tool_entry ''poll_events''
      (''Drain buffered controller and task events for the calling agent. With timeout_ms > 0, '' @
       ''waits up to that many milliseconds for the first event to arrive (long-poll). Returns '' @
       ''an object of shape {\"events\": [...]}. Key events have shape {type:\"key\", key, pressed, '' @
       ''ts}; partition changes {type:\"partition\", keys, slots, agents, ts}; task-card '' @
       ''selections {type:\"task_selected\", task_id, device_id, slot, owner_session, legacy_key, '' @
       ''ts}; task-board updates {type:\"layout_changed\", tasks, ts}.'')
      (object_schema [(''timeout_ms'', jobj [(''type'', JStr ''integer''), (''minimum'', jnat 0),
         (''maximum'', jnat 25000), (''default'', jnat 0)])] [])"

definition SYNTHETIC_KEYS :: "string list" where
  "SYNTHETIC_KEYS =
     [''AG00'', ''AG01'', ''AG02'', ''AG03'', ''AG04'', ''AG05'', ''ACT06'', ''ACT07'',
      ''ACT08'', ''ENC_CW'', ''ENC_CC'', ''ENC_CLK'']"

definition context_schema :: "(string \<times> json) list" where
  "context_schema =
     (let text = nullable ''string'' []; unsigned = nullable ''integer'' [(''minimum'', jnat 0)];
          percent = nullable ''integer'' [(''minimum'', jnat 0), (''maximum'', jnat 100)]
      in [(''project'', text), (''task'', text), (''model'', text), (''effort'', text), (''status'', text),
          (''progress'', percent), (''task_id'', text), (''weekly_remaining'', percent),
          (''five_hour_remaining'', percent), (''weekly_reset_at'', unsigned),
          (''five_hour_reset_at'', unsigned), (''wait_reason'', text), (''prompt'', text),
          (''interaction_id'', text), (''short_action'', text), (''long_action'', text),
          (''pending_wait_count'', percent)])"

definition all_tools :: "json list" where
  "all_tools =
     [tool_entry ''bridge_status''
       (''Return the RP2040 bridge firmware, serial port and AJAZZ connection state.'')
       (object_schema [] []),
      tool_entry ''emit_key''
       (''Emit a synthetic Codex Micro key press/release through the physical bridge.'')
       (object_schema [(''key'', jobj [(''type'', JStr ''string''), (''enum'', JArr (map JStr SYNTHETIC_KEYS))])]
          [''key'']),
      tool_entry ''send_codex_message''
       (''Send one Codex Micro JSON message to the RP2040 device.'')
       (object_schema [(''message'', typed ''object'')] [''message'']),
      tool_entry ''set_thread_status''
       (''Publish live task/status state to this session's assigned LCD slots as task cards. The '' @
        ''colored numbered cards shown before this call are standby indicators, not task data; '' @
        ''call this whenever task status changes. This updates task cards only: call '' @
        ''set_display_context separately for live model, effort, and usage metadata. Use '' @
        ''bridge_status to see which slots you own.'')
       (object_schema [(''status'', objects_array)] [''status'']),
      tool_entry ''publish_tasks''
       (''Publish the complete live task-card snapshot for this MCP session. This replaces the '' @
        ''standby LCD indicators; call it at task start and whenever the task list or progress '' @
        ''changes. Task-card updates do not change display-context model, effort, or usage '' @
        ''fields; publish those separately with set_display_context.'')
       (object_schema [(''tasks'', objects_array)] [''tasks'']),
      tool_entry ''set_display_context''
       (''Publish live project/task/model/effort/status/progress and remaining weekly/five-hour '' @
        ''usage metadata to the connected device displays. Call this at task start and whenever '' @
        ''any display-context value changes; v.oai.thstatus and task-card tools do not update '' @
        ''model, effort, or usage. A horizontal Stream Deck + swipe alternates the context and '' @
        ''usage screens. Approval interactions can additionally set wait_reason, prompt, '' @
        ''interaction_id, short_action, long_action, and pending_wait_count.'')
       (object_schema context_schema []),
      tool_entry ''set_rgb_config''
       (''Send the v.oai.rgbcfg configuration to the bridge.'')
       (object_schema [(''config'', typed ''object'')] [''config'']),
      tool_entry ''device_status''
       (''Request device.status from the RP2040 firmware; the response is consumed by the bridge.'')
       (object_schema [] []),
      poll_events_tool]"

definition tools :: json where
  "tools = jobj [(''tools'', JArr all_tools)]"

definition tool_available :: "string \<Rightarrow> agent_id option \<Rightarrow> bool" where
  "tool_available name agent =
     (if agent = Some Hermes \<or> agent = Some ZCode \<or> agent = Some Claude
      then name \<in> set [''bridge_status'', ''poll_events'', ''set_thread_status'', ''publish_tasks'',
        ''set_display_context'']
      else True)"

definition tool_name :: "json \<Rightarrow> string" where
  "tool_name tool = (case Option.bind (jget ''name'' tool) as_str of None \<Rightarrow> [] | Some n \<Rightarrow> n)"

definition tools_for :: "agent_id option \<Rightarrow> json" where
  "tools_for agent =
     (let all = (case Option.bind (jget ''tools'' tools) as_array of None \<Rightarrow> [] | Some ts \<Rightarrow> ts)
      in jobj [(''tools'', JArr (filter (\<lambda>t. tool_available (tool_name t) agent) all))])"

definition daemon_tools_for :: "agent_id option \<Rightarrow> json" where
  "daemon_tools_for agent =
     (case Option.bind (jget ''tools'' (tools_for agent)) as_array of
        None \<Rightarrow> tools_for agent
      | Some ts \<Rightarrow>
          jobj [(''tools'', JArr (filter (\<lambda>t. Option.bind (jget ''name'' t) as_str \<noteq> Some ''set_rgb_config'') ts))])"

end
