(* ===== verification/Bridge_Tools.thy ===== *)
theory Bridge_Tools
  imports Bridge_Routes Mcp
begin

text \<open>
  What the outside world asks of the bridge (\<open>main.rs\<close>): the messages of the Codex host on the
  serial line, the status document, the tools of an MCP client, and the loop of the direct
  \<open>--mcp\<close> mode. The libraries and the platform are collected in one record of parameters.
\<close>

record 'c bridge_env =
  e_ops :: "'c controller_ops"
  e_to_vec :: "json \<Rightarrow> string + u8 list"
  e_next_value :: "u8 list \<Rightarrow> stream_result"
  e_pretty :: "json \<Rightarrow> string"
  e_view :: desktop_world
  e_files :: codex_files
  e_open_device :: "controller_kind \<Rightarrow> string option \<Rightarrow> string + 'c"
  e_from_str :: "string \<Rightarrow> string + json"
  e_plugin :: "string \<Rightarrow> nat \<Rightarrow> json list \<Rightarrow> 'c"

section \<open>Messages of the Codex host\<close>

datatype process_error = ControllerError string | ParameterError string | SerialError string

definition message_params :: "json \<Rightarrow> json option" where
  "message_params m = or_else (jget ''p'' m) (jget ''params'' m)"

text \<open>An error of the controller counts as one of the parameters when these have the wrong type.\<close>

definition blame :: "bool \<Rightarrow> string \<Rightarrow> process_error" where
  "blame well_typed e = (if well_typed then ControllerError e else ParameterError e)"

definition on_controller ::
  "('c \<Rightarrow> (string + unit) \<times> 'c) \<Rightarrow> 'c bridge \<Rightarrow> (string + unit) \<times> 'c bridge" where
  "on_controller f b =
     (case br_controller b of
        None \<Rightarrow> (Inr (), b)
      | Some dev \<Rightarrow> (let (r, dev) = f dev in (r, b\<lparr>br_controller := Some dev\<rparr>)))"

definition process_thread_status ::
  "'c controller_ops \<Rightarrow> json \<Rightarrow> 'c bridge \<Rightarrow> (process_error + unit) \<times> 'c bridge" where
  "process_thread_status ops params b =
     (let b = b\<lparr>br_thread_status := Some params\<rparr> in
      case merge_from_agent Codex params (br_partition b) (br_fused b) of
        Inl e \<Rightarrow> (Inl (ParameterError e), b)
      | Inr (fused, st) \<Rightarrow>
          (case on_controller (c_apply_status ops (JArr fused)) (b\<lparr>br_fused := st\<rparr>) of
             (Inl e, b) \<Rightarrow> (Inl (blame (as_array params \<noteq> None) e), b)
           | (Inr _, b) \<Rightarrow> (Inr (), b)))"

definition process_rgb_config ::
  "'c controller_ops \<Rightarrow> json \<Rightarrow> 'c bridge \<Rightarrow> (process_error + unit) \<times> 'c bridge" where
  "process_rgb_config ops params b =
     (case on_controller (c_apply_rgb ops params) (b\<lparr>br_rgb := Some params\<rparr>) of
        (Inl e, b) \<Rightarrow> (Inl (blame (as_object params \<noteq> None) e), b)
      | (Inr _, b) \<Rightarrow> (Inr (), b))"

definition process_codex_message ::
  "'c bridge_env \<Rightarrow> json \<Rightarrow> 'c bridge \<Rightarrow> (process_error + unit) \<times> 'c bridge" where
  "process_codex_message env message b =
     (let step = (case (method_of message, message_params message) of
            (Some m, Some params) \<Rightarrow>
              if m = ''v.oai.thstatus'' then process_thread_status (e_ops env) params b
              else if m = ''v.oai.rgbcfg'' then process_rgb_config (e_ops env) params b
              else (Inr (), b)
          | _ \<Rightarrow> (Inr (), b))
      in case step of
           (Inl e, b) \<Rightarrow> (Inl e, b)
         | (Inr _, b) \<Rightarrow>
             (case rpc_ack_response message of
                None \<Rightarrow> (Inr (), b)
              | Some ack \<Rightarrow>
                  (let (r, b) = send_codex (e_to_vec env) ack b in (map_sum SerialError id r, b))))"

section \<open>Events of the serial line\<close>

text \<open>
  The messages of one report: an error of the controller detaches it, one of the parameters is
  reported, and one of the serial line ends the messages of this report.
\<close>

fun process_messages ::
  "'c bridge_env \<Rightarrow> nat \<Rightarrow> json list \<Rightarrow> 'c bridge \<Rightarrow> string option \<times> 'c bridge" where
  "process_messages env inst [] b = (None, b)"
| "process_messages env inst (m # ms) b =
     (case process_codex_message env m b of
        (Inr _, b) \<Rightarrow> process_messages env inst ms b
      | (Inl (ControllerError _), b) \<Rightarrow> process_messages env inst ms (detach_controller inst b)
      | (Inl (ParameterError _), b) \<Rightarrow> process_messages env inst ms b
      | (Inl (SerialError e), b) \<Rightarrow> (Some e, b))"

text \<open>The events of one pass; \<open>lost\<close> is the error of the serial line so far.\<close>

fun drain_serial ::
  "'c bridge_env \<Rightarrow> nat \<Rightarrow> serial_event list \<Rightarrow> string option \<Rightarrow> 'c bridge \<Rightarrow> string option \<times> 'c bridge" where
  "drain_serial env inst [] lost b = (lost, b)"
| "drain_serial env inst (SerialFrame f # es) lost b =
     (if frame_type f = CodexOutputReport then
        (case codex_feed (e_next_value env) (br_decoder b) (payload f) of
           (Inl _, buf) \<Rightarrow> drain_serial env inst es lost (b\<lparr>br_decoder := buf\<rparr>)
         | (Inr ms, buf) \<Rightarrow>
             (let (e, b) = process_messages env inst ms (b\<lparr>br_decoder := buf\<rparr>)
              in drain_serial env inst es (or_else e lost) b))
      else if frame_type f = Status then
        drain_serial env inst es lost (b\<lparr>br_health := observe_status_at inst (br_health b)\<rparr>)
      else drain_serial env inst es lost b)"
| "drain_serial env inst (ProtocolError _ # es) lost b = drain_serial env inst es lost b"
| "drain_serial env inst (Disconnected e # es) lost b = (Some e, b)"

definition send_health_ping :: "nat \<Rightarrow> 'c bridge \<Rightarrow> (string + unit) \<times> 'c bridge" where
  "send_health_ping now b =
     (if \<not> due_at now (br_health b) then (Inr (), b)
      else
        (let (n, s) = next_sequence (br_sequence b); b = b\<lparr>br_sequence := s\<rparr> in
         case frame_new Ping n [] of
           Inl e \<Rightarrow> (Inl (wire_error_to_string e), b)
         | Inr f \<Rightarrow>
             (case br_serial b of
                Some (Some port) \<Rightarrow>
                  (case write_frame f port of
                     (Inl e, port) \<Rightarrow> (Inl e, b\<lparr>br_serial := Some (Some port)\<rparr>)
                   | (Inr _, port) \<Rightarrow>
                       (Inr (), b\<lparr>br_serial := Some (Some port), br_health := begin_at now (br_health b)\<rparr>))
              | _ \<Rightarrow> (Inr (), b))))"

section \<open>The status document\<close>

definition agent_status :: "'c bridge \<Rightarrow> agent_id \<Rightarrow> json" where
  "agent_status b a =
     jobj [(''events'', jnat (queue_len (queue_of (br_routing b) a))),
       (''keys'', JArr (map JStr (keys_for (br_partition b) a))),
       (''slots'', JArr (map jnat (slots_for (br_partition b) a)))]"

definition device_status :: "'c bridge \<Rightarrow> string \<Rightarrow> nat \<Rightarrow> bool \<Rightarrow> json" where
  "device_status b device slots present =
     jobj [(''id'', JStr device), (''taskSlots'', jnat slots), (''connected'', JBool present),
       (''selectedTask'', jopt JStr (selected_on device (br_board b)))]"

definition bridge_status :: "'c controller_ops \<Rightarrow> 'c bridge \<Rightarrow> string \<Rightarrow> json" where
  "bridge_status ops b mode =
     (let dev = br_controller b;
          devices = device_status b (br_device_id b) (br_slot_count b) (dev \<noteq> None) #
            map (\<lambda>(i, _, n). device_status b i n True) (br_aux b)
      in jobj [(''type'', JStr ''bridge-ready''), (''version'', jnat 2), (''firmware'', JStr (br_firmware b)),
           (''port'', JStr (br_port b)), (''rp2040'', JBool (has_serial b)),
           (''ajazzConnected'', JBool (case dev of None \<Rightarrow> False | Some d \<Rightarrow> c_kind ops d = Ajazz)),
           (''controller'',
              jobj [(''kind'', JStr (kind_str (br_choice b))), (''connected'', JBool (dev \<noteq> None)),
                (''model'', jopt (\<lambda>d. JStr (c_model ops d)) dev),
                (''serial'', jopt JStr (Option.bind dev (c_serial ops)))]),
           (''displayContext'', jopt display_to_value (br_context b)),
           (''codexPresentation'', jopt id (br_thread_status b)),
           (''agents'',
              jobj [(''codex'', agent_status b Codex), (''zcode'', agent_status b ZCode),
                (''hermes'', agent_status b Hermes), (''claude'', agent_status b Claude)]),
           (''partition'', jobj [(''owners'', JArr (owners_json (br_partition b)))]),
           (''taskMode'', JBool (br_task_mode b)), (''devices'', JArr devices),
           (''taskBoard'', status_json (br_board b)), (''mode'', JStr mode)])"

section \<open>Tools\<close>

definition tool_arguments :: "json \<Rightarrow> json" where
  "tool_arguments request =
     (case Option.bind (jget ''params'' request) (jget ''arguments'') of None \<Rightarrow> JNull | Some v \<Rightarrow> v)"

fun send_messages ::
  "(json \<Rightarrow> string + u8 list) \<Rightarrow> json list \<Rightarrow> 'c bridge \<Rightarrow> (string + unit) \<times> 'c bridge" where
  "send_messages to_vec [] b = (Inr (), b)"
| "send_messages to_vec (m # ms) b =
     (case send_codex to_vec m b of
        (Inl e, b) \<Rightarrow> (Inl e, b)
      | (Inr _, b) \<Rightarrow> send_messages to_vec ms b)"

definition tool_reply :: "(json \<Rightarrow> string) \<Rightarrow> ('a \<Rightarrow> json) \<Rightarrow> string + 'a \<Rightarrow> json" where
  "tool_reply pretty f r = (case r of Inl e \<Rightarrow> tool_error e | Inr x \<Rightarrow> text_result pretty (f x))"

definition call_emit_key :: "'c bridge_env \<Rightarrow> json \<Rightarrow> 'c bridge \<Rightarrow> json \<times> 'c bridge" where
  "call_emit_key env arguments b =
     (case Option.bind (jget ''key'' arguments) as_str of
        None \<Rightarrow> (tool_error ''emit_key requires a key'', b)
      | Some key \<Rightarrow>
          (case messages_for_synthetic_key key of
             Inl e \<Rightarrow> (tool_error e, b)
           | Inr ms \<Rightarrow>
               (let (r, b) = send_messages (e_to_vec env) ms b
                in (tool_reply (e_pretty env)
                      (\<lambda>_. jobj [(''key'', JStr key), (''messagesSent'', jnat (length ms))]) r, b))))"

definition send_tool_message ::
  "(json \<Rightarrow> string + u8 list) \<Rightarrow> json \<Rightarrow> 'c bridge \<Rightarrow> (string + nat) \<times> 'c bridge" where
  "send_tool_message to_vec message b =
     (case frame_json to_vec message of
        Inl e \<Rightarrow> (Inl e, b)
      | Inr reports \<Rightarrow>
          (let (r, b) = send_codex to_vec message b in (map_sum id (\<lambda>_. length reports) r, b)))"

definition reports_sent :: "nat \<Rightarrow> json" where
  "reports_sent n = jobj [(''reportsSent'', jnat n)]"

definition call_send_codex_message :: "'c bridge_env \<Rightarrow> json \<Rightarrow> 'c bridge \<Rightarrow> json \<times> 'c bridge" where
  "call_send_codex_message env arguments b =
     (case jget ''message'' arguments of
        None \<Rightarrow> (tool_error ''send_codex_message requires message'', b)
      | Some message \<Rightarrow>
          if as_object message = None then (tool_error ''message must be a JSON object'', b)
          else
            (let (r, b) = send_tool_message (e_to_vec env) message b
             in (tool_reply (e_pretty env) reports_sent r, b)))"

text \<open>
  The context for the primary controller goes to the auxiliary ones as it is; one that fails is
  shut down and dropped.
\<close>

fun push_context ::
  "'c controller_ops \<Rightarrow> display_context \<Rightarrow> (string \<times> 'c \<times> nat) list \<Rightarrow> (string \<times> 'c \<times> nat) list" where
  "push_context ops ctx [] = []"
| "push_context ops ctx ((device, dev, slots) # ds) =
     (case c_apply_context ops ctx dev of
        (Inl _, _) \<Rightarrow> push_context ops ctx ds
      | (Inr _, dev) \<Rightarrow> (device, dev, slots) # push_context ops ctx ds)"

definition context_updated :: "display_context \<Rightarrow> json" where
  "context_updated ctx = jobj [(''updated'', JBool True), (''context'', display_to_value ctx)]"

definition call_set_display_context ::
  "'c bridge_env \<Rightarrow> nat \<Rightarrow> json \<Rightarrow> 'c bridge \<Rightarrow> json \<times> 'c bridge" where
  "call_set_display_context env inst arguments b =
     (case display_from_value arguments of
        Inl e \<Rightarrow> (tool_error e, b)
      | Inr ctx \<Rightarrow>
          (let ctx = (if dc_weekly_remaining ctx \<noteq> None \<or> dc_five_hour_remaining ctx \<noteq> None
                      then ctx\<lparr>dc_usage_agent := Some (usage_agent_str (br_usage_agent b))\<rparr> else ctx);
               b = b\<lparr>br_context := Some ctx, br_explicit_context := True\<rparr>;
               render = display_context_for_controller b ctx (br_device_id b);
               (r, b) = on_controller (c_apply_context (e_ops env) render) b;
               b = (case r of Inl _ \<Rightarrow> detach_controller inst b | Inr _ \<Rightarrow> b);
               b = b\<lparr>br_aux := push_context (e_ops env) render (br_aux b)\<rparr>
           in (case r of
                 Inl e \<Rightarrow> tool_error (''Stream Deck dashboard disconnected: '' @ e)
               | Inr _ \<Rightarrow> text_result (e_pretty env) (context_updated ctx), b)))"

definition call_set_rgb_config :: "'c bridge_env \<Rightarrow> json \<Rightarrow> 'c bridge \<Rightarrow> json \<times> 'c bridge" where
  "call_set_rgb_config env arguments b =
     (case jget ''config'' arguments of
        None \<Rightarrow> (tool_error ''set_rgb_config requires config'', b)
      | Some config \<Rightarrow>
          if as_object config = None then (tool_error ''config must be an object'', b)
          else
            (let (r, b) = send_tool_message (e_to_vec env)
                   (jobj [(''m'', JStr ''v.oai.rgbcfg''), (''p'', config)]) b
             in (tool_reply (e_pretty env) reports_sent r, b)))"

definition call_device_status :: "'c bridge_env \<Rightarrow> 'c bridge \<Rightarrow> json \<times> 'c bridge" where
  "call_device_status env b =
     (let (i, s) = next_sequence (br_sequence b); b = b\<lparr>br_sequence := s\<rparr>;
          (r, b) = send_tool_message (e_to_vec env)
            (jobj [(''m'', JStr ''device.status''), (''id'', jnat (unat i))]) b
      in (tool_reply (e_pretty env)
            (\<lambda>n. jobj [(''requestId'', jnat (unat i)), (''reportsSent'', jnat n)]) r, b))"

section \<open>The direct MCP mode\<close>

definition apply_thread_status_locally ::
  "'c controller_ops \<Rightarrow> agent_id \<Rightarrow> json \<Rightarrow> 'c bridge \<Rightarrow> (string + unit) \<times> 'c bridge" where
  "apply_thread_status_locally ops agent status b =
     (case merge_from_agent agent status (br_partition b) (br_fused b) of
        Inl e \<Rightarrow> (Inl e, b)
      | Inr (fused, st) \<Rightarrow> on_controller (c_apply_status ops (JArr fused)) (b\<lparr>br_fused := st\<rparr>))"

definition mcp_set_thread_status ::
  "'c bridge_env \<Rightarrow> nat \<Rightarrow> json \<Rightarrow> 'c bridge \<Rightarrow> json \<times> 'c bridge" where
  "mcp_set_thread_status env inst arguments b =
     (case jget ''status'' arguments of
        None \<Rightarrow> (tool_error ''set_thread_status requires status'', b)
      | Some status \<Rightarrow>
          if as_array status = None then (tool_error ''status must be an array'', b)
          else
            (case apply_thread_status_locally (e_ops env) Codex status
                (b\<lparr>br_thread_status := Some status, br_explicit_tasks := True\<rparr>) of
               (Inl e, b) \<Rightarrow> (tool_error (''controller apply failed: '' @ e), detach_controller inst b)
             | (Inr _, b) \<Rightarrow>
                 (let (r, b) = send_tool_message (e_to_vec env)
                        (jobj [(''m'', JStr ''v.oai.thstatus''), (''p'', status)]) b
                  in (tool_reply (e_pretty env)
                        (\<lambda>n. jobj [(''updated'', JBool True), (''reportsSent'', jnat n)]) r, b))))"

definition mcp_set_display_context ::
  "'c bridge_env \<Rightarrow> nat \<Rightarrow> json \<Rightarrow> 'c bridge \<Rightarrow> json \<times> 'c bridge" where
  "mcp_set_display_context env inst arguments b =
     (case display_from_value arguments of
        Inl e \<Rightarrow> (tool_error e, b)
      | Inr ctx \<Rightarrow>
          (let b = b\<lparr>br_context := Some ctx, br_explicit_context := True\<rparr>;
               render = display_context_for_controller b ctx (br_device_id b)
           in case on_controller (c_apply_context (e_ops env) render) b of
                (Inl e, b) \<Rightarrow>
                  (tool_error (''Stream Deck dashboard disconnected: '' @ e), detach_controller inst b)
              | (Inr _, b) \<Rightarrow> (text_result (e_pretty env) (context_updated ctx), b)))"

text \<open>
  The blocking wait of \<open>poll_events\<close>: a pass is the monotonic and the wall clock it reads. \<open>None\<close>
  stands for a wait that has not ended within the passes.
\<close>

definition no_codex_event :: "'c bridge \<Rightarrow> bool" where
  "no_codex_event b \<longleftrightarrow> queue_is_empty (queue_of (br_routing b) Codex)"

fun await_events ::
  "'c bridge_env \<Rightarrow> nat \<Rightarrow> (nat \<times> nat) list \<Rightarrow> 'c bridge \<Rightarrow> 'c bridge option" where
  "await_events env deadline [] b = None"
| "await_events env deadline ((inst, now) # ps) b =
     (if inst < deadline \<and> no_codex_event b
      then await_events env deadline ps
        (snd (poll_controller (e_ops env) (e_to_vec env) (e_view env) (e_files env) now inst
          (reconnect_controller_if_due (e_ops env) (e_open_device env) now inst b)))
      else Some b)"

definition drain_queue :: "agent_id \<Rightarrow> 'c bridge \<Rightarrow> json list \<times> 'c bridge" where
  "drain_queue a b =
     (map event_to_json (fst (queue_drain (queue_of (br_routing b) a))),
      b\<lparr>br_routing := queue_mut a (\<lambda>q. snd (queue_drain q)) (br_routing b)\<rparr>)"

definition events_result :: "(json \<Rightarrow> string) \<Rightarrow> json list \<Rightarrow> json" where
  "events_result pretty es = text_result pretty (jobj [(''events'', JArr es)])"

definition poll_timeout :: "json \<Rightarrow> nat" where
  "poll_timeout arguments =
     min (case Option.bind (jget ''timeout_ms'' arguments) as_u64 of None \<Rightarrow> 0 | Some n \<Rightarrow> n) 25000"

definition mcp_poll_events ::
  "'c bridge_env \<Rightarrow> nat \<Rightarrow> (nat \<times> nat) list \<Rightarrow> json \<Rightarrow> 'c bridge \<Rightarrow> (json \<times> 'c bridge) option" where
  "mcp_poll_events env inst passes arguments b =
     (let t = poll_timeout arguments;
          answer = (\<lambda>b. let (es, b) = drain_queue Codex b in (events_result (e_pretty env) es, b))
      in if \<not> no_codex_event b then Some (answer b)
         else if t > 0 then map_option answer (await_events env (inst + t) passes b)
         else Some (events_result (e_pretty env) [], b))"

definition call_tool ::
  "'c bridge_env \<Rightarrow> nat \<Rightarrow> (nat \<times> nat) list \<Rightarrow> json \<Rightarrow> 'c bridge \<Rightarrow> (json \<times> 'c bridge) option" where
  "call_tool env inst passes request b =
     (case Option.bind (Option.bind (jget ''params'' request) (jget ''name'')) as_str of
        None \<Rightarrow> Some (tool_error ''tools/call requires params.name'', b)
      | Some name \<Rightarrow>
          (let arguments = tool_arguments request in
           if name = ''bridge_status'' then Some (text_result (e_pretty env) (bridge_status (e_ops env) b ''mcp''), b)
           else if name = ''emit_key'' then Some (call_emit_key env arguments b)
           else if name = ''send_codex_message'' then Some (call_send_codex_message env arguments b)
           else if name = ''set_thread_status'' then Some (mcp_set_thread_status env inst arguments b)
           else if name = ''set_display_context'' then Some (mcp_set_display_context env inst arguments b)
           else if name = ''set_rgb_config'' then Some (call_set_rgb_config env arguments b)
           else if name = ''device_status'' then Some (call_device_status env b)
           else if name = ''poll_events'' then mcp_poll_events env inst passes arguments b
           else Some (tool_error (''unknown MCP tool: '' @ name), b)))"

definition PKG_VERSION :: string where "PKG_VERSION = ''1.2.0''"

definition initialize_result :: "string \<Rightarrow> json" where
  "initialize_result instructions =
     jobj [(''protocolVersion'', JStr PROTOCOL_VERSION),
       (''capabilities'', jobj [(''tools'', jobj [(''listChanged'', JBool False)])]),
       (''serverInfo'', jobj [(''name'', JStr ''micro-emu-bridge''), (''version'', JStr PKG_VERSION)]),
       (''instructions'', JStr instructions)]"

definition mcp_instructions :: string where
  "mcp_instructions =
     ''Use bridge_status first. The colored numbered LCD cards and READY dashboard are standby '' @
     ''indicators until you publish live state. Publish task cards with set_thread_status or '' @
     ''publish_tasks. '' @ DISPLAY_CONTEXT_INSTRUCTIONS @
     '' Hardware actions target the RP2040 on the configured serial port.''"

definition empty_list_result :: "string \<Rightarrow> json" where
  "empty_list_result key = jobj [(key, JArr [])]"

text \<open>The answer of \<open>handle_mcp_request\<close>, if it writes one; \<open>None\<close> as in \<open>await_events\<close>.\<close>

definition handle_mcp_request ::
  "'c bridge_env \<Rightarrow> nat \<Rightarrow> (nat \<times> nat) list \<Rightarrow> json \<Rightarrow> 'c bridge \<Rightarrow> (json option \<times> 'c bridge) option" where
  "handle_mcp_request env inst passes request b =
     (let i = jget ''id'' request in
      case Option.bind (jget ''method'' request) as_str of
        None \<Rightarrow> Some (map_option (\<lambda>i. error_response (Some i) (- 32600) ''MCP request requires method'') i, b)
      | Some method \<Rightarrow>
          if strip_prefix ''notifications/'' method \<noteq> None then Some (None, b)
          else
            (case i of
               None \<Rightarrow> Some (None, b)
             | Some i \<Rightarrow>
                 if method = ''initialize'' then Some (Some (response i (initialize_result mcp_instructions)), b)
                 else if method = ''ping'' then Some (Some (response i (jobj [])), b)
                 else if method = ''resources/list'' then Some (Some (response i (empty_list_result ''resources'')), b)
                 else if method = ''resources/templates/list''
                 then Some (Some (response i (empty_list_result ''resourceTemplates'')), b)
                 else if method = ''tools/list'' then Some (Some (response i tools), b)
                 else if method = ''tools/call''
                 then map_option (\<lambda>(r, b). (Some (response i r), b)) (call_tool env inst passes request b)
                 else Some (Some (error_response (Some i) (- 32601) (''unknown MCP method: '' @ method)), b)))"

end
