(* ===== verification/Daemon.thy ===== *)
theory Daemon
  imports Bridge_Tools
begin

text \<open>
  The daemon (\<open>daemon.rs\<close>): its MCP sessions, the lines they send, the requests and their answers,
  deferred polls, and the plugin sessions that bring a virtual controller. A session keeps what
  was sent to its writer; the threads that read the sockets are functions from the lines they
  read to the messages they send to the main loop.
\<close>

section \<open>Partition of the task slots\<close>

definition effective_active_set ::
  "active_set \<Rightarrow> bool \<Rightarrow> bool \<Rightarrow> bool \<Rightarrow> bool \<Rightarrow> active_set" where
  "effective_active_set session_agents codex zcode hermes claude =
     (let s = session_agents;
          s = (if codex then active_insert Codex s else s);
          s = (if zcode then active_insert ZCode s else s);
          s = (if hermes then active_insert Hermes s else s)
      in if claude then active_insert Claude s else s)"

text \<open>\<open>owners[slot] = Some(agent)\<close> where the slot is in range.\<close>

definition set_owners :: "nat list \<Rightarrow> agent_id \<Rightarrow> agent_id option list \<Rightarrow> agent_id option list" where
  "set_owners slots a ow = fold (\<lambda>s ow. ow[s := Some a]) slots ow"

definition split_owners :: "nat \<Rightarrow> agent_id list \<Rightarrow> agent_id option list \<Rightarrow> agent_id option list" where
  "split_owners n agents ow =
     (let split = n div length agents in
      fold (\<lambda>(i, a) ow.
          set_owners [i * split..<(if i + 1 = length agents then n else (i + 1) * split)] a ow)
        (enumerate 0 agents) ow)"

definition automatic_owners :: "nat \<Rightarrow> active_set \<Rightarrow> agent_id option list" where
  "automatic_owners n active =
     (let ow = replicate n None in
      if active_contains active Codex \<and> active_contains active ZCode \<and> active_contains active Hermes \<and>
         \<not> active_contains active Claude
      then set_owners [3, 4] ZCode (set_owners [2, 5] Hermes (set_owners [0, 1] Codex ow))
      else
        (let agents = filter (active_contains active) AGENTS in
         if length agents = 1 then map (\<lambda>_. Some (hd agents)) ow
         else if length agents \<ge> 2 then split_owners n agents ow
         else ow))"

definition task_slot_owners ::
  "nat \<Rightarrow> active_set \<Rightarrow> (nat \<times> agent_id) list option \<Rightarrow> agent_id option list" where
  "task_slot_owners n active overrides =
     (let ow = automatic_owners n active in
      case overrides of
        None \<Rightarrow> ow
      | Some os \<Rightarrow> fold (\<lambda>(slot, a) ow. ow[slot := Some a]) os ow)"

definition primary_device :: "'c controller_ops \<Rightarrow> 'c bridge \<Rightarrow> 'c option" where
  "primary_device ops b =
     or_else (case br_controller b of
                None \<Rightarrow> None
              | Some d \<Rightarrow> if c_device_id ops d = br_device_id b then Some d else None)
       (map_option (\<lambda>(_, d, _). d) (List.find (\<lambda>(i, _, _). i = br_device_id b) (br_aux b)))"

definition primary_slot_overrides :: "'c controller_ops \<Rightarrow> 'c bridge \<Rightarrow> (nat \<times> agent_id) list option" where
  "primary_slot_overrides ops b = Option.bind (primary_device ops b) (c_overrides ops)"

definition task_slots_for_agent ::
  "nat \<Rightarrow> active_set \<Rightarrow> (nat \<times> agent_id) list option \<Rightarrow> agent_id \<Rightarrow> nat" where
  "task_slots_for_agent n active overrides a =
     length (filter (\<lambda>x. x = Some a) (task_slot_owners n active overrides))"

section \<open>Usage\<close>

definition refresh_wanted_usage ::
  "nat \<Rightarrow> active_set \<Rightarrow> bool \<Rightarrow> 'c bridge \<Rightarrow> bool \<times> 'c bridge" where
  "refresh_wanted_usage inst agents plugin b =
     (let codex = (br_usage_agent b = UsageCodex \<or> active_contains agents Codex \<or> plugin);
          zcode = (br_usage_agent b = UsageZCode \<or> active_contains agents ZCode \<or> plugin);
          c = br_usage b;
          c = (if codex then fst (request_refresh UsageCodex inst c) else c);
          c = (if zcode then fst (request_refresh UsageZCode inst c) else c)
      in (codex \<or> zcode, b\<lparr>br_usage := c\<rparr>))"

section \<open>Sessions\<close>

record session_handle =
  s_id :: nat
  s_agent :: "agent_id option"
  s_instance :: "string option"
  s_focus :: bool
  s_sent :: "json list"
  s_events :: "json list"

record pending_poll =
  p_session :: nat
  p_agent :: agent_id
  p_deadline :: nat
  p_request :: json

record hello_info =
  h_agent :: agent_id
  h_instance :: "string option"
  h_focus :: bool

definition session_new :: "nat \<Rightarrow> session_handle" where
  "session_new i = \<lparr>s_id = i, s_agent = None, s_instance = None, s_focus = False, s_sent = [], s_events = []\<rparr>"

definition find_session :: "nat \<Rightarrow> session_handle list \<Rightarrow> session_handle option" where
  "find_session i ss = List.find (\<lambda>s. s_id s = i) ss"

text \<open>A change of the first session with an id.\<close>

fun on_session :: "nat \<Rightarrow> (session_handle \<Rightarrow> session_handle) \<Rightarrow> session_handle list \<Rightarrow> session_handle list" where
  "on_session i f [] = []"
| "on_session i f (s # ss) = (if s_id s = i then f s # ss else s # on_session i f ss)"

definition handle_hello :: "nat \<Rightarrow> hello_info \<Rightarrow> session_handle list \<Rightarrow> session_handle list" where
  "handle_hello i info ss =
     on_session i (\<lambda>s. s\<lparr>s_agent := Some (h_agent info),
       s_instance := Some (case h_instance info of None \<Rightarrow> ''session-'' @ show_nat i | Some n \<Rightarrow> n),
       s_focus := h_focus info\<rparr>) ss"

definition remove_session :: "nat \<Rightarrow> session_handle list \<Rightarrow> session_handle list" where
  "remove_session i ss = filter (\<lambda>s. s_id s \<noteq> i) ss"

definition find_session_agent :: "nat \<Rightarrow> session_handle list \<Rightarrow> agent_id option" where
  "find_session_agent i ss = Option.bind (find_session i ss) s_agent"

definition send_to_session :: "nat \<Rightarrow> json \<Rightarrow> session_handle list \<Rightarrow> session_handle list" where
  "send_to_session i message ss = on_session i (\<lambda>s. s\<lparr>s_sent := s_sent s @ [message]\<rparr>) ss"

definition SESSION_EVENTS :: nat where "SESSION_EVENTS = 256"

definition push_bounded :: "json \<Rightarrow> session_handle \<Rightarrow> session_handle" where
  "push_bounded e s =
     s\<lparr>s_events := (if length (s_events s) \<ge> SESSION_EVENTS then tl (s_events s) else s_events s) @ [e]\<rparr>"

definition push_session_event :: "nat \<Rightarrow> json \<Rightarrow> session_handle list \<Rightarrow> session_handle list" where
  "push_session_event i e ss = on_session i (push_bounded e) ss"

definition drain_events :: "session_handle \<Rightarrow> json list \<times> session_handle" where
  "drain_events s = (s_events s, s\<lparr>s_events := []\<rparr>)"

definition drain_session_events :: "nat \<Rightarrow> session_handle list \<Rightarrow> json list \<times> session_handle list" where
  "drain_session_events i ss =
     (case find_session i ss of
        None \<Rightarrow> ([], ss)
      | Some s \<Rightarrow> (fst (drain_events s), on_session i (\<lambda>s. snd (drain_events s)) ss))"

section \<open>The lines of a session\<close>

datatype session_message =
    Connected nat
  | Request nat json
  | Hello nat hello_info
  | ControllerHello nat string nat "json list"
  | SessionClosed nat
  | SessionError nat string

datatype line_read = Line string | LineError string

definition ok_value :: "string + json \<Rightarrow> json option" where
  "ok_value r = (case r of Inl _ \<Rightarrow> None | Inr v \<Rightarrow> Some v)"

definition parse_hello_info :: "(string \<Rightarrow> string + json) \<Rightarrow> string \<Rightarrow> hello_info option" where
  "parse_hello_info from_str line =
     Option.bind (ok_value (from_str line)) (\<lambda>v.
       if Option.bind (jget ''bridge'' v) as_str \<noteq> Some ''hello'' then None
       else
         Option.bind (Option.bind (jget ''agent'' v) as_str) (\<lambda>a.
           case agent_parse a of
             Inl _ \<Rightarrow> None
           | Inr agent \<Rightarrow>
               Some \<lparr>h_agent = agent,
                 h_instance =
                   Option.bind (Option.bind (or_else (jget ''instance_id'' v) (jget ''instance'' v)) as_str)
                     (\<lambda>i. if i \<noteq> [] \<and> chars_count i \<le> 160 then Some i else None),
                 h_focus =
                   (case or_else (Option.bind (jget ''focus'' v) as_bool)
                      (Option.bind (Option.bind (jget ''capabilities'' v) (jget ''focus'')) as_bool) of
                      None \<Rightarrow> False | Some f \<Rightarrow> f)\<rparr>))"

definition forward_mcp_line :: "(string \<Rightarrow> string + json) \<Rightarrow> nat \<Rightarrow> string \<Rightarrow> session_message" where
  "forward_mcp_line from_str i line =
     (case from_str line of
        Inr request \<Rightarrow> Request i request
      | Inl e \<Rightarrow> SessionError i (''invalid JSON: '' @ e))"

fun mcp_lines :: "(string \<Rightarrow> string + json) \<Rightarrow> nat \<Rightarrow> line_read list \<Rightarrow> session_message list" where
  "mcp_lines from_str i [] = [SessionClosed i]"
| "mcp_lines from_str i (LineError e # ls) = [SessionError i (''read failed: '' @ e)]"
| "mcp_lines from_str i (Line l # ls) =
     (if trim l = [] then mcp_lines from_str i ls
      else forward_mcp_line from_str i l # mcp_lines from_str i ls)"

text \<open>
  The session of a plugin: the first message of the channel to the controller is its capacity;
  the later lines go to that channel too, as long as the controller exists. \<open>open_for\<close> is the
  number of values the channel still takes (\<open>None\<close> for no limit); the first one it does not take
  ends the thread without a message.
\<close>

definition capacity_message :: "nat \<Rightarrow> json \<Rightarrow> json" where
  "capacity_message slots hello =
     jobj [(''type'', JStr ''capacity''), (''taskSlots'', jnat slots),
       (''slotAgents'', jopt id (jget ''slotAgents'' hello))]"

fun plugin_lines ::
  "(string \<Rightarrow> string + json) \<Rightarrow> nat \<Rightarrow> nat option \<Rightarrow> line_read list \<Rightarrow> json list \<times> session_message list" where
  "plugin_lines from_str i n [] = ([], [SessionClosed i])"
| "plugin_lines from_str i n (LineError e # ls) = ([], [SessionError i (''read failed: '' @ e)])"
| "plugin_lines from_str i n (Line l # ls) =
     (if trim l = [] then plugin_lines from_str i n ls
      else
        (case from_str l of
           Inl _ \<Rightarrow> plugin_lines from_str i n ls
         | Inr v \<Rightarrow>
             if n = Some 0 then ([], [])
             else (let (vs, ms) = plugin_lines from_str i (map_option (\<lambda>k. k - 1) n) ls in (v # vs, ms))))"

definition handle_session ::
  "(string \<Rightarrow> string + json) \<Rightarrow> nat \<Rightarrow> nat option \<Rightarrow> line_read list \<Rightarrow> json list \<times> session_message list" where
  "handle_session from_str i open_for reads =
     (case reads of
        LineError e # _ \<Rightarrow> ([], [SessionError i (''read failed: '' @ e)])
      | _ \<Rightarrow>
          (let first = (case reads of Line l # _ \<Rightarrow> trim l | _ \<Rightarrow> []); rest = drop 1 reads in
           case parse_controller_hello (\<lambda>l. ok_value (from_str l)) first of
             Some (inst, slots) \<Rightarrow>
               (let hello = (case from_str first of Inl _ \<Rightarrow> JNull | Inr v \<Rightarrow> v);
                    (vs, ms) = plugin_lines from_str i open_for rest
                in (vs, ControllerHello i inst slots [capacity_message slots hello] # ms))
           | None \<Rightarrow>
               ([], Connected i #
                 (if first = [] then []
                  else
                    (case parse_hello_info from_str first of
                       Some info \<Rightarrow>
                         [Hello i (info\<lparr>h_instance := Some (case h_instance info of
                            None \<Rightarrow> ''session-'' @ show_nat i | Some n \<Rightarrow> n)\<rparr>)]
                     | None \<Rightarrow> [forward_mcp_line from_str i first])) @
                 mcp_lines from_str i rest)))"

section \<open>The state of the daemon\<close>

record 'c daemon =
  d_bridge :: "'c bridge"
  d_sessions :: "session_handle list"
  d_polls :: "pending_poll list"
  d_plugins :: "(nat \<times> string) list"
  d_agents :: active_set
  d_hardware :: bool
  d_zcode :: bool
  d_hermes :: bool
  d_claude :: bool
  d_repartition_at :: "nat option"
  d_usage_at :: "nat option"
  d_retry_at :: "nat option"
  d_retry_delay :: nat
  d_thstatus_at :: "nat option"
  d_snapshot :: bool
  d_codex_poll_at :: nat
  d_refresh_at :: nat
  d_zcode_poll_at :: "nat option"
  d_hermes_poll_at :: "nat option"
  d_claude_poll_at :: "nat option"
  d_zcode_probe_at :: nat
  d_hermes_probe_at :: nat
  d_claude_probe_at :: nat
  d_saved :: json
  d_written :: "json list"

definition active_now :: "'c daemon \<Rightarrow> active_set" where
  "active_now d = effective_active_set (d_agents d) (d_hardware d) (d_zcode d) (d_hermes d) (d_claude d)"

definition on_bridge :: "('c bridge \<Rightarrow> 'c bridge) \<Rightarrow> 'c daemon \<Rightarrow> 'c daemon" where
  "on_bridge f d = d\<lparr>d_bridge := f (d_bridge d)\<rparr>"

text \<open>\<open>let _ = refresh_task_board(..)\<close>\<close>

definition refresh :: "'c bridge_env \<Rightarrow> nat \<Rightarrow> nat \<Rightarrow> 'c bridge \<Rightarrow> 'c bridge" where
  "refresh env now inst b = snd (refresh_task_board (e_ops env) now inst b)"

section \<open>Tools of the daemon\<close>

definition daemon_bridge_status :: "'c controller_ops \<Rightarrow> 'c bridge \<Rightarrow> session_handle list \<Rightarrow> json" where
  "daemon_bridge_status ops b ss =
     (let entry = (\<lambda>s. jobj [(''session_id'', jnat (s_id s)),
            (''agent'', jopt (\<lambda>a. JStr (agent_str a)) (s_agent s)),
            (''instance_id'', jopt JStr (s_instance s)), (''focus_capable'', JBool (s_focus s)),
            (''queue_depth'', jnat (length (s_events s)))])
      in case as_object (bridge_status ops b ''daemon'') of
           None \<Rightarrow> bridge_status ops b ''daemon''
         | Some m \<Rightarrow>
             JObj (bm_insert ''usageAgent'' (JStr (usage_agent_str (br_usage_agent b)))
               (bm_insert ''sessionCount'' (jnat (length ss))
                 (bm_insert ''sessions'' (JArr (map entry ss)) m))))"

definition call_set_thread_status ::
  "'c bridge_env \<Rightarrow> nat \<Rightarrow> nat \<Rightarrow> json \<Rightarrow> agent_id \<Rightarrow> nat \<Rightarrow> 'c bridge \<Rightarrow> json \<times> 'c bridge" where
  "call_set_thread_status env now inst arguments agent session b =
     (case jget ''status'' arguments of
        None \<Rightarrow> (tool_error ''set_thread_status requires status'', b)
      | Some status \<Rightarrow>
          if as_array status = None then (tool_error ''status must be an array'', b)
          else if br_task_mode b then
            (case publish_legacy_status session agent status now (br_board b) of
               (tb, Inl e) \<Rightarrow> (tool_error e, b\<lparr>br_board := tb\<rparr>)
             | (tb, Inr result) \<Rightarrow>
                 (text_result (e_pretty env) result,
                  refresh env now inst (b\<lparr>br_board := tb, br_explicit_tasks := True\<rparr>)))
          else
            (case merge_from_agent agent status (br_partition b) (br_fused b) of
               Inl e \<Rightarrow> (tool_error e, b)
             | Inr (fused, st) \<Rightarrow>
                 (case on_controller (c_apply_status (e_ops env) (JArr fused))
                     (b\<lparr>br_fused := st, br_explicit_tasks := True\<rparr>) of
                    (Inl e, b) \<Rightarrow> (tool_error (''controller apply failed: '' @ e), detach_controller inst b)
                  | (Inr _, b) \<Rightarrow>
                      (text_result (e_pretty env)
                         (jobj [(''updated'', JBool True), (''agent'', JStr (agent_str agent))]),
                       if agent = Codex \<and> has_serial b
                       then snd (send_codex (e_to_vec env)
                         (jobj [(''m'', JStr ''v.oai.thstatus''), (''p'', status)]) b)
                       else b))))"

fun auto_feed_session :: "agent_id \<Rightarrow> nat option" where
  "auto_feed_session ZCode = Some ZCODE_POLL_SESSION"
| "auto_feed_session Hermes = Some HERMES_POLL_SESSION"
| "auto_feed_session Claude = Some CLAUDE_POLL_SESSION"
| "auto_feed_session Codex = None"

text \<open>The first explicit publication takes the cards over from the feed of the agent.\<close>

definition release_feed :: "agent_id \<Rightarrow> nat \<Rightarrow> task_board \<Rightarrow> task_board" where
  "release_feed agent session tb =
     (case auto_feed_session agent of
        None \<Rightarrow> tb
      | Some p \<Rightarrow> if p \<noteq> session then clear_session p tb else tb)"

definition call_publish_tasks ::
  "'c bridge_env \<Rightarrow> nat \<Rightarrow> nat \<Rightarrow> json \<Rightarrow> agent_id \<Rightarrow> nat \<Rightarrow> 'c daemon \<Rightarrow> json \<times> 'c daemon" where
  "call_publish_tasks env now inst arguments agent session d =
     (let b = d_bridge d in
      case publish_tasks session agent arguments now (release_feed agent session (br_board b)) of
        (tb, Inl e) \<Rightarrow> (tool_error e, d\<lparr>d_bridge := b\<lparr>br_board := tb\<rparr>\<rparr>)
      | (tb, Inr result) \<Rightarrow>
          (text_result (e_pretty env) result,
           d\<lparr>d_bridge := refresh env now inst (b\<lparr>br_board := tb, br_explicit_tasks := True\<rparr>),
             d_sessions := push_session_event session
               (jobj [(''type'', JStr ''layout_changed''), (''tasks'', jopt id (jget ''tasks'' result)),
                  (''ts'', jnat now)]) (d_sessions d)\<rparr>))"

text \<open>A poll without an event is deferred: it replaces an earlier one of the session.\<close>

definition call_poll_events ::
  "'c bridge_env \<Rightarrow> nat \<Rightarrow> json \<Rightarrow> agent_id \<Rightarrow> nat \<Rightarrow> json \<Rightarrow> 'c daemon \<Rightarrow> json \<times> 'c daemon" where
  "call_poll_events env inst arguments agent session request_id d =
     (let t = poll_timeout arguments;
          (es, ss) = drain_session_events session (d_sessions d);
          (es', b) = drain_queue agent (d_bridge d);
          d = d\<lparr>d_sessions := ss, d_bridge := b\<rparr>
      in if es @ es' \<noteq> [] then (events_result (e_pretty env) (es @ es'), d)
         else if t > 0 then
           (JNull, d\<lparr>d_polls := filter (\<lambda>p. p_session p \<noteq> session) (d_polls d) @
              [\<lparr>p_session = session, p_agent = agent, p_deadline = inst + t, p_request = request_id\<rparr>]\<rparr>)
         else (events_result (e_pretty env) [], d))"

definition bridge_tool :: "('c bridge \<Rightarrow> json \<times> 'c bridge) \<Rightarrow> 'c daemon \<Rightarrow> json \<times> 'c daemon" where
  "bridge_tool f d = (let (r, b) = f (d_bridge d) in (r, d\<lparr>d_bridge := b\<rparr>))"

definition call_tool_for ::
  "'c bridge_env \<Rightarrow> nat \<Rightarrow> nat \<Rightarrow> json \<Rightarrow> agent_id \<Rightarrow> nat \<Rightarrow> json \<Rightarrow> 'c daemon \<Rightarrow> json \<times> 'c daemon" where
  "call_tool_for env now inst request agent session request_id d =
     (case Option.bind (Option.bind (jget ''params'' request) (jget ''name'')) as_str of
        None \<Rightarrow> (tool_error ''tools/call requires params.name'', d)
      | Some name \<Rightarrow>
          (let arguments = tool_arguments request in
           if \<not> tool_available name (Some agent) then
             (tool_error (''tool '' @ name @ '' is not available for agent '' @ agent_str agent), d)
           else if name = ''bridge_status'' then
             (text_result (e_pretty env) (daemon_bridge_status (e_ops env) (d_bridge d) (d_sessions d)), d)
           else if name = ''emit_key'' then bridge_tool (call_emit_key env arguments) d
           else if name = ''send_codex_message'' then bridge_tool (call_send_codex_message env arguments) d
           else if name = ''set_thread_status'' then
             bridge_tool (call_set_thread_status env now inst arguments agent session) d
           else if name = ''publish_tasks'' then call_publish_tasks env now inst arguments agent session d
           else if name = ''set_display_context'' then
             bridge_tool (call_set_display_context env inst arguments) d
           else if name = ''set_rgb_config'' then
             (if br_task_mode (d_bridge d)
              then (tool_error ''set_rgb_config is daemon-managed; configure RGB on the bridge'', d)
              else bridge_tool (call_set_rgb_config env arguments) d)
           else if name = ''device_status'' then bridge_tool (call_device_status env) d
           else if name = ''poll_events'' then call_poll_events env inst arguments agent session request_id d
           else (tool_error (''unknown MCP tool: '' @ name), d)))"

section \<open>Requests\<close>

text \<open>\<open>{:?}\<close> on the keys and slots; the labels contain nothing to escape.\<close>

definition debug_list :: "string list \<Rightarrow> string" where
  "debug_list xs =
     CHR ''['' # concat (case xs of [] \<Rightarrow> [] | x # ys \<Rightarrow> x # map (\<lambda>y. '', '' @ y) ys) @ '']''"

definition debug_str :: "string \<Rightarrow> string" where
  "debug_str s = CHR 0x22 # s @ [CHR 0x22]"

definition daemon_instructions :: "partition \<Rightarrow> agent_id \<Rightarrow> string" where
  "daemon_instructions p a =
     agent_str a @ '' agent. Use bridge_status first. Your keys: '' @
     debug_list (map debug_str (keys_for p a)) @ '', LCD slots: '' @
     debug_list (map show_nat (slots_for p a)) @
     ''. Use poll_events to receive key presses, partition changes, and task-card events. '' @
     ''The colored numbered LCD cards and READY dashboard shown before an explicit update are '' @
     ''standby indicators only. '' @
     ''Publish live task state with publish_tasks or set_thread_status. '' @
     DISPLAY_CONTEXT_INSTRUCTIONS"

definition reply :: "nat \<Rightarrow> json \<Rightarrow> 'c daemon \<Rightarrow> 'c daemon" where
  "reply session message d = d\<lparr>d_sessions := send_to_session session message (d_sessions d)\<rparr>"

text \<open>The result of a known method; \<open>Inl\<close> for an unknown one.\<close>

definition method_result ::
  "'c bridge_env \<Rightarrow> nat \<Rightarrow> nat \<Rightarrow> nat \<Rightarrow> json \<Rightarrow> string \<Rightarrow> json \<Rightarrow> agent_id \<Rightarrow> 'c daemon \<Rightarrow> (string + json) \<times> 'c daemon" where
  "method_result env now inst session request method request_id agent d =
     (if method = ''initialize''
      then (Inr (initialize_result (daemon_instructions (br_partition (d_bridge d)) agent)), d)
      else if method = ''ping'' then (Inr (jobj []), d)
      else if method = ''resources/list'' then (Inr (empty_list_result ''resources''), d)
      else if method = ''resources/templates/list'' then (Inr (empty_list_result ''resourceTemplates''), d)
      else if method = ''tools/list'' then (Inr (daemon_tools_for (Some agent)), d)
      else if method = ''tools/call'' then
        (let (r, d) = call_tool_for env now inst request agent session request_id d in (Inr r, d))
      else (Inl (''unknown MCP method: '' @ method), d))"

definition handle_request ::
  "'c bridge_env \<Rightarrow> nat \<Rightarrow> nat \<Rightarrow> nat \<Rightarrow> json \<Rightarrow> 'c daemon \<Rightarrow> 'c daemon" where
  "handle_request env now inst session request d =
     (let i = jget ''id'' request in
      case Option.bind (jget ''method'' request) as_str of
        None \<Rightarrow>
          (case i of
             None \<Rightarrow> d
           | Some i \<Rightarrow> reply session (error_response (Some i) (- 32600) ''MCP request requires method'') d)
      | Some method \<Rightarrow>
          if strip_prefix ''notifications/'' method \<noteq> None then d
          else
            (case i of
               None \<Rightarrow> d
             | Some i \<Rightarrow>
                 (case find_session_agent session (d_sessions d) of
                    None \<Rightarrow>
                      reply session
                        (error_response (Some i) (- 32000) ''daemon session must send a valid bridge hello first'') d
                  | Some agent \<Rightarrow>
                      (case method_result env now inst session request method i agent d of
                         (Inl e, d) \<Rightarrow> reply session (error_response (Some i) (- 32601) e) d
                       | (Inr r, d) \<Rightarrow> if r = JNull then d else reply session (response i r) d))))"

section \<open>Deferred polls\<close>

definition poll_ripe :: "nat \<Rightarrow> pending_poll \<Rightarrow> 'c daemon \<Rightarrow> bool" where
  "poll_ripe inst p d \<longleftrightarrow>
     (case find_session (p_session p) (d_sessions d) of None \<Rightarrow> False | Some s \<Rightarrow> s_events s \<noteq> []) \<or>
     \<not> queue_is_empty (queue_of (br_routing (d_bridge d)) (p_agent p)) \<or> p_deadline p \<le> inst"

definition answer_poll :: "(json \<Rightarrow> string) \<Rightarrow> pending_poll \<Rightarrow> 'c daemon \<Rightarrow> 'c daemon" where
  "answer_poll pretty p d =
     (let (es, ss) = drain_session_events (p_session p) (d_sessions d);
          (es', b) = drain_queue (p_agent p) (d_bridge d)
      in reply (p_session p) (response (p_request p) (events_result pretty (es @ es')))
           (d\<lparr>d_sessions := ss, d_bridge := b\<rparr>))"

fun resolve_polls :: "(json \<Rightarrow> string) \<Rightarrow> nat \<Rightarrow> pending_poll list \<Rightarrow> 'c daemon \<Rightarrow> pending_poll list \<times> 'c daemon" where
  "resolve_polls pretty inst [] d = ([], d)"
| "resolve_polls pretty inst (p # ps) d =
     (if poll_ripe inst p d then resolve_polls pretty inst ps (answer_poll pretty p d)
      else (let (kept, d) = resolve_polls pretty inst ps d in (p # kept, d)))"

definition resolve_pending_polls :: "(json \<Rightarrow> string) \<Rightarrow> nat \<Rightarrow> 'c daemon \<Rightarrow> 'c daemon" where
  "resolve_pending_polls pretty inst d =
     (let (kept, d) = resolve_polls pretty inst (d_polls d) d in d\<lparr>d_polls := kept\<rparr>)"

section \<open>Plugin sessions\<close>

fun remove_plugin_session :: "nat \<Rightarrow> (nat \<times> string) list \<Rightarrow> string option \<times> (nat \<times> string) list" where
  "remove_plugin_session i [] = (None, [])"
| "remove_plugin_session i ((j, device) # ps) =
     (if j = i then (Some device, ps)
      else (let (r, ps) = remove_plugin_session i ps in (r, (j, device) # ps)))"

definition remove_plugin_sessions_by_device ::
  "string \<Rightarrow> (nat \<times> string) list \<Rightarrow> nat list \<times> (nat \<times> string) list" where
  "remove_plugin_sessions_by_device device ps =
     (map fst (filter (\<lambda>(_, x). x = device) ps), filter (\<lambda>(_, x). x \<noteq> device) ps)"

definition forget_primary :: "'c bridge \<Rightarrow> 'c bridge" where
  "forget_primary b =
     b\<lparr>br_device_id := ''none'', br_slot_count := 0, br_board := set_slot_owners ''none'' [] (br_board b)\<rparr>"

definition detach_plugin_controller :: "'c controller_ops \<Rightarrow> string \<Rightarrow> 'c bridge \<Rightarrow> 'c bridge" where
  "detach_plugin_controller ops device b =
     (if br_device_id b = device \<and>
         (case br_controller b of None \<Rightarrow> False | Some d \<Rightarrow> c_kind ops d = StreamDeckPlugin)
      then forget_primary (b\<lparr>br_controller := None, br_board := set_device device 0 False (br_board b)\<rparr>)
      else
        (let removed = (\<exists>x \<in> set (br_aux b). fst x = device);
             b = b\<lparr>br_aux := filter (\<lambda>x. fst x \<noteq> device) (br_aux b)\<rparr>
         in if removed then
              (let b = b\<lparr>br_board := set_device device 0 False (br_board b)\<rparr>
               in if br_device_id b = device then forget_primary b else b)
            else b))"

end
