(* ===== verification/Daemon_Loop.thy ===== *)
theory Daemon_Loop
  imports Daemon
begin

text \<open>
  The main loop of the daemon (\<open>run_daemon\<close> in \<open>daemon.rs\<close>). One pass is a function of the state and
  of what the pass finds: the clocks, the messages of the sessions, the events of the serial line,
  finished usage fetches, the snapshots the feeds of the desktop apps return for a number of
  slots, which apps run, and what opening the serial port would give. The reads of the clock
  within a pass are taken to agree.
\<close>

record 'c pass =
  t_inst :: nat
  t_now :: nat
  t_arrive :: "'c \<Rightarrow> 'c"
  t_fetch :: "usage_agent \<Rightarrow> fetch_result"
  t_messages :: "session_message list"
  t_serial :: "serial_event list"
  t_opened :: "string + serial_port \<times> string \<times> string \<times> u16"
  t_codex :: "nat \<Rightarrow> json option"
  t_feed :: "agent_id \<Rightarrow> nat \<Rightarrow> json option"
  t_running :: "agent_id \<Rightarrow> bool"

definition REPARTITION_DEBOUNCE :: nat where "REPARTITION_DEBOUNCE = 750"
definition FEED_POLL_INTERVAL :: nat where "FEED_POLL_INTERVAL = 1000"
definition DESKTOP_PROBE_INTERVAL :: nat where "DESKTOP_PROBE_INTERVAL = 2000"
definition CODEX_TASK_POLL_INTERVAL :: nat where "CODEX_TASK_POLL_INTERVAL = 250"
definition LOOP_REFRESH_INTERVAL :: nat where "LOOP_REFRESH_INTERVAL = 100"
definition CODEX_HID_SESSION :: nat where "CODEX_HID_SESSION = 0"
definition THSTATUS_GRACE :: nat where "THSTATUS_GRACE = 5000"
definition CODEX_HARDWARE_IDLE :: nat where "CODEX_HARDWARE_IDLE = 60000"
definition SERIAL_RETRY_INITIAL_DELAY :: nat where "SERIAL_RETRY_INITIAL_DELAY = 100"
definition DAEMON_SERIAL_RETRY_MAX_DELAY :: nat where "DAEMON_SERIAL_RETRY_MAX_DELAY = 10000"

definition pass_refresh :: "'c bridge_env \<Rightarrow> 'c pass \<Rightarrow> 'c bridge \<Rightarrow> 'c bridge" where
  "pass_refresh env p b = refresh env (t_now p) (t_inst p) b"

section \<open>Messages of the sessions\<close>

text \<open>The usage figures in the display context, whichever way it was set.\<close>

definition usage_into_context :: "codex_files \<Rightarrow> 'c bridge \<Rightarrow> 'c bridge" where
  "usage_into_context files b =
     (if br_explicit_context b then patch_display_context_usage b else auto_derive_display_context files b)"

definition request_usage :: "usage_agent \<Rightarrow> nat \<Rightarrow> 'c bridge \<Rightarrow> 'c bridge" where
  "request_usage a inst b = b\<lparr>br_usage := fst (request_refresh a inst (br_usage b))\<rparr>"

definition on_hello :: "'c bridge_env \<Rightarrow> 'c pass \<Rightarrow> nat \<Rightarrow> hello_info \<Rightarrow> 'c daemon \<Rightarrow> 'c daemon" where
  "on_hello env p i info d =
     (let a = h_agent info;
          d = d\<lparr>d_sessions := handle_hello i info (d_sessions d), d_agents := active_insert a (d_agents d),
                d_repartition_at := Some (t_inst p + REPARTITION_DEBOUNCE)\<rparr>
      in if a = Codex \<or> a = ZCode then
           on_bridge (\<lambda>b. pass_refresh env p (auto_derive_display_context (e_files env)
             (case usage_from_agent a of None \<Rightarrow> b | Some u \<Rightarrow> request_usage u (t_inst p) b))) d
         else d)"

text \<open>
  A plugin controller replaces one of the same device; with no other controller it becomes the
  primary one.
\<close>

definition install_controller :: "'c controller_ops \<Rightarrow> 'c \<Rightarrow> 'c bridge \<Rightarrow> 'c bridge" where
  "install_controller ops dev b =
     (let device = c_device_id ops dev; slots = c_slot_count ops dev;
          primary = (br_controller b = None \<and> br_device_id b = ''none'');
          b = (if primary then b\<lparr>br_device_id := device, br_slot_count := slots\<rparr> else b);
          b = (if slots > 0 then
                 (let tb = set_device device slots True (br_board b)
                  in b\<lparr>br_board := (if primary
                       then set_slot_owners device (map (owner_of (br_partition b)) [0..<slots]) tb else tb)\<rparr>)
               else b)
      in if primary then b\<lparr>br_controller := Some dev\<rparr>
         else b\<lparr>br_aux := br_aux b @ [(device, dev, slots)]\<rparr>)"

definition on_controller_hello ::
  "'c bridge_env \<Rightarrow> 'c pass \<Rightarrow> nat \<Rightarrow> string \<Rightarrow> nat \<Rightarrow> json list \<Rightarrow> 'c daemon \<Rightarrow> 'c daemon" where
  "on_controller_hello env p i inst slots inbox d =
     (let dev = e_plugin env inst slots inbox;
          device = c_device_id (e_ops env) dev;
          (replaced, ps) = remove_plugin_sessions_by_device device (d_plugins d);
          d = (if replaced \<noteq> [] then on_bridge (detach_plugin_controller (e_ops env) device) d else d);
          d = on_bridge (install_controller (e_ops env) dev) (d\<lparr>d_plugins := ps @ [(i, device)]\<rparr>);
          (wanted, b) = refresh_wanted_usage (t_inst p) (d_agents d) True (d_bridge d);
          b = (if wanted then usage_into_context (e_files env) b else b)
      in d\<lparr>d_bridge := pass_refresh env p b\<rparr>)"

definition close_session :: "'c bridge_env \<Rightarrow> 'c pass \<Rightarrow> nat \<Rightarrow> 'c daemon \<Rightarrow> 'c daemon" where
  "close_session env p i d =
     (case remove_plugin_session i (d_plugins d) of
        (Some device, ps) \<Rightarrow>
          on_bridge (\<lambda>b. pass_refresh env p (detach_plugin_controller (e_ops env) device b)) (d\<lparr>d_plugins := ps\<rparr>)
      | (None, _) \<Rightarrow>
          (let removed = find_session_agent i (d_sessions d);
               d = on_bridge (\<lambda>b. pass_refresh env p
                 (b\<lparr>br_board := disconnect_session i (t_now p) (br_board b)\<rparr>)) d;
               d = d\<lparr>d_sessions := remove_session i (d_sessions d),
                     d_polls := filter (\<lambda>q. p_session q \<noteq> i) (d_polls d)\<rparr>
           in case removed of
                None \<Rightarrow> d
              | Some a \<Rightarrow>
                  if \<exists>s \<in> set (d_sessions d). s_agent s = Some a then d
                  else d\<lparr>d_agents := active_remove a (d_agents d),
                         d_repartition_at := Some (t_inst p + REPARTITION_DEBOUNCE)\<rparr>))"

fun on_message :: "'c bridge_env \<Rightarrow> 'c pass \<Rightarrow> session_message \<Rightarrow> 'c daemon \<Rightarrow> 'c daemon" where
  "on_message env p (Connected i) d = d\<lparr>d_sessions := d_sessions d @ [session_new i]\<rparr>"
| "on_message env p (Hello i info) d = on_hello env p i info d"
| "on_message env p (Request i request) d = handle_request env (t_now p) (t_inst p) i request d"
| "on_message env p (ControllerHello i inst slots inbox) d = on_controller_hello env p i inst slots inbox d"
| "on_message env p (SessionClosed i) d = close_session env p i d"
| "on_message env p (SessionError i _) d = close_session env p i d"

section \<open>The serial line\<close>

definition on_thread_status :: "'c bridge_env \<Rightarrow> 'c pass \<Rightarrow> json \<Rightarrow> 'c daemon \<Rightarrow> 'c daemon" where
  "on_thread_status env p params d =
     (let d = on_bridge (\<lambda>b. b\<lparr>br_explicit_tasks := True\<rparr>) (d\<lparr>d_thstatus_at := Some (t_inst p)\<rparr>);
          d = (if d_snapshot d then d
               else on_bridge (\<lambda>b. b\<lparr>br_board := fst (publish_codex_hid_status params (t_now p) (br_board b))\<rparr>) d)
      in on_bridge (\<lambda>b. pass_refresh env p (auto_derive_display_context (e_files env) b)) d)"

definition before_message :: "'c bridge_env \<Rightarrow> 'c pass \<Rightarrow> json \<Rightarrow> 'c daemon \<Rightarrow> 'c daemon" where
  "before_message env p m d =
     (if br_task_mode (d_bridge d) \<and> method_of m = Some ''v.oai.thstatus'' then
        (case message_params m of None \<Rightarrow> d | Some params \<Rightarrow> on_thread_status env p params d)
      else d)"

fun daemon_messages ::
  "'c bridge_env \<Rightarrow> 'c pass \<Rightarrow> json list \<Rightarrow> 'c daemon \<Rightarrow> string option \<times> 'c daemon" where
  "daemon_messages env p [] d = (None, d)"
| "daemon_messages env p (m # ms) d =
     (let d = before_message env p m d in
      case process_codex_message env m (d_bridge d) of
        (Inr _, b) \<Rightarrow> daemon_messages env p ms (d\<lparr>d_bridge := b\<rparr>)
      | (Inl (ControllerError _), b) \<Rightarrow>
          daemon_messages env p ms (d\<lparr>d_bridge := detach_controller (t_inst p) b\<rparr>)
      | (Inl (ParameterError _), b) \<Rightarrow> daemon_messages env p ms (d\<lparr>d_bridge := b\<rparr>)
      | (Inl (SerialError e), b) \<Rightarrow> (Some e, d\<lparr>d_bridge := b\<rparr>))"

fun daemon_serial ::
  "'c bridge_env \<Rightarrow> 'c pass \<Rightarrow> serial_event list \<Rightarrow> string option \<Rightarrow> 'c daemon \<Rightarrow> string option \<times> 'c daemon" where
  "daemon_serial env p [] lost d = (lost, d)"
| "daemon_serial env p (SerialFrame f # es) lost d =
     (if frame_type f = CodexOutputReport then
        (case codex_feed (e_next_value env) (br_decoder (d_bridge d)) (payload f) of
           (Inl _, buf) \<Rightarrow> daemon_serial env p es lost (on_bridge (\<lambda>b. b\<lparr>br_decoder := buf\<rparr>) d)
         | (Inr ms, buf) \<Rightarrow>
             (let (e, d) = daemon_messages env p ms (on_bridge (\<lambda>b. b\<lparr>br_decoder := buf\<rparr>) d)
              in daemon_serial env p es (or_else e lost) d))
      else if frame_type f = Status then
        daemon_serial env p es lost
          (on_bridge (\<lambda>b. b\<lparr>br_health := observe_status_at (t_inst p) (br_health b)\<rparr>) d)
      else daemon_serial env p es lost d)"
| "daemon_serial env p (ProtocolError _ # es) lost d = daemon_serial env p es lost d"
| "daemon_serial env p (Disconnected e # es) lost d = (Some e, d)"

definition retry_serial_connection :: "string \<Rightarrow> 'c pass \<Rightarrow> 'c daemon \<Rightarrow> 'c daemon" where
  "retry_serial_connection port p d =
     (case replace_runtime port (t_opened p) (t_inst p) (d_bridge d) of
        (Inr _, b) \<Rightarrow>
          d\<lparr>d_bridge := b, d_retry_at := None, d_retry_delay := SERIAL_RETRY_INITIAL_DELAY\<rparr>
      | (Inl _, b) \<Rightarrow>
          d\<lparr>d_bridge := b, d_retry_at := Some (t_inst p + d_retry_delay d),
            d_retry_delay := min (d_retry_delay d * 2) DAEMON_SERIAL_RETRY_MAX_DELAY\<rparr>)"

definition drain_step :: "'c bridge_env \<Rightarrow> string \<Rightarrow> 'c pass \<Rightarrow> 'c daemon \<Rightarrow> 'c daemon" where
  "drain_step env port p d =
     (let (lost, d) = daemon_serial env p (if has_serial (d_bridge d) then t_serial p else []) None d
      in if lost \<noteq> None then retry_serial_connection port p d else d)"

definition absent_step :: "string \<Rightarrow> 'c pass \<Rightarrow> 'c daemon \<Rightarrow> 'c daemon" where
  "absent_step port p d =
     (if \<not> has_serial (d_bridge d) \<and> port \<noteq> ''none'' \<and>
         (case d_retry_at d of None \<Rightarrow> False | Some t \<Rightarrow> t \<le> t_inst p)
      then retry_serial_connection port p d else d)"

definition health_step :: "string \<Rightarrow> 'c pass \<Rightarrow> 'c daemon \<Rightarrow> 'c daemon" where
  "health_step port p d =
     (if \<not> has_serial (d_bridge d) then d
      else if timed_out_at (t_inst p) (br_health (d_bridge d)) then retry_serial_connection port p d
      else
        (case send_health_ping (t_inst p) (d_bridge d) of
           (Inl _, b) \<Rightarrow> retry_serial_connection port p (d\<lparr>d_bridge := b\<rparr>)
         | (Inr _, b) \<Rightarrow> d\<lparr>d_bridge := b\<rparr>))"

section \<open>Events for the sessions\<close>

definition append_event :: "json \<Rightarrow> session_handle \<Rightarrow> session_handle" where
  "append_event e s = s\<lparr>s_events := s_events s @ [e]\<rparr>"

definition sessions_of :: "agent_id \<Rightarrow> session_handle list \<Rightarrow> nat list" where
  "sessions_of a ss = map s_id (filter (\<lambda>s. s_agent s = Some a) ss)"

definition newest_session :: "agent_id \<Rightarrow> session_handle list \<Rightarrow> nat option" where
  "newest_session a ss = (case sessions_of a ss of [] \<Rightarrow> None | i # is \<Rightarrow> Some (fold max is i))"

definition feed_agent :: "nat \<Rightarrow> agent_id option" where
  "feed_agent session =
     (if session = ZCODE_POLL_SESSION then Some ZCode
      else if session = HERMES_POLL_SESSION then Some Hermes
      else if session = CLAUDE_POLL_SESSION then Some Claude
      else None)"

definition deliver :: "nat \<times> json \<Rightarrow> session_handle list \<Rightarrow> session_handle list" where
  "deliver x ss =
     (case catalog_action_agent (fst x) of
        Some a \<Rightarrow>
          (case newest_session a ss of None \<Rightarrow> ss | Some i \<Rightarrow> push_session_event i (snd x) ss)
      | None \<Rightarrow>
          (case feed_agent (fst x) of
             Some a \<Rightarrow> fold (\<lambda>i. on_session i (append_event (snd x))) (sessions_of a ss) ss
           | None \<Rightarrow> on_session (fst x) (append_event (snd x)) ss))"

definition deliver_step :: "'c bridge_env \<Rightarrow> 'c pass \<Rightarrow> 'c daemon \<Rightarrow> 'c daemon" where
  "deliver_step env p d =
     (let es = br_events (d_bridge d);
          d = on_bridge (\<lambda>b. b\<lparr>br_events := []\<rparr>) (d\<lparr>d_sessions := fold deliver es (d_sessions d)\<rparr>)
      in if es \<noteq> [] \<or> d_refresh_at d \<le> t_inst p
         then on_bridge (pass_refresh env p) (d\<lparr>d_refresh_at := t_inst p + LOOP_REFRESH_INTERVAL\<rparr>)
         else d)"

section \<open>The controllers\<close>

definition owners_step :: "'c bridge_env \<Rightarrow> 'c daemon \<Rightarrow> 'c daemon" where
  "owners_step env d =
     on_bridge (\<lambda>b. b\<lparr>br_board := set_slot_owners (br_device_id b)
       (task_slot_owners (br_slot_count b) (active_now d) (primary_slot_overrides (e_ops env) b)) (br_board b)\<rparr>) d"

definition codex_step :: "'c pass \<Rightarrow> 'c daemon \<Rightarrow> 'c daemon" where
  "codex_step p d =
     (if t_inst p < d_codex_poll_at d then d
      else
        (let d = d\<lparr>d_codex_poll_at := t_inst p + CODEX_TASK_POLL_INTERVAL\<rparr>; b = d_bridge d in
         case t_codex p (length (slots_for (br_partition b) Codex)) of
           None \<Rightarrow> d
         | Some snapshot \<Rightarrow>
             (case publish_codex_snapshot snapshot (t_now p) (br_board b) of
                (tb, Inl _) \<Rightarrow> d\<lparr>d_bridge := b\<lparr>br_board := tb\<rparr>\<rparr>
              | (tb, Inr _) \<Rightarrow>
                  d\<lparr>d_bridge := b\<lparr>br_board := tb, br_explicit_tasks := True\<rparr>, d_snapshot := True\<rparr>)))"

definition reconnect_step :: "'c bridge_env \<Rightarrow> 'c pass \<Rightarrow> 'c daemon \<Rightarrow> 'c daemon" where
  "reconnect_step env p d =
     (let d = on_bridge (\<lambda>b. let b = reconnect_controller_if_due (e_ops env) (e_open_device env) (t_now p) (t_inst p) b
                in b\<lparr>br_board := expire (t_now p) (br_board b)\<rparr>) d
      in if d_refresh_at d \<le> t_inst p
         then on_bridge (pass_refresh env p) (d\<lparr>d_refresh_at := t_inst p + LOOP_REFRESH_INTERVAL\<rparr>)
         else d)"

text \<open>An error of \<open>poll_controller\<close> ends the daemon.\<close>

definition poll_step :: "'c bridge_env \<Rightarrow> 'c pass \<Rightarrow> 'c daemon \<Rightarrow> string + 'c daemon" where
  "poll_step env p d =
     (case poll_controller (e_ops env) (e_to_vec env) (e_view env) (e_files env) (t_now p) (t_inst p) (d_bridge d) of
        (Inl e, _) \<Rightarrow> Inl e
      | (Inr _, b) \<Rightarrow> Inr (d\<lparr>d_bridge := b\<rparr>))"

section \<open>The feeds of the desktop apps\<close>

definition stale_hid_step :: "'c bridge_env \<Rightarrow> 'c pass \<Rightarrow> 'c daemon \<Rightarrow> 'c daemon" where
  "stale_hid_step env p d =
     (let stale = (\<not> has_serial (d_bridge d) \<and>
            (case d_thstatus_at d of None \<Rightarrow> True | Some t \<Rightarrow> t_inst p - t > THSTATUS_GRACE))
      in if stale \<and> \<not> d_snapshot d \<and> has_session_tasks CODEX_HID_SESSION (br_board (d_bridge d))
         then on_bridge (\<lambda>b.
           let tb = clear_session CODEX_HID_SESSION (br_board b);
               b = b\<lparr>br_board := tb, br_explicit_tasks := (br_explicit_tasks b \<and> tasks tb \<noteq> [])\<rparr>
           in pass_refresh env p b) d
         else d)"

definition desktop_active :: "agent_id \<Rightarrow> 'c daemon \<Rightarrow> bool" where
  "desktop_active a d = (case a of ZCode \<Rightarrow> d_zcode d | Hermes \<Rightarrow> d_hermes d | Claude \<Rightarrow> d_claude d | Codex \<Rightarrow> False)"

text \<open>
  One feed: it is silent without a proxy and without the app, and while another session publishes
  cards of its agent. \<open>at\<close> is the time of its next poll.
\<close>

definition feed_publish :: "'c bridge_env \<Rightarrow> 'c pass \<Rightarrow> agent_id \<Rightarrow> nat \<Rightarrow> 'c daemon \<Rightarrow> 'c daemon" where
  "feed_publish env p a session d =
     (let b = d_bridge d;
          slots = task_slots_for_agent (br_slot_count b) (active_now d) (primary_slot_overrides (e_ops env) b) a
      in case t_feed p a slots of
           None \<Rightarrow> d
         | Some snapshot \<Rightarrow>
             (case publish_tasks session a snapshot (t_now p) (br_board b) of
                (tb, Inl _) \<Rightarrow> d\<lparr>d_bridge := b\<lparr>br_board := tb\<rparr>\<rparr>
              | (tb, Inr _) \<Rightarrow>
                  d\<lparr>d_bridge := pass_refresh env p (b\<lparr>br_board := tb, br_explicit_tasks := True\<rparr>)\<rparr>))"

definition feed_step ::
  "'c bridge_env \<Rightarrow> 'c pass \<Rightarrow> agent_id \<Rightarrow> nat \<Rightarrow> nat \<Rightarrow> nat option \<Rightarrow> 'c daemon \<Rightarrow> nat option \<times> 'c daemon" where
  "feed_step env p a session first_delay due d =
     (let tb = br_board (d_bridge d);
          active = ((\<exists>s \<in> set (d_sessions d). s_agent s = Some a) \<or> desktop_active a d)
      in if \<not> active \<or> has_agent_tasks_except a session tb then
           (None,
            if has_session_tasks session tb
            then on_bridge (\<lambda>b. pass_refresh env p (b\<lparr>br_board := clear_session session (br_board b)\<rparr>)) d
            else d)
         else
           (let t = (case due of None \<Rightarrow> t_inst p + first_delay | Some t \<Rightarrow> t) in
            if t \<le> t_inst p then (Some (t_inst p + FEED_POLL_INTERVAL), feed_publish env p a session d)
            else (Some t, d)))"

definition feeds_step :: "'c bridge_env \<Rightarrow> 'c pass \<Rightarrow> 'c daemon \<Rightarrow> 'c daemon" where
  "feeds_step env p d =
     (let (t, d) = feed_step env p ZCode ZCODE_POLL_SESSION FEED_POLL_INTERVAL (d_zcode_poll_at d) d;
          d = d\<lparr>d_zcode_poll_at := t\<rparr>;
          (t, d) = feed_step env p Hermes HERMES_POLL_SESSION 0 (d_hermes_poll_at d) d;
          d = d\<lparr>d_hermes_poll_at := t\<rparr>;
          (t, d) = feed_step env p Claude CLAUDE_POLL_SESSION 0 (d_claude_poll_at d) d
      in d\<lparr>d_claude_poll_at := t\<rparr>)"

section \<open>Activity and partition\<close>

definition hardware_step :: "'c pass \<Rightarrow> 'c daemon \<Rightarrow> 'c daemon" where
  "hardware_step p d =
     (let x = (has_serial (d_bridge d) \<and>
            (case d_thstatus_at d of None \<Rightarrow> False | Some t \<Rightarrow> t_inst p - t < CODEX_HARDWARE_IDLE))
      in if x \<noteq> d_hardware d
         then d\<lparr>d_hardware := x, d_repartition_at := Some (t_inst p + REPARTITION_DEBOUNCE)\<rparr> else d)"

definition zcode_probe :: "'c pass \<Rightarrow> 'c daemon \<Rightarrow> 'c daemon" where
  "zcode_probe p d =
     (if t_inst p < d_zcode_probe_at d then d
      else
        (let d = d\<lparr>d_zcode_probe_at := t_inst p + DESKTOP_PROBE_INTERVAL\<rparr>; x = t_running p ZCode
         in if x \<noteq> d_zcode d
            then d\<lparr>d_zcode := x, d_repartition_at := Some (t_inst p + REPARTITION_DEBOUNCE)\<rparr> else d))"

definition hermes_probe :: "'c pass \<Rightarrow> 'c daemon \<Rightarrow> 'c daemon" where
  "hermes_probe p d =
     (if t_inst p < d_hermes_probe_at d then d
      else
        (let d = d\<lparr>d_hermes_probe_at := t_inst p + DESKTOP_PROBE_INTERVAL\<rparr>; x = t_running p Hermes
         in if x \<noteq> d_hermes d
            then d\<lparr>d_hermes := x, d_repartition_at := Some (t_inst p + REPARTITION_DEBOUNCE)\<rparr> else d))"

definition claude_probe :: "'c pass \<Rightarrow> 'c daemon \<Rightarrow> 'c daemon" where
  "claude_probe p d =
     (if t_inst p < d_claude_probe_at d then d
      else
        (let d = d\<lparr>d_claude_probe_at := t_inst p + DESKTOP_PROBE_INTERVAL\<rparr>; x = t_running p Claude
         in if x \<noteq> d_claude d
            then d\<lparr>d_claude := x, d_repartition_at := Some (t_inst p + REPARTITION_DEBOUNCE)\<rparr> else d))"

definition apply_partition :: "'c bridge_env \<Rightarrow> 'c pass \<Rightarrow> active_set \<Rightarrow> 'c bridge \<Rightarrow> 'c bridge" where
  "apply_partition env p active b =
     (let new = partition_compute active;
          b = b\<lparr>br_partition := new, br_board := set_slot_owners (br_device_id b)
            (task_slot_owners (br_slot_count b) active (primary_slot_overrides (e_ops env) b)) (br_board b)\<rparr>;
          b = pass_refresh env p b;
          agents = active_iter active
      in b\<lparr>br_routing := fold (\<lambda>a. push_partition_event a new agents (t_now p)) agents (br_routing b)\<rparr>)"

definition repartition_step :: "'c bridge_env \<Rightarrow> 'c pass \<Rightarrow> 'c daemon \<Rightarrow> 'c daemon" where
  "repartition_step env p d =
     (case d_repartition_at d of
        None \<Rightarrow> d
      | Some t \<Rightarrow>
          if t \<le> t_inst p
          then on_bridge (apply_partition env p (active_now d)) (d\<lparr>d_repartition_at := None\<rparr>)
          else d)"

section \<open>Usage and preferences\<close>

definition usage_ready_step :: "'c bridge_env \<Rightarrow> 'c pass \<Rightarrow> 'c daemon \<Rightarrow> 'c daemon" where
  "usage_ready_step env p d =
     on_bridge (\<lambda>b. let (c, fresh) = poll_ready (t_fetch p) (t_inst p) (br_usage b); b = b\<lparr>br_usage := c\<rparr>
       in if fresh then pass_refresh env p (patch_display_context_usage b) else b) d"

definition usage_tick_step :: "'c bridge_env \<Rightarrow> 'c pass \<Rightarrow> 'c daemon \<Rightarrow> 'c daemon" where
  "usage_tick_step env p d =
     (let t = (case d_usage_at d of None \<Rightarrow> t_inst p + USAGE_REFRESH_INTERVAL | Some t \<Rightarrow> t) in
      if t \<le> t_inst p then
        on_bridge (\<lambda>b.
            let (wanted, b) = refresh_wanted_usage (t_inst p) (d_agents d) (d_plugins d \<noteq> []) b
            in if wanted then pass_refresh env p (usage_into_context (e_files env) b) else b)
          (d\<lparr>d_usage_at := Some (t_inst p + USAGE_REFRESH_INTERVAL)\<rparr>)
      else d\<lparr>d_usage_at := Some t\<rparr>)"

text \<open>Changed slot preferences are written to the file, where the daemon has one.\<close>

definition preferences_step :: "bool \<Rightarrow> 'c daemon \<Rightarrow> 'c daemon" where
  "preferences_step has_file d =
     (let prefs = slot_preferences (br_board (d_bridge d)) in
      if prefs = d_saved d then d
      else d\<lparr>d_saved := prefs, d_written := (if has_file then d_written d @ [prefs] else d_written d)\<rparr>)"

section \<open>A pass\<close>

definition arrive_step :: "'c pass \<Rightarrow> 'c daemon \<Rightarrow> 'c daemon" where
  "arrive_step p d =
     on_bridge (\<lambda>b. b\<lparr>br_controller := map_option (t_arrive p) (br_controller b),
       br_aux := map (\<lambda>(i, dev, n). (i, t_arrive p dev, n)) (br_aux b)\<rparr>) d"

definition messages_step :: "'c bridge_env \<Rightarrow> 'c pass \<Rightarrow> 'c daemon \<Rightarrow> 'c daemon" where
  "messages_step env p d = fold (on_message env p) (t_messages p) d"

definition before_poll :: "'c bridge_env \<Rightarrow> string \<Rightarrow> 'c pass \<Rightarrow> 'c daemon \<Rightarrow> 'c daemon" where
  "before_poll env port p d =
     (let d = arrive_step p d; d = usage_ready_step env p d; d = messages_step env p d;
          d = drain_step env port p d; d = absent_step port p d; d = health_step port p d;
          d = codex_step p d
      in reconnect_step env p d)"

definition after_poll :: "'c bridge_env \<Rightarrow> bool \<Rightarrow> 'c pass \<Rightarrow> 'c daemon \<Rightarrow> 'c daemon" where
  "after_poll env has_file p d =
     (let d = owners_step env d; d = deliver_step env p d; d = stale_hid_step env p d;
          d = feeds_step env p d; d = hardware_step p d; d = zcode_probe p d; d = hermes_probe p d;
          d = claude_probe p d; d = repartition_step env p d;
          d = resolve_pending_polls (e_pretty env) (t_inst p) d; d = usage_tick_step env p d
      in preferences_step has_file d)"

definition daemon_pass :: "'c bridge_env \<Rightarrow> string \<Rightarrow> bool \<Rightarrow> 'c pass \<Rightarrow> 'c daemon \<Rightarrow> string + 'c daemon" where
  "daemon_pass env port has_file p d =
     map_sum id (after_poll env has_file p) (poll_step env p (before_poll env port p d))"

text \<open>The loop: it goes on until a pass fails.\<close>

fun daemon_run :: "'c bridge_env \<Rightarrow> string \<Rightarrow> bool \<Rightarrow> 'c pass list \<Rightarrow> 'c daemon \<Rightarrow> string + 'c daemon" where
  "daemon_run env port has_file [] d = Inr d"
| "daemon_run env port has_file (p # ps) d =
     res_bind (daemon_pass env port has_file p d) (daemon_run env port has_file ps)"

section \<open>Start-up\<close>

definition start_preferences :: "json option \<Rightarrow> 'c bridge \<Rightarrow> 'c bridge" where
  "start_preferences stored b =
     (case stored of None \<Rightarrow> b | Some v \<Rightarrow> b\<lparr>br_board := restore_slot_preferences v (br_board b)\<rparr>)"

definition start_snapshot :: "json option \<Rightarrow> nat \<Rightarrow> 'c bridge \<Rightarrow> bool \<times> 'c bridge" where
  "start_snapshot snapshot now b =
     (case snapshot of
        None \<Rightarrow> (False, b)
      | Some v \<Rightarrow>
          (case publish_codex_snapshot v now (br_board b) of
             (tb, Inl _) \<Rightarrow> (False, b\<lparr>br_board := tb\<rparr>)
           | (tb, Inr _) \<Rightarrow> (True, b\<lparr>br_board := tb, br_explicit_tasks := True\<rparr>)))"

text \<open>
  The daemon before its first pass, from the bridge that \<open>open_runtime\<close> returned, the stored slot
  preferences, the first Codex snapshot and the running desktop apps.
\<close>

definition daemon_start ::
  "'c bridge_env \<Rightarrow> string \<Rightarrow> json option \<Rightarrow> json option \<Rightarrow> (agent_id \<Rightarrow> bool) \<Rightarrow> nat \<Rightarrow> nat \<Rightarrow> 'c bridge \<Rightarrow> 'c daemon" where
  "daemon_start env port stored snapshot runs now inst b =
     (let b = start_preferences stored (b\<lparr>br_task_mode := True\<rparr>);
          saved = slot_preferences (br_board b);
          (available, b) = start_snapshot snapshot now b;
          active = effective_active_set active_new False (runs ZCode) (runs Hermes) (runs Claude);
          b = b\<lparr>br_partition := partition_compute active, br_board := set_slot_owners (br_device_id b)
            (task_slot_owners (br_slot_count b) active (primary_slot_overrides (e_ops env) b)) (br_board b)\<rparr>
      in \<lparr>d_bridge = b, d_sessions = [], d_polls = [], d_plugins = [], d_agents = active_new,
          d_hardware = False, d_zcode = runs ZCode, d_hermes = runs Hermes, d_claude = runs Claude,
          d_repartition_at = None, d_usage_at = None,
          d_retry_at = (if \<not> has_serial b \<and> port \<noteq> ''none'' then Some inst else None),
          d_retry_delay = SERIAL_RETRY_INITIAL_DELAY, d_thstatus_at = None, d_snapshot = available,
          d_codex_poll_at = inst + CODEX_TASK_POLL_INTERVAL, d_refresh_at = inst,
          d_zcode_poll_at = None, d_hermes_poll_at = None, d_claude_poll_at = None,
          d_zcode_probe_at = inst + DESKTOP_PROBE_INTERVAL, d_hermes_probe_at = inst + DESKTOP_PROBE_INTERVAL,
          d_claude_probe_at = inst + DESKTOP_PROBE_INTERVAL, d_saved = saved, d_written = []\<rparr>)"

lemma daemon_start_fresh [simp]:
  "d_sessions (daemon_start env port stored snapshot runs inst now b) = []"
  "d_polls (daemon_start env port stored snapshot runs inst now b) = []"
  "d_plugins (daemon_start env port stored snapshot runs inst now b) = []"
  "d_zcode (daemon_start env port stored snapshot runs inst now b) = runs ZCode"
  "d_hermes (daemon_start env port stored snapshot runs inst now b) = runs Hermes"
  "d_claude (daemon_start env port stored snapshot runs inst now b) = runs Claude"
  "d_retry_delay (daemon_start env port stored snapshot runs inst now b) = SERIAL_RETRY_INITIAL_DELAY"
  by (simp_all add: daemon_start_def Let_def case_prod_beta)

end
