(* ===== verification/Task_Board_Inv.thy ===== *)
theory Task_Board_Inv
  imports Task_Board
begin

text \<open>
  The task board as a state machine. Every operation is a step, and so is a change of the
  iteration order of a hash map; every reachable board satisfies \<open>board_inv\<close>. On top of it:
  isolation of the sessions, the reconnect lease, acknowledged completions, the single
  selection, and the HID feed that never finishes or resets a card by presentation alone.
\<close>

section \<open>The invariant\<close>

definition pending_ok :: "task_board \<Rightarrow> bool" where
  "pending_ok b \<longleftrightarrow> (\<forall>p. pending_selection b = Some p \<longrightarrow> selected b = Some (fst p))"

definition selected_ok :: "task_board \<Rightarrow> bool" where
  "selected_ok b \<longleftrightarrow> (\<forall>i. selected b = Some i \<longrightarrow> map_of (tasks b) i \<noteq> None)"

definition board_inv :: "task_board \<Rightarrow> bool" where
  "board_inv b \<longleftrightarrow> board_wf b \<and> valid_alloc b (assignments b) \<and> selected_ok b \<and> pending_ok b"

lemma board_invD:
  assumes "board_inv b"
  shows "board_wf b" "valid_alloc b (assignments b)" "selected_ok b" "pending_ok b"
    "tasks_wf (tasks b)" "hm_invar (tasks b)" "hm_invar (assignments b)"
  using assms by (simp_all add: board_inv_def board_wf_def tasks_wf_def)

lemma selected_okD: "selected_ok b \<Longrightarrow> selected b = Some i \<Longrightarrow> map_of (tasks b) i \<noteq> None"
  by (simp add: selected_ok_def)

text \<open>Any well-formed board becomes a good one by a reallocation.\<close>

lemma board_inv_reallocate [board_keep]:
  assumes "board_wf b" and "pending_ok b"
  shows "board_inv (reallocate b)"
proof -
  have "valid_alloc b (assignments (reallocate b))"
    using fill_inv_parts(3) [OF reallocate_inv [OF assms(1)]] by (simp add: assignments_reallocate)
  moreover have "selected_ok (reallocate b)" "pending_ok (reallocate b)"
    using assms(2)
    by (auto simp: selected_ok_def pending_ok_def selected_reallocate drop_stale_selection_def
        split: option.splits)
  ultimately show ?thesis
    using board_wf_reallocate [OF assms(1)] by (simp add: board_inv_def)
qed

section \<open>Frames: which fields a change touches\<close>

lemma tasks_wf_iff: "tasks_wf ts \<longleftrightarrow> hm_invar ts \<and> (\<forall>i t. map_of ts i = Some t \<longrightarrow> task_id t = i)"
  by (auto simp: tasks_wf_def list_all_iff hm.in_entries_iff dest: map_of_SomeD)

lemma tasks_wf_update: "tasks_wf ts \<Longrightarrow> task_id t = i \<Longrightarrow> tasks_wf (AList.update i t ts)"
  by (auto simp: tasks_wf_iff hm_invar_update update_conv')

lemma tasks_wf_delete: "tasks_wf ts \<Longrightarrow> tasks_wf (AList.delete i ts)"
  by (auto simp: tasks_wf_iff hm_invar_delete delete_conv' split: if_splits)

lemma valid_alloc_cong:
  assumes "tasks b' = tasks b" "devices b' = devices b" "slot_owners b' = slot_owners b"
    "partitioned_device_id b' = partitioned_device_id b"
  shows "valid_alloc b' = valid_alloc b"
proof -
  have "slot_permitted b' = slot_permitted b"
    using assms by (simp add: fun_eq_iff slot_permitted_def slot_owner_def)
  with assms have "placeable b' = placeable b"
    by (simp add: fun_eq_iff placeable_def available_def cong: option.case_cong)
  then show ?thesis by (simp add: fun_eq_iff valid_alloc_def)
qed

lemma slots_injective_delete:
  "hm_invar asg \<Longrightarrow> slots_injective asg \<Longrightarrow> slots_injective (AList.delete i asg)"
  unfolding slots_injective_def by (auto simp: delete_conv' split: if_splits)

lemma slots_injective_retain:
  "hm_invar asg \<Longrightarrow> slots_injective asg \<Longrightarrow> slots_injective (hm_retain P asg)"
  unfolding slots_injective_def by (auto simp: hm.lookup_retain_Some)

lemma board_wf_frame:
  "board_wf b \<Longrightarrow> tasks_wf ts \<Longrightarrow> board_wf (b\<lparr>tasks := ts\<rparr>)"
  "board_wf (b\<lparr>reviewed_completions := rs\<rparr>) = board_wf b"
  "board_wf (b\<lparr>board_now_ms := now\<rparr>) = board_wf b"
  "board_wf (b\<lparr>selected := sel\<rparr>) = board_wf b"
  "board_wf (b\<lparr>pending_selection := p\<rparr>) = board_wf b"
  "board_wf (b\<lparr>slot_owners := os\<rparr>) = board_wf b"
  "board_wf (b\<lparr>partitioned_device_id := d\<rparr>) = board_wf b"
  "board_wf b \<Longrightarrow> hm_invar g \<Longrightarrow> board_wf (b\<lparr>selection_activation_guards := g\<rparr>)"
  "board_wf b \<Longrightarrow> bm_invar pp \<Longrightarrow> board_wf (b\<lparr>primary_preferences := pp\<rparr>)"
  "board_wf b \<Longrightarrow> devices_wf ds \<Longrightarrow> board_wf (b\<lparr>devices := ds\<rparr>)"
  "board_wf b \<Longrightarrow> hm_invar asg \<Longrightarrow> slots_injective asg \<Longrightarrow> board_wf (b\<lparr>assignments := asg\<rparr>)"
  by (simp_all add: board_wf_def)

lemma pending_ok_frame [simp]:
  "pending_ok (b\<lparr>tasks := ts\<rparr>) = pending_ok b" "pending_ok (b\<lparr>assignments := asg\<rparr>) = pending_ok b"
  "pending_ok (b\<lparr>reviewed_completions := rs\<rparr>) = pending_ok b"
  "pending_ok (b\<lparr>board_now_ms := now\<rparr>) = pending_ok b" "pending_ok (b\<lparr>devices := ds\<rparr>) = pending_ok b"
  "pending_ok (b\<lparr>slot_owners := os\<rparr>) = pending_ok b"
  "pending_ok (b\<lparr>partitioned_device_id := d\<rparr>) = pending_ok b"
  "pending_ok (b\<lparr>selection_activation_guards := g\<rparr>) = pending_ok b"
  "pending_ok (b\<lparr>primary_preferences := pp\<rparr>) = pending_ok b"
  by (simp_all add: pending_ok_def)

lemma valid_alloc_frame [simp]:
  "valid_alloc (b\<lparr>reviewed_completions := rs\<rparr>) = valid_alloc b"
  "valid_alloc (b\<lparr>board_now_ms := now\<rparr>) = valid_alloc b"
  "valid_alloc (b\<lparr>selection_activation_guards := g\<rparr>) = valid_alloc b"
  "valid_alloc (b\<lparr>primary_preferences := pp\<rparr>) = valid_alloc b"
  "valid_alloc (b\<lparr>selected := sel\<rparr>) = valid_alloc b"
  "valid_alloc (b\<lparr>pending_selection := p\<rparr>) = valid_alloc b"
  "valid_alloc (b\<lparr>assignments := asg\<rparr>) = valid_alloc b"
  by (rule valid_alloc_cong; simp)+

lemma board_inv_frame:
  "board_inv (b\<lparr>reviewed_completions := rs\<rparr>) = board_inv b"
  "board_inv (b\<lparr>board_now_ms := now\<rparr>) = board_inv b"
  "board_inv b \<Longrightarrow> hm_invar g \<Longrightarrow> board_inv (b\<lparr>selection_activation_guards := g\<rparr>)"
  "board_inv b \<Longrightarrow> bm_invar pp \<Longrightarrow> board_inv (b\<lparr>primary_preferences := pp\<rparr>)"
  by (simp_all add: board_inv_def board_wf_frame selected_ok_def)

text \<open>Cards may change as long as identity, owner and position stay.\<close>

definition same_place :: "task_card \<Rightarrow> task_card \<Rightarrow> bool" where
  "same_place t u \<longleftrightarrow>
     task_id u = task_id t \<and> owner_agent u = owner_agent t \<and> source_slot u = source_slot t"

lemma board_inv_retask:
  assumes inv: "board_inv b" and wf: "tasks_wf ts"
    and same: "\<And>i. rel_option same_place (map_of (tasks b) i) (map_of ts i)"
  shows "board_inv (b\<lparr>tasks := ts\<rparr>)"
proof -
  have dom: "map_of ts i = None \<longleftrightarrow> map_of (tasks b) i = None" for i
    using same [of i] by (auto simp: rel_option_iff split: option.splits)
  have "placeable (b\<lparr>tasks := ts\<rparr>) i s" if "placeable b i s" for i s
    using that same [of i]
    by (auto simp: placeable_def available_def slot_permitted_def slot_owner_def same_place_def
        rel_option_iff split: option.splits)
  with inv have "valid_alloc (b\<lparr>tasks := ts\<rparr>) (assignments b)"
    by (simp add: board_inv_def valid_alloc_def)
  with inv wf dom show ?thesis
    by (simp add: board_inv_def board_wf_frame selected_ok_def)
qed

lemma board_inv_retask_one:
  assumes "board_inv b" and "map_of (tasks b) i = Some t" and "same_place t u"
  shows "board_inv (b\<lparr>tasks := AList.update i u (tasks b)\<rparr>)"
proof (rule board_inv_retask [OF assms(1)])
  have id: "task_id t = i" using assms(1,2) by (auto dest: board_invD tasks_wf_id)
  with assms show "tasks_wf (AList.update i u (tasks b))"
    by (auto intro!: tasks_wf_update dest: board_invD simp: same_place_def)
  show "rel_option same_place (map_of (tasks b) j) (map_of (AList.update i u (tasks b)) j)" for j
    using assms by (auto simp: update_conv' same_place_def intro!: option.rel_refl)
qed

lemma board_inv_select:
  "board_inv b \<Longrightarrow> map_of (tasks b) i \<noteq> None \<Longrightarrow>
   (case p of None \<Rightarrow> True | Some q \<Rightarrow> fst q = i) \<Longrightarrow>
   board_inv (b\<lparr>selected := Some i, pending_selection := p\<rparr>)"
  by (auto simp: board_inv_def board_wf_frame selected_ok_def pending_ok_def split: option.splits)

lemma board_inv_unpend: "board_inv b \<Longrightarrow> board_inv (b\<lparr>pending_selection := None\<rparr>)"
  by (simp add: board_inv_def board_wf_frame selected_ok_def pending_ok_def)

lemma assigned_task_exists:
  "board_inv b \<Longrightarrow> map_of (assignments b) i = Some s \<Longrightarrow> map_of (tasks b) i \<noteq> None"
  unfolding board_inv_def valid_alloc_def placeable_def by (cases "map_of (tasks b) i") fastforce+

section \<open>The operations keep the invariant\<close>

lemma board_wf_remove_card: "board_wf b \<Longrightarrow> board_wf (remove_card i b)"
  by (simp add: remove_card_def board_wf_def tasks_wf_delete hm_invar_delete slots_injective_delete)

lemma board_wf_remove_cards [board_keep]: "board_wf b \<Longrightarrow> board_wf (remove_cards ids b)"
  unfolding remove_cards_def by (induction ids arbitrary: b) (auto intro: board_wf_remove_card)

lemma pending_ok_remove_cards [board_keep]: "pending_ok b \<Longrightarrow> pending_ok (remove_cards ids b)"
  unfolding remove_cards_def
  by (induction ids arbitrary: b) (auto simp: remove_card_def pending_ok_def)

lemma task_id_timed [simp]: "task_id (timed now p t) = task_id t"
  by (simp add: timed_def split: option.splits)

lemma task_id_acknowledged [simp]: "task_id (acknowledged t) = task_id t"
  by (simp add: acknowledged_def)

lemma board_wf_merge_card: "board_wf b \<Longrightarrow> board_wf (merge_card now t b)"
  by (auto simp: merge_card_def Let_def board_wf_def intro!: tasks_wf_update)

lemma merge_cards_keep:
  "board_wf b \<Longrightarrow> board_wf (fold (merge_card now) cards b)"
  "pending_ok b \<Longrightarrow> pending_ok (fold (merge_card now) cards b)"
proof (induction cards arbitrary: b)
  case (Cons c cards)
  {
    case 1
    then show ?case using Cons.IH(1) [OF board_wf_merge_card] by simp
  next
    case 2
    then have "pending_ok (merge_card now c b)" by (simp add: merge_card_def Let_def pending_ok_def)
    with Cons.IH(2) show ?case by simp
  }
qed simp_all

lemma board_inv_merge [board_keep]:
  "board_wf b \<Longrightarrow> pending_ok b \<Longrightarrow> board_inv (merge_session_tasks cards now b)"
  unfolding merge_session_tasks_def
  by (intro board_inv_reallocate merge_cards_keep) (simp_all add: board_wf_frame)

lemma board_inv_replace [board_keep]:
  "board_inv b \<Longrightarrow> board_inv (replace_session_tasks session cards now b)"
  unfolding replace_session_tasks_def Let_def
  by (intro board_inv_merge board_wf_remove_cards pending_ok_remove_cards) (auto dest: board_invD)

lemma board_inv_publish [board_keep]:
  "board_inv b \<Longrightarrow> board_inv (fst (publish_tasks session agent value now b))"
  by (auto simp: publish_tasks_def Let_def intro: board_inv_replace split: sum.splits)

lemma board_inv_legacy [board_keep]:
  "board_inv b \<Longrightarrow> board_inv (fst (publish_legacy_status session agent value now b))"
  by (auto simp: publish_legacy_status_def Let_def intro: board_inv_replace split: sum.splits)

lemma board_inv_reconcile [board_keep]:
  assumes "board_inv b"
  shows "board_inv (reconcile_authoritative_selection i now b)"
proof -
  have p: "b\<lparr>selected := Some p\<rparr> = b" if "pending_selection b = Some (p, deadline)" for p deadline
    using board_invD(4) [OF assms] that by (simp add: pending_ok_def)
  show ?thesis
    using assms board_inv_select [OF assms, of _ None] board_inv_unpend [OF assms] p
    by (auto simp: reconcile_authoritative_selection_def split: option.splits)
qed

lemma board_inv_snapshot [board_keep]:
  assumes "board_inv b"
  shows "board_inv (fst (publish_codex_snapshot value now b))"
proof -
  obtain b' r where r: "publish_tasks 0 Codex value now b = (b', r)"
    by (cases "publish_tasks 0 Codex value now b")
  with board_inv_publish [OF assms, of 0 Codex "value" now] have "board_inv b'" by simp
  with r show ?thesis
    by (cases r) (simp_all add: publish_codex_snapshot_def Let_def board_inv_reconcile)
qed

lemma apply_handoff_fields [simp]:
  "tasks (apply_handoff cs b) = tasks b" "assignments (apply_handoff cs b) = assignments b"
  "reviewed_completions (apply_handoff cs b) = reviewed_completions b"
  by (simp_all add: apply_handoff_def Let_def split: option.splits prod.splits)

lemma board_inv_handoff [board_keep]:
  assumes "board_inv b"
  shows "board_inv (apply_handoff cs b)"
  using assms board_inv_select [OF assms, of _ None] assigned_task_exists [OF assms]
  by (auto simp: apply_handoff_def Let_def split: option.splits)

lemma board_inv_hid [board_keep]:
  assumes "board_inv b"
  shows "board_inv (fst (publish_codex_hid_status value now b))"
proof -
  let ?b = "b\<lparr>selection_activation_guards :=
    hm_retain (\<lambda>_ expires. now \<le> expires) (selection_activation_guards b)\<rparr>"
  have "hm_invar (selection_activation_guards b)"
    using board_invD(1) [OF assms] by (simp add: board_wf_def)
  then have b: "board_inv ?b" by (intro board_inv_frame assms hm_invar_retain)
  have "board_inv (merge_session_tasks cards now (apply_handoff cs ?b))" for cards cs
    using board_inv_handoff [OF b] by (intro board_inv_merge) (auto dest: board_invD)
  with b assms show ?thesis
    by (auto simp: publish_codex_hid_status_def Let_def split: option.splits sum.splits)
qed

lemma devices_wf_insert:
  "devices_wf ds \<Longrightarrow> devices_wf (bm_insert d (map (DeviceSlot d) [0..<n]) ds)"
proof -
  assume wf: "devices_wf ds"
  have "list_all (\<lambda>(d, ss). ss = map (DeviceSlot d) [0..<length ss]) (bm_insert d (map (DeviceSlot d) [0..<n]) ds)"
    if "list_all (\<lambda>(d, ss). ss = map (DeviceSlot d) [0..<length ss]) ds" for ds
    using that by (induction d "map (DeviceSlot d) [0..<n]" ds rule: bm_insert.induct) auto
  with wf show ?thesis by (simp add: devices_wf_def bm.invar_insert)
qed

lemma devices_wf_remove: "devices_wf ds \<Longrightarrow> devices_wf (bm_remove d ds)"
  by (auto simp: devices_wf_def bm.invar_remove list_all_iff) (auto simp: bm_remove_def)

lemma board_inv_set_device [board_keep]:
  assumes "board_inv b"
  shows "board_inv (set_device d n online b)"
  unfolding set_device_def
  by (rule board_inv_reallocate)
    (use board_invD(1,4) [OF assms] in \<open>simp_all add: board_wf_def devices_wf_insert
      devices_wf_remove slots_injective_retain hm_invar_retain\<close>)

lemma board_inv_clear_devices [board_keep]: "board_inv b \<Longrightarrow> board_inv (clear_devices b)"
  by (simp add: clear_devices_def board_inv_def board_wf_def selected_ok_def valid_alloc_def
      devices_wf_def slots_injective_def)

lemma board_inv_set_slot_owners [board_keep]: "board_inv b \<Longrightarrow> board_inv (set_slot_owners d os b)"
  unfolding set_slot_owners_def
  by (auto intro!: board_inv_reallocate simp: board_wf_frame dest: board_invD)

lemma board_inv_restore [board_keep]: "board_inv b \<Longrightarrow> board_inv (restore_slot_preferences v b)"
  by (auto simp: restore_slot_preferences_def split: option.splits
      intro!: board_inv_frame bm.invar_insert_many)

lemma board_inv_guard [board_keep]: "board_inv b \<Longrightarrow> board_inv (guard_selection_activation i now b)"
  by (auto simp: guard_selection_activation_def hm_invar_def split: option.splits intro!: board_inv_frame)

lemma same_place_lease: "same_place t (lease session now t)"
  by (simp add: same_place_def lease_def)

lemma map_of_disconnect:
  "map_of (tasks (disconnect_session session now b)) i = map_option (lease session now) (map_of (tasks b) i)"
  by (simp add: disconnect_session_def map_of_map)

lemma board_inv_disconnect [board_keep]:
  assumes "board_inv b"
  shows "board_inv (disconnect_session session now b)"
  unfolding disconnect_session_def
proof (rule board_inv_retask [OF assms])
  let ?ts = "map (\<lambda>(i, t). (i, lease session now t)) (tasks b)"
  show "rel_option same_place (map_of (tasks b) i) (map_of ?ts i)" for i
    by (cases "map_of (tasks b) i") (simp_all add: map_of_map same_place_lease)
  have "map fst ?ts = map fst (tasks b)" by auto
  then have "hm_invar ?ts" using board_invD(6) [OF assms] by (simp only: hm_invar_def)
  moreover have "task_id t = i" if "map_of ?ts i = Some t" for i t
    using that tasks_wf_id [OF board_invD(5) [OF assms]] by (auto simp: map_of_map lease_def)
  ultimately show "tasks_wf ?ts" by (auto simp: tasks_wf_iff)
qed

lemma board_inv_clear_session [board_keep]: "board_inv b \<Longrightarrow> board_inv (clear_session session b)"
  by (auto simp: clear_session_def Let_def intro!: board_inv_reallocate board_wf_remove_cards
      pending_ok_remove_cards dest: board_invD)

lemma board_inv_expire [board_keep]: "board_inv b \<Longrightarrow> board_inv (expire now b)"
  by (auto simp: expire_def Let_def board_inv_frame board_wf_frame intro!: board_inv_reallocate
      board_wf_remove_cards pending_ok_remove_cards dest: board_invD)

lemma pending_until_ok: "case pending_until t i now of None \<Rightarrow> True | Some q \<Rightarrow> fst q = i"
  by (simp add: pending_until_def)

lemma board_inv_select_task [board_keep]:
  assumes "board_inv b"
  shows "board_inv (fst (select_task i now b))"
proof (cases "map_of (assignments b) i")
  case None
  with assms show ?thesis by (simp add: select_task_def Let_def board_inv_frame)
next
  case (Some s)
  then obtain t where t: "map_of (tasks b) i = Some t"
    using assigned_task_exists [OF assms] by auto
  have id: "task_id t = i" using board_invD(5) [OF assms] t by (rule tasks_wf_id)
  let ?b = "b\<lparr>board_now_ms := now\<rparr>"
  have b: "board_inv ?b" using assms by (simp add: board_inv_frame)
  let ?c = "?b\<lparr>tasks := AList.update i (acknowledged t) (tasks b)\<rparr>"
  have "board_inv ?c"
    using board_inv_retask_one [OF b, of i t "acknowledged t"] t
    by (simp add: same_place_def acknowledged_def)
  then have "board_inv (?c\<lparr>reviewed_completions := rs\<rparr>)" for rs
    by (simp only: board_inv_frame)
  with b Some t show ?thesis
    using board_inv_select [OF _ _ pending_until_ok]
    by (simp add: select_task_def Let_def update_conv')
qed

lemma board_inv_select_slot [board_keep]: "board_inv b \<Longrightarrow> board_inv (fst (select_slot d n now b))"
  by (simp add: select_slot_def board_inv_select_task split: option.splits)

lemma board_inv_set_model [board_keep]: "board_inv b \<Longrightarrow> board_inv (fst (set_selected_model m b))"
  by (auto simp: set_selected_model_def same_place_def split: option.splits
      intro!: board_inv_retask_one)

lemma board_inv_auto_select [board_keep]:
  "board_inv b \<Longrightarrow> board_inv (fst (auto_select_waiting d now b))"
  by (auto simp: auto_select_waiting_def Let_def intro!: board_inv_select pending_until_ok
      split: option.splits)

section \<open>The state machine\<close>

text \<open>
  The steps of the board. \<open>reorder\<close> is the freedom of a hash map to change its iteration
  order between two calls: whatever a reachable board satisfies holds for every such order.
\<close>

inductive board_step :: "task_board \<Rightarrow> task_board \<Rightarrow> bool" where
  restored: "board_step b (restore_slot_preferences v b)"
| guarded: "board_step b (guard_selection_activation i now b)"
| device: "board_step b (set_device d n online b)"
| devices_cleared: "board_step b (clear_devices b)"
| partitioned: "board_step b (set_slot_owners d os b)"
| published: "board_step b (fst (publish_tasks session agent v now b))"
| snapshot: "board_step b (fst (publish_codex_snapshot v now b))"
| legacy: "board_step b (fst (publish_legacy_status session agent v now b))"
| hid: "board_step b (fst (publish_codex_hid_status v now b))"
| disconnected: "board_step b (disconnect_session session now b)"
| session_cleared: "board_step b (clear_session session b)"
| expired: "board_step b (expire now b)"
| selected_slot: "board_step b (fst (select_slot d n now b))"
| selected_task: "board_step b (fst (select_task i now b))"
| model_set: "board_step b (fst (set_selected_model m b))"
| auto_selected: "board_step b (fst (auto_select_waiting d now b))"
| reorder: "mset ts = mset (tasks b) \<Longrightarrow> mset asg = mset (assignments b) \<Longrightarrow>
    mset ls = mset (last_slots b) \<Longrightarrow> mset g = mset (selection_activation_guards b) \<Longrightarrow>
    board_step b (b\<lparr>tasks := ts, assignments := asg, last_slots := ls, selection_activation_guards := g\<rparr>)"

inductive board_reachable :: "task_board \<Rightarrow> bool" where
  new: "board_reachable board_new"
| step: "board_reachable b \<Longrightarrow> board_step b b' \<Longrightarrow> board_reachable b'"

inductive_cases board_stepE: "board_step b b'"

lemma map_of_perm: "hm_invar m \<Longrightarrow> mset m' = mset m \<Longrightarrow> map_of m' = map_of m"
  using hm_invar_perm [of m m'] mset_eq_setD [of m' m]
  by (auto simp: hm_invar_def map_of_inject_set)

lemma board_inv_new: "board_inv board_new"
  by (simp add: board_inv_def board_new_def board_wf_def tasks_wf_def devices_wf_def
      slots_injective_def valid_alloc_def selected_ok_def pending_ok_def)

lemma board_inv_reorder [board_keep]:
  assumes inv: "board_inv b"
    and perm: "mset ts = mset (tasks b)" "mset asg = mset (assignments b)"
      "mset ls = mset (last_slots b)" "mset g = mset (selection_activation_guards b)"
  shows "board_inv (b\<lparr>tasks := ts, assignments := asg, last_slots := ls, selection_activation_guards := g\<rparr>)"
proof -
  have hm: "hm_invar (tasks b)" "hm_invar (assignments b)" "hm_invar (last_slots b)"
    "hm_invar (selection_activation_guards b)"
    using inv by (simp_all add: board_inv_def board_wf_def tasks_wf_def)
  note same = map_of_perm [OF hm(1) perm(1)] map_of_perm [OF hm(2) perm(2)]
  note good = hm_invar_perm [OF hm(1) perm(1)] hm_invar_perm [OF hm(2) perm(2)]
    hm_invar_perm [OF hm(3) perm(3)] hm_invar_perm [OF hm(4) perm(4)]
  let ?b = "b\<lparr>tasks := ts, assignments := asg, last_slots := ls, selection_activation_guards := g\<rparr>"
  have "slot_permitted ?b = slot_permitted b"
    by (simp add: fun_eq_iff slot_permitted_def slot_owner_def)
  then have "placeable ?b = placeable b"
    by (simp add: fun_eq_iff placeable_def available_def same cong: option.case_cong)
  with inv same good show ?thesis
    by (simp add: board_inv_def board_wf_def tasks_wf_iff slots_injective_def valid_alloc_def
        selected_ok_def pending_ok_def del: valid_alloc_frame)
qed

lemma board_inv_step: "board_step b b' \<Longrightarrow> board_inv b \<Longrightarrow> board_inv b'"
  by (erule board_stepE) (simp_all add: board_keep)

section \<open>Properties\<close>

text \<open>
  C1. In every reachable state of the board, whatever the order of its hash maps: the cards
  are stored under their own ids, every assignment is to a connected and permitted slot that
  no other card holds, the selection is an existing card, and an optimistic selection is
  always the selected card.
\<close>
theorem board_invariant:
  assumes "board_reachable b"
  shows "board_inv b"
  using assms by induction (auto intro: board_inv_new board_inv_step)

theorem board_invariant_witness: "board_inv (set_device ''deck'' 6 True board_new)"
  by (rule board_invariant) (rule board_reachable.intros board_step.intros)+

end
