(* ===== verification/Task_Board_Props.thy ===== *)
theory Task_Board_Props
  imports Task_Board_Inv
begin

text \<open>
  What the operations of the task board guarantee to the agents and to the controllers, on
  top of the invariant of \<open>Task_Board_Inv\<close>: isolation of publishers, the reconnect lease,
  acknowledged completions, run timing, the one selection of the board, the automatic
  selection, the HID feed, and the saved slot preferences.
\<close>

section \<open>Cards after a merge\<close>

lemma map_of_merge_card:
  "map_of (tasks (merge_card now t b)) i =
     (if i = task_id t
      then Some (timed now (map_of (tasks b) i)
             (if task_state t = Completed \<and> task_id t \<in> reviewed_completions b then acknowledged t else t))
      else map_of (tasks b) i)"
  by (simp add: merge_card_def Let_def update_conv')

lemma merge_other:
  "i \<notin> task_id ` set cards \<Longrightarrow> map_of (tasks (fold (merge_card now) cards b)) i = map_of (tasks b) i"
  by (induction cards arbitrary: b) (simp_all add: map_of_merge_card)

lemma owner_timed [simp]:
  "owner_session (timed now p t) = owner_session t" "owner_agent (timed now p t) = owner_agent t"
  "task_state (timed now p t) = task_state t"
  by (simp_all add: timed_def split: option.splits)

lemma acknowledged_simps [simp]:
  "owner_session (acknowledged t) = owner_session t" "owner_agent (acknowledged t) = owner_agent t"
  "task_state (acknowledged t) = Queued" "started_at_ms (acknowledged t) = None"
  "finished_at_ms (acknowledged t) = None"
  by (simp_all add: acknowledged_def)

text \<open>A property of every possible result of merging one of the cards holds of what is stored.\<close>

lemma merge_in:
  assumes "i \<in> task_id ` set cards"
    and step: "\<And>c b'. c \<in> set cards \<Longrightarrow> task_id c = i \<Longrightarrow> I b' \<Longrightarrow>
      P (the (map_of (tasks (merge_card now c b')) i))"
    and keep: "\<And>c b'. c \<in> set cards \<Longrightarrow> I b' \<Longrightarrow> I (merge_card now c b')"
    and "I b"
  shows "\<exists>u. map_of (tasks (fold (merge_card now) cards b)) i = Some u \<and> P u"
  using assms
proof (induction cards arbitrary: b)
  case (Cons c cards)
  have I: "I (merge_card now c b)" using Cons.prems by simp
  show ?case
  proof (cases "i \<in> task_id ` set cards")
    case True
    have "\<exists>u. map_of (tasks (fold (merge_card now) cards (merge_card now c b))) i = Some u \<and> P u"
      by (rule Cons.IH [OF True]) (use Cons.prems I in auto)
    then show ?thesis by simp
  next
    case False
    then have c: "task_id c = i" using Cons.prems(1) by auto
    then have "P (the (map_of (tasks (merge_card now c b)) i))" using Cons.prems by simp
    with c False show ?thesis by (simp add: merge_other map_of_merge_card)
  qed
qed simp

lemma map_of_remove_cards:
  "map_of (tasks (remove_cards ids b)) i = (if i \<in> set ids then None else map_of (tasks b) i)"
  unfolding remove_cards_def
  by (induction ids arbitrary: b) (auto simp: remove_card_def delete_conv')

lemma map_of_asg_remove_cards:
  "map_of (assignments (remove_cards ids b)) i = (if i \<in> set ids then None else map_of (assignments b) i)"
  unfolding remove_cards_def
  by (induction ids arbitrary: b) (auto simp: remove_card_def delete_conv')

lemma remove_cards_fields [simp]:
  "devices (remove_cards ids b) = devices b" "slot_owners (remove_cards ids b) = slot_owners b"
  "partitioned_device_id (remove_cards ids b) = partitioned_device_id b"
  "reviewed_completions (remove_cards ids b) = reviewed_completions b - set ids"
  unfolding remove_cards_def
  by (induction ids arbitrary: b) (auto simp: remove_card_def)

lemma ids_where_mem:
  "hm_invar (tasks b) \<Longrightarrow> i \<in> set (ids_where P b) \<longleftrightarrow> (\<exists>t. map_of (tasks b) i = Some t \<and> P i t)"
  by (force simp: ids_where_def hm.in_entries_iff)

lemma tasks_merge [simp]:
  "tasks (merge_session_tasks cards now b) = tasks (fold (merge_card now) cards (b\<lparr>board_now_ms := now\<rparr>))"
  by (simp add: merge_session_tasks_def)

lemma replace_other:
  assumes "hm_invar (tasks b)" and "i \<notin> task_id ` set cards"
  shows "map_of (tasks (replace_session_tasks session cards now b)) i =
    (case map_of (tasks b) i of None \<Rightarrow> None | Some t \<Rightarrow> if owner_session t = session then None else Some t)"
  using assms
  by (auto simp: replace_session_tasks_def Let_def merge_other map_of_remove_cards ids_where_mem
      split: option.splits)

section \<open>Publication\<close>

lemma published_cards_Inr:
  "published_cards b session agent now seen items = Inr cards \<Longrightarrow>
   distinct (map task_id cards) \<and> set (map task_id cards) \<inter> seen = {} \<and> length cards = length items \<and>
   (\<forall>c \<in> set cards. owner_session c = session \<and> owner_agent c = agent \<and>
      foreign_owner session agent (map_of (tasks b) (task_id c)) = None)"
proof (induction items arbitrary: seen cards)
  case (Cons item items)
  from Cons.prems obtain t where t: "parse_task session agent item now None = Inr t"
    and fo: "foreign_owner session agent (map_of (tasks b) (task_id t)) = None"
    and new: "task_id t \<notin> seen"
    and r: "res_bind (published_cards b session agent now (insert (task_id t) seen) items)
              (\<lambda>ts. Inr (t # ts)) = Inr cards"
    by (auto elim!: res_bindE split: option.splits if_splits)
  from r obtain ts where ts: "published_cards b session agent now (insert (task_id t) seen) items = Inr ts"
    and cards: "cards = t # ts"
    by (auto elim!: res_bindE)
  from Cons.IH [OF ts] parse_task_owner [OF t] fo new show ?case by (auto simp: cards)
qed simp

text \<open>The id that an item of a publication carries: the text of its field \<open>task_id\<close>, or, when it
  has no such field, of its field \<open>id\<close>.\<close>

definition item_id :: "json \<Rightarrow> string" where
  "item_id item = (case Option.bind (or_else (jget ''task_id'' item) (jget ''id'' item)) as_str of None \<Rightarrow> [] | Some i \<Rightarrow> i)"

lemma parse_task_item_id:
  assumes "parse_task session agent item now None = Inr t"
  shows "task_id t = item_id item"
proof (rule parse_task_unfold [OF assms])
  fix object key
  assume o: "as_object item = Some object" and i: "task_identity object None = Inr (task_id t, key)"
  from o have "item = JObj object" by (cases item) simp_all
  with i show ?thesis
    by (cases "Option.bind (or_else (map_of object ''task_id'') (map_of object ''id'')) as_str")
      (auto simp: task_identity_def item_id_def jget_def)
qed

lemma published_cards_ids:
  "published_cards b session agent now seen items = Inr cards \<Longrightarrow> map task_id cards = map item_id items"
  by (induction items arbitrary: seen cards)
    (auto simp: parse_task_item_id elim!: res_bindE split: option.splits if_splits)

definition session_ids :: "nat \<Rightarrow> task_board \<Rightarrow> string set" where
  "session_ids session b = {i. \<exists>t. map_of (tasks b) i = Some t \<and> owner_session t = session}"

lemma stored_owner:
  assumes "i \<in> task_id ` set cards" and "\<forall>c \<in> set cards. owner_session c = session"
  shows "\<exists>u. map_of (tasks (fold (merge_card now) cards b)) i = Some u \<and> owner_session u = session"
  by (rule merge_in [OF assms(1), of "\<lambda>_. True"]) (use assms(2) in \<open>auto simp: map_of_merge_card\<close>)

lemma session_ids_replace:
  assumes "hm_invar (tasks b)" and "\<forall>c \<in> set cards. owner_session c = session"
  shows "session_ids session (replace_session_tasks session cards now b) = task_id ` set cards"
proof -
  have "i \<in> session_ids session (replace_session_tasks session cards now b) \<longleftrightarrow> i \<in> task_id ` set cards" for i
  proof (cases "i \<in> task_id ` set cards")
    case True
    with stored_owner [OF True assms(2)] show ?thesis
      by (auto simp: session_ids_def replace_session_tasks_def Let_def)
  next
    case False
    with replace_other [OF assms(1) False, of session now] show ?thesis
      by (auto simp: session_ids_def split: option.splits if_splits)
  qed
  then show ?thesis by blast
qed

text \<open>
  C6. Publishers are isolated. A rejected publication leaves the whole board as it was. An
  accepted one leaves every card of another session exactly as it was, with the one exception
  that the code makes: a card that is leased (its session waits for the reconnection) and
  belongs to the same agent may be taken over, and then the publishing session owns it.
\<close>
theorem publication_isolated:
  assumes "board_inv b" and "publish_tasks session agent v now b = (b', r)"
  shows "(isl r \<longrightarrow> b' = b) \<and>
    (\<forall>i t. map_of (tasks b) i = Some t \<and> owner_session t \<noteq> session \<longrightarrow>
       map_of (tasks b') i = Some t \<or>
       owner_agent t = agent \<and> reconnect_until_ms t \<noteq> None \<and>
         (\<exists>u. map_of (tasks b') i = Some u \<and> owner_session u = session))"
proof (cases "res_bind (ok_or ''publish_tasks requires a tasks array'' (Option.bind (jget ''tasks'' v) as_array))
             (published_cards b session agent now {})")
  case (Inl e)
  with assms show ?thesis by (auto simp: publish_tasks_def)
next
  case (Inr cards)
  then obtain items where "published_cards b session agent now {} items = Inr cards"
    by (auto elim!: res_bindE)
  note pc = published_cards_Inr [OF this]
  have b': "tasks b' = tasks (replace_session_tasks session cards now b)" "\<not> isl r"
    using assms(2) Inr by (auto simp: publish_tasks_def Let_def)
  have "map_of (tasks b') i = Some t \<or> owner_agent t = agent \<and> reconnect_until_ms t \<noteq> None \<and>
      (\<exists>u. map_of (tasks b') i = Some u \<and> owner_session u = session)"
    if t: "map_of (tasks b) i = Some t" "owner_session t \<noteq> session" for i t
  proof (cases "i \<in> task_id ` set cards")
    case True
    with pc have "foreign_owner session agent (Some t) = None" using t(1) by auto
    with t(2) have "owner_agent t = agent \<and> reconnect_until_ms t \<noteq> None"
      by (simp add: foreign_owner_def split: if_splits)
    moreover have "\<exists>u. map_of (tasks b') i = Some u \<and> owner_session u = session"
      using stored_owner [OF True, of session] pc b'(1) by (simp add: replace_session_tasks_def Let_def)
    ultimately show ?thesis by blast
  next
    case False
    with replace_other [OF board_invD(6) [OF assms(1)] False] t b'(1) show ?thesis by simp
  qed
  with b'(2) show ?thesis by blast
qed

text \<open>
  C7. An accepted publication is the complete snapshot of its session: afterwards the session
  owns exactly the ids that the items carry (\<open>task_id\<close>, or \<open>id\<close> where that is missing), these are
  pairwise different, and the board is again a good one.
\<close>
theorem publication_is_complete:
  assumes "board_inv b" and "publish_tasks session agent v now b = (b', Inr r)"
    and "Option.bind (jget ''tasks'' v) as_array = Some items"
  shows "session_ids session b' = item_id ` set items \<and> distinct (map item_id items) \<and> board_inv b'"
proof -
  from assms(2,3) obtain cards where c: "published_cards b session agent now {} items = Inr cards"
    and b': "b' = replace_session_tasks session cards now b"
    by (cases "published_cards b session agent now {} items") (auto simp: publish_tasks_def Let_def)
  note pc = published_cards_Inr [OF c] and ids = published_cards_ids [OF c]
  have "session_ids session b' = set (map task_id cards)"
    using session_ids_replace [OF board_invD(6) [OF assms(1)], of cards session now] pc b' by simp
  with pc board_inv_replace [OF assms(1)] b' show ?thesis unfolding ids by simp
qed

section \<open>The reconnect lease\<close>

lemma leased_task:
  assumes "map_of (tasks b) i = Some t" and "owner_session t = session"
  shows "map_of (tasks (disconnect_session session now b)) i = Some (lease session now t)"
    "reconnect_until_ms (lease session now t) = Some (now + RECONNECT_GRACE_MS)"
  using assms by (simp_all add: map_of_disconnect lease_def)

lemma map_of_expire:
  assumes "hm_invar (tasks b)"
  shows "map_of (tasks (expire now b)) i =
    (case map_of (tasks b) i of
       None \<Rightarrow> None
     | Some t \<Rightarrow> (case reconnect_until_ms t of
         None \<Rightarrow> Some t | Some u \<Rightarrow> if u \<le> now then None else Some t))"
proof -
  let ?b = "b\<lparr>board_now_ms := now\<rparr>"
  let ?P = "\<lambda>_ t. case reconnect_until_ms t of None \<Rightarrow> False | Some u \<Rightarrow> u \<le> now"
  have mem: "j \<in> set (ids_where ?P ?b) \<longleftrightarrow> (\<exists>t. map_of (tasks b) j = Some t \<and> ?P j t)" for j
    using ids_where_mem [of ?b j ?P] assms by simp
  have "map_of (tasks (expire now b)) i = (if i \<in> set (ids_where ?P ?b) then None else map_of (tasks b) i)"
    by (simp add: expire_def Let_def map_of_remove_cards)
  with mem [of i] show ?thesis by (auto split: option.splits)
qed

lemma expire_keeps_slot:
  assumes inv: "board_inv b" and s: "map_of (assignments b) i = Some s"
    and t: "map_of (tasks (expire now b)) i = Some t" "reconnect_until_ms t \<noteq> None"
    and acc: "slot_accepts b s t" and hid: "\<not> is_hid_id i"
    and claims: "\<forall>(j, u) \<in> set (tasks b). \<not> hid_claims b s u"
  shows "map_of (assignments (expire now b)) i = Some s"
proof -
  let ?b = "b\<lparr>board_now_ms := now\<rparr>"
  let ?ids = "ids_where (\<lambda>_ t. case reconnect_until_ms t of None \<Rightarrow> False | Some u \<Rightarrow> u \<le> now) ?b"
  let ?c = "remove_cards ?ids ?b"
  show ?thesis
  proof (cases "?ids = []")
    case True
    with s show ?thesis by (simp add: expire_def Let_def)
  next
    case False
    then have e: "expire now b = reallocate ?c" by (simp add: expire_def Let_def)
    with t(1) have ti: "map_of (tasks ?c) i = Some t" "i \<notin> set ?ids"
      by (auto simp: map_of_remove_cards split: if_splits)
    with s have si: "map_of (assignments ?c) i = Some s" by (simp add: map_of_asg_remove_cards)
    have "s \<in> set (available b)" using board_invD(2) [OF inv] s by (simp add: valid_alloc_def placeable_def)
    with ti acc t(2) have keeps: "keeps_slot ?c i s"
      by (auto simp: keeps_slot_def available_def slot_accepts_def slot_owner_def split: option.splits if_splits)
    have wf: "board_wf ?c"
      using board_invD(1) [OF inv] by (intro board_wf_remove_cards) (simp add: board_wf_frame)
    have own: "codex_may_own ?c n = codex_may_own b n" for n by (simp add: codex_may_own_def)
    have "\<not> hid_claims ?c s u" if "(j, u) \<in> set (tasks ?c)" for j u
    proof -
      have "map_of (tasks ?c) j = Some u" using that wf by (simp add: board_wf_def tasks_wf_mem)
      then have "(j, u) \<in> set (tasks b)" by (auto simp: map_of_remove_cards split: if_splits dest: map_of_SomeD)
      with claims show ?thesis by (auto simp: hid_claims_def own)
    qed
    then show ?thesis unfolding e by (intro assignment_survives [OF wf si keeps hid]) auto
  qed
qed

text \<open>What a leased card needs to stay where it is, and that expiry checks before the deadline keep it.\<close>

definition lease_held :: "string \<Rightarrow> device_slot \<Rightarrow> task_card \<Rightarrow> task_board \<Rightarrow> bool" where
  "lease_held i s t b \<longleftrightarrow>
     board_inv b \<and> map_of (tasks b) i = Some t \<and> map_of (assignments b) i = Some s \<and>
     slot_accepts b s t \<and> (\<forall>(j, u) \<in> set (tasks b). \<not> hid_claims b s u)"

lemma expire_fields [simp]:
  "slot_owners (expire now b) = slot_owners b"
  "partitioned_device_id (expire now b) = partitioned_device_id b"
  by (simp_all add: expire_def Let_def)

lemma slot_accepts_cong:
  "slot_owners b' = slot_owners b \<Longrightarrow> partitioned_device_id b' = partitioned_device_id b \<Longrightarrow>
   owner_agent t' = owner_agent t \<Longrightarrow> slot_accepts b' s t' = slot_accepts b s t"
  by (simp add: slot_accepts_def slot_owner_def cong: if_cong option.case_cong)

lemma lease_held_expire:
  assumes "lease_held i s t b" and "reconnect_until_ms t = Some u" and "later < u" and "\<not> is_hid_id i"
  shows "lease_held i s t (expire later b)"
proof -
  note h = assms(1) [unfolded lease_held_def]
  have inv: "board_inv b" using h by blast
  have ti: "map_of (tasks (expire later b)) i = Some t"
    using map_of_expire [OF board_invD(6) [OF inv], of later i] h assms(2,3) by simp
  have si: "map_of (assignments (expire later b)) i = Some s"
    using expire_keeps_slot [OF inv _ ti _ _ assms(4)] h assms(2) by simp
  have inv': "board_inv (expire later b)" using inv by (rule board_inv_expire)
  have "\<not> hid_claims (expire later b) s v" if "(j, v) \<in> set (tasks (expire later b))" for j v
  proof -
    have "map_of (tasks (expire later b)) j = Some v"
      using that board_invD(6) [OF inv'] by (simp add: hm.in_entries_iff)
    then have "(j, v) \<in> set (tasks b)"
      using map_of_expire [OF board_invD(6) [OF inv], of later j]
      by (auto split: option.splits if_splits dest: map_of_SomeD)
    with h show ?thesis by (auto simp: hid_claims_def codex_may_own_def)
  qed
  moreover have "slot_accepts (expire later b) s t"
    using h slot_accepts_cong [of "expire later b" b t t s] by simp
  ultimately show ?thesis using inv' ti si by (auto simp: lease_held_def)
qed

lemma lease_held_checks:
  "lease_held i s t b \<Longrightarrow> reconnect_until_ms t = Some u \<Longrightarrow> \<not> is_hid_id i \<Longrightarrow> \<forall>x \<in> set checks. x < u \<Longrightarrow>
   lease_held i s t (fold expire checks b)"
  by (induction checks arbitrary: b) (simp_all add: lease_held_expire)

lemma expired_stays_away:
  "board_inv b \<Longrightarrow> map_of (tasks b) i = None \<Longrightarrow> map_of (tasks (fold expire checks b)) i = None"
  by (induction checks arbitrary: b) (simp_all add: board_inv_expire map_of_expire board_invD(6))

lemma lease_runs_out:
  "board_inv b \<Longrightarrow> map_of (tasks b) i = Some t \<Longrightarrow> reconnect_until_ms t = Some u \<Longrightarrow> x \<in> set checks \<Longrightarrow> u \<le> x \<Longrightarrow>
   map_of (tasks (fold expire checks b)) i = None"
proof (induction checks arbitrary: b)
  case (Cons y ys)
  note m = map_of_expire [OF board_invD(6) [OF Cons.prems(1)], of y i]
  note inv = board_inv_expire [OF Cons.prems(1), of y]
  show ?case
  proof (cases "u \<le> y")
    case True
    with m Cons.prems have "map_of (tasks (expire y b)) i = None" by simp
    with expired_stays_away [OF inv] show ?thesis by simp
  next
    case False
    with m Cons.prems have "map_of (tasks (expire y b)) i = Some t" by simp
    moreover have "x \<in> set ys" using False Cons.prems by auto
    ultimately show ?thesis using Cons.IH [OF inv] Cons.prems by simp
  qed
qed simp

text \<open>
  C8. The cards of a session that disconnects at \<open>now\<close> are leased for thirty seconds. Through
  any number of expiry checks before \<open>now + 30000\<close> such a card stays on the board, and on its
  slot while other leases run out around it; one check at or after \<open>now + 30000\<close> removes it.
  The card must hold a slot whose owner rule accepts it, must not be a logical Codex HID
  position itself, and no logical Codex HID position may claim the slot (\<open>hid_claims\<close>).
\<close>
theorem reconnect_lease:
  assumes inv: "board_inv b" and t: "map_of (tasks b) i = Some t" "owner_session t = session"
    and s: "map_of (assignments b) i = Some s" "slot_accepts b s t"
    and hid: "\<not> is_hid_id i" "\<forall>(j, u) \<in> set (tasks b). \<not> hid_claims b s u"
  shows "(let b' = fold expire checks (disconnect_session session now b) in
     if \<forall>later \<in> set checks. later < now + 30000
     then map_of (tasks b') i = Some (lease session now t) \<and> map_of (assignments b') i = Some s
     else map_of (tasks b') i = None)"
proof -
  let ?d = "disconnect_session session now b" and ?t = "lease session now t"
  have d: "board_inv ?d" using inv by (rule board_inv_disconnect)
  note lt = leased_task [OF t, of now]
  have until: "reconnect_until_ms ?t = Some (now + 30000)" using lt(2) by (simp add: RECONNECT_GRACE_MS_def)
  have "lease_held i s ?t ?d"
    unfolding lease_held_def
  proof (intro conjI d lt(1))
    show "map_of (assignments ?d) i = Some s" using s(1) by (simp add: disconnect_session_def)
    show "slot_accepts ?d s ?t"
      using s(2) slot_accepts_cong [of ?d b ?t t s] by (simp add: disconnect_session_def lease_def)
    show "\<forall>(j, u) \<in> set (tasks ?d). \<not> hid_claims ?d s u"
      using hid(2) by (auto simp: disconnect_session_def hid_claims_def codex_may_own_def lease_def
          split: if_splits)
  qed
  from lease_held_checks [OF this until hid(1)] lease_runs_out [OF d lt(1) until]
  show ?thesis by (auto simp: Let_def lease_held_def not_less)
qed

section \<open>Acknowledged completions and run timing\<close>

lemma merge_acknowledged:
  assumes i: "i \<in> task_id ` set cards"
    and fin: "\<forall>c \<in> set cards. task_id c = i \<longrightarrow> task_state c = Completed"
    and rev: "i \<in> reviewed_completions b"
  shows "\<exists>u. map_of (tasks (fold (merge_card now) cards b)) i = Some u \<and>
    task_state u = Queued \<and> started_at_ms u = None \<and> finished_at_ms u = None"
proof (rule merge_in [OF i, where I = "\<lambda>b' :: task_board. i \<in> reviewed_completions b'"])
  fix c and b' :: task_board
  assume c: "c \<in> set cards" "i \<in> reviewed_completions b'"
  then show "i \<in> reviewed_completions (merge_card now c b')"
    using fin by (auto simp: merge_card_def Let_def)
  assume "task_id c = i"
  with c fin show "task_state (the (map_of (tasks (merge_card now c b')) i)) = Queued \<and>
      started_at_ms (the (map_of (tasks (merge_card now c b')) i)) = None \<and>
      finished_at_ms (the (map_of (tasks (merge_card now c b')) i)) = None"
    by (auto simp: map_of_merge_card timed_def fallback_started_def fallback_finished_def
        state_active_def split: option.splits)
qed (rule rev)

text \<open>
  Selecting a completed card acknowledges it, and the acknowledgement lasts: as long as
  its source goes on publishing the same completed task, the card stays queued, without
  times, on every later publication.
\<close>
theorem acknowledged_completion_stays:
  assumes "board_inv b" and "map_of (tasks b) i = Some t" and "task_state t = Completed"
    and "select_task i now b = (b', Some r)"
    and "i \<in> task_id ` set cards" and "\<forall>c \<in> set cards. task_id c = i \<longrightarrow> task_state c = Completed"
  shows "\<exists>u. map_of (tasks (replace_session_tasks session cards later b')) i = Some u \<and>
    task_state u = Queued \<and> started_at_ms u = None \<and> finished_at_ms u = None"
proof -
  have rev: "i \<in> reviewed_completions b'"
    using assms(2-4) by (auto simp: select_task_def Let_def split: option.splits)
  have "board_inv b'" using board_inv_select_task [OF assms(1), of i now] assms(4) by simp
  then have "hm_invar (tasks b')" by (rule board_invD)
  then have "i \<notin> set (ids_where (\<lambda>j t. owner_session t = session \<and> j \<notin> set (map task_id cards)) b')"
    using assms(5) by (auto simp: ids_where_mem)
  with rev have rev': "i \<in> reviewed_completions
      (remove_cards (ids_where (\<lambda>j t. owner_session t = session \<and> j \<notin> set (map task_id cards)) b') b'
         \<lparr>board_now_ms := later\<rparr>)"
    by simp
  show ?thesis
    using merge_acknowledged [OF assms(5,6) rev', of later]
    by (simp add: replace_session_tasks_def Let_def)
qed

text \<open>
  Timing of sources that send no times: an active card always has a start time, and that
  time does not move while the run is in flight; a completed card always has a finish time,
  and repeating the completed snapshot does not move it; any other card has no finish time.
\<close>
theorem fallback_timing:
  assumes "map_of (tasks b) (task_id t) = Some p" and "\<not> timing_authoritative t"
    and "task_id t \<notin> reviewed_completions b"
    and "map_of (tasks (merge_card now t b)) (task_id t) = Some u"
  shows "(state_active (task_state u) \<longrightarrow> started_at_ms u \<noteq> None) \<and>
    (state_active (task_state u) \<and> state_active (task_state p) \<and> started_at_ms p \<noteq> None \<longrightarrow>
       started_at_ms u = started_at_ms p) \<and>
    (task_state u = Completed \<longleftrightarrow> finished_at_ms u \<noteq> None) \<and>
    (task_state u = Completed \<and> task_state p = Completed \<and> finished_at_ms p \<noteq> None \<longrightarrow>
       finished_at_ms u = finished_at_ms p)"
  using assms
  by (auto simp: map_of_merge_card timed_def fallback_started_def fallback_finished_def
      state_active_def Let_def or_else_def split: option.splits if_splits)

section \<open>Slots, rendering and the one selection\<close>

lemma slot_holder_iff:
  assumes "board_inv b"
  shows "slot_holder d n b = Some i \<longleftrightarrow> map_of (assignments b) i = Some (DeviceSlot d n)"
proof -
  have inj: "i = j" if "map_of (assignments b) i = Some s" "map_of (assignments b) j = Some s" for i j s
    using board_invD(1) [OF assms] that by (auto simp: board_wf_def slots_injective_def)
  have mem: "(i, s) \<in> set (assignments b) \<longleftrightarrow> map_of (assignments b) i = Some s" for i s
    using board_invD(7) [OF assms] by (rule hm.in_entries_iff)
  show ?thesis
  proof (cases "List.find (\<lambda>(i, s). device_id s = d \<and> slot_index s = n) (assignments b)")
    case None
    then have "map_of (assignments b) i \<noteq> Some (DeviceSlot d n)"
      using mem [of i "DeviceSlot d n"] unfolding find_None_iff by force
    with None show ?thesis by (simp add: slot_holder_def)
  next
    case (Some p)
    obtain j s where p: "p = (j, s)" by (cases p)
    from Some have "(j, s) \<in> set (assignments b)" "device_id s = d \<and> slot_index s = n"
      by (auto simp: find_Some_iff p) (metis nth_mem)
    then have "map_of (assignments b) j = Some (DeviceSlot d n)"
      by (cases s) (auto simp: mem)
    with Some show ?thesis by (auto simp: slot_holder_def p dest: inj)
  qed
qed

text \<open>
  A physical slot and the assignment map agree: the card shown at a slot is the one
  assigned to it, pressing the slot selects exactly that card, and the answer does not depend
  on the iteration order of the map.
\<close>
theorem slot_lookup_exact:
  assumes "board_inv b"
  shows "(task_at d n b = Some t \<longleftrightarrow>
       map_of (assignments b) (task_id t) = Some (DeviceSlot d n) \<and>
       map_of (tasks b) (task_id t) = Some t) \<and>
     (task_at d n b = Some t \<longrightarrow> select_slot d n now b = select_task (task_id t) now b)"
proof -
  have id: "task_id u = i" if "map_of (tasks b) i = Some u" for i u
    using board_invD(5) [OF assms] that by (rule tasks_wf_id)
  have 1: "task_at d n b = Some t \<longleftrightarrow> slot_holder d n b = Some (task_id t) \<and>
      map_of (tasks b) (task_id t) = Some t"
    using id by (auto simp: task_at_def bind_eq_Some_conv)
  then show ?thesis
    using slot_holder_iff [OF assms, of d n "task_id t"] by (auto simp: select_slot_def)
qed

lemma jget_rendered_selected:
  "jget ''selected'' (rendered_slot d b n) =
     Some (JBool (case task_at d n b of None \<Rightarrow> False | Some t \<Rightarrow> selected_on d b = Some (task_id t)))"
  by (simp add: rendered_slot_def jget_jobj Let_def split: option.splits)

text \<open>
  At most one slot of all controllers together is rendered as selected: highlights never
  accumulate.
\<close>
theorem single_highlight:
  assumes inv: "board_inv b"
    and 1: "jget ''selected'' (rendered_slot d b n) = Some (JBool True)"
    and 2: "jget ''selected'' (rendered_slot e b m) = Some (JBool True)"
  shows "d = e \<and> n = m"
proof -
  have "\<exists>i. selected b = Some i \<and> map_of (assignments b) i = Some (DeviceSlot d n)"
    if "jget ''selected'' (rendered_slot d b n) = Some (JBool True)" for d n
  proof -
    from that obtain t where t: "task_at d n b = Some t" "selected_on d b = Some (task_id t)"
      by (auto simp: jget_rendered_selected split: option.splits)
    then obtain i where i: "slot_holder d n b = Some i" "map_of (tasks b) i = Some t"
      by (auto simp: task_at_def bind_eq_Some_conv)
    then have "task_id t = i" using board_invD(5) [OF inv] tasks_wf_id by blast
    with t(2) i(1) slot_holder_iff [OF inv] show ?thesis
      by (auto simp: selected_on_def bind_eq_Some_conv split: if_splits)
  qed
  from this [OF 1] this [OF 2] show ?thesis by auto
qed

section \<open>Automatic selection\<close>

interpretation waiting_order: comparator waiting_order
  unfolding waiting_order_def
  by (intro comparator_then comparator_cmp comparator_rev [OF comparator_cmp])

text \<open>
  C10. The automatic selection picks, among the waiting cards with a live interaction on the
  controller, one of \<^emph>\<open>lowest\<close> priority, and among those the most recently updated: the
  comparison is reversed for the priority and then the maximum is taken.
\<close>
theorem auto_select_takes_lowest_priority:
  assumes "board_inv b" and "auto_select_waiting d now b = (b', Some r)"
  shows "\<exists>w. selected b' = Some (task_id w) \<and> map_of (tasks b) (task_id w) = Some w \<and>
    awaits_user now w \<and> shown_on d b w \<and>
    (\<forall>(i, u) \<in> set (tasks b). awaits_user now u \<and> shown_on d b u \<longrightarrow>
       priority w < priority u \<or> priority w = priority u \<and> updated_at_ms u \<le> updated_at_ms w)"
proof -
  let ?ws = "filter (shown_on d b) (filter (awaits_user now) (map snd (tasks b)))"
  obtain w where w: "max_by waiting_order ?ws = Some w"
    using assms(2) by (cases "max_by waiting_order ?ws") (simp_all add: auto_select_waiting_def)
  have mem: "w \<in> set ?ws" using w by (rule max_by_in)
  then have tw: "map_of (tasks b) (task_id w) = Some w"
    using tasks_wf_values [OF board_invD(5) [OF assms(1)], of w] by auto
  have "selected b' = Some (task_id w)"
    using assms(2) w by (auto simp: auto_select_waiting_def Let_def split: if_splits option.splits)
  moreover have "priority w < priority u \<or> priority w = priority u \<and> updated_at_ms u \<le> updated_at_ms w"
    if "(i, u) \<in> set (tasks b)" "awaits_user now u" "shown_on d b u" for i u
  proof -
    have "u \<in> set ?ws" using that by force
    with waiting_order.max_by_ge [OF w] have "waiting_order w u \<noteq> Less" by blast
    then show ?thesis
      by (auto simp: waiting_order_def then_cmp_eq cmp_def split: if_splits)
  qed
  ultimately show ?thesis using mem tw by auto
qed

section \<open>The HID feed\<close>

lemma keep_lifecycle_quiet:
  "\<not> is_selection_transition (task_state p) (task_state (keep_lifecycle True (Some p, task_state c, c)))"
  by (simp add: keep_lifecycle_def is_selection_transition_def)

lemma keep_lifecycle_id [simp]: "task_id (keep_lifecycle q (p, s, c)) = task_id c"
  by (simp add: keep_lifecycle_def split: option.splits)

lemma hid_cards_prev:
  "hid_cards b now pos es = Inr cs \<Longrightarrow> (p, s, c) \<in> set cs \<Longrightarrow>
   p = map_of (tasks b) (task_id c) \<and> s = task_state c \<and> owner_session c = 0 \<and> is_hid_id (task_id c)"
proof (induction es arbitrary: pos cs)
  case (Cons e es)
  from Cons.prems(1) obtain x xs where x: "hid_entry b now pos e = Inr x"
    and xs: "hid_cards b now (pos + 1) es = Inr xs"
    and cs: "cs = (case x of None \<Rightarrow> xs | Some y \<Rightarrow> y # xs)"
    by (auto elim!: res_bindE)
  show ?case
  proof (cases "(p, s, c) \<in> set xs")
    case True
    with Cons.IH [OF xs] show ?thesis .
  next
    case False
    with cs Cons.prems(2) have "x = Some (p, s, c)" by (auto split: option.splits)
    with x obtain i key where "parse_task 0 Codex e now (Some (HID_PREFIX @ i, key)) = Inr c"
      "p = map_of (tasks b) (HID_PREFIX @ i)" "s = task_state c"
      by (auto simp: hid_entry_def Let_def elim!: res_bindE split: if_splits)
    with parse_task_legacy_id parse_task_owner show ?thesis
      by (fastforce simp: is_hid_id_def)
  qed
qed simp

text \<open>A card that carries an acknowledgement is never an active one.\<close>

definition reviewed_quiet :: "task_board \<Rightarrow> bool" where
  "reviewed_quiet b \<longleftrightarrow>
     (\<forall>i \<in> reviewed_completions b. \<forall>t. map_of (tasks b) i = Some t \<longrightarrow> \<not> state_active (task_state t))"

named_theorems quiet_keep \<open>operations that keep \<open>reviewed_quiet\<close>\<close>

lemma reviewed_quiet_frame:
  "reviewed_completions b' \<subseteq> reviewed_completions b \<Longrightarrow>
   (\<And>i t. i \<in> reviewed_completions b' \<Longrightarrow> map_of (tasks b') i = Some t \<Longrightarrow> map_of (tasks b) i = Some t) \<Longrightarrow>
   reviewed_quiet b \<Longrightarrow> reviewed_quiet b'"
  by (fastforce simp: reviewed_quiet_def)

lemma reviewed_quiet_same [quiet_keep]:
  "reviewed_quiet b \<Longrightarrow> reviewed_quiet (restore_slot_preferences v b)"
  "reviewed_quiet b \<Longrightarrow> reviewed_quiet (guard_selection_activation i now b)"
  "reviewed_quiet b \<Longrightarrow> reviewed_quiet (set_device d n online b)"
  "reviewed_quiet b \<Longrightarrow> reviewed_quiet (clear_devices b)"
  "reviewed_quiet b \<Longrightarrow> reviewed_quiet (set_slot_owners d os b)"
  "reviewed_quiet b \<Longrightarrow> reviewed_quiet (fst (auto_select_waiting d now b))"
  by (auto simp: reviewed_quiet_def restore_slot_preferences_def guard_selection_activation_def
      set_device_def clear_devices_def set_slot_owners_def auto_select_waiting_def Let_def
      split: option.splits)

lemma reviewed_quiet_merge_card: "reviewed_quiet b \<Longrightarrow> reviewed_quiet (merge_card now t b)"
  unfolding reviewed_quiet_def
  by (auto simp: map_of_merge_card state_active_def) (auto simp: merge_card_def Let_def split: if_splits)

lemma reviewed_quiet_merge:
  "reviewed_quiet b \<Longrightarrow> reviewed_quiet (merge_session_tasks cards now b)"
proof -
  assume "reviewed_quiet b"
  then have "reviewed_quiet (b\<lparr>board_now_ms := now\<rparr>)" by (simp add: reviewed_quiet_def)
  then have "reviewed_quiet (fold (merge_card now) cards (b\<lparr>board_now_ms := now\<rparr>))"
    by (induction cards arbitrary: b rule: rev_induct) (simp_all add: reviewed_quiet_merge_card)
  then show ?thesis by (simp add: merge_session_tasks_def reviewed_quiet_def)
qed

lemma reviewed_quiet_remove: "reviewed_quiet b \<Longrightarrow> reviewed_quiet (remove_cards ids b)"
  by (rule reviewed_quiet_frame) (auto simp: map_of_remove_cards split: if_splits)

lemma reviewed_quiet_replace: "reviewed_quiet b \<Longrightarrow> reviewed_quiet (replace_session_tasks session cards now b)"
  by (simp add: replace_session_tasks_def Let_def reviewed_quiet_merge reviewed_quiet_remove)

lemma reviewed_quiet_publish [quiet_keep]:
  "reviewed_quiet b \<Longrightarrow> reviewed_quiet (fst (publish_tasks session agent v now b))"
  by (simp add: publish_tasks_def Let_def reviewed_quiet_replace split: sum.splits)

lemma reviewed_quiet_snapshot [quiet_keep]:
  assumes "reviewed_quiet b"
  shows "reviewed_quiet (fst (publish_codex_snapshot v now b))"
proof -
  obtain b' r where r: "publish_tasks 0 Codex v now b = (b', r)" by (cases "publish_tasks 0 Codex v now b")
  with reviewed_quiet_publish [OF assms, of 0 Codex v now] have "reviewed_quiet b'" by simp
  moreover have "reviewed_quiet b' \<Longrightarrow> reviewed_quiet (reconcile_authoritative_selection a now b')" for a
    by (auto simp: reviewed_quiet_def reconcile_authoritative_selection_def split: option.splits)
  ultimately show ?thesis using r by (cases r) (simp_all add: publish_codex_snapshot_def Let_def)
qed

lemma reviewed_quiet_feeds [quiet_keep]:
  "reviewed_quiet b \<Longrightarrow> reviewed_quiet (fst (publish_legacy_status session agent v now b))"
  "reviewed_quiet b \<Longrightarrow> reviewed_quiet (fst (publish_codex_hid_status v now b))"
proof -
  assume b: "reviewed_quiet b"
  show "reviewed_quiet (fst (publish_legacy_status session agent v now b))"
    using b by (simp add: publish_legacy_status_def Let_def reviewed_quiet_replace split: sum.splits)
  have "reviewed_quiet (b\<lparr>selection_activation_guards := g\<rparr>)" for g
    using b by (simp add: reviewed_quiet_def)
  moreover have "reviewed_quiet c \<Longrightarrow> reviewed_quiet (apply_handoff cs c)" for cs c
    by (simp add: reviewed_quiet_def)
  ultimately show "reviewed_quiet (fst (publish_codex_hid_status v now b))"
    using b by (simp add: publish_codex_hid_status_def Let_def reviewed_quiet_merge
        split: option.splits sum.splits)
qed

lemma reviewed_quiet_sessions [quiet_keep]:
  "reviewed_quiet b \<Longrightarrow> reviewed_quiet (disconnect_session session now b)"
  "reviewed_quiet b \<Longrightarrow> reviewed_quiet (clear_session session b)"
  "reviewed_quiet b \<Longrightarrow> reviewed_quiet (expire now b)"
proof -
  assume b: "reviewed_quiet b"
  show "reviewed_quiet (disconnect_session session now b)"
    using b by (auto simp: reviewed_quiet_def map_of_disconnect lease_def state_active_def)
      (simp_all add: disconnect_session_def)
  have re: "reviewed_quiet c \<Longrightarrow> reviewed_quiet (reallocate c)" for c by (simp add: reviewed_quiet_def)
  have "reviewed_quiet (b\<lparr>board_now_ms := now\<rparr>)" using b by (simp add: reviewed_quiet_def)
  with b show "reviewed_quiet (clear_session session b)" "reviewed_quiet (expire now b)"
    by (simp_all add: clear_session_def expire_def Let_def re reviewed_quiet_remove)
qed

lemma reviewed_quiet_select_task [quiet_keep]:
  "reviewed_quiet b \<Longrightarrow> reviewed_quiet (fst (select_task i now b))"
  by (auto simp: select_task_def reviewed_quiet_def update_conv' Let_def state_active_def
      split: option.splits if_splits)

lemma reviewed_quiet_select [quiet_keep]:
  "reviewed_quiet b \<Longrightarrow> reviewed_quiet (fst (select_slot d n now b))"
  "reviewed_quiet b \<Longrightarrow> reviewed_quiet (fst (set_selected_model m b))"
  by (simp add: select_slot_def reviewed_quiet_select_task split: option.splits)
    (auto simp: set_selected_model_def reviewed_quiet_def update_conv' split: option.splits)

lemma reachable_quiet: "board_reachable b \<Longrightarrow> board_inv b \<and> reviewed_quiet b"
proof (induction rule: board_reachable.induct)
  case new
  show ?case by (rule conjI [OF board_inv_new]) (simp add: reviewed_quiet_def board_new_def)
next
  case (step b b')
  then have inv: "board_inv b" and q: "reviewed_quiet b" by simp_all
  have "reviewed_quiet b'"
    using step.hyps(2)
  proof cases
    case (reorder ts asg ls g)
    then have "map_of ts = map_of (tasks b)" by (intro map_of_perm board_invD(6) [OF inv]) simp
    with q reorder show ?thesis by (simp add: reviewed_quiet_def)
  qed (simp_all add: quiet_keep q)
  with board_inv_step [OF step.hyps(2) inv] show ?case by simp
qed

text \<open>
  C9. While the press of a task key is guarded (a selection guard of the board has not run
  out), a redraw of the HID feed moves no card, just acknowledged completions included, from
  queued to active, from active to queued, or between the two active states. Transitions to
  other states are not held back: the redraw may still complete a running card.
\<close>
theorem hid_redraw_keeps_lifecycle:
  assumes reach: "board_reachable b" and pub: "publish_codex_hid_status v now b = (b', Inr ())"
    and guard: "map_of (selection_activation_guards b) g = Some u" "now \<le> u"
    and p: "map_of (tasks b) i = Some p" and q: "map_of (tasks b') i = Some q"
  shows "\<not> (task_state p = Queued \<and> state_active (task_state q)) \<and>
    \<not> (state_active (task_state p) \<and> task_state q = Queued) \<and>
    (state_active (task_state p) \<and> state_active (task_state q) \<longrightarrow> task_state q = task_state p)"
proof -
  have inv: "board_inv b" and quiet: "reviewed_quiet b" using reachable_quiet [OF reach] by simp_all
  let ?gs = "hm_retain (\<lambda>_ e. now \<le> e) (selection_activation_guards b)"
  let ?b = "b\<lparr>selection_activation_guards := ?gs\<rparr>"
  have "hm_invar (selection_activation_guards b)" using board_invD(1) [OF inv] by (simp add: board_wf_def)
  then have "map_of ?gs g = Some u" using guard by (simp add: hm.lookup_retain_Some)
  then have on: "?gs \<noteq> []" by auto
  obtain es where es: "as_array v = Some es"
    using pub by (cases "as_array v") (simp_all add: publish_codex_hid_status_def)
  obtain cs where cs: "hid_cards ?b now 0 (take CODEX_HID_SLOTS es) = Inr cs"
    using pub es by (cases "hid_cards ?b now 0 (take CODEX_HID_SLOTS es)")
      (simp_all add: publish_codex_hid_status_def Let_def)
  let ?cards = "map (keep_lifecycle True) cs" and ?c = "apply_handoff cs ?b\<lparr>board_now_ms := now\<rparr>"
  have b': "tasks b' = tasks (fold (merge_card now) ?cards ?c)"
    using pub es cs on by (auto simp: publish_codex_hid_status_def Let_def)
  have "\<not> is_selection_transition (task_state p) (task_state q)"
  proof (cases "i \<in> task_id ` set ?cards")
    case False
    with b' p q show ?thesis by (simp add: merge_other is_selection_transition_def)
  next
    case True
    have "\<exists>u. map_of (tasks (fold (merge_card now) ?cards ?c)) i = Some u \<and>
        \<not> is_selection_transition (task_state p) (task_state u)"
    proof (rule merge_in [OF True,
          where I = "\<lambda>b' :: task_board. reviewed_completions b' \<subseteq> reviewed_completions b"])
      fix c and c' :: task_board
      assume c: "c \<in> set ?cards" "reviewed_completions c' \<subseteq> reviewed_completions b"
      then show "reviewed_completions (merge_card now c c') \<subseteq> reviewed_completions b"
        by (auto simp: merge_card_def Let_def)
      assume id: "task_id c = i"
      from c(1) obtain pr s k where k: "(pr, s, k) \<in> set cs" "c = keep_lifecycle True (pr, s, k)" by auto
      with hid_cards_prev [OF cs k(1)] id p(1) have "pr = Some p" "s = task_state k" by simp_all
      with k have "\<not> is_selection_transition (task_state p) (task_state c)"
        using keep_lifecycle_quiet by simp
      moreover have "i \<in> reviewed_completions c' \<Longrightarrow> \<not> state_active (task_state p)"
        using c(2) quiet p unfolding reviewed_quiet_def by blast
      ultimately show "\<not> is_selection_transition (task_state p)
          (task_state (the (map_of (tasks (merge_card now c c')) i)))"
        using id by (auto simp: map_of_merge_card is_selection_transition_def)
    qed simp
    with b' q show ?thesis by simp
  qed
  then show ?thesis by (auto simp: is_selection_transition_def state_active_def)
qed

section \<open>Saved preferences\<close>

lemma map_filter_preferences:
  "list_all (\<lambda>(i, n). length i \<le> 160 \<and> n < 64) xs \<Longrightarrow>
   List.map_filter preference_entry (map (\<lambda>(i, n). (i, jnat n)) xs) = xs"
  by (induction xs) (auto simp: List.map_filter_simps preference_entry_def)

lemma fold_bm_insert_sorted:
  "bm_invar (ys @ xs) \<Longrightarrow> fold (\<lambda>(k, v). bm_insert k v) xs ys = ys @ xs"
proof (induction xs arbitrary: ys)
  case (Cons x xs)
  obtain k v where x: "x = (k, v)" by (cases x)
  have "bm_insert k v ys = ys @ [(k, v)]" if "\<forall>j \<in> fst ` set ys. j < k" for ys
    using that by (induction k v ys rule: bm_insert.induct) auto
  moreover have "\<forall>j \<in> fst ` set ys. j < k"
    using Cons.prems by (auto simp: bm_invar_def sorted_wrt_append x)
  ultimately show ?case using Cons.IH [of "ys @ [(k, v)]"] Cons.prems by (simp add: x)
qed simp

text \<open>
  The saved slot preferences survive a restart: what \<open>slot_preferences\<close> writes,
  \<open>restore_slot_preferences\<close> reads back unchanged, within the limits it enforces (256 entries,
  ids of 160 bytes, slots below 64).
\<close>
theorem preferences_roundtrip:
  assumes "board_inv b" and "length (primary_preferences b) \<le> 256"
    and "list_all (\<lambda>(i, n). length i \<le> 160 \<and> n < 64) (primary_preferences b)"
  shows "primary_preferences (restore_slot_preferences (slot_preferences b) c) = primary_preferences b"
proof -
  have "bm_invar (primary_preferences b)" using board_invD(1) [OF assms(1)] by (simp add: board_wf_def)
  with assms(2,3) fold_bm_insert_sorted [of "[]" "primary_preferences b"] show ?thesis
    by (simp add: restore_slot_preferences_def slot_preferences_def jget_jobj map_filter_preferences)
qed

section \<open>Concrete boards\<close>

text \<open>Card \<open>t\<close> alone on the board, on the first key of a deck with two keys.\<close>

definition held_board :: "task_card \<Rightarrow> task_board" where
  "held_board t = board_new
     \<lparr>tasks := [(task_id t, t)], devices := [(''d'', [DeviceSlot ''d'' 0, DeviceSlot ''d'' 1])],
      assignments := [(task_id t, DeviceSlot ''d'' 0)]\<rparr>"

lemma held_board_simps [simp]:
  "tasks (held_board t) = [(task_id t, t)]"
  "assignments (held_board t) = [(task_id t, DeviceSlot ''d'' 0)]"
  "slot_owner (held_board t) s = None" "primary_preferences (held_board t) = []"
  "selected (held_board t) = None" "reviewed_completions (held_board t) = {}"
  by (simp_all add: held_board_def board_new_def slot_owner_def)

lemma held_board_inv: "board_inv (held_board t)"
  by (simp add: held_board_def board_new_def board_inv_def board_wf_def tasks_wf_def devices_wf_def
      hm_invar_def bm_invar_def slots_injective_def valid_alloc_def placeable_def available_def
      slot_permitted_def slot_owner_def selected_ok_def pending_ok_def upt_conv_Cons)

theorem publication_isolated_witness:
  "map_of (tasks (fst (publish_tasks 2 Hermes (JObj [(''tasks'', JArr [])]) 7
     (held_board (sample_card ''a'' ZCode 50))))) ''a'' = Some (sample_card ''a'' ZCode 50)"
proof -
  let ?t = "sample_card ''a'' ZCode 50" and ?v = "JObj [(''tasks'', JArr [])]"
  have "owner_session ?t \<noteq> 2" "map_of (tasks (held_board ?t)) ''a'' = Some ?t" "owner_agent ?t \<noteq> Hermes"
    by (simp_all add: sample_card_def)
  then show ?thesis
    using publication_isolated [OF held_board_inv surjective_pairing,
        where session = 2 and agent = Hermes and v = ?v and now = 7]
    by blast
qed

theorem publication_is_complete_witness:
  "session_ids 2 (fst (publish_tasks 2 Hermes
       (JObj [(''tasks'', JArr [JObj [(''task_id'', JStr ''h'')]])]) 7
       (held_board (sample_card ''a'' ZCode 50)))) = {''h''}"
proof -
  let ?b = "held_board (sample_card ''a'' ZCode 50)" and ?item = "JObj [(''task_id'', JStr ''h'')]"
  let ?v = "JObj [(''tasks'', JArr [?item])]"
  obtain t where "parse_task 2 Hermes ?item 7 None = Inr t" "task_id t = ''h''"
    by (simp add: parse_eval chars_count_def cont_byte_def)
  then have "published_cards ?b 2 Hermes 7 {} [?item] = Inr [t]"
    by (simp add: sample_card_def foreign_owner_def)
  then obtain b' r where "publish_tasks 2 Hermes ?v 7 ?b = (b', Inr r)"
    by (simp add: publish_tasks_def Let_def)
  with publication_is_complete [OF held_board_inv this, of "[?item]"] show ?thesis
    by (simp add: item_id_def)
qed

theorem reconnect_lease_witness:
  "map_of (assignments (fold expire [5000, 30099] (disconnect_session 1 100
     (held_board (sample_card ''a'' ZCode 50))))) ''a'' = Some (DeviceSlot ''d'' 0)"
  using reconnect_lease [OF held_board_inv, of "sample_card ''a'' ZCode 50" "''a''"
      "sample_card ''a'' ZCode 50" 1 "DeviceSlot ''d'' 0" "[5000, 30099]" 100]
  by (simp add: sample_card_def slot_accepts_def is_hid_id_def HID_PREFIX_def hid_claims_def Let_def)

theorem acknowledged_completion_stays_witness:
  "\<exists>u. map_of (tasks (replace_session_tasks 1 [sample_card ''a'' ZCode 50\<lparr>task_state := Completed\<rparr>] 9
     (fst (select_task ''a'' 8 (held_board (sample_card ''a'' ZCode 50\<lparr>task_state := Completed\<rparr>)))))) ''a''
     = Some u \<and> task_state u = Queued"
proof -
  let ?t = "sample_card ''a'' ZCode 50\<lparr>task_state := Completed\<rparr>"
  obtain b' r where r: "select_task ''a'' 8 (held_board ?t) = (b', Some r)"
    by (simp add: select_task_def Let_def sample_card_def)
  show ?thesis
    using acknowledged_completion_stays [OF held_board_inv _ _ r, of ?t "[?t]" 1 9] r
    by (auto simp: sample_card_def)
qed

theorem fallback_timing_witness:
  "\<exists>u. map_of (tasks (merge_card 9 (sample_card ''a'' ZCode 50) (held_board (sample_card ''a'' ZCode 50)))) ''a''
     = Some u \<and> started_at_ms u \<noteq> None"
proof -
  let ?t = "sample_card ''a'' ZCode 50"
  obtain u where u: "map_of (tasks (merge_card 9 ?t (held_board ?t))) ''a'' = Some u"
    by (simp add: map_of_merge_card sample_card_def)
  moreover have "task_state u = Running"
    using u by (auto simp: map_of_merge_card sample_card_def)
  ultimately show ?thesis
    using fallback_timing [of "held_board ?t" ?t ?t 9 u]
    by (simp add: sample_card_def state_active_def)
qed

theorem slot_lookup_exact_witness:
  "task_at ''d'' 0 (held_board (sample_card ''a'' ZCode 50)) = Some (sample_card ''a'' ZCode 50)"
  using slot_lookup_exact [OF held_board_inv, of "''d''" 0 "sample_card ''a'' ZCode 50"
      "sample_card ''a'' ZCode 50"]
  by simp

lemma held_selected_inv: "board_inv (held_board t\<lparr>selected := Some (task_id t)\<rparr>)"
  using held_board_inv [of t] by (simp add: board_inv_def board_wf_frame selected_ok_def pending_ok_def)

theorem single_highlight_witness:
  "jget ''selected'' (rendered_slot ''d'' (held_board (sample_card ''a'' ZCode 50)\<lparr>selected := Some ''a''\<rparr>) 1)
     \<noteq> Some (JBool True)"
proof
  let ?t = "sample_card ''a'' ZCode 50"
  let ?b = "held_board ?t\<lparr>selected := Some ''a''\<rparr>"
  assume 1: "jget ''selected'' (rendered_slot ''d'' ?b 1) = Some (JBool True)"
  have "jget ''selected'' (rendered_slot ''d'' ?b 0) = Some (JBool True)"
    by (simp add: jget_rendered_selected task_at_def slot_holder_def selected_on_def sample_card_def)
  from single_highlight [OF _ 1 this] held_selected_inv [of ?t] show False
    by (simp add: sample_card_def)
qed

text \<open>Two cards wait on the same controller; the one of lower priority is selected.\<close>

definition waiting_card :: "string \<Rightarrow> nat \<Rightarrow> task_card" where
  "waiting_card i p = sample_card i ZCode p
     \<lparr>task_state := Waiting,
      interaction := Some \<lparr>interaction_id = ''q'', interaction_kind = ''approval'', interaction_prompt = ''Go?'',
        short_action = Some approve_action, long_action = Some reject_action, expires_at_ms = None\<rparr>\<rparr>"

definition waiting_board :: task_board where
  "waiting_board = board_new
     \<lparr>tasks := [(''hi'', waiting_card ''hi'' 90), (''lo'', waiting_card ''lo'' 10)],
      devices := [(''d'', [DeviceSlot ''d'' 0, DeviceSlot ''d'' 1])],
      assignments := [(''hi'', DeviceSlot ''d'' 0), (''lo'', DeviceSlot ''d'' 1)]\<rparr>"

lemma waiting_board_inv: "board_inv waiting_board"
  by (simp add: waiting_board_def waiting_card_def sample_card_def board_new_def board_inv_def
      board_wf_def tasks_wf_def devices_wf_def hm_invar_def bm_invar_def slots_injective_def
      valid_alloc_def placeable_def available_def slot_permitted_def slot_owner_def selected_ok_def
      pending_ok_def upt_conv_Cons)

theorem auto_select_takes_lowest_priority_witness:
  "selected (fst (auto_select_waiting ''d'' 5 waiting_board)) = Some ''lo''"
proof -
  obtain b' r where r: "auto_select_waiting ''d'' 5 waiting_board = (b', Some r)"
    by (simp add: auto_select_waiting_def waiting_board_def waiting_card_def sample_card_def
        board_new_def awaits_user_def shown_on_def waiting_order_def cmp_def Let_def)
  from auto_select_takes_lowest_priority [OF waiting_board_inv r] obtain w where w:
    "selected b' = Some (task_id w)" "map_of (tasks waiting_board) (task_id w) = Some w"
    "\<forall>(i, u) \<in> set (tasks waiting_board). awaits_user 5 u \<and> shown_on ''d'' waiting_board u \<longrightarrow>
       priority w < priority u \<or> priority w = priority u \<and> updated_at_ms u \<le> updated_at_ms w"
    by blast
  then have "w \<noteq> waiting_card ''hi'' 90"
    by (auto simp: waiting_board_def waiting_card_def sample_card_def board_new_def awaits_user_def
        shown_on_def)
  with w(2) have "task_id w = ''lo''"
    by (auto simp: waiting_board_def board_new_def split: if_splits)
  with w(1) r show ?thesis by simp
qed

theorem preferences_roundtrip_witness:
  "primary_preferences (restore_slot_preferences
     (slot_preferences (board_new\<lparr>primary_preferences := [(''a'', 3)]\<rparr>)) board_new) = [(''a'', 3)]"
proof -
  have "board_inv (board_new\<lparr>primary_preferences := [(''a'', 3)]\<rparr>)"
    using board_inv_new by (intro board_inv_frame) (simp_all add: bm_invar_def)
  from preferences_roundtrip [OF this, of board_new] show ?thesis by simp
qed

text \<open>
  A board that shows the idle logical card of position 0, whose key was pressed at 200: the
  press is guarded until 1200.
\<close>

definition guarded_board :: task_board where
  "guarded_board = guard_selection_activation ''codex-hid:0'' 200
     (fst (publish_codex_hid_status (JArr [JObj [(''e'', jnat 1)]]) 100 (set_device ''d'' 2 True board_new)))"

lemma guarded_board_reachable: "board_reachable guarded_board"
  unfolding guarded_board_def by (rule board_reachable.intros board_step.intros)+

lemma hid_frame:
  assumes "parse_task 0 Codex (JObj [(''e'', jnat e)]) now (Some (''codex-hid:0'', ''AG00'')) = Inr c" and "e \<noteq> 0"
  shows "hid_cards b now 0 [JObj [(''e'', jnat e)]] =
    Inr [(map_of (tasks b) ''codex-hid:0'', task_state c, c)]"
proof -
  have "digit_char 0 = CHR ''0''" by code_simp
  with assms show ?thesis
    by (simp add: hid_entry_def CODEX_HID_SLOTS_def HID_PREFIX_def show_nat_digit Let_def)
qed

lemma publish_frame:
  assumes c: "parse_task 0 Codex (JObj [(''e'', jnat e)]) now (Some (''codex-hid:0'', ''AG00'')) = Inr c" and "e \<noteq> 0"
  shows "\<exists>b' q. publish_codex_hid_status (JArr [JObj [(''e'', jnat e)]]) now b = (b', Inr ()) \<and>
    map_of (tasks b') ''codex-hid:0'' = Some q \<and>
    (map_of (tasks b) ''codex-hid:0'' = None \<and> task_state c = Queued \<longrightarrow> task_state q = Queued)"
  using parse_task_legacy_id [OF c]
  by (simp add: publish_codex_hid_status_def hid_frame [OF assms] CODEX_HID_SLOTS_def Let_def
      map_of_merge_card keep_lifecycle_def del: hid_cards.simps split: option.split)

lemma guarded_board_eval:
  "map_of (selection_activation_guards guarded_board) ''codex-hid:0'' = Some 1200 \<and>
   map_option task_state (map_of (tasks guarded_board) ''codex-hid:0'') = Some Queued"
proof -
  obtain c where c: "parse_task 0 Codex (JObj [(''e'', jnat 1)]) 100 (Some (''codex-hid:0'', ''AG00'')) = Inr c"
    "task_state c = Queued"
    by (simp add: parse_eval chars_count_def cont_byte_def)
  have "map_of (tasks (set_device ''d'' 2 True board_new)) ''codex-hid:0'' = None"
    by (simp add: set_device_def board_new_def)
  with publish_frame [OF c(1), of "set_device ''d'' 2 True board_new"] c(2) show ?thesis
    by (auto simp: guarded_board_def guard_selection_activation_def state_active_def sat_add128_def)
qed

theorem hid_redraw_keeps_lifecycle_witness:
  "\<exists>q. map_of (tasks (fst (publish_codex_hid_status (JArr [JObj [(''e'', jnat 4)]]) 500 guarded_board)))
     ''codex-hid:0'' = Some q \<and> \<not> state_active (task_state q)"
proof -
  obtain c where c: "parse_task 0 Codex (JObj [(''e'', jnat 4)]) 500 (Some (''codex-hid:0'', ''AG00'')) = Inr c"
    by (simp add: parse_eval chars_count_def cont_byte_def)
  obtain b' q where b': "publish_codex_hid_status (JArr [JObj [(''e'', jnat 4)]]) 500 guarded_board = (b', Inr ())"
    and q: "map_of (tasks b') ''codex-hid:0'' = Some q"
    using publish_frame [OF c, of guarded_board] by auto
  obtain p where p: "map_of (tasks guarded_board) ''codex-hid:0'' = Some p" "task_state p = Queued"
    using guarded_board_eval by auto
  have g: "map_of (selection_activation_guards guarded_board) ''codex-hid:0'' = Some 1200"
    using guarded_board_eval by blast
  have "\<not> state_active (task_state q)"
    using hid_redraw_keeps_lifecycle [OF guarded_board_reachable b' g _ p(1) q] p(2) by simp
  with q b' show ?thesis by simp
qed

end
