(* ===== verification/Bridge_Props.thy ===== *)
theory Bridge_Props
  imports Bridge_Routes Task_Board_Props
begin

text \<open>
  What routing promises: an invariant of the whole runtime that every poll of the controllers
  keeps, the separation of the agents, the inertness of empty cards, selections that happen once
  per press, and the navigation between the cards of a controller.
\<close>

section \<open>The invariant of the runtime\<close>

definition bridge_inv :: "'c bridge \<Rightarrow> bool" where
  "bridge_inv b \<longleftrightarrow> board_inv (br_board b) \<and> routing_wf (br_routing b) \<and> radial_wf (br_radial b)"

text \<open>Operations that leave the board, the queues and the radial state alone.\<close>

definition same_core :: "'c bridge \<Rightarrow> 'c bridge \<Rightarrow> bool" where
  "same_core b b' \<longleftrightarrow> br_board b' = br_board b \<and> br_routing b' = br_routing b \<and> br_radial b' = br_radial b"

lemma bridge_inv_same: "same_core b b' \<Longrightarrow> bridge_inv b' = bridge_inv b"
  by (simp add: bridge_inv_def same_core_def)

lemma bridge_inv_board:
  "bridge_inv b \<Longrightarrow> board_inv tb \<Longrightarrow> same_core (b\<lparr>br_board := tb\<rparr>) b' \<Longrightarrow> bridge_inv b'"
  by (simp add: bridge_inv_def same_core_def)

named_theorems bridge_keep \<open>operations keep the invariant of the runtime\<close>

lemma same_core_simps [simp]:
  "same_core b (push_event s v b)" "same_core b (command c b)"
  "same_core b (schedule_controller_retry inst b)" "same_core b (detach_controller inst b)"
  "same_core b (auto_derive_display_context f b)" "same_core b (patch_display_context_usage b)"
  "same_core b (snd (send_codex tv m b))"
  by (simp_all add: same_core_def push_event_def command_def schedule_controller_retry_def
      detach_controller_def auto_derive_display_context_def patch_display_context_usage_def
      send_codex_def Let_def case_prod_beta split: option.split)

lemma keeps_same [bridge_keep]:
  "bridge_inv b \<Longrightarrow> bridge_inv (push_event s v b)" "bridge_inv b \<Longrightarrow> bridge_inv (command c b)"
  "bridge_inv b \<Longrightarrow> bridge_inv (detach_controller inst b)"
  "bridge_inv b \<Longrightarrow> bridge_inv (auto_derive_display_context f b)"
  "bridge_inv b \<Longrightarrow> bridge_inv (patch_display_context_usage b)"
  "bridge_inv b \<Longrightarrow> bridge_inv (snd (send_codex tv m b))"
  by (simp_all add: bridge_inv_same [of b])

lemma bridge_inv_fields [simp]:
  "bridge_inv (b\<lparr>br_controller := x1\<rparr>) = bridge_inv b" "bridge_inv (b\<lparr>br_aux := x2\<rparr>) = bridge_inv b"
  "bridge_inv (b\<lparr>br_usage_agent := x3\<rparr>) = bridge_inv b" "bridge_inv (b\<lparr>br_usage := x4\<rparr>) = bridge_inv b"
  "bridge_inv (b\<lparr>br_events := x5\<rparr>) = bridge_inv b" "bridge_inv (b\<lparr>br_context := x6\<rparr>) = bridge_inv b"
  "bridge_inv (b\<lparr>br_device_id := x7\<rparr>) = bridge_inv b" "bridge_inv (b\<lparr>br_slot_count := x8\<rparr>) = bridge_inv b"
  "bridge_inv (b\<lparr>br_retry_at := x8\<rparr>) = bridge_inv b" "bridge_inv (b\<lparr>br_retry_delay := x8\<rparr>) = bridge_inv b"
  by (simp_all add: bridge_inv_def)

lemma bridge_inv_set_board [simp]:
  "bridge_inv b \<Longrightarrow> bridge_inv (b\<lparr>br_board := tb\<rparr>) = board_inv tb"
  by (simp add: bridge_inv_def)

lemma bridge_board: "bridge_inv b \<Longrightarrow> board_inv (br_board b)"
  by (simp add: bridge_inv_def)

lemma auto_select_keeps [bridge_keep]: "bridge_inv b \<Longrightarrow> bridge_inv (auto_select_event now b)"
  using board_inv_auto_select [OF bridge_board, of b "br_device_id b" now]
  by (auto simp: auto_select_event_def Let_def split: prod.split option.split)

lemma press_card_keeps [bridge_keep]: "bridge_inv b \<Longrightarrow> bridge_inv (press_card d i tid now t b)"
  using board_inv_select_task [OF bridge_board, of b _ now] board_inv_select_slot [OF bridge_board, of b d i now]
  by (auto simp: press_card_def Let_def case_prod_beta bridge_keep split: option.split)

lemma legacy_key_keeps [bridge_keep]: "bridge_inv b \<Longrightarrow> bridge_inv (legacy_key_edge tv pr now t k b)"
  by (auto simp: legacy_key_edge_def Let_def bridge_keep board_keep bridge_board split: option.split)

lemma task_button_keeps [bridge_keep]: "bridge_inv b \<Longrightarrow> bridge_inv (snd (route_task_button tv d n i pr tid now b))"
  by (auto simp: route_task_button_def Let_def bridge_keep split: option.split)

lemma task_action_keeps [bridge_keep]: "bridge_inv b \<Longrightarrow> bridge_inv (snd (route_task_action d n i g tid now b))"
  by (auto simp: route_task_action_def bridge_keep split: option.split)

lemma task_toggle_keeps [bridge_keep]: "bridge_inv b \<Longrightarrow> bridge_inv (snd (route_task_toggle tv view d n i tid now b))"
  by (auto simp: route_task_toggle_def Let_def bridge_keep split: option.split)

lemma select_slot_inv: "select_slot d n now tb = (tb', r) \<Longrightarrow> board_inv tb \<Longrightarrow> board_inv tb'"
  using board_inv_select_slot [of tb d n now] by simp

lemma navigation_keeps [bridge_keep]: "bridge_inv b \<Longrightarrow> bridge_inv (route_catalog_task_navigation d a now b)"
  using select_slot_inv [OF _ bridge_board, of d _ now b]
  by (auto simp: route_catalog_task_navigation_def Let_def intro!: bridge_keep
      split: option.split prod.split)

lemma catalog_keeps [bridge_keep]: "bridge_inv b \<Longrightarrow> bridge_inv (route_catalog_action d a now b)"
  by (auto simp: route_catalog_action_def Let_def case_prod_beta bridge_keep)

lemma refresh_aux_keeps: "bridge_inv b \<Longrightarrow> bridge_inv (snd (refresh_aux ops rgb ds b))"
proof (induction ds arbitrary: b)
  case (Cons d ds)
  obtain device dev slots where d: "d = (device, dev, slots)" by (cases d)
  have "bridge_inv (b\<lparr>br_board := set_device device 0 False (br_board b)\<rparr>)"
    using Cons.prems by (simp add: board_keep bridge_board)
  with Cons d show ?case by (simp add: case_prod_beta split: prod.split sum.split)
qed simp

lemma refresh_keeps [bridge_keep]: "bridge_inv b \<Longrightarrow> bridge_inv (snd (refresh_task_board ops now inst b))"
  by (auto simp: refresh_task_board_def Let_def case_prod_beta bridge_keep refresh_aux_keeps
      split: option.split sum.split)

lemma usage_select_keeps [bridge_keep]:
  "bridge_inv b \<Longrightarrow> bridge_inv (route_usage_select ops f now inst a b)"
  by (auto simp: route_usage_select_def Let_def bridge_keep)

lemma cycle_codex_keeps [bridge_keep]: "bridge_inv b \<Longrightarrow> bridge_inv (cycle_codex_model ops view now inst b)"
proof -
  assume b: "bridge_inv b"
  then have c: "bridge_inv (command CycleModel b)" by (simp add: bridge_keep)
  then show ?thesis
    by (auto simp: cycle_codex_model_def Let_def intro!: bridge_keep split: sum.split)
      (simp add: bridge_inv_def board_keep)
qed

lemma model_cycle_keeps [bridge_keep]: "bridge_inv b \<Longrightarrow> bridge_inv (route_model_cycle ops view now inst b)"
  by (auto simp: route_model_cycle_def Let_def case_prod_beta bridge_keep split: option.split)

lemma hid_event_keeps [bridge_keep]: "bridge_inv b \<Longrightarrow> bridge_inv (snd (hid_event tv e b))"
proof -
  assume b: "bridge_inv b"
  then have "radial_wf (snd (radial_event e (br_radial b)))"
    using radial_event_wf by (simp add: bridge_inv_def)
  with b have "bridge_inv (b\<lparr>br_radial := snd (radial_event e (br_radial b))\<rparr>)"
    by (simp add: bridge_inv_def)
  then show ?thesis by (auto simp: hid_event_def Let_def case_prod_beta bridge_keep split: option.split)
qed

lemma queue_button_keeps [bridge_keep]: "bridge_inv b \<Longrightarrow> bridge_inv (queue_button i pr now b)"
  by (simp add: bridge_inv_def queue_button_def)

lemma partition_event_keeps [bridge_keep]: "bridge_inv b \<Longrightarrow> bridge_inv (snd (partition_event tv now e i pr b))"
  by (auto simp: partition_event_def bridge_keep split: option.split)

lemma microphone_keeps: "bridge_inv b \<Longrightarrow> microphone_event view pr b = Some b' \<Longrightarrow> bridge_inv b'"
  by (auto simp: microphone_event_def route_desktop_dictation_def bridge_keep split: option.splits if_splits)

lemma task_button_snd:
  "route_task_button tv d n i pr tid now b = (r, b') \<Longrightarrow> bridge_inv b \<Longrightarrow> bridge_inv b'"
  using task_button_keeps [of b tv d n i pr tid now] by simp

lemma primary_event_keeps: "bridge_inv b \<Longrightarrow> bridge_inv (snd (primary_event ops tv view f now inst e b))"
  by (cases e) (auto simp: bridge_keep dest: microphone_keeps task_button_snd
      split: option.split prod.split bool.split intro!: bridge_keep)

lemma aux_event_keeps: "bridge_inv b \<Longrightarrow> bridge_inv (aux_event ops tv view f now inst d n e b)"
  by (cases e) (auto simp: bridge_keep dest: microphone_keeps task_button_snd
      split: option.split prod.split bool.split intro!: bridge_keep)

lemma primary_events_keep: "bridge_inv b \<Longrightarrow> bridge_inv (snd (primary_events ops tv view f now inst es b))"
proof (induction es arbitrary: b)
  case (Cons e es)
  then show ?case
    using primary_event_keeps [OF Cons.prems, of ops tv view f now inst e]
    by (auto split: prod.split sum.split)
qed simp

lemma aux_events_keep: "bridge_inv b \<Longrightarrow> bridge_inv (route_task_device_events ops tv view f now inst d n es b)"
  by (induction es arbitrary: b) (simp_all add: route_task_device_events_def aux_event_keeps)

lemma drop_aux_keeps: "bridge_inv b \<Longrightarrow> bridge_inv (drop_aux d b)"
  by (auto simp: drop_aux_def Let_def bridge_inv_def board_keep)

lemma poll_aux_keeps: "bridge_inv b \<Longrightarrow> bridge_inv (snd (poll_aux ops tv view f now inst ds b))"
proof (induction ds arbitrary: b)
  case (Cons d ds)
  obtain device dev slots where d: "d = (device, dev, slots)" by (cases d)
  from Cons show ?case
    by (auto simp: d case_prod_beta Let_def drop_aux_keeps aux_events_keep split: prod.split sum.split)
qed simp

lemma poll_controller_keeps [bridge_keep]:
  assumes "bridge_inv b"
  shows "bridge_inv (snd (poll_controller ops to_vec view files now inst b))"
proof -
  have primary: "bridge_inv b' \<Longrightarrow> bridge_inv (snd (primary_events ops to_vec view files now inst es b'))" for b' es
    by (rule primary_events_keep)
  have aux: "bridge_inv b' \<Longrightarrow> bridge_inv (snd (poll_aux ops to_vec view files now inst ds b'))" for b' ds
    by (rule poll_aux_keeps)
  have "bridge_inv (snd (case br_controller b of None \<Rightarrow> (Inr (), b)
      | Some dev \<Rightarrow> (case c_poll ops dev of
           (Inl _, _) \<Rightarrow> (Inr (), detach_controller inst b)
         | (Inr es, dev) \<Rightarrow> primary_events ops to_vec view files now inst es (b\<lparr>br_controller := Some dev\<rparr>))))"
    using assms by (auto simp: bridge_keep primary split: option.split prod.split sum.split)
  then show ?thesis
    using aux by (auto simp: poll_controller_def Let_def case_prod_beta split: prod.split sum.split)
qed

section \<open>Events that are queued\<close>

definition selects :: "json \<Rightarrow> bool" where
  "selects v \<longleftrightarrow> jget ''type'' v = Some (JStr ''task_selected'')"

definition selection_events :: "'c bridge \<Rightarrow> json list" where
  "selection_events b = filter selects (map snd (br_events b))"

lemma selection_events_push [simp]:
  "selection_events (push_event s v b) = selection_events b @ (if selects v then [v] else [])"
  by (simp add: selection_events_def push_event_def)

lemma selection_events_frame [simp]:
  "selection_events (b\<lparr>br_board := tb\<rparr>) = selection_events b"
  "selection_events (command c b) = selection_events b"
  "selection_events (snd (send_codex tv m b)) = selection_events b"
  by (simp_all add: selection_events_def command_def send_codex_def Let_def case_prod_beta split: option.split)

lemma select_task_selects: "select_task i now tb = (tb', Some v) \<Longrightarrow> selects v"
  by (auto simp: select_task_def Let_def selects_def jget_jobj split: option.splits)

lemma select_task_Some_iff:
  "snd (select_task i now tb) \<noteq> None \<longleftrightarrow> map_of (assignments tb) i \<noteq> None \<and> map_of (tasks tb) i \<noteq> None"
  by (auto simp: select_task_def Let_def split: option.splits)

text \<open>Whether a press names a card that the board shows on a controller.\<close>

definition selectable :: "'c bridge \<Rightarrow> string \<Rightarrow> nat \<Rightarrow> string option \<Rightarrow> bool" where
  "selectable b d i tid \<longleftrightarrow>
     (case tid of
        Some j \<Rightarrow> map_of (assignments (br_board b)) j \<noteq> None \<and> map_of (tasks (br_board b)) j \<noteq> None
      | None \<Rightarrow> task_at d i (br_board b) \<noteq> None)"

lemma slot_holder_assigned: "slot_holder d n tb = Some i \<Longrightarrow> map_of (assignments tb) i \<noteq> None"
  by (auto simp: slot_holder_def map_of_eq_None_iff find_Some_iff intro!: rev_image_eqI [OF nth_mem])

lemma press_card_selections:
  assumes "resolve_task_target b d i tid = Some t"
  shows "length (selection_events (press_card d i tid now t b)) =
    length (selection_events b) + of_bool (selectable b d i tid)"
proof -
  obtain tb sel where s: "(case tid of Some j \<Rightarrow> select_task j now (br_board b)
      | None \<Rightarrow> select_slot d i now (br_board b)) = (tb, sel)"
    by (cases "case tid of Some j \<Rightarrow> select_task j now (br_board b)
      | None \<Rightarrow> select_slot d i now (br_board b)") auto
  have "sel \<noteq> None \<longleftrightarrow> selectable b d i tid"
  proof (cases tid)
    case None
    with assms obtain j where j: "slot_holder d i (br_board b) = Some j" "map_of (tasks (br_board b)) j = Some t"
      by (auto simp: resolve_task_target_def task_at_def bind_eq_Some_conv)
    then have "snd (select_task j now (br_board b)) \<noteq> None"
      using slot_holder_assigned [OF j(1)] by (simp only: select_task_Some_iff) simp
    with j None s show ?thesis by (simp add: select_slot_def selectable_def task_at_def)
  next
    case (Some j)
    with s select_task_Some_iff [of j now "br_board b"] show ?thesis by (simp add: selectable_def)
  qed
  moreover have "sel = Some v \<Longrightarrow> selects v" for v
    using s by (auto simp: select_slot_def split: option.splits dest: select_task_selects)
  ultimately show ?thesis
    using s by (cases sel) (simp_all add: press_card_def Let_def)
qed

lemma legacy_key_selections [simp]:
  "selection_events (legacy_key_edge tv pr now t k b) = selection_events b"
proof -
  have "\<not> selects (jobj [(''type'', JStr ''key''), (''key'', JStr k), (''pressed'', JBool pr), (''ts'', jnat now)])"
    by (simp add: selects_def jget_jobj)
  then show ?thesis by (auto simp: legacy_key_edge_def Let_def split: option.split)
qed

section \<open>Navigation\<close>

lemma find_greater_sorted:
  assumes "sorted_wrt (<) (xs @ c # y # ys)"
  shows "List.find (\<lambda>x. x > (c :: nat)) (xs @ c # y # ys) = Some y"
  using assms by (induction xs) auto

lemma find_greater_last: "sorted_wrt (<) (xs @ [c]) \<Longrightarrow> List.find (\<lambda>x. x > (c :: nat)) (xs @ [c]) = None"
  by (induction xs) auto

lemma find_append:
  "List.find P (xs @ ys) = (case List.find P xs of None \<Rightarrow> List.find P ys | Some x \<Rightarrow> Some x)"
  by (induction xs) auto

lemma find_less_sorted:
  assumes "sorted_wrt (<) (xs @ x # c # ys)"
  shows "List.find (\<lambda>y. y < (c :: nat)) (rev (xs @ x # c # ys)) = Some x"
proof -
  have "List.find (\<lambda>y. y < c) (rev ys) = None"
    using assms by (auto simp: find_None_iff sorted_wrt_append)
  with assms show ?thesis by (simp add: find_append sorted_wrt_append)
qed

lemma find_less_first: "sorted_wrt (<) (c # xs) \<Longrightarrow> List.find (\<lambda>y. y < (c :: nat)) (rev (c # xs)) = None"
  by (auto simp: find_None_iff)

lemma distinct_remdups_adj: "sorted xs \<Longrightarrow> distinct (remdups_adj (xs :: nat list))"
  by (induction xs rule: remdups_adj.induct) auto

lemma device_slots_sorted: "sorted_wrt (<) (device_slots d tb)"
  unfolding device_slots_def strict_sorted_iff by (simp add: distinct_remdups_adj)

text \<open>Selecting a card changes neither the slots in use nor the cards they hold.\<close>

lemma assignments_select_task [simp]: "assignments (fst (select_task i now tb)) = assignments tb"
  by (simp add: select_task_def Let_def split: option.split)

lemma assignments_select_slot [simp]: "assignments (fst (select_slot d n now tb)) = assignments tb"
  by (simp add: select_slot_def split: option.split)

lemma update_ids:
  "hm_invar ts \<Longrightarrow> map_of ts i = Some t \<Longrightarrow> task_id u = task_id t \<Longrightarrow>
   map (\<lambda>(j, t). task_id t) (AList.update i u ts) = map (\<lambda>(j, t). task_id t) ts"
  by (induction ts) (auto simp: hm_invar_def map_of_eq_None_iff split: if_splits)

lemma select_task_ids:
  "hm_invar (tasks tb) \<Longrightarrow>
   map (\<lambda>(j, t). task_id t) (tasks (fst (select_task i now tb))) = map (\<lambda>(j, t). task_id t) (tasks tb)"
  by (auto simp: select_task_def Let_def update_ids split: option.split)

lemma device_slots_ids:
  "map (\<lambda>(j, t). task_id t) (tasks tb) = map (\<lambda>(j, t). task_id t) (tasks tb') \<Longrightarrow>
   assignments tb = assignments tb' \<Longrightarrow> device_slots d tb = device_slots d tb'"
proof -
  have e: "List.map_filter (\<lambda>(i, t). f (task_id t)) ts = List.map_filter f (map (\<lambda>(j, t). task_id t) ts)"
    for f :: "string \<Rightarrow> device_slot option" and ts :: "(string \<times> task_card) list"
    by (induction ts) (auto simp: List.map_filter_simps split: option.split)
  show "map (\<lambda>(j, t). task_id t) (tasks tb) = map (\<lambda>(j, t). task_id t) (tasks tb') \<Longrightarrow>
   assignments tb = assignments tb' \<Longrightarrow> device_slots d tb = device_slots d tb'"
    by (simp add: device_slots_def e)
qed

lemma device_slots_holder:
  assumes "board_inv tb"
  shows "n \<in> set (device_slots d tb) \<longleftrightarrow> (\<exists>i. slot_holder d n tb = Some i)"
proof
  assume "n \<in> set (device_slots d tb)"
  then obtain i t s where "(i, t) \<in> set (tasks tb)" "map_of (assignments tb) (task_id t) = Some s"
      "device_id s = d" "slot_index s = n"
    by (auto simp: device_slots_def List.map_filter_def)
  then show "\<exists>i. slot_holder d n tb = Some i"
    using slot_holder_iff [OF assms] by (cases s) auto
next
  assume "\<exists>i. slot_holder d n tb = Some i"
  then obtain i where i: "map_of (assignments tb) i = Some (DeviceSlot d n)"
    using slot_holder_iff [OF assms] by auto
  with assigned_task_exists [OF assms] obtain t where t: "map_of (tasks tb) i = Some t" by blast
  then have "task_id t = i" using board_invD(5) [OF assms] tasks_wf_id by blast
  with t i have "(i, t) \<in> set (tasks tb)" "map_of (assignments tb) (task_id t) = Some (DeviceSlot d n)"
    by (simp_all add: map_of_SomeD)
  then have "DeviceSlot d n \<in> set (List.map_filter (\<lambda>(i, t). map_of (assignments tb) (task_id t)) (tasks tb))"
    by (force simp: List.map_filter_def)
  then show "n \<in> set (device_slots d tb)" by (force simp: device_slots_def)
qed

lemma selected_slot_in:
  assumes "board_inv tb" and "selected_slot d tb = Some n"
  shows "n \<in> set (device_slots d tb)"
proof -
  from assms(2) obtain i s where "map_of (assignments tb) i = Some s" "device_id s = d" "slot_index s = n"
    by (auto simp: selected_slot_def selected_on_def bind_eq_Some_conv split: if_splits)
  then have "slot_holder d n tb = Some i" using slot_holder_iff [OF assms(1)] by (cases s) simp
  with device_slots_holder [OF assms(1)] show ?thesis by blast
qed

lemma select_slot_selected:
  assumes "board_inv tb" and "n \<in> set (device_slots d tb)"
  shows "selected_slot d (fst (select_slot d n now tb)) = Some n" and "task_at d n tb \<noteq> None"
    and "device_slots d (fst (select_slot d n now tb)) = device_slots d tb"
proof -
  from assms device_slots_holder obtain i where i: "slot_holder d n tb = Some i" by blast
  then have a: "map_of (assignments tb) i = Some (DeviceSlot d n)"
    using slot_holder_iff [OF assms(1)] by simp
  with assigned_task_exists [OF assms(1)] obtain t where t: "map_of (tasks tb) i = Some t" by blast
  have "selected (fst (select_task i now tb)) = Some i"
    using a t by (simp add: select_task_def Let_def)
  with i a show "selected_slot d (fst (select_slot d n now tb)) = Some n"
    by (simp add: select_slot_def selected_slot_def selected_on_def)
  from i t show "task_at d n tb \<noteq> None" by (simp add: task_at_def)
  show "device_slots d (fst (select_slot d n now tb)) = device_slots d tb"
    using i select_task_ids [OF board_invD(6) [OF assms(1)], of i now]
    by (intro device_slots_ids) (simp_all add: select_slot_def)
qed

text \<open>A step of the navigation selects its target.\<close>

lemma navigation_selects:
  assumes "bridge_inv b" and "device_slots d (br_board b) \<noteq> []"
    and "a \<in> {TaskNext, TaskPrevious, TaskFirst, TaskLast}"
    and "navigation_target a (device_slots d (br_board b)) (selected_slot d (br_board b)) = Some n"
    and "n \<in> set (device_slots d (br_board b))"
  shows "br_board (route_catalog_action d a now b) = fst (select_slot d n now (br_board b))"
  using assms select_slot_selected(2) [OF bridge_board [OF assms(1)] assms(5)]
  by (auto simp: route_catalog_action_def route_catalog_task_navigation_def push_event_def Let_def
      split: option.split prod.split)

section \<open>Properties\<close>

text \<open>
  C17. Every poll of the controllers, whatever events they deliver, whatever the desktop apps
  answer and whichever controllers fail, keeps the invariant of the runtime: that of the task
  board (exclusive, connected and permitted assignments of existing cards, a coherent selection),
  one queue per agent, and a well-formed radial state.
\<close>
theorem poll_keeps_invariant:
  assumes "bridge_inv b"
  shows "bridge_inv (snd (poll_controller ops to_vec view files now inst b))"
  using assms by (rule poll_controller_keeps)

text \<open>
  Navigation: from a selected card, the next one in the order of the slots of the controller
  is selected, cyclically, and going back from there selects the first card again.
\<close>
theorem navigation_cycles:
  assumes "bridge_inv b" and "selected_slot d (br_board b) = Some s"
  shows "\<exists>xs ys. device_slots d (br_board b) = xs @ s # ys \<and>
    selected_slot d (br_board (route_catalog_action d TaskNext now b)) = Some (hd (ys @ xs @ [s])) \<and>
    selected_slot d (br_board (route_catalog_action d TaskPrevious later
      (route_catalog_action d TaskNext now b))) = Some s"
proof -
  let ?b1 = "route_catalog_action d TaskNext now b"
  have inv: "board_inv (br_board b)" by (rule bridge_board [OF assms(1)])
  obtain xs ys where ds: "device_slots d (br_board b) = xs @ s # ys"
    using selected_slot_in [OF inv assms(2)] by (meson split_list)
  have so: "sorted_wrt (<) (xs @ s # ys)" using device_slots_sorted [of d "br_board b"] ds by simp
  let ?n = "hd (ys @ xs @ [s])"
  have n: "?n \<in> set (xs @ s # ys)" by (cases ys; cases xs) simp_all
  have nxt: "navigation_target TaskNext (xs @ s # ys) (Some s) = Some ?n"
    using so find_greater_sorted [of xs s] find_greater_last [of xs s] by (cases ys; cases xs) auto
  have prev: "navigation_target TaskPrevious (xs @ s # ys) (Some ?n) = Some s"
  proof (cases ys)
    case Nil
    show ?thesis
    proof (cases xs)
      case (Cons x xs')
      with so Nil have "List.find (\<lambda>c. c < x) (rev (x # xs' @ [s])) = None"
        by (intro find_less_first) simp
      with Nil Cons show ?thesis by simp
    qed (use Nil in simp)
  next
    case (Cons y ys')
    with so show ?thesis using find_less_sorted [of xs s y ys'] by simp
  qed
  have b1: "br_board ?b1 = fst (select_slot d ?n now (br_board b))"
    using assms ds nxt n by (intro navigation_selects) simp_all
  have s1: "selected_slot d (br_board ?b1) = Some ?n" "device_slots d (br_board ?b1) = xs @ s # ys"
    using select_slot_selected(1,3) [OF inv, of ?n d now] n ds b1 by simp_all
  have i1: "bridge_inv ?b1" using assms(1) by (rule catalog_keeps)
  have "br_board (route_catalog_action d TaskPrevious later ?b1) = fst (select_slot d s later (br_board ?b1))"
    using i1 s1 prev by (intro navigation_selects) simp_all
  with select_slot_selected(1) [OF bridge_board [OF i1], of s d later] s1 ds show ?thesis by auto
qed

text \<open>
  One press, one selection: the press of a card that a controller shows queues exactly one
  selection event, whatever else it does; the release queues none, leaves the board as it is and
  asks nothing of the desktop apps.
\<close>
theorem press_selects_once:
  assumes "br_task_mode b" and "i < n"
  shows "length (selection_events (snd (route_task_button to_vec d n i pressed tid now b))) =
      length (selection_events b) +
        of_bool (pressed \<and> resolve_task_target b d i tid \<noteq> None \<and> selectable b d i tid) \<and>
    (\<not> pressed \<longrightarrow>
       br_board (snd (route_task_button to_vec d n i pressed tid now b)) = br_board b \<and>
       br_desktop (snd (route_task_button to_vec d n i pressed tid now b)) = br_desktop b)"
proof
  show "length (selection_events (snd (route_task_button to_vec d n i pressed tid now b))) =
      length (selection_events b) +
        of_bool (pressed \<and> resolve_task_target b d i tid \<noteq> None \<and> selectable b d i tid)"
    using assms by (simp add: route_task_button_def Let_def press_card_selections split: option.split)
  have "br_board (legacy_key_edge to_vec False now t k b) = br_board b \<and>
      br_desktop (legacy_key_edge to_vec False now t k b) = br_desktop b" for t k
    by (simp add: legacy_key_edge_def Let_def push_event_def send_codex_def case_prod_beta split: option.split)
  then show "\<not> pressed \<longrightarrow>
      br_board (snd (route_task_button to_vec d n i pressed tid now b)) = br_board b \<and>
      br_desktop (snd (route_task_button to_vec d n i pressed tid now b)) = br_desktop b"
    by (simp add: route_task_button_def Let_def split: option.split)
qed

text \<open>
  An empty card is inert: while task mode is on, the press or release of a slot without a card,
  as a key or as an explicit card control, changes nothing at all.
\<close>
theorem empty_card_inert:
  assumes "br_task_mode b" and "index < slots" and "task_at device index (br_board b) = None"
  shows "aux_event ops to_vec view files now inst device slots (Button index pressed) b = b \<and>
    aux_event ops to_vec view files now inst device slots (TaskButton index pressed None) b = b"
  using assms by (simp add: route_task_button_def resolve_task_target_def)

text \<open>
  C18. A key that stands for itself never reaches the Codex HID path when the partition gives it to
  another agent. This is about the explicit keys (\<open>MicroButton\<close>) and about the ordinary keys
  (\<open>Button\<close>) outside task mode or past the task slots, of the primary and of the auxiliary
  controllers: the press is queued for its owner alone and leaves the serial line and the radial
  state untouched, and a key of Codex is queued only when there is no serial line. An ordinary
  key that shows a card in task mode is not meant: it acts for the agent of its card, whoever
  owns the key, so a Codex card on it does write.
\<close>
theorem foreign_keys_stay_off_hid:
  assumes "routing_wf (br_routing b)" and "owner_of (br_partition b) index = Some a"
    and "e = MicroButton index pressed \<or>
      e = Button index pressed \<and> (\<not> br_task_mode b \<or> br_slot_count b \<le> index \<and> slots \<le> index)"
  shows "(a \<noteq> Codex \<longrightarrow>
      snd (primary_event ops to_vec view files now inst e b) = queue_button index pressed now b \<and>
      aux_event ops to_vec view files now inst device slots e b = queue_button index pressed now b) \<and>
    br_serial (queue_button index pressed now b) = br_serial b \<and>
    br_radial (queue_button index pressed now b) = br_radial b \<and>
    queue_of (br_routing (queue_button index pressed now b)) c =
      (if c = a then queue_push (KeyEvent (key_label index) pressed now) (queue_of (br_routing b) c)
       else queue_of (br_routing b) c) \<and>
    (a = Codex \<and> has_serial b \<longrightarrow>
      br_routing (snd (primary_event ops to_vec view files now inst e b)) = br_routing b)"
proof -
  have hid: "br_routing (snd (hid_event to_vec e b)) = br_routing b" for e
    by (simp add: hid_event_def send_codex_def Let_def case_prod_beta split: option.split)
  have "primary_event ops to_vec view files now inst e b = partition_event to_vec now e index pressed b"
    "aux_event ops to_vec view files now inst device slots e b = snd (partition_event to_vec now e index pressed b)"
    using assms(3) by (auto simp: route_task_button_def)
  then show ?thesis
    using assms(1,2) hid by (auto simp: partition_event_def queue_button_def route_button_def queue_of_queue_mut)
qed

section \<open>Witnesses\<close>

definition idle_bridge :: "plugin_controller bridge" where
  "idle_bridge =
     \<lparr>br_serial = None, br_sequence = 1, br_controller = None, br_aux = [],
      br_choice = NoController, br_choice_serial = None, br_devices = [], br_retry_at = 0,
      br_retry_delay = 250, br_thread_status = None, br_explicit_tasks = False, br_rgb = None,
      br_context = None, br_explicit_context = False, br_usage_agent = UsageCodex,
      br_usage = cache_default, br_firmware = ''standalone'', br_port = ''none'', br_decoder = [],
      br_radial = radial_default, br_health = health_new 0, br_routing = routing_new,
      br_fused = fused_new, br_partition = \<lparr>owners = [Some Codex, Some ZCode]\<rparr>,
      br_board = held_board (sample_card ''a'' ZCode 50)\<lparr>selected := Some ''a''\<rparr>,
      br_task_mode = True, br_device_id = ''d'', br_slot_count = 6, br_events = [], br_desktop = []\<rparr>"

lemma idle_bridge_inv: "bridge_inv idle_bridge"
  using held_selected_inv [of "sample_card ''a'' ZCode 50"]
  by (simp add: bridge_inv_def idle_bridge_def sample_card_def radial_wf_def radial_default_def)

definition quiet_desktop :: desktop_world where
  "quiet_desktop cs = \<lparr>app_foreground = (\<lambda>_. Inr False), mic_active = (\<lambda>_. False), cycled_model = Inl ''none''\<rparr>"

definition no_files :: codex_files where
  "no_files = \<lparr>file_model = None, file_effort = None, file_project = None\<rparr>"

definition no_windows :: desktop where
  "no_windows = \<lparr>zcode_foreground = False, hermes_foreground = False, hermes_shortcut_ok = True\<rparr>"

theorem poll_keeps_invariant_witness:
  "bridge_inv (snd (poll_controller (plugin_ops no_windows) empty_object_printer quiet_desktop no_files 7 7 idle_bridge))"
  by (rule poll_keeps_invariant [OF idle_bridge_inv])

theorem navigation_cycles_witness:
  "selected_slot ''d'' (br_board (route_catalog_action ''d'' TaskPrevious 9
     (route_catalog_action ''d'' TaskNext 8 idle_bridge))) = Some 0"
proof -
  have "selected_slot ''d'' (br_board idle_bridge) = Some 0"
    by (simp add: idle_bridge_def selected_slot_def selected_on_def sample_card_def)
  with navigation_cycles [OF idle_bridge_inv, of "''d''" 0 8 9] show ?thesis by blast
qed

theorem press_selects_once_witness:
  "length (selection_events (snd (route_task_button empty_object_printer ''d'' 6 0 True None 7 idle_bridge))) = 1"
  using press_selects_once [of idle_bridge 0 6 empty_object_printer "''d''" True None 7]
  by (simp add: idle_bridge_def selection_events_def selectable_def resolve_task_target_def task_at_def
      slot_holder_def sample_card_def)

theorem empty_card_inert_witness:
  "aux_event (plugin_ops no_windows) empty_object_printer quiet_desktop no_files 7 7 ''d'' 6 (Button 3 True) idle_bridge = idle_bridge"
  using empty_card_inert [of idle_bridge 3 6 "''d''" "plugin_ops no_windows" empty_object_printer quiet_desktop no_files 7 7 True]
  by (simp add: idle_bridge_def task_at_def slot_holder_def)

theorem foreign_keys_stay_off_hid_witness:
  "snd (primary_event (plugin_ops no_windows) empty_object_printer quiet_desktop no_files 7 7 (MicroButton 1 True) idle_bridge) =
     queue_button 1 True 7 idle_bridge"
  using foreign_keys_stay_off_hid [of idle_bridge 1 ZCode "MicroButton 1 True" True 6 "plugin_ops no_windows"
      empty_object_printer quiet_desktop no_files 7 7 "''d''" ZCode]
  by (simp add: idle_bridge_def owner_of_def)

end
