(* ===== verification/Daemon_Keeps.thy ===== *)
theory Daemon_Keeps
  imports Daemon_Loop Bridge_Props
begin

text \<open>
  The invariant of the daemon and the proof, step by step, that a pass of its loop keeps it: the
  invariant of the bridge, at most one deferred poll per session, and no deferred poll of a
  session that is gone.
\<close>

section \<open>The bridge\<close>

lemma bridge_inv_more_fields [simp]:
  "bridge_inv (b\<lparr>br_serial := x1\<rparr>) = bridge_inv b" "bridge_inv (b\<lparr>br_sequence := x2\<rparr>) = bridge_inv b"
  "bridge_inv (b\<lparr>br_thread_status := x3\<rparr>) = bridge_inv b" "bridge_inv (b\<lparr>br_rgb := x3\<rparr>) = bridge_inv b"
  "bridge_inv (b\<lparr>br_explicit_tasks := x4\<rparr>) = bridge_inv b"
  "bridge_inv (b\<lparr>br_explicit_context := x4\<rparr>) = bridge_inv b"
  "bridge_inv (b\<lparr>br_fused := x5\<rparr>) = bridge_inv b" "bridge_inv (b\<lparr>br_decoder := x6\<rparr>) = bridge_inv b"
  "bridge_inv (b\<lparr>br_health := x7\<rparr>) = bridge_inv b" "bridge_inv (b\<lparr>br_firmware := x8\<rparr>) = bridge_inv b"
  "bridge_inv (b\<lparr>br_port := x8\<rparr>) = bridge_inv b" "bridge_inv (b\<lparr>br_partition := x9\<rparr>) = bridge_inv b"
  "bridge_inv (b\<lparr>br_task_mode := x4\<rparr>) = bridge_inv b"
  by (simp_all add: bridge_inv_def)

lemma bridge_inv_routing [simp]:
  "bridge_inv b \<Longrightarrow> bridge_inv (b\<lparr>br_routing := r\<rparr>) = routing_wf r"
  by (simp add: bridge_inv_def)

text \<open>A case distinction on a pair, and on a sum inside it.\<close>

lemma keeps_case:
  assumes "P (snd x)" and "\<And>r b. P b \<Longrightarrow> Q (f r b)"
  shows "Q (case x of (r, b) \<Rightarrow> f r b)"
  using assms by (cases x) simp

lemma on_controller_keeps [bridge_keep]: "bridge_inv b \<Longrightarrow> bridge_inv (snd (on_controller f b))"
  by (simp add: on_controller_def case_prod_beta split: option.split)

lemma thread_status_keeps [bridge_keep]: "bridge_inv b \<Longrightarrow> bridge_inv (snd (process_thread_status ops v b))"
  using on_controller_keeps [of "b\<lparr>br_thread_status := Some v, br_fused := st\<rparr>" for st]
  by (auto simp: process_thread_status_def Let_def split: sum.split prod.split) (metis bridge_inv_more_fields(3,7) snd_conv)+

lemma rgb_config_keeps [bridge_keep]: "bridge_inv b \<Longrightarrow> bridge_inv (snd (process_rgb_config ops v b))"
  using on_controller_keeps [of "b\<lparr>br_rgb := Some v\<rparr>" "c_apply_rgb ops v"]
  by (auto simp: process_rgb_config_def split: sum.split prod.split)

lemma process_message_keeps [bridge_keep]: "bridge_inv b \<Longrightarrow> bridge_inv (snd (process_codex_message env m b))"
proof -
  assume b: "bridge_inv b"
  let ?step = "case (method_of m, message_params m) of
      (Some n, Some params) \<Rightarrow>
        if n = ''v.oai.thstatus'' then process_thread_status (e_ops env) params b
        else if n = ''v.oai.rgbcfg'' then process_rgb_config (e_ops env) params b else (Inr (), b)
    | _ \<Rightarrow> (Inr (), b)"
  have "bridge_inv (snd ?step)" using b by (auto simp: bridge_keep split: option.split)
  then show ?thesis
    unfolding process_codex_message_def Let_def
    by (rule keeps_case) (auto simp: bridge_keep case_prod_beta split: sum.split option.split)
qed

lemma health_ping_keeps [bridge_keep]: "bridge_inv b \<Longrightarrow> bridge_inv (snd (send_health_ping now b))"
  by (auto simp: send_health_ping_def Let_def case_prod_beta split: sum.split option.split prod.split)

lemma send_messages_keeps [bridge_keep]: "bridge_inv b \<Longrightarrow> bridge_inv (snd (send_messages tv ms b))"
proof (induction ms arbitrary: b)
  case (Cons m ms)
  then show ?case using keeps_same(6) [OF Cons.prems, of tv m] by (auto split: prod.split sum.split)
qed simp

lemma tool_message_keeps [bridge_keep]: "bridge_inv b \<Longrightarrow> bridge_inv (snd (send_tool_message tv m b))"
  by (simp add: send_tool_message_def case_prod_beta bridge_keep split: sum.split)

lemma emit_key_keeps [bridge_keep]: "bridge_inv b \<Longrightarrow> bridge_inv (snd (call_emit_key env v b))"
  by (simp add: call_emit_key_def case_prod_beta bridge_keep split: option.split sum.split)

lemma codex_tool_keeps [bridge_keep]: "bridge_inv b \<Longrightarrow> bridge_inv (snd (call_send_codex_message env v b))"
  by (simp add: call_send_codex_message_def case_prod_beta bridge_keep split: option.split)

lemma context_tool_keeps [bridge_keep]: "bridge_inv b \<Longrightarrow> bridge_inv (snd (call_set_display_context env inst v b))"
  by (auto simp: call_set_display_context_def Let_def case_prod_beta bridge_keep split: sum.split)

lemma rgb_tool_keeps [bridge_keep]: "bridge_inv b \<Longrightarrow> bridge_inv (snd (call_set_rgb_config env v b))"
  by (simp add: call_set_rgb_config_def case_prod_beta bridge_keep split: option.split)

lemma status_tool_keeps [bridge_keep]: "bridge_inv b \<Longrightarrow> bridge_inv (snd (call_device_status env b))"
  by (simp add: call_device_status_def Let_def case_prod_beta bridge_keep)

lemma drain_queue_keeps [bridge_keep]: "bridge_inv b \<Longrightarrow> bridge_inv (snd (drain_queue a b))"
  by (simp add: drain_queue_def bridge_inv_def)

lemma replay_keeps [bridge_keep]: "bridge_inv b \<Longrightarrow> bridge_inv (snd (replay_primary_controller_state ops now b))"
  by (simp add: replay_primary_controller_state_def Let_def case_prod_beta bridge_keep split: option.split)

lemma schedule_keeps [bridge_keep]: "bridge_inv b \<Longrightarrow> bridge_inv (schedule_controller_retry inst b)"
  by (simp add: bridge_inv_same [of b])

lemma reconnect_keeps [bridge_keep]: "bridge_inv b \<Longrightarrow> bridge_inv (reconnect_controller_if_due ops od now inst b)"
proof -
  assume b: "bridge_inv b"
  have "bridge_inv (case replay_primary_controller_state ops now b' of
       (Inl _, b) \<Rightarrow> detach_controller inst b
     | (Inr _, b) \<Rightarrow>
         (let b = (if br_task_mode b then snd (refresh_task_board ops now inst b) else b)
          in b\<lparr>br_retry_at := inst + 5000, br_retry_delay := CONTROLLER_RETRY_INITIAL_DELAY\<rparr>))"
    if "bridge_inv b'" for b'
    using replay_keeps [OF that, of ops now]
    by (rule keeps_case) (auto simp: Let_def bridge_keep split: sum.split)
  with b show ?thesis
    by (auto simp: reconnect_controller_if_due_def Let_def bridge_keep board_keep bridge_board
        simp del: if_split_asm split: sum.split option.split)
qed

lemma replace_runtime_keeps [bridge_keep]: "bridge_inv b \<Longrightarrow> bridge_inv (snd (replace_runtime port opened inst b))"
  by (simp add: replace_runtime_def Let_def split: sum.split prod.split)

section \<open>Steps of the daemon on the bridge\<close>

lemma env_refresh_keeps [bridge_keep]: "bridge_inv b \<Longrightarrow> bridge_inv (refresh env now inst b)"
  by (simp add: refresh_def bridge_keep)

lemma pass_refresh_keeps [bridge_keep]: "bridge_inv b \<Longrightarrow> bridge_inv (pass_refresh env p b)"
  by (simp add: pass_refresh_def bridge_keep)

lemma thread_tool_keeps [bridge_keep]:
  "bridge_inv b \<Longrightarrow> bridge_inv (snd (call_set_thread_status env now inst v a s b))"
proof -
  assume b: "bridge_inv b"
  have legacy: "board_inv tb" if "publish_legacy_status s a st now (br_board b) = (tb, r)" for st tb r
    using board_inv_legacy [OF bridge_board [OF b], of s a st now] that by simp
  have apply_ctl: "bridge_inv b'"
    if "on_controller f (b\<lparr>br_fused := y, br_explicit_tasks := x\<rparr>) = (r, b')" for f r b' x y
    using on_controller_keeps [of "b\<lparr>br_fused := y, br_explicit_tasks := x\<rparr>" f] that b by simp
  from b show ?thesis
    by (auto simp: call_set_thread_status_def legacy intro!: bridge_keep dest: apply_ctl
        split: option.split sum.split prod.split)
qed

lemma request_usage_keeps [bridge_keep]: "bridge_inv b \<Longrightarrow> bridge_inv (request_usage a inst b)"
  by (simp add: request_usage_def)

lemma wanted_usage_keeps [bridge_keep]: "bridge_inv b \<Longrightarrow> bridge_inv (snd (refresh_wanted_usage inst s x b))"
  by (simp add: refresh_wanted_usage_def Let_def)

lemma usage_context_keeps [bridge_keep]: "bridge_inv b \<Longrightarrow> bridge_inv (usage_into_context f b)"
  by (simp add: usage_into_context_def bridge_keep)

lemma forget_primary_keeps [bridge_keep]: "bridge_inv b \<Longrightarrow> bridge_inv (forget_primary b)"
  by (simp add: forget_primary_def bridge_inv_def board_keep)

lemma detach_plugin_keeps [bridge_keep]: "bridge_inv b \<Longrightarrow> bridge_inv (detach_plugin_controller ops i b)"
  by (auto simp: detach_plugin_controller_def Let_def intro!: bridge_keep) (simp_all add: bridge_inv_def board_keep)

lemma install_keeps [bridge_keep]: "bridge_inv b \<Longrightarrow> bridge_inv (install_controller ops dev b)"
  by (simp add: install_controller_def Let_def bridge_inv_def board_keep)

lemma apply_partition_keeps [bridge_keep]: "bridge_inv b \<Longrightarrow> bridge_inv (apply_partition env p active b)"
proof -
  assume b: "bridge_inv b"
  have r: "routing_wf (fold (\<lambda>a. push_partition_event a q g n) as r)" if "routing_wf r" for as r q g n
    using that by (induction as arbitrary: r) simp_all
  from b have "bridge_inv (b\<lparr>br_partition := partition_compute active,
      br_board := set_slot_owners (br_device_id b) ow (br_board b)\<rparr>)" for ow
    by (simp add: bridge_inv_def board_keep)
  from pass_refresh_keeps [OF this] show ?thesis
    by (simp add: apply_partition_def Let_def r bridge_inv_def)
qed

section \<open>The daemon\<close>

definition daemon_inv :: "'c daemon \<Rightarrow> bool" where
  "daemon_inv d \<longleftrightarrow> bridge_inv (d_bridge d) \<and> distinct (map p_session (d_polls d)) \<and>
     p_session ` set (d_polls d) \<subseteq> s_id ` set (d_sessions d)"

named_theorems daemon_keep \<open>steps keep the invariant of the daemon\<close>

lemma daemon_inv_bridge [simp]: "daemon_inv d \<Longrightarrow> bridge_inv (d_bridge d)"
  by (simp add: daemon_inv_def)

lemma daemon_inv_fields [simp]:
  "daemon_inv (d\<lparr>d_plugins := x1\<rparr>) = daemon_inv d" "daemon_inv (d\<lparr>d_agents := x2\<rparr>) = daemon_inv d"
  "daemon_inv (d\<lparr>d_hardware := x3\<rparr>) = daemon_inv d" "daemon_inv (d\<lparr>d_zcode := x3\<rparr>) = daemon_inv d"
  "daemon_inv (d\<lparr>d_hermes := x3\<rparr>) = daemon_inv d" "daemon_inv (d\<lparr>d_claude := x3\<rparr>) = daemon_inv d"
  "daemon_inv (d\<lparr>d_repartition_at := x4\<rparr>) = daemon_inv d" "daemon_inv (d\<lparr>d_usage_at := x4\<rparr>) = daemon_inv d"
  "daemon_inv (d\<lparr>d_retry_at := x4\<rparr>) = daemon_inv d" "daemon_inv (d\<lparr>d_retry_delay := x5\<rparr>) = daemon_inv d"
  "daemon_inv (d\<lparr>d_thstatus_at := x4\<rparr>) = daemon_inv d" "daemon_inv (d\<lparr>d_snapshot := x3\<rparr>) = daemon_inv d"
  "daemon_inv (d\<lparr>d_codex_poll_at := x5\<rparr>) = daemon_inv d" "daemon_inv (d\<lparr>d_refresh_at := x5\<rparr>) = daemon_inv d"
  "daemon_inv (d\<lparr>d_zcode_poll_at := x4\<rparr>) = daemon_inv d" "daemon_inv (d\<lparr>d_hermes_poll_at := x4\<rparr>) = daemon_inv d"
  "daemon_inv (d\<lparr>d_claude_poll_at := x4\<rparr>) = daemon_inv d" "daemon_inv (d\<lparr>d_zcode_probe_at := x5\<rparr>) = daemon_inv d"
  "daemon_inv (d\<lparr>d_hermes_probe_at := x5\<rparr>) = daemon_inv d" "daemon_inv (d\<lparr>d_claude_probe_at := x5\<rparr>) = daemon_inv d"
  "daemon_inv (d\<lparr>d_saved := x6\<rparr>) = daemon_inv d" "daemon_inv (d\<lparr>d_written := x7\<rparr>) = daemon_inv d"
  by (simp_all add: daemon_inv_def)

lemma daemon_inv_set_bridge [simp]:
  "daemon_inv d \<Longrightarrow> daemon_inv (d\<lparr>d_bridge := b\<rparr>) = bridge_inv b"
  by (auto simp: daemon_inv_def)

lemma on_bridge_keeps: "daemon_inv d \<Longrightarrow> bridge_inv (f (d_bridge d)) \<Longrightarrow> daemon_inv (on_bridge f d)"
  by (simp add: on_bridge_def)

text \<open>Changes of a session keep the ids.\<close>

lemma on_session_ids [simp]: "(\<And>s. s_id (f s) = s_id s) \<Longrightarrow> map s_id (on_session i f ss) = map s_id ss"
  by (induction ss) auto

lemma on_session_id_set: "(\<And>s. s_id (f s) = s_id s) \<Longrightarrow> s_id ` set (on_session i f ss) = s_id ` set ss"
  by (metis on_session_ids set_map)

lemma session_ops_ids [simp]:
  "s_id ` set (handle_hello i info ss) = s_id ` set ss"
  "s_id ` set (send_to_session i m ss) = s_id ` set ss"
  "s_id ` set (push_session_event i m ss) = s_id ` set ss"
  "s_id ` set (snd (drain_session_events i ss)) = s_id ` set ss"
  "s_id ` set (on_session i (append_event m) ss) = s_id ` set ss"
  by (simp_all add: handle_hello_def send_to_session_def push_session_event_def push_bounded_def
      drain_session_events_def drain_events_def append_event_def on_session_id_set split: option.split)

lemma fold_append_ids [simp]:
  "s_id ` set (fold (\<lambda>i. on_session i (append_event m)) is ss) = s_id ` set ss"
  by (induction "is" arbitrary: ss) simp_all

lemma deliver_ids [simp]: "s_id ` set (deliver x ss) = s_id ` set ss"
  by (simp add: deliver_def split: option.split)

lemma fold_deliver_ids [simp]: "s_id ` set (fold deliver xs ss) = s_id ` set ss"
  by (induction xs arbitrary: ss) simp_all

lemma daemon_inv_sessions:
  "daemon_inv d \<Longrightarrow> s_id ` set (d_sessions d) \<subseteq> s_id ` set ss \<Longrightarrow> daemon_inv (d\<lparr>d_sessions := ss\<rparr>)"
  by (simp add: daemon_inv_def, elim conjE, erule (1) subset_trans)

lemma reply_keeps [daemon_keep]: "daemon_inv d \<Longrightarrow> daemon_inv (reply i m d)"
  by (simp add: reply_def daemon_inv_sessions)

section \<open>Requests and polls\<close>

lemma bridge_tool_keeps [daemon_keep]:
  "daemon_inv d \<Longrightarrow> bridge_inv (snd (f (d_bridge d))) \<Longrightarrow> daemon_inv (snd (bridge_tool f d))"
  by (simp add: bridge_tool_def case_prod_beta)

lemma publish_tool_keeps [daemon_keep]:
  assumes "daemon_inv d"
  shows "daemon_inv (snd (call_publish_tasks env now inst v a i d))"
proof -
  from assms have b: "board_inv (br_board (d_bridge d))" by (simp add: bridge_board)
  then have "board_inv (release_feed a i (br_board (d_bridge d)))"
    by (simp add: release_feed_def board_keep split: option.split)
  then have "board_inv tb" if "publish_tasks i a v now (release_feed a i (br_board (d_bridge d))) = (tb, r)" for tb r
    using board_inv_publish [of "release_feed a i (br_board (d_bridge d))" i a v now] that by simp
  then have "daemon_inv (d\<lparr>d_bridge := (d_bridge d)\<lparr>br_board := tb\<rparr>\<rparr>)"
      "daemon_inv (d\<lparr>d_bridge := refresh env now inst ((d_bridge d)\<lparr>br_board := tb, br_explicit_tasks := True\<rparr>)\<rparr>)"
    if "publish_tasks i a v now (release_feed a i (br_board (d_bridge d))) = (tb, r)" for tb r
    using assms that by (simp_all add: bridge_keep)
  from this(1) daemon_inv_sessions [OF this(2)] show ?thesis
    by (simp add: call_publish_tasks_def Let_def split: prod.split sum.split)
qed

lemma find_session_ids: "find_session i ss \<noteq> None \<longleftrightarrow> i \<in> s_id ` set ss"
  by (auto simp: find_session_def find_None_iff image_iff)

lemma deferred_ok:
  assumes "distinct (map p_session ps)" and "p_session ` set ps \<subseteq> I" and "p_session q \<in> I"
  shows "distinct (map p_session (filter (\<lambda>p. p_session p \<noteq> p_session q) ps @ [q]))"
    and "p_session ` set (filter (\<lambda>p. p_session p \<noteq> p_session q) ps @ [q]) \<subseteq> I"
  using assms by (auto simp: distinct_map_filter)

lemma poll_tool_keeps [daemon_keep]:
  assumes "daemon_inv d" and "i \<in> s_id ` set (d_sessions d)"
  shows "daemon_inv (snd (call_poll_events env inst v a i request_id d))"
proof -
  obtain es ss where e: "drain_session_events i (d_sessions d) = (es, ss)" by fastforce
  obtain es' b where q: "drain_queue a (d_bridge d) = (es', b)" by fastforce
  let ?p = "\<lparr>p_session = i, p_agent = a, p_deadline = inst + poll_timeout v, p_request = request_id\<rparr>"
  let ?d = "d\<lparr>d_sessions := ss, d_bridge := b\<rparr>"
  have ids: "s_id ` set ss = s_id ` set (d_sessions d)"
    using session_ops_ids(4) [of i "d_sessions d"] by (simp add: e)
  have "bridge_inv b" using assms drain_queue_keeps [of "d_bridge d" a] by (simp add: q)
  with daemon_inv_sessions [OF assms(1), of ss] ids have d: "daemon_inv ?d" by simp
  then have "daemon_inv (?d\<lparr>d_polls := filter (\<lambda>p. p_session p \<noteq> i) (d_polls d) @ [?p]\<rparr>)"
    using deferred_ok [of "d_polls d" "s_id ` set ss" ?p] assms(2) ids unfolding daemon_inv_def by simp
  with d show ?thesis by (simp add: call_poll_events_def Let_def e q)
qed

lemma tool_keeps [daemon_keep]:
  assumes "daemon_inv d" and "i \<in> s_id ` set (d_sessions d)"
  shows "daemon_inv (snd (call_tool_for env now inst request a i request_id d))"
  using assms by (simp add: call_tool_for_def Let_def daemon_keep bridge_keep split: option.split)

lemma method_keeps [daemon_keep]:
  assumes "daemon_inv d" and "i \<in> s_id ` set (d_sessions d)"
  shows "daemon_inv (snd (method_result env now inst i request m request_id a d))"
  using assms tool_keeps [OF assms, of env now inst request a request_id]
  by (simp add: method_result_def case_prod_beta)

lemma request_keeps [daemon_keep]:
  assumes "daemon_inv d"
  shows "daemon_inv (handle_request env now inst i request d)"
proof -
  have "daemon_inv (case method_result env now inst i request m q a d of
      (Inl e, d) \<Rightarrow> reply i (error_response (Some q) (- 32601) e) d
    | (Inr r, d) \<Rightarrow> if r = JNull then d else reply i (response q r) d)"
    if "find_session_agent i (d_sessions d) = Some a" for m q a
  proof -
    from that have "i \<in> s_id ` set (d_sessions d)"
      by (simp add: find_session_agent_def bind_eq_Some_conv flip: find_session_ids) blast
    from method_keeps [OF assms this] show ?thesis
      by (rule keeps_case) (simp add: daemon_keep split: sum.split)
  qed
  with assms show ?thesis
    by (simp add: handle_request_def Let_def daemon_keep split: option.split)
qed

lemma answer_keeps [daemon_keep]:
  assumes "daemon_inv d"
  shows "daemon_inv (answer_poll pretty p d)"
  using assms drain_queue_keeps [of "d_bridge d" "p_agent p"]
  by (auto simp: answer_poll_def case_prod_beta Let_def intro!: daemon_keep daemon_inv_sessions)
    (simp add: daemon_inv_def)

lemma answer_polls_same [simp]: "d_polls (answer_poll pretty p d) = d_polls d"
  by (simp add: answer_poll_def reply_def case_prod_beta Let_def)

lemma resolve_keeps:
  assumes "daemon_inv d"
  shows "daemon_inv (snd (resolve_polls pretty inst ps d))"
    and "d_polls (snd (resolve_polls pretty inst ps d)) = d_polls d"
    and "set (fst (resolve_polls pretty inst ps d)) \<subseteq> set ps"
    and "distinct (map p_session ps) \<Longrightarrow> distinct (map p_session (fst (resolve_polls pretty inst ps d)))"
proof -
  have "daemon_inv (snd (resolve_polls pretty inst ps d)) \<and>
      d_polls (snd (resolve_polls pretty inst ps d)) = d_polls d \<and>
      set (fst (resolve_polls pretty inst ps d)) \<subseteq> set ps \<and>
      (distinct (map p_session ps) \<longrightarrow> distinct (map p_session (fst (resolve_polls pretty inst ps d))))"
    using assms
  proof (induction ps arbitrary: d)
    case (Cons p ps)
    show ?case
      using Cons.IH [OF Cons.prems] Cons.IH [OF answer_keeps [OF Cons.prems], of pretty p]
      by (auto simp: case_prod_beta image_subset_iff)
  qed simp
  then show "daemon_inv (snd (resolve_polls pretty inst ps d))"
    and "d_polls (snd (resolve_polls pretty inst ps d)) = d_polls d"
    and "set (fst (resolve_polls pretty inst ps d)) \<subseteq> set ps"
    and "distinct (map p_session ps) \<Longrightarrow> distinct (map p_session (fst (resolve_polls pretty inst ps d)))"
    by blast+
qed

lemma resolve_pending_keeps [daemon_keep]:
  assumes "daemon_inv d"
  shows "daemon_inv (resolve_pending_polls pretty inst d)"
proof -
  note r = resolve_keeps [OF assms, where ps = "d_polls d" and pretty = pretty and inst = inst]
  have "distinct (map p_session (fst (resolve_polls pretty inst (d_polls d) d)))"
    using r(4) assms by (simp add: daemon_inv_def)
  with r(1,2,3) show ?thesis
    by (auto simp: resolve_pending_polls_def case_prod_beta daemon_inv_def)
qed

section \<open>Messages\<close>

lemma on_hello_keeps [daemon_keep]: "daemon_inv d \<Longrightarrow> daemon_inv (on_hello env p i info d)"
  by (auto simp: on_hello_def Let_def on_bridge_def bridge_keep daemon_inv_sessions split: option.split)

lemma controller_hello_keeps [daemon_keep]:
  assumes "daemon_inv d"
  shows "daemon_inv (on_controller_hello env p i inst slots inbox d)"
proof -
  obtain replaced ps where r: "remove_plugin_sessions_by_device
      (c_device_id (e_ops env) (e_plugin env inst slots inbox)) (d_plugins d) = (replaced, ps)" by fastforce
  have "bridge_inv (case refresh_wanted_usage t as x b of
      (wanted, b) \<Rightarrow> pass_refresh env p (if wanted then usage_into_context (e_files env) b else b))"
    if "bridge_inv b" for t as x b
    using wanted_usage_keeps [OF that, of t as x] by (rule keeps_case) (simp add: bridge_keep)
  with assms show ?thesis
    by (simp add: on_controller_hello_def Let_def r on_bridge_def bridge_keep case_prod_beta)
qed

lemma remove_session_ids: "s_id ` set (remove_session i ss) = s_id ` set ss - {i}"
  by (auto simp: remove_session_def)

lemma close_session_keeps [daemon_keep]:
  assumes "daemon_inv d"
  shows "daemon_inv (close_session env p i d)"
proof -
  let ?b = "(d_bridge d)\<lparr>br_board := disconnect_session i (t_now p) (br_board (d_bridge d))\<rparr>"
  have "board_inv (br_board ?b)" using assms by (simp add: board_keep bridge_board)
  then have "bridge_inv (pass_refresh env p ?b)" using assms by (simp add: bridge_keep)
  with assms have "daemon_inv (on_bridge (\<lambda>b. pass_refresh env p
        (b\<lparr>br_board := disconnect_session i (t_now p) (br_board b)\<rparr>)) d
      \<lparr>d_sessions := remove_session i (d_sessions d), d_polls := filter (\<lambda>q. p_session q \<noteq> i) (d_polls d)\<rparr>)"
    by (auto simp: on_bridge_def daemon_inv_def remove_session_ids distinct_map_filter)
  moreover have "daemon_inv (on_bridge (\<lambda>b. pass_refresh env p (detach_plugin_controller (e_ops env) x b))
      (d\<lparr>d_plugins := ps\<rparr>))" for x ps
    using assms by (simp add: on_bridge_def bridge_keep)
  ultimately show ?thesis
    by (auto simp: close_session_def Let_def on_bridge_def split: prod.split option.split)
qed

lemma message_keeps [daemon_keep]: "daemon_inv d \<Longrightarrow> daemon_inv (on_message env p m d)"
  by (cases m) (auto simp: daemon_keep intro: daemon_inv_sessions)

lemma messages_keep [daemon_keep]: "daemon_inv d \<Longrightarrow> daemon_inv (messages_step env p d)"
proof -
  have "daemon_inv d \<Longrightarrow> daemon_inv (fold (on_message env p) ms d)" for ms
    by (induction ms arbitrary: d) (simp_all add: daemon_keep)
  then show "daemon_inv d \<Longrightarrow> daemon_inv (messages_step env p d)" by (simp add: messages_step_def)
qed

section \<open>The other steps\<close>

lemma thread_status_event_keeps [daemon_keep]:
  assumes "daemon_inv d"
  shows "daemon_inv (on_thread_status env p v d)"
proof -
  have "board_inv (fst (publish_codex_hid_status v (t_now p) (br_board (d_bridge d))))"
    using assms by (simp add: board_keep bridge_board)
  with assms show ?thesis
    by (simp add: on_thread_status_def Let_def on_bridge_def bridge_keep)
qed

lemma daemon_messages_keep: "daemon_inv d \<Longrightarrow> daemon_inv (snd (daemon_messages env p ms d))"
proof (induction ms arbitrary: d)
  case (Cons m ms)
  have d: "daemon_inv (before_message env p m d)"
    using Cons.prems by (simp add: before_message_def daemon_keep split: option.split)
  have "bridge_inv (snd (process_codex_message env m (d_bridge (before_message env p m d))))"
    using d by (simp add: bridge_keep)
  then have "daemon_inv (snd (case process_codex_message env m (d_bridge (before_message env p m d)) of
        (Inr _, b) \<Rightarrow> daemon_messages env p ms ((before_message env p m d)\<lparr>d_bridge := b\<rparr>)
      | (Inl (ControllerError _), b) \<Rightarrow>
          daemon_messages env p ms ((before_message env p m d)\<lparr>d_bridge := detach_controller (t_inst p) b\<rparr>)
      | (Inl (ParameterError _), b) \<Rightarrow> daemon_messages env p ms ((before_message env p m d)\<lparr>d_bridge := b\<rparr>)
      | (Inl (SerialError e), b) \<Rightarrow> (Some e, (before_message env p m d)\<lparr>d_bridge := b\<rparr>)))"
    by (rule keeps_case) (use d in \<open>simp add: Cons.IH bridge_keep split: sum.split process_error.split\<close>)
  then show ?case by (simp add: Let_def)
qed simp

lemma daemon_serial_keeps: "daemon_inv d \<Longrightarrow> daemon_inv (snd (daemon_serial env p es lost d))"
proof (induction es arbitrary: d lost)
  case (Cons e es)
  have "daemon_inv (snd (case codex_feed nv x y of
        (Inl _, buf) \<Rightarrow> daemon_serial env p es lost (on_bridge (\<lambda>b. b\<lparr>br_decoder := buf\<rparr>) d)
      | (Inr ms, buf) \<Rightarrow>
          (let (e, d) = daemon_messages env p ms (on_bridge (\<lambda>b. b\<lparr>br_decoder := buf\<rparr>) d)
           in daemon_serial env p es (or_else e lost) d)))" for nv x y
    using Cons.IH daemon_messages_keep [of "on_bridge (\<lambda>b. b\<lparr>br_decoder := buf\<rparr>) d" for buf] Cons.prems
    by (simp add: Let_def case_prod_beta on_bridge_def split: prod.split sum.split)
  with Cons show ?case
    by (cases e) (simp_all add: on_bridge_def)
qed simp

lemma retry_keeps [daemon_keep]: "daemon_inv d \<Longrightarrow> daemon_inv (retry_serial_connection port p d)"
  using replace_runtime_keeps [of "d_bridge d" port "t_opened p" "t_inst p"]
  by (auto simp: retry_serial_connection_def split: prod.split sum.split)

lemma drain_step_keeps [daemon_keep]: "daemon_inv d \<Longrightarrow> daemon_inv (drain_step env port p d)"
  by (simp add: drain_step_def case_prod_beta daemon_keep daemon_serial_keeps)

lemma absent_step_keeps [daemon_keep]: "daemon_inv d \<Longrightarrow> daemon_inv (absent_step port p d)"
  by (simp add: absent_step_def daemon_keep)

lemma health_step_keeps [daemon_keep]: "daemon_inv d \<Longrightarrow> daemon_inv (health_step port p d)"
  using health_ping_keeps [of "d_bridge d" "t_inst p"]
  by (auto simp: health_step_def daemon_keep split: prod.split sum.split)

lemma codex_step_keeps [daemon_keep]: "daemon_inv d \<Longrightarrow> daemon_inv (codex_step p d)"
  using board_inv_snapshot [of "br_board (d_bridge d)" _ "t_now p"]
  by (auto simp: codex_step_def Let_def bridge_board split: option.split prod.split sum.split)
    (metis bridge_board daemon_inv_bridge fst_conv)+

lemma reconnect_step_keeps [daemon_keep]: "daemon_inv d \<Longrightarrow> daemon_inv (reconnect_step env p d)"
  by (simp add: reconnect_step_def Let_def on_bridge_def bridge_keep board_keep bridge_board)

lemma poll_step_keeps: "daemon_inv d \<Longrightarrow> poll_step env p d = Inr d' \<Longrightarrow> daemon_inv d'"
  using poll_controller_keeps [of "d_bridge d" "e_ops env" "e_to_vec env" "e_view env" "e_files env" "t_now p" "t_inst p"]
  by (auto simp: poll_step_def split: prod.splits sum.splits)

lemma owners_step_keeps [daemon_keep]: "daemon_inv d \<Longrightarrow> daemon_inv (owners_step env d)"
  by (simp add: owners_step_def on_bridge_def board_keep bridge_board)

lemma deliver_step_keeps [daemon_keep]: "daemon_inv d \<Longrightarrow> daemon_inv (deliver_step env p d)"
  using daemon_inv_sessions [of d "fold deliver (br_events (d_bridge d)) (d_sessions d)"]
  by (simp add: deliver_step_def Let_def on_bridge_def bridge_keep)

lemma stale_hid_keeps [daemon_keep]: "daemon_inv d \<Longrightarrow> daemon_inv (stale_hid_step env p d)"
  by (simp add: stale_hid_step_def Let_def on_bridge_def bridge_keep board_keep bridge_board)

lemma feed_publish_keeps [daemon_keep]: "daemon_inv d \<Longrightarrow> daemon_inv (feed_publish env p a session d)"
  using board_inv_publish [of "br_board (d_bridge d)" session a _ "t_now p"]
  by (auto simp: feed_publish_def Let_def bridge_board intro!: bridge_keep split: option.split prod.split sum.split)
    (metis bridge_board daemon_inv_bridge fst_conv)+

lemma feed_step_keeps: "daemon_inv d \<Longrightarrow> daemon_inv (snd (feed_step env p a session first due d))"
  by (simp add: feed_step_def Let_def on_bridge_def bridge_keep board_keep bridge_board daemon_keep)

lemma feeds_step_keeps [daemon_keep]: "daemon_inv d \<Longrightarrow> daemon_inv (feeds_step env p d)"
  by (simp add: feeds_step_def Let_def case_prod_beta feed_step_keeps)

lemma probes_keep [daemon_keep]:
  "daemon_inv d \<Longrightarrow> daemon_inv (hardware_step p d)" "daemon_inv d \<Longrightarrow> daemon_inv (zcode_probe p d)"
  "daemon_inv d \<Longrightarrow> daemon_inv (hermes_probe p d)" "daemon_inv d \<Longrightarrow> daemon_inv (claude_probe p d)"
  by (simp_all add: hardware_step_def zcode_probe_def hermes_probe_def claude_probe_def Let_def)

lemma repartition_step_keeps [daemon_keep]: "daemon_inv d \<Longrightarrow> daemon_inv (repartition_step env p d)"
  by (simp add: repartition_step_def on_bridge_def bridge_keep split: option.split)

lemma usage_steps_keep [daemon_keep]:
  "daemon_inv d \<Longrightarrow> daemon_inv (usage_ready_step env p d)"
  "daemon_inv d \<Longrightarrow> daemon_inv (usage_tick_step env p d)"
  by (simp_all add: usage_ready_step_def usage_tick_step_def Let_def on_bridge_def case_prod_beta bridge_keep)

lemma preferences_keep [daemon_keep]: "daemon_inv d \<Longrightarrow> daemon_inv (preferences_step x d)"
  by (simp add: preferences_step_def Let_def)

lemma arrive_keeps [daemon_keep]: "daemon_inv d \<Longrightarrow> daemon_inv (arrive_step p d)"
  by (simp add: arrive_step_def on_bridge_def)

lemma before_poll_keeps: "daemon_inv d \<Longrightarrow> daemon_inv (before_poll env port p d)"
  by (simp add: before_poll_def Let_def daemon_keep)

lemma after_poll_keeps: "daemon_inv d \<Longrightarrow> daemon_inv (after_poll env x p d)"
  by (simp add: after_poll_def Let_def daemon_keep)

lemma pass_keeps: "daemon_inv d \<Longrightarrow> daemon_pass env port x p d = Inr d' \<Longrightarrow> daemon_inv d'"
  using poll_step_keeps [OF before_poll_keeps, of d env p env port]
  by (cases "poll_step env p (before_poll env port p d)") (auto simp: daemon_pass_def after_poll_keeps)

lemma run_keeps: "daemon_inv d \<Longrightarrow> daemon_run env port x ps d = Inr d' \<Longrightarrow> daemon_inv d'"
  by (induction ps arbitrary: d) (auto elim!: res_bindE dest: pass_keeps)

lemma start_preferences_keeps: "bridge_inv b \<Longrightarrow> bridge_inv (start_preferences stored b)"
  by (simp add: start_preferences_def board_keep bridge_board split: option.split)

lemma start_snapshot_keeps: "bridge_inv b \<Longrightarrow> bridge_inv (snd (start_snapshot snapshot now b))"
  using board_inv_snapshot [OF bridge_board, of b _ now]
  by (auto simp: start_snapshot_def split: option.split prod.split sum.split) (metis fst_conv)+

lemma start_keeps:
  assumes "bridge_inv b"
  shows "daemon_inv (daemon_start env port stored snapshot runs now inst b)"
proof -
  let ?b = "start_preferences stored (b\<lparr>br_task_mode := True\<rparr>)"
  have "bridge_inv (snd (start_snapshot snapshot now ?b))"
    using assms by (simp add: start_preferences_keeps start_snapshot_keeps)
  then show ?thesis
    by (simp add: daemon_start_def Let_def case_prod_beta daemon_inv_def board_keep bridge_board)
qed

end
