(* ===== verification/Daemon_Requests.thy ===== *)
theory Daemon_Requests
  imports Daemon_Keeps
begin

text \<open>
  What the daemon promises to its MCP sessions: every request is answered exactly once, at once or
  by a deferred poll; deferred polls are answered by their deadline; the other agents never reach
  the serial line; events queues and their bounds.
\<close>

section \<open>What a session has been sent\<close>

definition sent_to :: "nat \<Rightarrow> 'c daemon \<Rightarrow> json list option" where
  "sent_to i d = map_option s_sent (find_session i (d_sessions d))"

definition events_for :: "nat \<Rightarrow> 'c daemon \<Rightarrow> json list" where
  "events_for i d = (case find_session i (d_sessions d) of None \<Rightarrow> [] | Some s \<Rightarrow> s_events s)"

lemma find_on_session:
  "(\<And>s. s_id (f s) = s_id s) \<Longrightarrow>
   find_session j (on_session i f ss) = (if i = j then map_option f (find_session j ss) else find_session j ss)"
  by (induction ss) (auto simp: find_session_def)

lemma sent_to_bridge [simp]: "sent_to i (d\<lparr>d_bridge := b\<rparr>) = sent_to i d"
  by (simp add: sent_to_def)

lemma sent_to_polls [simp]: "sent_to i (d\<lparr>d_polls := ps\<rparr>) = sent_to i d"
  by (simp add: sent_to_def)

lemma sent_to_reply:
  "sent_to j (reply i m d) = (if i = j then map_option (\<lambda>xs. xs @ [m]) (sent_to j d) else sent_to j d)"
  by (simp add: sent_to_def reply_def send_to_session_def find_on_session option.map_comp comp_def)

lemma sent_to_push:
  "sent_to j (d\<lparr>d_bridge := b, d_sessions := push_session_event i e (d_sessions d)\<rparr>) = sent_to j d"
  by (simp add: sent_to_def push_session_event_def push_bounded_def find_on_session option.map_comp comp_def)

lemma find_drain:
  "find_session j (snd (drain_session_events i ss)) =
     (if i = j then map_option (\<lambda>s. s\<lparr>s_events := []\<rparr>) (find_session j ss) else find_session j ss)"
  by (auto simp: drain_session_events_def drain_events_def find_on_session split: option.split)

lemma sent_to_drain:
  "drain_session_events i (d_sessions d) = (es, ss) \<Longrightarrow> sent_to j (d\<lparr>d_sessions := ss\<rparr>) = sent_to j d"
  using find_drain [of j i "d_sessions d"] by (simp add: sent_to_def option.map_comp comp_def)

section \<open>Results\<close>

lemma results_not_null [simp]:
  "text_result pretty v \<noteq> JNull" "tool_error e \<noteq> JNull" "jobj kvs \<noteq> JNull" "initialize_result s \<noteq> JNull"
  "empty_list_result k \<noteq> JNull" "events_result pretty es \<noteq> JNull" "daemon_tools_for a \<noteq> JNull"
  "tool_reply pretty f r \<noteq> JNull"
  by (simp_all add: text_result_def tool_error_def jobj_def initialize_result_def empty_list_result_def
      events_result_def daemon_tools_for_def tools_for_def tool_reply_def split: option.split sum.split)

lemma response_ids [simp]:
  "jget ''id'' (response i r) = Some i" "jget ''id'' (error_response (Some i) c e) = Some i"
  by (simp_all add: response_def error_response_def jget_jobj)

lemma bridge_tool_quiet [simp]:
  "sent_to j (snd (bridge_tool f d)) = sent_to j d" "d_polls (snd (bridge_tool f d)) = d_polls d"
  by (simp_all add: bridge_tool_def case_prod_beta)

lemma bridge_tools_not_null:
  "fst (call_emit_key env v b) \<noteq> JNull" "fst (call_send_codex_message env v b) \<noteq> JNull"
  "fst (call_set_thread_status env now inst v a s b) \<noteq> JNull"
  "fst (call_set_display_context env inst v b) \<noteq> JNull" "fst (call_set_rgb_config env v b) \<noteq> JNull"
  "fst (call_device_status env b) \<noteq> JNull"
  by (auto simp: call_emit_key_def call_send_codex_message_def call_set_thread_status_def
      call_set_display_context_def call_set_rgb_config_def call_device_status_def Let_def case_prod_beta
      split: option.split sum.split)

lemma bridge_tool_fst: "fst (bridge_tool f d) = fst (f (d_bridge d))"
  by (simp add: bridge_tool_def case_prod_beta)

text \<open>A tool answers, or defers a poll; either way it sends nothing itself.\<close>

definition answered :: "'c daemon \<Rightarrow> json \<times> 'c daemon \<Rightarrow> bool" where
  "answered d x \<longleftrightarrow> fst x \<noteq> JNull \<and> d_polls (snd x) = d_polls d"

definition deferred :: "nat \<Rightarrow> nat \<Rightarrow> json \<Rightarrow> 'c daemon \<Rightarrow> json \<times> 'c daemon \<Rightarrow> bool" where
  "deferred i inst q d x \<longleftrightarrow> fst x = JNull \<and>
     (\<exists>p. d_polls (snd x) = filter (\<lambda>p. p_session p \<noteq> i) (d_polls d) @ [p] \<and>
        p_session p = i \<and> p_request p = q \<and> inst < p_deadline p)"

lemma publish_quiet:
  "sent_to j (snd (call_publish_tasks env now inst v a i d)) = sent_to j d"
  "answered d (call_publish_tasks env now inst v a i d)"
  by (simp_all add: call_publish_tasks_def Let_def answered_def sent_to_push split: prod.split sum.split)

lemma poll_quiet:
  "sent_to j (snd (call_poll_events env inst v a i q d)) = sent_to j d"
  "answered d (call_poll_events env inst v a i q d) \<or> deferred i inst q d (call_poll_events env inst v a i q d)"
  by (auto simp: call_poll_events_def Let_def answered_def deferred_def sent_to_drain split: prod.split)

lemma tool_quiet:
  "sent_to j (snd (call_tool_for env now inst request a i q d)) = sent_to j d"
  "answered d (call_tool_for env now inst request a i q d) \<or>
   deferred i inst q d (call_tool_for env now inst request a i q d)"
  using publish_quiet(2) [of d env now inst "tool_arguments request" a i] poll_quiet(2) [of d env inst "tool_arguments request" a i q]
  by (simp_all add: call_tool_for_def Let_def publish_quiet poll_quiet answered_def bridge_tool_fst
      bridge_tools_not_null split: option.split)

lemma method_quiet:
  "sent_to j (snd (method_result env now inst i request m q a d)) = sent_to j d"
  "(case fst (method_result env now inst i request m q a d) of
      Inl e \<Rightarrow> d_polls (snd (method_result env now inst i request m q a d)) = d_polls d
    | Inr r \<Rightarrow> answered d (r, snd (method_result env now inst i request m q a d)) \<or>
        deferred i inst q d (r, snd (method_result env now inst i request m q a d)))"
  using tool_quiet(1) [of j env now inst request a i q d] tool_quiet(2) [of d env now inst request a i q]
  by (simp_all add: method_result_def case_prod_beta answered_def deferred_def)

section \<open>Deferred polls\<close>

lemma events_for_simps [simp]:
  "events_for i (d\<lparr>d_bridge := b\<rparr>) = events_for i d" "events_for i (d\<lparr>d_polls := ps\<rparr>) = events_for i d"
  "events_for i (reply j m d) = events_for i d"
  by (auto simp: events_for_def reply_def send_to_session_def find_on_session split: option.split)

lemma poll_ripe_iff:
  "poll_ripe inst p d \<longleftrightarrow> events_for (p_session p) d \<noteq> [] \<or>
     queue (queue_of (br_routing (d_bridge d)) (p_agent p)) \<noteq> [] \<or> p_deadline p \<le> inst"
  by (simp add: poll_ripe_def events_for_def queue_is_empty_def split: option.split)

lemma answer_poll_sent:
  "sent_to j (answer_poll pretty p d) =
     (if j = p_session p
      then map_option (\<lambda>xs. xs @ [response (p_request p) (events_result pretty
        (events_for j d @ map event_to_json (queue (queue_of (br_routing (d_bridge d)) (p_agent p)))))]) (sent_to j d)
      else sent_to j d)"
proof -
  obtain es ss where e: "drain_session_events (p_session p) (d_sessions d) = (es, ss)" by fastforce
  have "es = events_for (p_session p) d"
    using e by (auto simp: drain_session_events_def events_for_def drain_events_def split: option.splits)
  then show ?thesis
    by (simp add: answer_poll_def e Let_def sent_to_reply sent_to_drain [OF e] drain_queue_def queue_drain_def)
qed

lemma answer_poll_events:
  "events_for j (answer_poll pretty p d) = (if j = p_session p then [] else events_for j d)"
  by (auto simp: answer_poll_def Let_def case_prod_beta events_for_def reply_def send_to_session_def
      find_on_session find_drain split: option.split)

lemma answer_poll_queue:
  "daemon_inv d \<Longrightarrow> queue (queue_of (br_routing (d_bridge (answer_poll pretty p d))) a) =
     (if a = p_agent p then [] else queue (queue_of (br_routing (d_bridge d)) a))"
  using daemon_inv_bridge [of d]
  by (auto simp: answer_poll_def Let_def case_prod_beta reply_def drain_queue_def bridge_inv_def
      queue_of_queue_mut queue_drain_def)

lemma unripe_stays:
  "daemon_inv d \<Longrightarrow> \<not> poll_ripe inst p d \<Longrightarrow> \<not> poll_ripe inst p (answer_poll pretty q d)"
  by (simp add: poll_ripe_iff answer_poll_events answer_poll_queue)

lemma resolve_unripe:
  assumes "daemon_inv d" and "\<not> poll_ripe inst p d"
  shows "\<not> poll_ripe inst p (snd (resolve_polls pretty inst ps d))"
  using assms
proof (induction ps arbitrary: d)
  case (Cons q ps)
  have "\<not> poll_ripe inst p (snd (resolve_polls pretty inst ps (answer_poll pretty q d)))"
    using answer_keeps [OF Cons.prems(1)] unripe_stays [OF Cons.prems] by (rule Cons.IH)
  with Cons.IH [OF Cons.prems] show ?case by (simp add: case_prod_beta)
qed simp

lemma resolve_kept_unripe:
  "daemon_inv d \<Longrightarrow> p \<in> set (fst (resolve_polls pretty inst ps d)) \<Longrightarrow>
     \<not> poll_ripe inst p (snd (resolve_polls pretty inst ps d))"
proof (induction ps arbitrary: d)
  case (Cons q ps)
  show ?case
  proof (cases "poll_ripe inst q d")
    case True
    with Cons.IH [OF answer_keeps [OF Cons.prems(1)]] Cons.prems(2) show ?thesis by simp
  next
    case False
    with Cons.IH [OF Cons.prems(1)] Cons.prems(2) resolve_unripe [OF Cons.prems(1)]
    show ?thesis by (auto simp: case_prod_beta)
  qed
qed simp

text \<open>What the resolution of \<open>ps\<close> sends to one session.\<close>

lemma resolve_other:
  "i \<notin> p_session ` set ps \<Longrightarrow> sent_to i (snd (resolve_polls pretty inst ps d)) = sent_to i d"
  by (induction ps arbitrary: d) (auto simp: case_prod_beta answer_poll_sent)

lemma resolve_one:
  assumes "distinct (map p_session ps)" and "p \<in> set ps"
  shows "if p \<in> set (fst (resolve_polls pretty inst ps d))
    then sent_to (p_session p) (snd (resolve_polls pretty inst ps d)) = sent_to (p_session p) d
    else \<exists>es. sent_to (p_session p) (snd (resolve_polls pretty inst ps d)) =
      map_option (\<lambda>xs. xs @ [response (p_request p) (events_result pretty es)]) (sent_to (p_session p) d)"
  using assms
proof (induction ps arbitrary: d)
  case (Cons q ps)
  have kept: "set (fst (resolve_polls pretty inst ps d')) \<subseteq> set ps" for d'
    by (induction ps arbitrary: d') (auto simp: case_prod_beta)
  show ?case
  proof (cases "p = q")
    case True
    with Cons.prems have new: "p \<notin> set ps" "p_session p \<notin> p_session ` set ps" by auto
    with kept have "p \<notin> set (fst (resolve_polls pretty inst ps d'))" for d' by blast
    with True resolve_other [OF new(2)] show ?thesis
      by (auto simp: case_prod_beta answer_poll_sent)
  next
    case False
    with Cons.prems have p: "p \<in> set ps" and d: "distinct (map p_session ps)" by auto
    from p Cons.prems(1) have ne: "p_session p \<noteq> p_session q" by (auto simp: image_iff)
    have s: "sent_to (p_session p) (answer_poll pretty q d) = sent_to (p_session p) d"
      using ne by (simp add: answer_poll_sent)
    show ?thesis
    proof (cases "poll_ripe inst q d")
      case True
      with Cons.IH [OF d p, of "answer_poll pretty q d"] s show ?thesis by (simp split: if_splits)
    next
      case F: False
      with Cons.IH [OF d p, of d] False show ?thesis by (auto simp: case_prod_beta)
    qed
  qed
qed simp

end
