(* ===== verification/Daemon_Props.thy ===== *)
theory Daemon_Props
  imports Daemon_Requests
begin

text \<open>
  The properties of the daemon: its invariant from start-up on, requests and their answers, the
  separation of the agents from the serial line, the delivery of events, the layout of the task
  slots, the feeds, the partition, and the limits of its error handling.
\<close>

section \<open>The serial line\<close>

named_theorems serial_frame \<open>operations leave the serial line and its sequence number alone\<close>

lemma state_serial [serial_frame]:
  "br_serial (auto_select_event now b) = br_serial b" "br_sequence (auto_select_event now b) = br_sequence b"
  "br_serial (detach_controller inst b) = br_serial b" "br_sequence (detach_controller inst b) = br_sequence b"
  "br_serial (snd (on_controller f b)) = br_serial b" "br_sequence (snd (on_controller f b)) = br_sequence b"
  "br_serial (snd (drain_queue a b)) = br_serial b" "br_sequence (snd (drain_queue a b)) = br_sequence b"
  by (simp_all add: auto_select_event_def Let_def detach_controller_def schedule_controller_retry_def
      on_controller_def drain_queue_def case_prod_beta split: prod.split option.split)

lemma refresh_aux_serial [serial_frame]:
  "br_serial (snd (refresh_aux ops rgb ds b)) = br_serial b"
  "br_sequence (snd (refresh_aux ops rgb ds b)) = br_sequence b"
proof -
  have "br_serial (snd (refresh_aux ops rgb ds b)) = br_serial b \<and>
      br_sequence (snd (refresh_aux ops rgb ds b)) = br_sequence b"
  proof (induction ds arbitrary: b)
    case (Cons x ds)
    obtain device dev slots where "x = (device, dev, slots)" by (cases x)
    with Cons show ?case by (simp add: case_prod_beta split: prod.split sum.split)
  qed simp
  then show "br_serial (snd (refresh_aux ops rgb ds b)) = br_serial b"
    "br_sequence (snd (refresh_aux ops rgb ds b)) = br_sequence b" by blast+
qed

lemma refresh_serial [serial_frame]:
  "br_serial (snd (refresh_task_board ops now inst b)) = br_serial b"
  "br_sequence (snd (refresh_task_board ops now inst b)) = br_sequence b"
  "br_serial (refresh env now inst b) = br_serial b" "br_sequence (refresh env now inst b) = br_sequence b"
  "br_serial (pass_refresh env p b) = br_serial b" "br_sequence (pass_refresh env p b) = br_sequence b"
  by (auto simp: pass_refresh_def refresh_def refresh_task_board_def Let_def case_prod_beta serial_frame
      split: option.split sum.split)

lemma context_tool_serial [serial_frame]:
  "br_serial (snd (call_set_display_context env inst v b)) = br_serial b"
  "br_sequence (snd (call_set_display_context env inst v b)) = br_sequence b"
  by (auto simp: call_set_display_context_def Let_def case_prod_beta serial_frame split: sum.split)

lemma on_controller_serial:
  "on_controller f b = (r, b') \<Longrightarrow> br_serial b' = br_serial b \<and> br_sequence b' = br_sequence b"
  using state_serial(5,6) [of f b] by simp

lemma status_tool_serial:
  "a \<noteq> Codex \<Longrightarrow> br_serial (snd (call_set_thread_status env now inst v a i b)) = br_serial b"
  "a \<noteq> Codex \<Longrightarrow> br_sequence (snd (call_set_thread_status env now inst v a i b)) = br_sequence b"
  by (auto simp: call_set_thread_status_def serial_frame dest: on_controller_serial
      split: option.split sum.split prod.split)

definition line_of :: "'c daemon \<Rightarrow> serial_runtime option \<times> u16" where
  "line_of d = (br_serial (d_bridge d), br_sequence (d_bridge d))"

lemma foreign_tool_line:
  assumes "a \<noteq> Codex"
  shows "line_of (snd (call_tool_for env now inst request a i q d)) = line_of d"
proof -
  have pub: "line_of (snd (call_publish_tasks env now inst v a i d)) = line_of d" for v
    by (simp add: call_publish_tasks_def line_of_def Let_def serial_frame split: prod.split sum.split)
  have poll: "line_of (snd (call_poll_events env inst v a i q d)) = line_of d" for v
    using state_serial(7,8) [of a "d_bridge d"]
    by (auto simp: call_poll_events_def line_of_def Let_def case_prod_beta)
  have tools: "line_of (snd (bridge_tool (call_set_thread_status env now inst v a i) d)) = line_of d"
      "line_of (snd (bridge_tool (call_set_display_context env inst v) d)) = line_of d" for v
    using assms by (simp_all add: bridge_tool_def line_of_def case_prod_beta serial_frame status_tool_serial)
  have "tool_available n (Some a) \<Longrightarrow> n \<notin> {''emit_key'', ''send_codex_message'', ''device_status'', ''set_rgb_config''}" for n
    using assms by (cases a) (auto simp: tool_available_def)
  then show ?thesis
    by (auto simp: call_tool_for_def Let_def pub poll tools split: option.split)
qed

lemma foreign_request_line:
  assumes "find_session_agent i (d_sessions d) \<noteq> Some Codex"
  shows "line_of (handle_request env now inst i request d) = line_of d"
proof -
  have r: "line_of (reply j m d') = line_of d'" for j m and d' :: "'a daemon"
    by (simp add: reply_def line_of_def)
  have "line_of (snd (method_result env now inst i request m q a d)) = line_of d" if "a \<noteq> Codex" for m q a
    using foreign_tool_line [OF that, of env now inst request i q d]
    by (simp add: method_result_def case_prod_beta)
  then have "method_result env now inst i request m q a d = (x, d') \<Longrightarrow> a \<noteq> Codex \<Longrightarrow> line_of d' = line_of d"
    for m q a x d' by (metis snd_conv)
  then show ?thesis
    using assms by (auto simp: handle_request_def Let_def r split: option.split prod.split sum.split)
qed

section \<open>Sessions that have gone\<close>

lemma reply_nobody: "find_session i (d_sessions d) = None \<Longrightarrow> sent_to j (reply i m d) = sent_to j d"
  by (auto simp: sent_to_reply) (simp add: sent_to_def)

lemma request_nobody:
  assumes "find_session i (d_sessions d) = None"
  shows "sent_to j (handle_request env now inst i request d) = sent_to j d"
  using assms by (simp add: handle_request_def Let_def find_session_agent_def reply_nobody split: option.split)

lemma find_removed: "find_session i (remove_session i ss) = None"
  by (auto simp: find_session_def remove_session_def find_None_iff)

section \<open>Properties of the sessions\<close>

text \<open>
  C21. From start-up on, whatever the passes of the loop find, the daemon keeps its invariant: the
  invariant of the bridge, at most one deferred poll per session, and no deferred poll without
  its session.
\<close>
theorem daemon_keeps_invariant:
  assumes "bridge_inv b"
  shows "case daemon_run env port has_file passes (daemon_start env port stored snapshot runs now inst b) of
    Inl _ \<Rightarrow> True | Inr d \<Rightarrow> daemon_inv d"
  using run_keeps [OF start_keeps [OF assms]] by (auto split: sum.split)

text \<open>
  C22. What \<open>handle_request\<close> does with one request that has an id and a method that is no
  notification, from a session that has said hello. Either it sends that session exactly one
  message, which carries the id, and touches no deferred poll; or it sends nothing and registers
  one deferred poll with that id and a deadline in the future, which takes the place of any
  earlier poll of the session. It never does both, and no other session is sent anything.
  (Whether a deferred poll is answered later is the subject of C23 and C24.)
\<close>
theorem request_answered_or_deferred:
  assumes "find_session_agent i (d_sessions d) = Some a" and "jget ''id'' request = Some q"
    and "Option.bind (jget ''method'' request) as_str = Some m"
    and "strip_prefix ''notifications/'' m = None"
  shows "(\<forall>j. j \<noteq> i \<longrightarrow> sent_to j (handle_request env now inst i request d) = sent_to j d) \<and>
    ((\<exists>answer. jget ''id'' answer = Some q \<and>
        sent_to i (handle_request env now inst i request d) = map_option (\<lambda>xs. xs @ [answer]) (sent_to i d) \<and>
        d_polls (handle_request env now inst i request d) = d_polls d) \<or>
     (sent_to i (handle_request env now inst i request d) = sent_to i d \<and>
      (\<exists>p. d_polls (handle_request env now inst i request d) =
          filter (\<lambda>p. p_session p \<noteq> i) (d_polls d) @ [p] \<and>
        p_session p = i \<and> p_request p = q \<and> inst < p_deadline p)))"
proof -
  obtain r d' where mr: "method_result env now inst i request m q a d = (r, d')" by fastforce
  have quiet: "sent_to j d' = sent_to j d" for j
    using method_quiet(1) [of j env now inst i request m q a d] by (simp add: mr)
  have r: "case r of Inl e \<Rightarrow> d_polls d' = d_polls d
      | Inr x \<Rightarrow> answered d (x, d') \<or> deferred i inst q d (x, d')"
    using method_quiet(2) [where env = env and now = now and inst = inst and i = i and request = request
      and m = m and q = q and a = a and d = d] by (cases r) (simp_all add: mr)
  have polls: "d_polls (reply i x d') = d_polls d'" for x by (simp add: reply_def)
  have h: "handle_request env now inst i request d =
      (case r of Inl e \<Rightarrow> reply i (error_response (Some q) (- 32601) e) d'
       | Inr x \<Rightarrow> if x = JNull then d' else reply i (response q x) d')"
    using assms by (simp add: handle_request_def mr)
  show ?thesis
  proof (cases r)
    case (Inl e)
    with r h quiet polls show ?thesis
      by (intro conjI disjI1 exI [of _ "error_response (Some q) (- 32601) e"]) (simp_all add: sent_to_reply)
  next
    case (Inr x)
    show ?thesis
    proof (cases "x = JNull")
      case True
      with Inr r h quiet show ?thesis by (auto simp: answered_def deferred_def)
    next
      case False
      with Inr r h quiet polls show ?thesis
        by (intro conjI disjI1 exI [of _ "response q x"]) (auto simp: sent_to_reply answered_def deferred_def)
    qed
  qed
qed

text \<open>
  C23. Deferred polls: after the resolution of a pass no poll is left that has an event waiting or
  whose deadline has passed; each poll that was resolved sent its session exactly one answer, with
  the id of its request, and every other session nothing.
\<close>
theorem deferred_polls_resolved:
  assumes "daemon_inv d"
  shows "(\<forall>p \<in> set (d_polls (resolve_pending_polls pretty inst d)).
      inst < p_deadline p \<and> \<not> poll_ripe inst p (resolve_pending_polls pretty inst d)) \<and>
    (\<forall>p \<in> set (d_polls d).
      if p \<in> set (d_polls (resolve_pending_polls pretty inst d))
      then sent_to (p_session p) (resolve_pending_polls pretty inst d) = sent_to (p_session p) d
      else \<exists>es. sent_to (p_session p) (resolve_pending_polls pretty inst d) =
        map_option (\<lambda>xs. xs @ [response (p_request p) (events_result pretty es)]) (sent_to (p_session p) d)) \<and>
    (\<forall>i. i \<notin> p_session ` set (d_polls d) \<longrightarrow>
      sent_to i (resolve_pending_polls pretty inst d) = sent_to i d)"
proof -
  let ?r = "resolve_polls pretty inst (d_polls d) d"
  have r: "resolve_pending_polls pretty inst d = (snd ?r)\<lparr>d_polls := fst ?r\<rparr>"
    by (simp add: resolve_pending_polls_def case_prod_beta)
  have ripe: "poll_ripe inst p (d'\<lparr>d_polls := ps\<rparr>) = poll_ripe inst p d'" for p d' ps
    by (simp add: poll_ripe_def)
  have "distinct (map p_session (d_polls d))" using assms by (simp add: daemon_inv_def)
  note one = resolve_one [OF this, of _ pretty inst d]
  have kept: "\<not> poll_ripe inst p (snd ?r)" if "p \<in> set (fst ?r)" for p
    using that by (rule resolve_kept_unripe [OF assms])
  then have late: "inst < p_deadline p" if "p \<in> set (fst ?r)" for p
    using that by (auto simp: poll_ripe_iff not_le)
  have polls: "d_polls (resolve_pending_polls pretty inst d) = fst ?r"
    "sent_to i (resolve_pending_polls pretty inst d) = sent_to i (snd ?r)"
    "poll_ripe inst p (resolve_pending_polls pretty inst d) = poll_ripe inst p (snd ?r)" for i p
    by (simp_all add: r ripe)
  show ?thesis
    unfolding polls using kept late one resolve_other [of _ "d_polls d" pretty inst d]
    by (intro conjI ballI allI impI) blast+
qed

text \<open>
  C24. A second poll of the same session silently drops the first: its id is no longer among the
  deferred polls, and neither the second request nor anything later answers it.
\<close>
theorem superseded_poll_dropped:
  assumes "daemon_inv d" and "p \<in> set (d_polls d)" and "p_session p = i" and "p_request p \<noteq> q"
    and "find_session_agent i (d_sessions d) = Some a"
    and "request = jobj [(''id'', q), (''method'', JStr ''tools/call''),
      (''params'', jobj [(''name'', JStr ''poll_events''), (''arguments'', jobj [(''timeout_ms'', jnat t)])])]"
    and "0 < t" and "events_for i d = []" and "queue (queue_of (br_routing (d_bridge d)) a) = []"
  shows "p_request p \<notin> p_request ` {x \<in> set (d_polls (handle_request env now inst i request d)). p_session x = i} \<and>
    (\<forall>j. sent_to j (handle_request env now inst i request d) = sent_to j d)"
proof -
  have req: "jget ''id'' request = Some q" "Option.bind (jget ''method'' request) as_str = Some ''tools/call''"
      "Option.bind (jget ''params'' request) (\<lambda>y. Option.bind (jget ''name'' y) as_str) = Some ''poll_events''"
      "tool_arguments request = jobj [(''timeout_ms'', jnat t)]"
    by (simp_all add: assms(6) jget_jobj tool_arguments_def)
  have t: "0 < poll_timeout (jobj [(''timeout_ms'', jnat t)])"
    using assms(7) by (simp add: poll_timeout_def jget_jobj jnat_def as_u64_def)
  have es: "fst (drain_session_events i (d_sessions d)) = []"
    using assms(8) by (auto simp: drain_session_events_def drain_events_def events_for_def split: option.splits)
  obtain ss where ss: "drain_session_events i (d_sessions d) = ([], ss)"
    using es by (cases "drain_session_events i (d_sessions d)") simp
  obtain b where b: "drain_queue a (d_bridge d) = ([], b)"
    using assms(9) by (simp add: drain_queue_def queue_drain_def)
  let ?p = "\<lparr>p_session = i, p_agent = a, p_deadline = inst + poll_timeout (jobj [(''timeout_ms'', jnat t)]), p_request = q\<rparr>"
  have av: "tool_available ''poll_events'' (Some a)" by (cases a) (simp_all add: tool_available_def)
  have h: "handle_request env now inst i request d =
      d\<lparr>d_sessions := ss, d_bridge := b, d_polls := filter (\<lambda>p. p_session p \<noteq> i) (d_polls d) @ [?p]\<rparr>"
    using t by (simp add: handle_request_def req assms(5) method_result_def call_tool_for_def av
        call_poll_events_def ss b)
  have "{x \<in> set (filter (\<lambda>p. p_session p \<noteq> i) (d_polls d) @ [?p]). p_session x = i} = {?p}" by auto
  with assms(4) show ?thesis by (simp add: h sent_to_drain [OF ss])
qed

text \<open>
  C25. The agents other than Codex cannot reach the Codex device: no request of such a session, and
  none of a session that has not said hello, writes to the serial line or takes a sequence number.
\<close>
theorem foreign_requests_leave_line:
  assumes "find_session_agent i (d_sessions d) \<noteq> Some Codex"
  shows "br_serial (d_bridge (handle_request env now inst i request d)) = br_serial (d_bridge d) \<and>
    br_sequence (d_bridge (handle_request env now inst i request d)) = br_sequence (d_bridge d)"
  using foreign_request_line [OF assms, of env now inst request] by (simp add: line_of_def)

section \<open>Witnesses\<close>

text \<open>
  A daemon with the idle bridge, whose device library never opens anything, and two sessions: 1 of
  Hermes, with a deferred poll, and 2 of Codex.
\<close>

definition sample_env :: "plugin_controller bridge_env" where
  "sample_env = \<lparr>e_ops = plugin_ops no_windows, e_to_vec = empty_object_printer, e_next_value = empty_object_parser,
     e_pretty = (\<lambda>_. ''text''), e_view = quiet_desktop, e_files = no_files, e_open_device = (\<lambda>_ _. Inl ''no device''),
     e_from_str = (\<lambda>_. Inl ''expected value''), e_plugin = (\<lambda>i n inbox. (plugin_new i n)\<lparr>pc_inbox := inbox\<rparr>)\<rparr>"

definition sample_session :: "nat \<Rightarrow> agent_id \<Rightarrow> session_handle" where
  "sample_session i a = \<lparr>s_id = i, s_agent = Some a, s_instance = None, s_focus = False, s_sent = [], s_events = []\<rparr>"

definition sample_poll :: pending_poll where
  "sample_poll = \<lparr>p_session = 1, p_agent = Hermes, p_deadline = 9, p_request = jnat 4\<rparr>"

definition sample_daemon :: "plugin_controller daemon" where
  "sample_daemon = (daemon_start sample_env ''none'' None None (\<lambda>_. False) 7 7 idle_bridge)
     \<lparr>d_sessions := [sample_session 1 Hermes, sample_session 2 Codex], d_polls := [sample_poll]\<rparr>"

definition sample_request :: "nat \<Rightarrow> string \<Rightarrow> string \<Rightarrow> json \<Rightarrow> json" where
  "sample_request i m tool v = jobj [(''id'', jnat i), (''method'', JStr m),
     (''params'', jobj [(''name'', JStr tool), (''arguments'', v)])]"

lemma sample_bridge: "d_bridge (daemon_start sample_env ''none'' None None (\<lambda>_. False) 7 7 idle_bridge) = d_bridge sample_daemon"
  by (simp add: sample_daemon_def)

lemma sample_daemon_inv: "daemon_inv sample_daemon"
proof -
  have "bridge_inv (d_bridge sample_daemon)"
    using daemon_inv_bridge [OF start_keeps [OF idle_bridge_inv]] by (simp add: sample_daemon_def)
  then show ?thesis
    by (simp add: daemon_inv_def sample_daemon_def sample_session_def sample_poll_def)
qed

text \<open>A pass in which nothing arrives.\<close>

definition sample_pass :: "plugin_controller pass" where
  "sample_pass = \<lparr>t_inst = 10, t_now = 10, t_arrive = (\<lambda>c. c), t_fetch = (\<lambda>_. FetchRunning), t_messages = [],
     t_serial = [], t_opened = Inl ''no port'', t_codex = (\<lambda>_. None), t_feed = (\<lambda>_ _. None), t_running = (\<lambda>_. False)\<rparr>"

theorem daemon_keeps_invariant_witness:
  "case daemon_run sample_env ''none'' False [sample_pass, sample_pass]
      (daemon_start sample_env ''none'' None None (\<lambda>_. False) 7 7 idle_bridge) of
    Inl _ \<Rightarrow> True | Inr d \<Rightarrow> daemon_inv d"
  by (rule daemon_keeps_invariant [OF idle_bridge_inv])

lemma sample_agents:
  "find_session_agent 1 (d_sessions sample_daemon) = Some Hermes"
  "find_session_agent 2 (d_sessions sample_daemon) = Some Codex"
  by (simp_all add: sample_daemon_def find_session_agent_def find_session_def sample_session_def)

theorem request_answered_or_deferred_witness:
  "sent_to 1 (handle_request sample_env 7 7 2 (sample_request 8 ''tools/list'' ''x'' JNull) sample_daemon) =
     sent_to 1 sample_daemon"
proof -
  have "jget ''id'' (sample_request 8 ''tools/list'' ''x'' JNull) = Some (jnat 8)"
      "Option.bind (jget ''method'' (sample_request 8 ''tools/list'' ''x'' JNull)) as_str = Some ''tools/list''"
      "strip_prefix ''notifications/'' ''tools/list'' = None"
    by (simp_all add: sample_request_def jget_jobj)
  from request_answered_or_deferred [OF sample_agents(2) this, of sample_env 7 7, THEN conjunct1] show ?thesis by simp
qed

theorem deferred_polls_resolved_witness:
  "\<exists>es. sent_to 1 (resolve_pending_polls (\<lambda>_. ''text'') 10 sample_daemon) =
     Some [response (jnat 4) (events_result (\<lambda>_. ''text'') es)]"
proof -
  note all = deferred_polls_resolved [OF sample_daemon_inv, of "\<lambda>_. ''text''" 10]
  have p: "sample_poll \<in> set (d_polls sample_daemon)" "p_session sample_poll = 1" "p_deadline sample_poll = 9"
      "p_request sample_poll = jnat 4" "sent_to 1 sample_daemon = Some []"
    by (simp_all add: sample_daemon_def sample_poll_def sample_session_def sent_to_def find_session_def)
  with all have "sample_poll \<notin> set (d_polls (resolve_pending_polls (\<lambda>_. ''text'') 10 sample_daemon))" by auto
  with all p show ?thesis by fastforce
qed

theorem superseded_poll_dropped_witness:
  "sent_to 1 (handle_request sample_env 7 7 1
     (sample_request 5 ''tools/call'' ''poll_events'' (jobj [(''timeout_ms'', jnat 20)])) sample_daemon) =
   sent_to 1 sample_daemon"
proof -
  have p: "sample_poll \<in> set (d_polls sample_daemon)" "p_session sample_poll = 1" "p_request sample_poll \<noteq> jnat 5"
    by (simp_all add: sample_daemon_def sample_poll_def jnat_def)
  have e: "events_for 1 sample_daemon = []" "queue (queue_of (br_routing (d_bridge sample_daemon)) Hermes) = []"
    by (simp_all add: sample_daemon_def events_for_def find_session_def sample_session_def daemon_start_def
        start_preferences_def start_snapshot_def idle_bridge_def queue_of_def routing_new_def queue_new_def Let_def)
  from superseded_poll_dropped [OF sample_daemon_inv p sample_agents(1) refl _ e, of 20] show ?thesis
    by (simp add: sample_request_def)
qed

theorem foreign_requests_leave_line_witness:
  "br_sequence (d_bridge (handle_request sample_env 7 7 1
     (sample_request 6 ''tools/call'' ''emit_key'' (jobj [(''key'', JStr ''ACT06'')])) sample_daemon)) =
   br_sequence (d_bridge sample_daemon)"
  using foreign_requests_leave_line [of 1 sample_daemon sample_env 7 7] sample_agents(1) by simp

end
