(* ===== verification/Daemon_Effects.thy ===== *)
theory Daemon_Effects
  imports Daemon_Props
begin

text \<open>
  What the steps of the daemon do beyond keeping its invariant: which session gets an event, how the
  task slots are divided, the partition, the feeds, sessions that end, the retries of the serial
  line, and the limits of its start-up.
\<close>

section \<open>Delivery\<close>

lemma on_session_distinct:
  "distinct (map s_id ss) \<Longrightarrow> on_session i f ss = map (\<lambda>s. if s_id s = i then f s else s) ss"
proof (induction ss)
  case (Cons s ss)
  have "map (\<lambda>s. if s_id s = i then f s else s) ss = ss" if "i \<notin> s_id ` set ss"
    using that by (intro map_idI) auto
  with Cons show ?case by auto
qed simp

lemma set_sessions_of: "set (sessions_of a ss) = s_id ` {s \<in> set ss. s_agent s = Some a}"
  by (auto simp: sessions_of_def)

lemma newest_session_iff:
  "newest_session a ss = Some i \<longleftrightarrow> sessions_of a ss \<noteq> [] \<and> i = Max (set (sessions_of a ss))"
  by (auto simp: newest_session_def Max.set_eq_fold simp del: list.set split: list.split)

lemma is_newest_iff:
  assumes "distinct (map s_id ss)" and "s \<in> set ss"
  shows "newest_session a ss = Some (s_id s) \<longleftrightarrow>
    s_agent s = Some a \<and> (\<forall>s' \<in> set ss. s_agent s' = Some a \<longrightarrow> s_id s' \<le> s_id s)"
proof -
  have fin: "finite (set (sessions_of a ss))" by simp
  have mem: "s_id s \<in> set (sessions_of a ss) \<longleftrightarrow> s_agent s = Some a"
    using assms by (auto simp: set_sessions_of distinct_map inj_on_def)
  have "newest_session a ss = Some (s_id s) \<longleftrightarrow>
      s_id s \<in> set (sessions_of a ss) \<and> (\<forall>i \<in> set (sessions_of a ss). i \<le> s_id s)"
    using eq_Max_iff [OF fin, of "s_id s"] by (cases "sessions_of a ss = []") (auto simp: newest_session_iff)
  then show ?thesis unfolding mem by (auto simp: set_sessions_of)
qed

lemma fold_on_sessions:
  assumes "distinct (map s_id ss)" and "\<And>s. s_id (f s) = s_id s" and "distinct is"
  shows "fold (\<lambda>i. on_session i f) is ss = map (\<lambda>s. if s_id s \<in> set is then f s else s) ss"
  using assms(1,3)
proof (induction "is" arbitrary: ss)
  case (Cons i "is")
  let ?ss = "map (\<lambda>s. if s_id s = i then f s else s) ss"
  have "map s_id ?ss = map s_id ss" by (simp add: assms(2))
  then have "distinct (map s_id ?ss)" using Cons.prems(1) by metis
  from Cons.IH [OF this] Cons.prems show ?case
    by (auto simp: on_session_distinct assms(2))
qed simp

text \<open>
  C26. Which sessions get an event of the bridge, with everything they keep. An event addressed to
  the newest session of an agent (a command of the physical catalogue) goes to the session of
  that agent with the highest id, which is the newest connection, through the bounded push; an
  event addressed to a polled feed is appended for every session of its agent; any other event is
  appended for the session whose card it belongs to. Every other session keeps its events.
\<close>
theorem event_reaches_its_sessions:
  assumes "distinct (map s_id ss)"
  shows "deliver (i, e) ss = map (\<lambda>s.
    case catalog_action_agent i of
      Some a \<Rightarrow>
        if s_agent s = Some a \<and> (\<forall>s' \<in> set ss. s_agent s' = Some a \<longrightarrow> s_id s' \<le> s_id s)
        then push_bounded e s else s
    | None \<Rightarrow>
        if (case feed_agent i of Some a \<Rightarrow> s_agent s = Some a | None \<Rightarrow> s_id s = i)
        then s\<lparr>s_events := s_events s @ [e]\<rparr> else s) ss"
proof (cases "catalog_action_agent i")
  case (Some a)
  have id: "map (\<lambda>s. if newest_session a ss = Some (s_id s) then push_bounded e s else s) ss =
      map (\<lambda>s. if s_agent s = Some a \<and> (\<forall>s' \<in> set ss. s_agent s' = Some a \<longrightarrow> s_id s' \<le> s_id s)
        then push_bounded e s else s) ss"
    using assms by (intro map_cong refl) (simp add: is_newest_iff)
  have "deliver (i, e) ss = map (\<lambda>s. if newest_session a ss = Some (s_id s) then push_bounded e s else s) ss"
    using assms Some
    by (cases "newest_session a ss")
      (auto simp: deliver_def push_session_event_def on_session_distinct intro!: map_cong)
  with id Some show ?thesis by simp
next
  case None
  have upd: "append_event e s = s\<lparr>s_events := s_events s @ [e]\<rparr>" for s by (simp add: append_event_def)
  show ?thesis
  proof (cases "feed_agent i")
    case (Some a)
    have "distinct (sessions_of a ss)"
      using assms by (simp add: sessions_of_def distinct_map_filter)
    then have "deliver (i, e) ss =
        map (\<lambda>s. if s_id s \<in> set (sessions_of a ss) then append_event e s else s) ss"
      using assms None Some by (simp add: deliver_def fold_on_sessions append_event_def)
    also have "\<dots> = map (\<lambda>s. if s_agent s = Some a then append_event e s else s) ss"
      using assms by (intro map_cong refl) (auto simp: set_sessions_of distinct_map inj_on_def)
    finally show ?thesis using None Some by (simp add: upd)
  next
    case None2: None
    with None assms show ?thesis by (simp add: deliver_def on_session_distinct upd)
  qed
qed

lemma events_append:
  "find_session i ss = Some s \<Longrightarrow> find_session i (on_session i (append_event e) ss) = Some (append_event e s)"
  by (simp add: find_on_session append_event_def)

lemma deliver_own:
  "catalog_action_agent i = None \<Longrightarrow> feed_agent i = None \<Longrightarrow> deliver (i, e) ss = on_session i (append_event e) ss"
  by (simp add: deliver_def)

lemma deliver_own_all:
  "catalog_action_agent i = None \<Longrightarrow> feed_agent i = None \<Longrightarrow> find_session i ss = Some s \<Longrightarrow>
   find_session i (fold deliver (map (Pair i) es) ss) = Some (s\<lparr>s_events := s_events s @ es\<rparr>)"
proof (induction es arbitrary: s ss)
  case (Cons e es)
  from Cons.IH [OF Cons.prems(1,2) events_append [OF Cons.prems(3)]] Cons.prems
  show ?case by (simp add: deliver_own) (simp add: append_event_def)
qed simp

text \<open>
  C29. The queue of a session. A push through \<open>push_session_event\<close> onto at most 256 events leaves
  the latest 256; onto a longer queue it drops the oldest event for the new one, so the queue
  keeps its length. The queue does get longer: the events of the cards of the session are
  appended by the delivery without any bound.
\<close>
theorem session_queue_limits:
  assumes "find_session i ss = Some s" and "catalog_action_agent i = None" and "feed_agent i = None"
  shows "events_for i (d\<lparr>d_sessions := push_session_event i e ss\<rparr>) =
      (if length (s_events s) \<le> SESSION_EVENTS
       then drop (length (s_events s @ [e]) - SESSION_EVENTS) (s_events s @ [e])
       else tl (s_events s) @ [e]) \<and>
    length (events_for i (d\<lparr>d_sessions := push_session_event i e ss\<rparr>)) =
      (if length (s_events s) < SESSION_EVENTS then length (s_events s) + 1 else length (s_events s)) \<and>
    events_for i (d\<lparr>d_sessions := fold deliver (map (Pair i) own_events) ss\<rparr>) = s_events s @ own_events"
proof -
  have "find_session i (push_session_event i e ss) = Some (push_bounded e s)"
    using assms(1) by (simp add: push_session_event_def find_on_session push_bounded_def)
  then have "events_for i (d\<lparr>d_sessions := push_session_event i e ss\<rparr>) = s_events (push_bounded e s)"
    by (simp add: events_for_def)
  moreover have "s_events (push_bounded e s) =
      (if length (s_events s) \<le> SESSION_EVENTS
       then drop (length (s_events s @ [e]) - SESSION_EVENTS) (s_events s @ [e])
       else tl (s_events s) @ [e])"
    by (auto simp: push_bounded_def drop_Suc SESSION_EVENTS_def)
  moreover have "length (s_events (push_bounded e s)) =
      (if length (s_events s) < SESSION_EVENTS then length (s_events s) + 1 else length (s_events s))"
    by (auto simp: push_bounded_def SESSION_EVENTS_def)
  ultimately show ?thesis
    using deliver_own_all [OF assms(2,3,1), of own_events] by (simp add: events_for_def)
qed

section \<open>The division of the task slots\<close>

lemma length_set_owners [simp]: "length (set_owners slots a ow) = length ow"
  unfolding set_owners_def by (induction slots arbitrary: ow) simp_all

lemma set_owners_nth:
  "s < length ow \<Longrightarrow> set_owners slots a ow ! s = (if s \<in> set slots then Some a else ow ! s)"
  unfolding set_owners_def by (induction slots arbitrary: ow) (simp_all add: nth_list_update)

lemma fold_split:
  assumes "m + length agents = k" and "agents \<noteq> []"
  shows "length (fold (\<lambda>(i, a). set_owners [i * q..<(if i + 1 = k then n else (i + 1) * q)] a) (enumerate m agents) ow) =
      length ow \<and>
    (\<forall>s < length ow. s < n \<longrightarrow>
      fold (\<lambda>(i, a). set_owners [i * q..<(if i + 1 = k then n else (i + 1) * q)] a) (enumerate m agents) ow ! s =
      (if s < m * q then ow ! s
       else Some (agents ! (if q = 0 then length agents - 1 else min (s div q - m) (length agents - 1)))))"
  using assms
proof (induction agents arbitrary: m ow)
  case (Cons a agents)
  show ?case
  proof (cases "agents = []")
    case True
    with Cons.prems show ?thesis by (auto simp: set_owners_nth)
  next
    case False
    with Cons.prems have k: "Suc m + length agents = k" "m + 1 \<noteq> k" by auto
    let ?ow = "set_owners [m * q..<(m + 1) * q] a ow"
    note IH = Cons.IH [OF k(1) False, of ?ow]
    have "(if s < Suc m * q then ?ow ! s
        else Some (agents ! (if q = 0 then length agents - 1 else min (s div q - Suc m) (length agents - 1)))) =
      (if s < m * q then ow ! s
       else Some ((a # agents) ! (if q = 0 then length (a # agents) - 1
         else min (s div q - m) (length (a # agents) - 1))))" if s: "s < length ow" for s
    proof (cases "s < Suc m * q")
      case True
      then have "m * q \<le> s \<Longrightarrow> s div q = m" by (metis div_nat_eqI mult.commute)
      with True s show ?thesis by (auto simp: set_owners_nth)
    next
      case F: False
      show ?thesis
      proof (cases "q = 0")
        case True
        with False F show ?thesis by (simp add: nth_Cons')
      next
        case q: False
        with F have "Suc m \<le> s div q" by (simp add: less_eq_div_iff_mult_less_eq not_less)
        then have "min (s div q - m) (length agents) = Suc (min (s div q - Suc m) (length agents - 1))"
          using False by (cases agents) auto
        with F q show ?thesis by auto
      qed
    qed
    with IH k(2) show ?thesis by simp
  qed
qed simp

text \<open>The explicit owners of a plugin: the last entry of a slot counts.\<close>

lemma fold_overrides:
  "length (fold (\<lambda>(slot, a) ow. ow[slot := Some a]) os ow) = length ow"
  "s < length ow \<Longrightarrow> fold (\<lambda>(slot, a) ow. ow[slot := Some a]) os ow ! s =
     (case map_of (rev os) s of Some a \<Rightarrow> Some a | None \<Rightarrow> ow ! s)"
  by (induction os arbitrary: ow) (auto simp: nth_list_update map_add_def split: option.split)

lemma filter_agents: "length (filter (active_contains active) AGENTS) \<le> 4"
  using length_filter_le [of "active_contains active" AGENTS] by (simp add: AGENTS_def)

lemma special_agents:
  "filter (active_contains active) AGENTS = [Codex, ZCode, Hermes] \<longleftrightarrow>
   active_contains active Codex \<and> active_contains active ZCode \<and> active_contains active Hermes \<and>
   \<not> active_contains active Claude"
  by (simp add: AGENTS_def)

lemma automatic_owners_nth:
  assumes "agents = filter (active_contains active) AGENTS" and "k = length agents" and "s < n"
  shows "length (automatic_owners n active) = n \<and> automatic_owners n active ! s =
      (if agents = [Codex, ZCode, Hermes]
       then map_of [(0, Codex), (1, Codex), (2, Hermes), (3, ZCode), (4, ZCode), (5, Hermes)] s
       else if k = 0 then None
       else Some (agents ! (if n div k = 0 then k - 1 else min (s div (n div k)) (k - 1))))"
proof (cases "agents = [Codex, ZCode, Hermes]")
  case True
  then have special: "active_contains active Codex \<and> active_contains active ZCode \<and>
      active_contains active Hermes \<and> \<not> active_contains active Claude"
    using special_agents assms(1) by simp
  show ?thesis
    using True assms(3) by (simp add: automatic_owners_def special set_owners_nth)
next
  case ne: False
  then have special: "\<not> (active_contains active Codex \<and> active_contains active ZCode \<and>
      active_contains active Hermes \<and> \<not> active_contains active Claude)"
    using special_agents assms(1) by simp
  show ?thesis
  proof (cases "k \<le> 1")
    case True
    then consider "k = 0" | "k = 1" by linarith
    then show ?thesis
      using ne special assms by cases (auto simp: automatic_owners_def hd_conv_nth split: if_splits)
  next
    case False
    then have "agents \<noteq> []" using assms(2) by auto
    have "automatic_owners n active = split_owners n agents (replicate n None)"
      unfolding automatic_owners_def Let_def if_not_P [OF special] assms(1) [symmetric]
      using False assms(2) by simp
    also have "\<dots> = fold (\<lambda>(i, a). set_owners [i * (n div k)..<(if i + 1 = k then n else (i + 1) * (n div k))] a)
        (enumerate 0 agents) (replicate n None)"
      by (simp only: split_owners_def Let_def assms(2) case_prod_unfold)
    finally show ?thesis
      using fold_split [of 0 agents k "n div k" n "replicate n None"] ne \<open>agents \<noteq> []\<close> assms(2,3) False by auto
  qed
qed

text \<open>
  C27. The division of the task slots of the primary device: every slot the plugin assigned has the
  agent of its last entry. For the other slots: when Codex, ZCode and Hermes are active and
  Claude is not, the six cards are shared as two each (0 and 1 Codex, 3 and 4 ZCode, 2 and 5
  Hermes) and slots past them have no owner; with any other two or more active agents a slot
  belongs to one of them in contiguous blocks of \<open>n div k\<close> slots in the order of the agents, the
  last one taking the rest; a single agent has all, and without agents the slots have no owner.
\<close>
theorem task_slots_divided:
  assumes "agents = filter (active_contains active) AGENTS" and "k = length agents" and "s < n"
  shows "length (task_slot_owners n active overrides) = n \<and>
    task_slot_owners n active overrides ! s =
      (case Option.bind overrides (\<lambda>os. map_of (rev os) s) of
         Some a \<Rightarrow> Some a
       | None \<Rightarrow>
           if agents = [Codex, ZCode, Hermes]
           then map_of [(0, Codex), (1, Codex), (2, Hermes), (3, ZCode), (4, ZCode), (5, Hermes)] s
           else if k = 0 then None
           else Some (agents ! (if n div k = 0 then k - 1 else min (s div (n div k)) (k - 1))))"
proof (cases overrides)
  case None
  with automatic_owners_nth [OF assms] show ?thesis by (simp add: task_slot_owners_def)
next
  case (Some os)
  with automatic_owners_nth [OF assms] assms(3) show ?thesis
    by (simp add: task_slot_owners_def fold_overrides split: option.split)
qed

section \<open>What a refresh leaves alone\<close>

lemma auto_select_tasks:
  "tasks (fst (auto_select_waiting dev now tb)) = tasks tb"
  by (auto simp: auto_select_waiting_def Let_def split: option.split prod.split)

lemma auto_event_frame:
  "tasks (br_board (auto_select_event now b)) = tasks (br_board b)"
  "br_routing (auto_select_event now b) = br_routing b" "br_partition (auto_select_event now b) = br_partition b"
  using auto_select_tasks [of "br_device_id b" now "br_board b"]
  by (auto simp: auto_select_event_def Let_def split: prod.split option.split)

lemma detach_frame:
  "tasks (br_board (detach_controller inst b)) = tasks (br_board b)"
  "br_routing (detach_controller inst b) = br_routing b" "br_partition (detach_controller inst b) = br_partition b"
  by (simp_all add: detach_controller_def schedule_controller_retry_def)

lemma refresh_aux_frame:
  "tasks (br_board (snd (refresh_aux ops rgb ds b))) = tasks (br_board b) \<and>
   br_routing (snd (refresh_aux ops rgb ds b)) = br_routing b \<and>
   br_partition (snd (refresh_aux ops rgb ds b)) = br_partition b"
proof (induction ds arbitrary: b)
  case (Cons x ds)
  obtain device dev slots where "x = (device, dev, slots)" by (cases x)
  with Cons show ?case by (simp add: case_prod_beta set_device_def split: prod.split sum.split)
qed simp

lemma refresh_frame [simp]:
  "tasks (br_board (pass_refresh env p b)) = tasks (br_board b)"
  "br_routing (pass_refresh env p b) = br_routing b" "br_partition (pass_refresh env p b) = br_partition b"
  by (auto simp: pass_refresh_def refresh_def refresh_task_board_def Let_def case_prod_beta refresh_aux_frame
      auto_event_frame detach_frame split: option.split sum.split)

section \<open>Partition\<close>

lemma push_partition_queues:
  assumes "routing_wf r" and "distinct agents"
  shows "queue_of (fold (\<lambda>a. push_partition_event a new_part all now) agents r) b =
    (if b \<in> set agents
     then queue_push (PartitionEvent (keys_for new_part b) (slots_for new_part b) (map agent_str all) now) (queue_of r b)
     else queue_of r b)"
  using assms
proof (induction agents arbitrary: r)
  case (Cons a agents)
  then show ?case by (auto simp: push_partition_event_def queue_of_queue_mut)
qed simp

lemma iter_distinct: "distinct (active_iter s)"
  by (simp add: active_iter_def AGENTS_def)

text \<open>
  C28. A new partition: nothing happens before the end of the debounce period; then the keys and
  slots are divided by \<open>partition_compute\<close> over the agents that are active now, each of these gets
  one partition event with its own keys and slots, and the other queues stay as they are.
\<close>
theorem repartition_notifies:
  assumes "daemon_inv d" and "d_repartition_at d = Some due"
  shows "if due \<le> t_inst p
    then d_repartition_at (repartition_step env p d) = None \<and>
      br_partition (d_bridge (repartition_step env p d)) = partition_compute (active_now d) \<and>
      (\<forall>a. queue_of (br_routing (d_bridge (repartition_step env p d))) a =
        (if a \<in> set (active_iter (active_now d))
         then queue_push (PartitionEvent (keys_for (partition_compute (active_now d)) a)
             (slots_for (partition_compute (active_now d)) a) (map agent_str (active_iter (active_now d))) (t_now p))
             (queue_of (br_routing (d_bridge d)) a)
         else queue_of (br_routing (d_bridge d)) a))
    else repartition_step env p d = d"
proof -
  have "routing_wf (br_routing (d_bridge d))"
    using daemon_inv_bridge [OF assms(1)] by (simp add: bridge_inv_def)
  then show ?thesis
    by (simp add: repartition_step_def assms(2) on_bridge_def apply_partition_def Let_def
        push_partition_queues iter_distinct active_now_def)
qed

section \<open>Feeds\<close>

lemma tasks_remove_cards: "tasks (remove_cards ids tb) = filter (\<lambda>(i, t). i \<notin> set ids) (tasks tb)"
  unfolding remove_cards_def
proof (induction ids arbitrary: tb)
  case (Cons i ids)
  then show ?case
    by (simp add: remove_card_def AList.delete_eq) (rule filter_cong, auto)
qed (simp add: case_prod_beta)

lemma tasks_clear_session:
  assumes "distinct (map fst (tasks tb))"
  shows "tasks (clear_session session tb) = filter (\<lambda>(i, t). owner_session t \<noteq> session) (tasks tb)"
proof -
  have "(i \<in> set (ids_where (\<lambda>_ t. owner_session t = session) tb)) = (owner_session t = session)"
    if "(i, t) \<in> set (tasks tb)" for i t
    using that assms by (auto simp: ids_where_def image_iff) (metis Pair_inject assms eq_key_imp_eq_value)
  then have "filter (\<lambda>(i, t). i \<notin> set (ids_where (\<lambda>_ t. owner_session t = session) tb)) (tasks tb) =
      filter (\<lambda>(i, t). owner_session t \<noteq> session) (tasks tb)"
    by (intro filter_cong) auto
  then show ?thesis
    by (cases "ids_where (\<lambda>_ t. owner_session t = session) tb = []")
      (simp_all add: clear_session_def Let_def tasks_remove_cards case_prod_beta)
qed

text \<open>
  The feed of a desktop app yields to an explicit publication: while another session has cards
  of its agent, and while neither the app nor a session of the agent is there, it publishes
  nothing, forgets its next poll, and exactly its own cards are gone from the board.
\<close>
theorem feed_yields:
  assumes "daemon_inv d"
    and "has_agent_tasks_except a session (br_board (d_bridge d)) \<or>
      \<not> desktop_active a d \<and> (\<forall>s \<in> set (d_sessions d). s_agent s \<noteq> Some a)"
  shows "fst (feed_step env p a session first_delay due d) = None \<and>
    tasks (br_board (d_bridge (snd (feed_step env p a session first_delay due d)))) =
      filter (\<lambda>(i, t). owner_session t \<noteq> session) (tasks (br_board (d_bridge d)))"
proof -
  let ?ts = "tasks (br_board (d_bridge d))"
  have dist: "distinct (map fst ?ts)"
    using daemon_inv_bridge [OF assms(1)] by (simp add: bridge_inv_def board_inv_def board_wf_def tasks_wf_def hm_invar_def)
  have "filter (\<lambda>(i, t). owner_session t \<noteq> session) ?ts = ?ts" if "\<not> has_session_tasks session (br_board (d_bridge d))"
    using that by (auto simp: has_session_tasks_def list_ex_iff filter_id_conv)
  with assms(2) show ?thesis
    by (auto simp: feed_step_def Let_def on_bridge_def tasks_clear_session [OF dist])
qed

section \<open>Sessions that end\<close>

definition forgotten :: "nat \<Rightarrow> 'c daemon \<Rightarrow> bool" where
  "forgotten i d \<longleftrightarrow> find_session i (d_sessions d) = None \<and> fst (remove_plugin_session i (d_plugins d)) = None"

lemma find_remove_other: "j \<noteq> i \<Longrightarrow> find_session j (remove_session i ss) = find_session j ss"
  by (induction ss) (auto simp: find_session_def remove_session_def)

lemma close_forgets:
  assumes "fst (remove_plugin_session i (d_plugins d)) = None"
  shows "forgotten i (close_session env p i d) \<and>
    (\<forall>j. j \<noteq> i \<longrightarrow> sent_to j (close_session env p i d) = sent_to j d)"
proof -
  obtain ps where "remove_plugin_session i (d_plugins d) = (None, ps)"
    using assms by (cases "remove_plugin_session i (d_plugins d)") simp
  then show ?thesis
    by (auto simp: close_session_def Let_def on_bridge_def forgotten_def find_removed sent_to_def
        find_remove_other split: option.split)
qed

lemma request_forgotten:
  assumes "forgotten i d"
  shows "forgotten i (handle_request env now inst i request d)"
proof -
  have "find_session_agent i (d_sessions d) = None"
    using assms by (simp add: forgotten_def find_session_agent_def)
  moreover have "forgotten i (reply i m d)" for m
    using assms by (simp add: forgotten_def reply_def send_to_session_def find_on_session)
  ultimately show ?thesis
    using assms by (simp add: handle_request_def Let_def split: option.split)
qed

lemma closed_forgotten:
  "forgotten i d \<Longrightarrow> forgotten i (close_session env p i d) \<and> sent_to j (close_session env p i d) = sent_to j d"
  using close_forgets [of i d env p] by (cases "j = i") (auto simp: forgotten_def sent_to_def)

lemma lines_forgotten:
  "forgotten i d \<Longrightarrow> sent_to j (fold (on_message env p) (mcp_lines from_str i ls) d) = sent_to j d"
proof (induction from_str i ls arbitrary: d rule: mcp_lines.induct)
  case (3 from_str i l ls)
  have "forgotten i (on_message env p (forward_mcp_line from_str i l) d) \<and>
      sent_to j (on_message env p (forward_mcp_line from_str i l) d) = sent_to j d"
    using 3(3) closed_forgotten [OF 3(3)] request_forgotten [OF 3(3)] request_nobody [of i d]
    by (simp add: forward_mcp_line_def forgotten_def split: sum.split)
  with 3 show ?case by (cases "trim l = []") auto
qed (simp_all add: closed_forgotten)

text \<open>
  A line that is not JSON ends its session in the main loop although its connection goes on:
  after it no request of the session is answered, whatever its later lines are, and the other
  sessions are sent nothing by them either.
\<close>
theorem invalid_line_silences_session:
  assumes "from_str l = Inl e" and "trim l \<noteq> []" and "fst (remove_plugin_session i (d_plugins d)) = None"
  shows "find_session i (d_sessions (on_message env p (forward_mcp_line from_str i l) d)) = None \<and>
    (\<forall>j. sent_to j (fold (on_message env p) (mcp_lines from_str i (Line l # ls)) d) =
      (if j = i then None else sent_to j d))"
proof -
  let ?d = "on_message env p (forward_mcp_line from_str i l) d"
  have f: "forgotten i ?d" "\<And>j. j \<noteq> i \<Longrightarrow> sent_to j ?d = sent_to j d"
    using close_forgets [OF assms(3), of env p] by (simp_all add: forward_mcp_line_def assms(1))
  moreover have "sent_to i ?d = None" using f(1) by (simp add: forgotten_def sent_to_def)
  ultimately show ?thesis
    using assms(2) lines_forgotten [OF f(1), of _ env p from_str ls] by (simp add: forgotten_def)
qed

section \<open>The serial line\<close>

lemma replace_failed:
  "port \<noteq> ''none'' \<Longrightarrow> replace_runtime port (Inl e) inst b = (Inl e, b\<lparr>br_serial := None\<rparr>)"
  by (simp add: replace_runtime_def)

text \<open>
  Retries of the serial line: as long as the port cannot be opened, the delay between two
  attempts doubles from 100 ms up to ten seconds, the bridge runs without a serial line, and the
  first success puts the delay back to 100 ms.
\<close>
theorem serial_retry_backoff:
  assumes "port \<noteq> ''none''" and "\<forall>p \<in> set ps. \<exists>e. t_opened p = Inl e" and "t_opened good = Inr opened"
    and "d_retry_delay d = SERIAL_RETRY_INITIAL_DELAY"
  shows "d_retry_delay (fold (retry_serial_connection port) ps d) =
      min (SERIAL_RETRY_INITIAL_DELAY * 2 ^ length ps) DAEMON_SERIAL_RETRY_MAX_DELAY \<and>
    (ps \<noteq> [] \<longrightarrow> \<not> has_serial (d_bridge (fold (retry_serial_connection port) ps d)) \<and>
      d_retry_at (fold (retry_serial_connection port) ps d) =
        Some (t_inst (last ps) + min (SERIAL_RETRY_INITIAL_DELAY * 2 ^ (length ps - 1)) DAEMON_SERIAL_RETRY_MAX_DELAY)) \<and>
    (let d' = retry_serial_connection port good (fold (retry_serial_connection port) ps d) in
      has_serial (d_bridge d') \<and> d_retry_at d' = None \<and> d_retry_delay d' = SERIAL_RETRY_INITIAL_DELAY)"
proof -
  let ?fail = "fold (retry_serial_connection port)"
  have step: "retry_serial_connection port p d =
      d\<lparr>d_bridge := (d_bridge d)\<lparr>br_serial := None\<rparr>, d_retry_at := Some (t_inst p + d_retry_delay d),
        d_retry_delay := min (d_retry_delay d * 2) DAEMON_SERIAL_RETRY_MAX_DELAY\<rparr>" if "t_opened p = Inl e" for p d e
    using that assms(1) by (simp add: retry_serial_connection_def replace_failed)
  have delay: "d_retry_delay (?fail ps d) = min (SERIAL_RETRY_INITIAL_DELAY * 2 ^ length ps) DAEMON_SERIAL_RETRY_MAX_DELAY"
    if "\<forall>p \<in> set ps. \<exists>e. t_opened p = Inl e" for ps
    using that
  proof (induction ps rule: rev_induct)
    case Nil
    show ?case using assms(4) by (simp add: SERIAL_RETRY_INITIAL_DELAY_def DAEMON_SERIAL_RETRY_MAX_DELAY_def)
  next
    case (snoc p ps)
    then obtain e where "t_opened p = Inl e" by auto
    with snoc step [of p e "?fail ps d"] show ?case by simp
  qed
  have at: "\<not> has_serial (d_bridge (?fail ps d)) \<and> d_retry_at (?fail ps d) =
      Some (t_inst (last ps) + min (SERIAL_RETRY_INITIAL_DELAY * 2 ^ (length ps - 1)) DAEMON_SERIAL_RETRY_MAX_DELAY)"
    if "ps \<noteq> []"
  proof -
    from that obtain qs p where ps: "ps = qs @ [p]" by (cases ps rule: rev_cases) auto
    with assms(2) obtain e where e: "t_opened p = Inl e" by auto
    have "d_retry_delay (?fail qs d) = min (SERIAL_RETRY_INITIAL_DELAY * 2 ^ length qs) DAEMON_SERIAL_RETRY_MAX_DELAY"
      using assms(2) by (intro delay) (simp add: ps)
    moreover have "?fail ps d = retry_serial_connection port p (?fail qs d)" by (simp add: ps)
    ultimately show ?thesis unfolding step [OF e] by (simp add: has_serial_def ps)
  qed
  have good: "has_serial (d_bridge (retry_serial_connection port good d')) \<and>
      d_retry_at (retry_serial_connection port good d') = None \<and>
      d_retry_delay (retry_serial_connection port good d') = SERIAL_RETRY_INITIAL_DELAY" for d'
    using assms(1,3) by (simp add: retry_serial_connection_def replace_runtime_def has_serial_def case_prod_beta Let_def
        split: prod.split)
  from delay [OF assms(2)] at good show ?thesis by (simp add: Let_def)
qed

section \<open>Start-up and tools\<close>

lemma auto_select_devices: "devices (fst (auto_select_waiting dev now tb)) = devices tb"
  by (auto simp: auto_select_waiting_def Let_def split: option.split prod.split)

lemma auto_event_devices:
  "br_aux (auto_select_event now b) = br_aux b" "devices (br_board (auto_select_event now b)) = devices (br_board b)"
  using auto_select_devices [of "br_device_id b" now "br_board b"]
  by (auto simp: auto_select_event_def Let_def split: prod.split option.split)

lemma replay_aux:
  "replay_primary_controller_state ops now b = (r, b') \<Longrightarrow>
   br_aux b' = br_aux b \<and> devices (br_board b') = devices (br_board b)"
  by (auto simp: replay_primary_controller_state_def auto_event_devices Let_def case_prod_beta split: option.splits)

lemma connect_aux_registers:
  assumes "connect_aux ops open_device specs tb = Inr (aux, tb')"
  shows "length aux = length specs \<and> fst ` set (devices tb) \<subseteq> fst ` set (devices tb') \<and>
    (\<forall>(device, dev, slots) \<in> set aux. 0 < slots \<longrightarrow> device \<in> fst ` set (devices tb'))"
  using assms
proof (induction specs arbitrary: tb aux)
  case (Cons spec specs)
  from Cons.prems obtain dev device slots ds tb2
    where aux: "aux = (device, dev, slots) # ds"
      and rest: "connect_aux ops open_device specs tb2 = Inr (ds, tb')"
      and tb2: "tb2 = (if 0 < slots then set_device device slots True tb else tb)"
    by (auto simp: res_bind_def Let_def split: sum.splits prod.splits)
  have "fst ` set (devices tb2) = (if 0 < slots then insert device (fst ` set (devices tb)) else fst ` set (devices tb))"
    by (simp add: tb2 set_device_def)
  with Cons.IH [OF rest] show ?case by (auto simp: aux split: if_splits)
qed simp

text \<open>
  The auxiliary devices of the command line are lost at start-up: each is opened, and those
  with slots are on the task board, which gives them cards, but the bridge that \<open>open_runtime\<close>
  returns has no auxiliary controller.
\<close>
theorem start_drops_auxiliary_devices:
  assumes "open_runtime ops open_device options opened now inst = Inr b"
  shows "br_aux b = [] \<and> (\<exists>tb aux tb'. connect_aux ops open_device (drop 1 (opt_devices options)) tb = Inr (aux, tb') \<and>
    length aux = length (opt_devices options) - 1 \<and>
    (\<forall>(device, dev, slots) \<in> set aux. 0 < slots \<longrightarrow> device \<in> fst ` set (devices (br_board b))))"
proof -
  from assms obtain tb aux tb' where c: "connect_aux ops open_device (drop 1 (opt_devices options)) tb = Inr (aux, tb')"
      and b: "br_aux b = []" "devices (br_board b) = devices tb'"
    by (auto simp: open_runtime_def Let_def res_bind_def dest!: replay_aux split: sum.splits prod.splits)
  from b connect_aux_registers [OF c] c show ?thesis by (intro conjI exI) auto
qed

text \<open>
  The MCP mode without the daemon lists \<open>publish_tasks\<close> among its tools, and the tool is
  unknown when it is called.
\<close>
theorem publish_tasks_not_served:
  "map tool_name all_tools = [''bridge_status'', ''emit_key'', ''send_codex_message'', ''set_thread_status'',
      ''publish_tasks'', ''set_display_context'', ''set_rgb_config'', ''device_status'', ''poll_events''] \<and>
   call_tool env inst passes (sample_request i ''tools/call'' ''publish_tasks'' v) b =
     Some (tool_error ''unknown MCP tool: publish_tasks'', b)"
proof
  show "map tool_name all_tools = [''bridge_status'', ''emit_key'', ''send_codex_message'', ''set_thread_status'',
      ''publish_tasks'', ''set_display_context'', ''set_rgb_config'', ''device_status'', ''poll_events'']"
    by (simp add: all_tools_def tool_name_def tool_entry_def poll_events_tool_def jget_jobj)
  show "call_tool env inst passes (sample_request i ''tools/call'' ''publish_tasks'' v) b =
      Some (tool_error ''unknown MCP tool: publish_tasks'', b)"
    by (simp add: call_tool_def sample_request_def jget_jobj Let_def)
qed

section \<open>Witnesses\<close>

definition lost_port :: serial_port where
  "lost_port = \<lparr>port_bytes = [], port_room = Some 0, port_error = ''gone''\<rparr>"

definition sample_three :: "session_handle list" where
  "sample_three = [sample_session 1 Hermes, sample_session 3 Hermes, sample_session 2 Codex]"

theorem event_reaches_its_sessions_witness:
  "deliver (catalog_action_session Hermes, JNull) sample_three =
     [sample_session 1 Hermes, push_bounded JNull (sample_session 3 Hermes), sample_session 2 Codex] \<and>
   deliver (2, JNull) sample_three =
     [sample_session 1 Hermes, sample_session 3 Hermes, (sample_session 2 Codex)\<lparr>s_events := [JNull]\<rparr>]"
proof -
  have d: "distinct (map s_id sample_three)" by (simp add: sample_three_def sample_session_def)
  show ?thesis
    using event_reaches_its_sessions [OF d, of "catalog_action_session Hermes" JNull]
      event_reaches_its_sessions [OF d, of 2 JNull]
    by (simp add: sample_three_def sample_session_def catalog_action_agent_def feed_agent_def
        ZCODE_POLL_SESSION_def HERMES_POLL_SESSION_def CLAUDE_POLL_SESSION_def)
qed

theorem session_queue_limits_witness:
  "events_for 1 (sample_daemon\<lparr>d_sessions := fold deliver (map (Pair 1) (replicate 1000 JNull)) sample_three\<rparr>) =
     replicate 1000 JNull"
  using session_queue_limits [of 1 sample_three "sample_session 1 Hermes" JNull sample_daemon "replicate 1000 JNull"]
  by (simp add: sample_three_def sample_session_def find_session_def catalog_action_agent_def
      feed_agent_def ZCODE_POLL_SESSION_def HERMES_POLL_SESSION_def CLAUDE_POLL_SESSION_def)

theorem task_slots_divided_witness:
  "task_slot_owners 5 (active_insert Hermes (active_from_single Codex)) (Some [(4, ZCode)]) ! 3 = Some Hermes \<and>
   task_slot_owners 6 (active_insert Hermes (active_insert ZCode (active_from_single Codex))) None ! 3 = Some ZCode"
proof -
  have two: "[Codex, Hermes] = filter (active_contains (active_insert Hermes (active_from_single Codex))) AGENTS"
    by code_simp
  have three: "[Codex, ZCode, Hermes] =
      filter (active_contains (active_insert Hermes (active_insert ZCode (active_from_single Codex)))) AGENTS"
    by code_simp
  from task_slots_divided [OF two, of 2 3 5 "Some [(4, ZCode)]"] task_slots_divided [OF three, of 3 3 6 None]
  show ?thesis by simp
qed

theorem repartition_notifies_witness:
  "d_repartition_at (repartition_step sample_env sample_pass (sample_daemon\<lparr>d_repartition_at := Some 9\<rparr>)) = None \<and>
   repartition_step sample_env sample_pass (sample_daemon\<lparr>d_repartition_at := Some 20\<rparr>) =
     sample_daemon\<lparr>d_repartition_at := Some 20\<rparr>"
  using repartition_notifies [of "sample_daemon\<lparr>d_repartition_at := Some 9\<rparr>" 9 sample_pass sample_env]
    repartition_notifies [of "sample_daemon\<lparr>d_repartition_at := Some 20\<rparr>" 20 sample_pass sample_env] sample_daemon_inv
  by (simp add: sample_pass_def daemon_inv_def)

theorem feed_yields_witness:
  "fst (feed_step sample_env sample_pass ZCode ZCODE_POLL_SESSION 0 None sample_daemon) = None"
  using feed_yields [OF sample_daemon_inv, of ZCode ZCODE_POLL_SESSION sample_env sample_pass 0 None]
  by (simp add: sample_daemon_def sample_session_def desktop_active_def)

theorem invalid_line_silences_session_witness:
  "sent_to 1 (fold (on_message sample_env sample_pass)
     (mcp_lines (e_from_str sample_env) 1 [Line ''{'', Line ''{}'']) sample_daemon) = None"
proof -
  have "e_from_str sample_env ''{'' = Inl ''expected value''" by (simp add: sample_env_def)
  moreover have "trim ''{'' \<noteq> []" by (simp add: trim_byte)
  moreover have "fst (remove_plugin_session 1 (d_plugins sample_daemon)) = None"
    by (simp add: sample_daemon_def)
  ultimately have "\<forall>j. sent_to j (fold (on_message sample_env sample_pass)
      (mcp_lines (e_from_str sample_env) 1 [Line ''{'', Line ''{}'']) sample_daemon) =
      (if j = 1 then None else sent_to j sample_daemon)"
    by (rule invalid_line_silences_session [THEN conjunct2])
  then show ?thesis by (simp only: simp_thms if_True)
qed

theorem serial_retry_backoff_witness:
  "d_retry_delay (fold (retry_serial_connection ''COM3'') (replicate 9 sample_pass) sample_daemon) = 10000"
  using serial_retry_backoff [of "''COM3''" "replicate 9 sample_pass" "sample_pass\<lparr>t_opened := Inr (lost_port, [], [], 1)\<rparr>"
      "(lost_port, [], [], 1)" sample_daemon]
  by (simp add: sample_pass_def sample_daemon_def
      SERIAL_RETRY_INITIAL_DELAY_def DAEMON_SERIAL_RETRY_MAX_DELAY_def)

text \<open>Start-up with a primary plugin-free set of two devices.\<close>

definition sample_options :: bridge_options where
  "sample_options = \<lparr>opt_port = ''none'', opt_controller = NoController, opt_controller_serial = None,
     opt_devices = [\<lparr>spec_kind = NoController, spec_serial = None, spec_slots = None\<rparr>,
       \<lparr>spec_kind = Ajazz, spec_serial = None, spec_slots = Some 6\<rparr>]\<rparr>"

theorem start_drops_auxiliary_devices_witness:
  "\<exists>b. open_runtime (plugin_ops no_windows) (\<lambda>_ _. Inr (plugin_new ''x'' 6)) sample_options (Inl ''unused'') 0 0 = Inr b \<and>
     br_aux b = [] \<and> (\<exists>tb aux tb'. connect_aux (plugin_ops no_windows) (\<lambda>_ _. Inr (plugin_new ''x'' 6))
       [\<lparr>spec_kind = Ajazz, spec_serial = None, spec_slots = Some 6\<rparr>] tb = Inr (aux, tb') \<and> length aux = 1)"
proof -
  have "\<exists>b. open_runtime (plugin_ops no_windows) (\<lambda>_ _. Inr (plugin_new ''x'' 6)) sample_options (Inl ''unused'') 0 0 = Inr b"
    by (simp add: open_runtime_def sample_options_def open_serial_def connect_controller_def res_bind_def ok_or_def
        replay_primary_controller_state_def auto_select_event_def Let_def case_prod_beta
        split: option.split prod.split)
  then obtain b where b: "open_runtime (plugin_ops no_windows) (\<lambda>_ _. Inr (plugin_new ''x'' 6)) sample_options
      (Inl ''unused'') 0 0 = Inr b" by blast
  have "drop 1 (opt_devices sample_options) = [\<lparr>spec_kind = Ajazz, spec_serial = None, spec_slots = Some 6\<rparr>]"
      "length (opt_devices sample_options) - 1 = 1"
    by (simp_all add: sample_options_def)
  with start_drops_auxiliary_devices [OF b] b show ?thesis by metis
qed

end
