(* ===== verification/Feed_Text.thy ===== *)
theory Feed_Text
  imports Bridge_Serial Task_Model
begin

text \<open>
  What the state feeds share: pieces of text (\<open>str\<close> methods of the standard library), the complete
  lines of a growing file, and the loop that reads such a file from a remembered offset on.
\<close>

section \<open>Text\<close>

definition valid_utf8 :: "string \<Rightarrow> bool" where
  "valid_utf8 s \<longleftrightarrow> utf8_ok (map of_char s)"

definition contains :: "string \<Rightarrow> string \<Rightarrow> bool" where
  "contains d s \<longleftrightarrow> split_once d s \<noteq> None"

definition starts_with :: "string \<Rightarrow> string \<Rightarrow> bool" where
  "starts_with p s \<longleftrightarrow> strip_prefix p s \<noteq> None"

definition ends_with :: "string \<Rightarrow> string \<Rightarrow> bool" where
  "ends_with p s \<longleftrightarrow> strip_prefix (rev p) (rev s) \<noteq> None"

definition trim_start :: "string \<Rightarrow> string" where
  "trim_start s = concat (dropWhile white_space (utf8_chunks s))"

text \<open>\<open>split_whitespace\<close>: the maximal runs of scalar values that are not white space.\<close>

fun ws_fields :: "string \<Rightarrow> string list \<Rightarrow> string list" where
  "ws_fields acc [] = (if acc = [] then [] else [acc])"
| "ws_fields acc (w # ws) =
     (if white_space w then (if acc = [] then [] else [acc]) @ ws_fields [] ws
      else ws_fields (acc @ w) ws)"

definition split_whitespace :: "string \<Rightarrow> string list" where
  "split_whitespace s = ws_fields [] (utf8_chunks s)"

section \<open>Complete lines\<close>

fun complete_lines :: "string \<Rightarrow> string list" where
  "complete_lines [] = []"
| "complete_lines (c # s) =
     (if c = CHR 0x0A then [c] # complete_lines s
      else (case complete_lines s of [] \<Rightarrow> [] | l # ls \<Rightarrow> (c # l) # ls))"

text \<open>
  The loop over the lines of a file from the offset on: each complete line is handed to \<open>step\<close> and
  the offset moves behind it; an incomplete last line is left for the next time. The flag tells
  whether all lines could be read: \<open>read_line\<close> fails at a line that is not UTF-8.
\<close>

fun read_lines :: "(string \<Rightarrow> 's \<Rightarrow> 's) \<Rightarrow> string list \<Rightarrow> nat \<times> 's \<Rightarrow> bool \<times> nat \<times> 's" where
  "read_lines step [] c = (True, c)"
| "read_lines step (l # ls) (offset, s) =
     (if valid_utf8 l then read_lines step ls (offset + length l, step l s) else (False, offset, s))"

definition read_from :: "(string \<Rightarrow> 's \<Rightarrow> 's) \<Rightarrow> string \<Rightarrow> nat \<times> 's \<Rightarrow> bool \<times> nat \<times> 's" where
  "read_from step content c = read_lines step (complete_lines (drop (fst c) content)) c"

lemma complete_lines_cut:
  "complete_lines s = l # ls \<Longrightarrow>
   \<exists>r. s = l @ r \<and> complete_lines r = ls \<and> (\<forall>t. complete_lines (l @ t) = l # complete_lines t)"
proof (induction s arbitrary: l)
  case (Cons c s)
  show ?case
  proof (cases "c = CHR 0x0A")
    case True
    with Cons.prems show ?thesis by auto
  next
    case False
    with Cons.prems obtain m where m: "complete_lines s = m # ls" "l = c # m"
      by (auto split: list.splits)
    from Cons.IH [OF m(1)] False m(2) show ?thesis by auto
  qed
qed simp

text \<open>
  Reading in two steps is reading at once, whatever the first step found: the rest of a line that
  was incomplete, or a line it could not read, is read the second time.
\<close>

lemma read_lines_resume:
  assumes "read_lines step (complete_lines s) (offset, st) = (ok, offset', st')"
  shows "offset \<le> offset' \<and> offset' - offset \<le> length s \<and>
    read_lines step (complete_lines (drop (offset' - offset) (s @ t))) (offset', st') =
    read_lines step (complete_lines (s @ t)) (offset, st)"
proof -
  have "read_lines step ls (offset, st) = (ok, offset', st') \<Longrightarrow> complete_lines s = ls \<Longrightarrow>
      offset \<le> offset' \<and> offset' - offset \<le> length s \<and>
      read_lines step (complete_lines (drop (offset' - offset) (s @ t))) (offset', st') =
      read_lines step (complete_lines (s @ t)) (offset, st)" for ls
  proof (induction ls arbitrary: s offset st)
    case (Cons l ls)
    obtain r where r: "s = l @ r" "complete_lines r = ls" "\<And>t. complete_lines (l @ t) = l # complete_lines t"
      using complete_lines_cut [OF Cons.prems(2)] by blast
    show ?case
    proof (cases "valid_utf8 l")
      case True
      with Cons.IH [OF _ r(2), of "offset + length l" "step l st"] Cons.prems(1)
      have IH: "offset + length l \<le> offset'" "offset' - (offset + length l) \<le> length r"
          "read_lines step (complete_lines (drop (offset' - (offset + length l)) (r @ t))) (offset', st') =
           read_lines step (complete_lines (r @ t)) (offset + length l, step l st)"
        by auto
      have "drop (offset' - offset) (s @ t) = drop (offset' - (offset + length l)) (r @ t)"
        using IH(1) r(1) by simp
      with IH True r(1,3) show ?thesis by simp
    next
      case False
      with Cons.prems r show ?thesis by simp
    qed
  qed simp
  with assms show ?thesis by blast
qed

lemma read_from_resume:
  assumes "read_from step content (offset, st) = (ok, offset', st')" and "offset \<le> length content"
  shows "offset \<le> offset' \<and> offset' \<le> length content \<and>
    read_from step (content @ t) (offset', st') = read_from step (content @ t) (offset, st)"
  using read_lines_resume [of step "drop offset content" offset st ok offset' st' t] assms
  by (auto simp: read_from_def)

text \<open>A line that is not UTF-8 stops the reader for good: later reads of the file stop there again.\<close>

lemma read_from_stuck:
  assumes "read_from step content (offset, st) = (False, offset', st')" and "offset \<le> length content"
  shows "read_from step (content @ t) (offset', st') = (False, offset', st')"
proof -
  have "read_lines step ls (offset, st) = (False, offset', st') \<Longrightarrow> complete_lines s = ls \<Longrightarrow>
      read_lines step (complete_lines (s @ t)) (offset, st) = (False, offset', st')" for ls s offset st
  proof (induction ls arbitrary: s offset st)
    case (Cons l ls)
    obtain r where r: "s = l @ r" "complete_lines r = ls" "\<And>t. complete_lines (l @ t) = l # complete_lines t"
      using complete_lines_cut [OF Cons.prems(2)] by blast
    with Cons show ?case by (auto split: if_splits)
  qed simp
  from this [of _ offset st "drop offset content"] assms
  have "read_from step (content @ t) (offset, st) = (False, offset', st')"
    by (auto simp: read_from_def)
  with read_from_resume [OF assms, of t] show ?thesis by simp
qed

end
