(* ===== verification/Codex_State.thy ===== *)
theory Codex_State
  imports Feed_Text
begin

text \<open>
  The Codex feed (\<open>codex_state.rs\<close>): task snapshots from the thread database, the rollout files and
  the desktop log. What the operating system and SQLite return is an argument: the rows of the
  query, the rollout files by path, the directories of the log. The cache is passed and returned.
\<close>

definition TASK_PRIORITY_ACTIVE :: nat where "TASK_PRIORITY_ACTIVE = 75"
definition TASK_PRIORITY_IDLE :: nat where "TASK_PRIORITY_IDLE = 40"

record lifecycle =
  lc_state :: "task_state option"
  lc_started :: "nat option"
  lc_finished :: "nat option"
  lc_turn :: "string option"
  lc_approvals :: "(string, string) hmap"

definition lifecycle_default :: lifecycle where
  "lifecycle_default =
     \<lparr>lc_state = None, lc_started = None, lc_finished = None, lc_turn = None, lc_approvals = []\<rparr>"

section \<open>Lifecycle events\<close>

definition no_prompt :: string where "no_prompt = ''Approval required in Codex''"

definition approval_prompt :: "string \<Rightarrow> string" where
  "approval_prompt input =
     (case Option.bind (split_once ''justification'' input)
             (\<lambda>(_, rest). map_option (\<lambda>(_, v). trim_start v) (split_once '':'' rest)) of
        None \<Rightarrow> no_prompt
      | Some v \<Rightarrow>
          (case v of
             [] \<Rightarrow> no_prompt
           | quote # s \<Rightarrow>
               if quote \<noteq> CHR 0x22 \<and> quote \<noteq> CHR 0x27 then no_prompt
               else (let prompt = trim (takeWhile (\<lambda>c. c \<noteq> quote) s)
                     in if prompt = [] then no_prompt else chars_take 160 prompt)))"

definition terminal_event_is_stale :: "lifecycle \<Rightarrow> string option \<Rightarrow> nat option \<Rightarrow> bool" where
  "terminal_event_is_stale lc turn started \<longleftrightarrow>
     (case (lc_turn lc, turn) of (Some a, Some e) \<Rightarrow> a \<noteq> e | _ \<Rightarrow> False) \<or>
     (case (lc_started lc, started) of (Some a, Some e) \<Rightarrow> a \<noteq> e | _ \<Rightarrow> False)"

text \<open>A tool call that asks for escalated permissions waits for an approval until its output comes.\<close>

definition escalated :: "string \<Rightarrow> bool" where
  "escalated input \<longleftrightarrow> contains ''require_escalated'' input \<or>
     contains ''sandbox_permissions'' input \<and> contains ''escalated'' input"

definition response_item :: "json \<Rightarrow> lifecycle \<Rightarrow> lifecycle" where
  "response_item body lc =
     (let kind = Option.bind (jget ''type'' body) as_str;
          call = Option.bind (jget ''call_id'' body) as_str in
      if kind = Some ''custom_tool_call'' then
        (case Option.bind (jget ''input'' body) as_str of
           None \<Rightarrow> lc
         | Some input \<Rightarrow>
             if \<not> escalated input then lc
             else
               (case call of
                  None \<Rightarrow> lc
                | Some c \<Rightarrow> lc\<lparr>lc_approvals := AList.update c (approval_prompt input) (lc_approvals lc)\<rparr>))
      else if kind = Some ''custom_tool_call_output'' then
        (case call of None \<Rightarrow> lc | Some c \<Rightarrow> lc\<lparr>lc_approvals := AList.delete c (lc_approvals lc)\<rparr>)
      else lc)"

definition payload_millis :: "json \<Rightarrow> string \<Rightarrow> nat option" where
  "payload_millis body key = map_option (\<lambda>s. s * 1000) (Option.bind (jget key body) as_u64)"

definition payload_turn :: "json \<Rightarrow> string option" where
  "payload_turn body =
     Option.bind (Option.bind (jget ''turn_id'' body) as_str) (\<lambda>i. if i = [] then None else Some i)"

definition terminal_event :: "task_state \<Rightarrow> json \<Rightarrow> lifecycle \<Rightarrow> lifecycle" where
  "terminal_event s body lc =
     (if terminal_event_is_stale lc (payload_turn body) (payload_millis body ''started_at'') then lc
      else lc\<lparr>lc_state := Some s,
              lc_started := or_else (payload_millis body ''started_at'') (lc_started lc),
              lc_finished := payload_millis body ''completed_at'',
              lc_turn := or_else (payload_turn body) (lc_turn lc)\<rparr>)"

definition apply_lifecycle_event :: "json \<Rightarrow> lifecycle \<Rightarrow> lifecycle" where
  "apply_lifecycle_event v lc =
     (case Option.bind (jget ''payload'' v) as_object of
        None \<Rightarrow> lc
      | Some m \<Rightarrow>
          (let body = JObj m; kind = Option.bind (jget ''type'' v) as_str;
               event = Option.bind (jget ''type'' body) as_str in
           if kind = Some ''response_item'' then response_item body lc
           else if kind \<noteq> Some ''event_msg'' then lc
           else if event = Some ''task_started'' then
             lc\<lparr>lc_state := Some Running, lc_started := payload_millis body ''started_at'',
                lc_finished := None, lc_turn := payload_turn body\<rparr>
           else if event = Some ''task_complete'' then terminal_event Completed body lc
           else if event = Some ''turn_aborted'' then terminal_event Paused body lc
           else lc))"

section \<open>Rollout files\<close>

record rollout_cursor =
  rc_path :: string
  rc_offset :: nat
  rc_lifecycle :: lifecycle
  rc_verified :: "bool option"

definition rollout_default :: "string \<Rightarrow> rollout_cursor" where
  "rollout_default path =
     \<lparr>rc_path = path, rc_offset = 0, rc_lifecycle = lifecycle_default, rc_verified = None\<rparr>"

definition rollout_thread_id :: "json \<Rightarrow> string option" where
  "rollout_thread_id v =
     (if Option.bind (jget ''type'' v) as_str = Some ''session_meta''
      then Option.bind (Option.bind (jget ''payload'' v) (jget ''id'')) as_str else None)"

text \<open>One line, on whether the file has been verified and the lifecycle read so far.\<close>

definition rollout_line ::
  "(string \<Rightarrow> string + json) \<Rightarrow> string \<Rightarrow> string \<Rightarrow> bool option \<times> lifecycle \<Rightarrow> bool option \<times> lifecycle" where
  "rollout_line from_str tid line c =
     (case from_str line of
        Inl _ \<Rightarrow> c
      | Inr v \<Rightarrow>
          (case rollout_thread_id v of
             Some i \<Rightarrow> (Some (i = tid), if i = tid then snd c else lifecycle_default)
           | None \<Rightarrow>
               if fst c = Some True then (fst c, apply_lifecycle_event v (snd c)) else c))"

text \<open>
  A file as the feed finds it: the length its metadata gives, if any, and the bytes that opening,
  seeking and reading it gives, if any.
\<close>

record feed_file =
  ff_len :: "nat option"
  ff_content :: "string option"

definition refresh_rollout ::
  "(string \<Rightarrow> string + json) \<Rightarrow> string \<Rightarrow> string \<Rightarrow> feed_file \<Rightarrow> rollout_cursor \<Rightarrow> rollout_cursor" where
  "refresh_rollout from_str tid path file c =
     (case ff_len file of
        None \<Rightarrow> c
      | Some n \<Rightarrow>
          (let c = (if rc_path c \<noteq> path \<or> n < rc_offset c then rollout_default path else c) in
           if n = rc_offset c then c
           else
             (case ff_content file of
                None \<Rightarrow> c
              | Some content \<Rightarrow>
                  (let (_, offset, verified, lc) =
                     read_from (rollout_line from_str tid) content (rc_offset c, rc_verified c, rc_lifecycle c)
                   in c\<lparr>rc_offset := offset, rc_lifecycle := lc, rc_verified := verified\<rparr>))))"

section \<open>The focused task\<close>

record focus_cursor =
  fc_path :: string
  fc_offset :: nat
  fc_selected :: "string option"

definition focus_line :: "string \<Rightarrow> string option \<Rightarrow> string option" where
  "focus_line line selected =
     (if \<not> contains ''thread_stream_view_activity_changed'' line \<or>
         \<not> contains ''rendererWindowAppearance=primary'' line \<or>
         \<not> contains ''rendererWindowFocused=true'' line \<or>
         \<not> contains ''rendererWindowVisible=true'' line then selected
      else if \<not> contains '' active=true '' line \<and> \<not> contains '' active=false '' line then selected
      else
        (case List.find (\<lambda>f. starts_with ''conversationId='' f) (split_whitespace line) of
           None \<Rightarrow> selected
         | Some f \<Rightarrow>
             (let i = drop (length ''conversationId='') f in
              if i = [] \<or> starts_with ''client-new-thread:'' i then selected
              else if contains '' active=true '' line then Some i
              else if selected = Some i then None
              else selected)))"

text \<open>
  A directory entry: path, name (\<open>None\<close> for a name that is not UTF-8 next to its bytes), whether it
  is a directory, a file or neither, and the time of its last change. Entries that could not be
  read are not in the list.
\<close>

datatype entry_kind = IsDir | IsFile | OtherKind

record dir_entry =
  de_path :: string
  de_name :: string
  de_utf8 :: bool
  de_kind :: entry_kind
  de_modified :: "nat option"

type_synonym directories = "string \<Rightarrow> dir_entry list option"

definition option_cmp :: "nat option \<Rightarrow> nat option \<Rightarrow> ordering" where
  "option_cmp a b =
     (case (a, b) of
        (None, None) \<Rightarrow> Equal
      | (None, Some _) \<Rightarrow> Less
      | (Some _, None) \<Rightarrow> Greater
      | (Some x, Some y) \<Rightarrow> cmp x y)"

definition newest_child :: "directories \<Rightarrow> string \<Rightarrow> string option" where
  "newest_child dirs d =
     Option.bind (dirs d) (\<lambda>es.
       map_option de_path (max_by (\<lambda>a b. cmp (de_name a) (de_name b)) (filter (\<lambda>e. de_kind e = IsDir) es)))"

definition newest_primary_log :: "directories \<Rightarrow> string \<Rightarrow> string option" where
  "newest_primary_log dirs logs =
     Option.bind (Option.bind (Option.bind (newest_child dirs logs) (newest_child dirs)) (newest_child dirs)) (\<lambda>d.
     Option.bind (dirs d) (\<lambda>es.
       map_option de_path (max_by (\<lambda>a b. option_cmp (de_modified a) (de_modified b))
         (filter (\<lambda>e. de_kind e = IsFile \<and> de_utf8 e \<and> contains ''-t0-'' (de_name e) \<and> ends_with ''.log'' (de_name e)) es))))"

definition refresh_focused_task ::
  "directories \<Rightarrow> (string \<Rightarrow> feed_file) \<Rightarrow> string \<Rightarrow> focus_cursor \<Rightarrow> string option \<times> focus_cursor" where
  "refresh_focused_task dirs files logs c =
     (case newest_primary_log dirs logs of
        None \<Rightarrow> (None, c)
      | Some path \<Rightarrow>
          (case ff_len (files path) of
             None \<Rightarrow> (None, c)
           | Some n \<Rightarrow>
               (let c = (if fc_path c \<noteq> path \<or> n < fc_offset c
                         then \<lparr>fc_path = path, fc_offset = 0, fc_selected = None\<rparr> else c) in
                if n = fc_offset c then (fc_selected c, c)
                else
                  (case ff_content (files path) of
                     None \<Rightarrow> (None, c)
                   | Some content \<Rightarrow>
                       (let (ok, offset, selected) = read_from focus_line content (fc_offset c, fc_selected c)
                        in (if ok then selected else None, c\<lparr>fc_offset := offset, fc_selected := selected\<rparr>))))))"

section \<open>Titles\<close>

definition index_title :: "(string \<Rightarrow> string + json) \<Rightarrow> string \<Rightarrow> (string \<times> string) option" where
  "index_title from_str line =
     (case from_str line of
        Inl _ \<Rightarrow> None
      | Inr v \<Rightarrow>
          Option.bind (Option.bind (jget ''id'' v) as_str) (\<lambda>i.
          Option.bind (Option.bind (jget ''thread_name'' v) as_str) (\<lambda>t.
            if trim t = [] then None else Some (i, trim t))))"

definition read_index_titles :: "(string \<Rightarrow> string + json) \<Rightarrow> string option \<Rightarrow> (string, string) hmap" where
  "read_index_titles from_str content =
     (case content of
        None \<Rightarrow> []
      | Some s \<Rightarrow>
          fold (\<lambda>l titles. case index_title from_str l of
                  None \<Rightarrow> titles | Some (i, t) \<Rightarrow> AList.update i t titles)
            (str_lines s) [])"

section \<open>The snapshot\<close>

record thread_row =
  tr_id :: string
  tr_title :: string
  tr_cwd :: "string option"
  tr_model :: "string option"
  tr_effort :: "string option"
  tr_rollout :: string
  tr_recency :: nat
  tr_updated :: nat

text \<open>
  The surroundings of one snapshot: the rows of the query for a limit (\<open>None\<close> where the database
  cannot be read, and a row that cannot be read), files, directories, the JSON parser, the last
  component of a path and the value that \<open>values().next()\<close> takes of a map.
\<close>

record codex_world =
  cw_index :: "string option"
  cw_rows :: "nat \<Rightarrow> thread_row option list option"
  cw_files :: "string \<Rightarrow> feed_file"
  cw_dirs :: directories
  cw_logs :: "string option"
  cw_from_str :: "string \<Rightarrow> string + json"
  cw_file_name :: "string \<Rightarrow> string option"
  cw_first :: "(string, string) hmap \<Rightarrow> string option"

record codex_cache =
  cc_rollouts :: "(string, rollout_cursor) hmap"
  cc_focus :: focus_cursor

text \<open>
  A time in milliseconds as JSON: \<open>serde_json\<close> refuses a \<open>u128\<close> above the range of \<open>u64\<close>, and \<open>json!\<close>
  panics then.
\<close>

definition json_u128 :: "nat option \<Rightarrow> string + json" where
  "json_u128 t =
     (case t of
        None \<Rightarrow> Inr JNull
      | Some n \<Rightarrow> if n \<le> u64_max then Inr (jnat n) else Inl ''number out of range'')"

definition thread_state :: "lifecycle \<Rightarrow> string option \<Rightarrow> task_state" where
  "thread_state lc prompt =
     (case or_else (if prompt \<noteq> None then Some Waiting else None) (lc_state lc) of
        None \<Rightarrow> Queued
      | Some s \<Rightarrow> s)"

definition thread_task ::
  "codex_world \<Rightarrow> (string, string) hmap \<Rightarrow> nat \<Rightarrow> thread_row \<Rightarrow> lifecycle \<Rightarrow> string + json" where
  "thread_task w titles slot row lc =
     (let prompt = cw_first w (lc_approvals lc); state = thread_state lc prompt in
      res_bind (json_u128 (lc_started lc)) (\<lambda>started.
      res_bind (json_u128 (lc_finished lc)) (\<lambda>finished.
        Inr (jobj
          [(''task_id'', JStr (tr_id row)),
           (''title'', JStr (case map_of titles (tr_id row) of None \<Rightarrow> tr_title row | Some t \<Rightarrow> t)),
           (''project'', jopt JStr (Option.bind (tr_cwd row) (\<lambda>d.
              Option.bind (cw_file_name w d) (\<lambda>n. if n = [] then None else Some n)))),
           (''model'', jopt JStr (tr_model row)),
           (''effort'', jopt JStr (tr_effort row)),
           (''state'', JStr (task_state_str state)),
           (''context'', jopt (\<lambda>p. jobj [(''wait_reason'', JStr ''approval''), (''prompt'', JStr p)]) prompt),
           (''priority'', jnat (if state_active state \<or> prompt \<noteq> None
              then TASK_PRIORITY_ACTIVE else TASK_PRIORITY_IDLE)),
           (''source_slot'', jnat slot),
           (''legacy_key'', jopt (\<lambda>s. JStr (''AG0'' @ show_nat s))
              (if slot < CODEX_HID_SLOTS then Some slot else None)),
           (''started_at_ms'', started), (''finished_at_ms'', finished),
           (''timing_authoritative'', JBool True),
           (''recency_at_ms'', jnat (tr_recency row)), (''updated_at_ms'', jnat (tr_updated row))]))))"

definition refresh_thread :: "codex_world \<Rightarrow> thread_row \<Rightarrow> codex_cache \<Rightarrow> lifecycle \<times> codex_cache" where
  "refresh_thread w row cache =
     (let c = (case map_of (cc_rollouts cache) (tr_id row) of None \<Rightarrow> rollout_default [] | Some c \<Rightarrow> c);
          c = refresh_rollout (cw_from_str w) (tr_id row) (tr_rollout row) (cw_files w (tr_rollout row)) c
      in (rc_lifecycle c, cache\<lparr>cc_rollouts := AList.update (tr_id row) c (cc_rollouts cache)\<rparr>))"

text \<open>The loop over the rows: \<open>None\<close> at a row that cannot be read, an error where \<open>json!\<close> panics.\<close>

fun thread_tasks ::
  "codex_world \<Rightarrow> (string, string) hmap \<Rightarrow> nat \<Rightarrow> thread_row option list \<Rightarrow> codex_cache \<Rightarrow>
   (string + json list option) \<times> codex_cache" where
  "thread_tasks w titles n [] cache = (Inr (Some []), cache)"
| "thread_tasks w titles n (None # rows) cache = (Inr None, cache)"
| "thread_tasks w titles n (Some row # rows) cache =
     (let (lc, cache) = refresh_thread w row cache in
      case thread_task w titles n row lc of
        Inl e \<Rightarrow> (Inl e, cache)
      | Inr task \<Rightarrow>
          (let (r, cache) = thread_tasks w titles (n + 1) rows cache
           in (map_sum id (map_option (\<lambda>ts. task # ts)) r, cache)))"

definition focus_task :: "codex_world \<Rightarrow> json list \<Rightarrow> focus_cursor \<Rightarrow> string option \<times> focus_cursor" where
  "focus_task w ts c =
     (if ts = [] then (None, c)
      else
        (case cw_logs w of
           None \<Rightarrow> (None, c)
         | Some logs \<Rightarrow>
             (let (s, c) = refresh_focused_task (cw_dirs w) (cw_files w) logs c
              in (Option.bind s (\<lambda>i.
                    if \<exists>t \<in> set ts. Option.bind (jget ''task_id'' t) as_str = Some i then Some i else None), c))))"

definition read_codex_snapshot ::
  "codex_world \<Rightarrow> nat \<Rightarrow> codex_cache \<Rightarrow> (string + json option) \<times> codex_cache" where
  "read_codex_snapshot w max_tasks cache =
     (case cw_rows w max_tasks of
        None \<Rightarrow> (Inr None, cache)
      | Some rows \<Rightarrow>
          (case thread_tasks w (read_index_titles (cw_from_str w) (cw_index w)) 0 rows cache of
             (Inl e, cache) \<Rightarrow> (Inl e, cache)
           | (Inr None, cache) \<Rightarrow> (Inr None, cache)
           | (Inr (Some ts), cache) \<Rightarrow>
               (let (s, c) = focus_task w ts (cc_focus cache)
                in (Inr (Some (jobj [(''selected_task_id'', jopt JStr s), (''tasks'', JArr ts)])),
                    cache\<lparr>cc_focus := c\<rparr>))))"

end
