(* ===== verification/Codex_State_Props.thy ===== *)
theory Codex_State_Props
  imports Codex_State
begin

text \<open>
  The properties of the Codex feed: reading a rollout as it grows is reading it at once, a lifecycle
  comes from the right thread only, a turn is finished by its own events only, approvals are
  pending from the call to its output, and the tasks of a snapshot.
\<close>

section \<open>Rollouts that grow\<close>

definition whole_file :: "string \<Rightarrow> feed_file" where
  "whole_file s = \<lparr>ff_len = Some (length s), ff_content = Some s\<rparr>"

lemma refresh_whole:
  assumes "rc_path c = path" and "rc_offset c \<le> length s"
  shows "refresh_rollout from_str tid path (whole_file s) c =
    (let (_, offset, verified, lc) = read_from (rollout_line from_str tid) s (rc_offset c, rc_verified c, rc_lifecycle c)
     in c\<lparr>rc_offset := offset, rc_lifecycle := lc, rc_verified := verified\<rparr>)"
  using assms by (cases "length s = rc_offset c") (simp_all add: refresh_rollout_def whole_file_def read_from_def Let_def)

lemma refresh_resume:
  fixes c path from_str tid
  assumes "rc_path c = path" and "rc_offset c \<le> length s"
  defines "c1 \<equiv> refresh_rollout from_str tid path (whole_file s) c"
  shows "rc_path c1 = path" and "rc_offset c1 \<le> length s"
    and "refresh_rollout from_str tid path (whole_file (s @ t)) c1 = refresh_rollout from_str tid path (whole_file (s @ t)) c"
proof -
  obtain ok offset verified lc
    where r: "read_from (rollout_line from_str tid) s (rc_offset c, rc_verified c, rc_lifecycle c) = (ok, offset, verified, lc)"
    by (metis prod_cases4)
  have c1: "c1 = c\<lparr>rc_offset := offset, rc_lifecycle := lc, rc_verified := verified\<rparr>"
    unfolding c1_def by (simp add: refresh_whole [OF assms(1,2)] r)
  note resume = read_from_resume [OF r assms(2), of t]
  show "rc_path c1 = path" "rc_offset c1 \<le> length s" using assms(1) resume by (simp_all add: c1)
  then show "refresh_rollout from_str tid path (whole_file (s @ t)) c1 = refresh_rollout from_str tid path (whole_file (s @ t)) c"
    using assms(1,2) resume by (simp add: refresh_whole c1)
qed

text \<open>
  C30. However a rollout file grows between the polls, the cursor after the last poll is the one that
  a single reading of the final file gives: no event is lost, read twice or read half, not even at
  a line that is cut in the middle or cannot be read.
\<close>
theorem rollout_read_incrementally:
  assumes "sorted_wrt (\<lambda>a b. \<exists>t. b = a @ t) contents" and "contents \<noteq> []"
  shows "fold (\<lambda>s. refresh_rollout from_str tid path (whole_file s)) contents (rollout_default path) =
    refresh_rollout from_str tid path (whole_file (last contents)) (rollout_default path)"
proof -
  let ?R = "\<lambda>s. refresh_rollout from_str tid path (whole_file s)"
  have "fold ?R contents (rollout_default path) = ?R (last contents) (rollout_default path)"
    using assms
  proof (induction contents rule: rev_induct)
    case (snoc s contents)
    show ?case
    proof (cases "contents = []")
      case False
      with snoc.prems(1) obtain t where t: "s = last contents @ t"
        by (auto simp: sorted_wrt_append dest: last_in_set)
      from False snoc show ?thesis
        using refresh_resume(3) [of "rollout_default path" path "last contents" from_str tid t]
        by (simp add: sorted_wrt_append rollout_default_def t)
    qed simp
  qed simp
  then show ?thesis .
qed

section \<open>The identity of a rollout\<close>

text \<open>The thread ids of the lines that can be read.\<close>

definition line_ids :: "(string \<Rightarrow> string + json) \<Rightarrow> string list \<Rightarrow> string list" where
  "line_ids from_str ls =
     List.map_filter (\<lambda>l. case from_str l of Inl _ \<Rightarrow> None | Inr v \<Rightarrow> rollout_thread_id v) (takeWhile valid_utf8 ls)"

lemma line_ids_Cons:
  "line_ids from_str (l # ls) =
     (if valid_utf8 l
      then (case from_str l of Inl _ \<Rightarrow> [] | Inr v \<Rightarrow> (case rollout_thread_id v of None \<Rightarrow> [] | Some i \<Rightarrow> [i])) @
        line_ids from_str ls
      else [])"
  by (auto simp: line_ids_def map_filter_simps split: sum.split option.split)

definition identified :: "string \<Rightarrow> string list \<Rightarrow> bool option \<times> lifecycle \<Rightarrow> bool" where
  "identified tid is c \<longleftrightarrow>
     (fst c = Some True \<longrightarrow> is \<noteq> [] \<and> last is = tid) \<and> (fst c \<noteq> Some True \<longrightarrow> snd c = lifecycle_default)"

lemma identified_lines:
  "identified tid is c \<Longrightarrow>
   identified tid (is @ line_ids from_str ls) (snd (snd (read_lines (rollout_line from_str tid) ls (offset, c))))"
proof (induction ls arbitrary: "is" c offset)
  case Nil
  then show ?case by (simp add: line_ids_def map_filter_simps)
next
  case (Cons l ls)
  let ?new = "case from_str l of Inl _ \<Rightarrow> [] | Inr v \<Rightarrow> (case rollout_thread_id v of None \<Rightarrow> [] | Some i \<Rightarrow> [i])"
  have "identified tid (is @ ?new) (rollout_line from_str tid l c)"
    using Cons.prems by (auto simp: identified_def rollout_line_def split: sum.split option.split)
  from Cons.IH [OF this] Cons.prems show ?case by (simp add: line_ids_Cons)
qed

text \<open>
  C31. A rollout never lends its lifecycle to another task: if the cursor of a thread has read
  anything of a lifecycle, then the last line of the file that names a thread names this one.
\<close>
theorem rollout_identity:
  assumes "c = refresh_rollout from_str tid path (whole_file s) (rollout_default path)"
    and "rc_lifecycle c \<noteq> lifecycle_default"
  shows "line_ids from_str (complete_lines s) \<noteq> [] \<and> last (line_ids from_str (complete_lines s)) = tid"
proof -
  have "identified tid [] (None, lifecycle_default)" by (simp add: identified_def)
  from identified_lines [OF this, of from_str "complete_lines s" 0] assms
  show ?thesis
    by (auto simp: refresh_whole rollout_default_def read_from_def identified_def Let_def case_prod_beta)
qed

section \<open>Turns\<close>

definition event_name :: "json \<Rightarrow> string option" where
  "event_name v =
     (if Option.bind (jget ''type'' v) as_str = Some ''event_msg''
      then Option.bind (Option.bind (jget ''payload'' v) (jget ''type'')) as_str else None)"

definition terminal_of_other :: "string \<Rightarrow> json \<Rightarrow> bool" where
  "terminal_of_other turn v \<longleftrightarrow>
     event_name v \<in> {Some ''task_complete'', Some ''turn_aborted''} \<and>
     (\<exists>i. Option.bind (jget ''payload'' v) payload_turn = Some i \<and> i \<noteq> turn)"

lemma as_object_JObj: "as_object v = Some m \<longleftrightarrow> v = JObj m"
  by (cases v) simp_all

lemma apply_event_quiet:
  assumes "lc_turn lc = Some turn"
    and "event_name v \<notin> {Some ''task_started'', Some ''task_complete'', Some ''turn_aborted''} \<or> terminal_of_other turn v"
  shows "lc_state (apply_lifecycle_event v lc) = lc_state lc \<and> lc_turn (apply_lifecycle_event v lc) = lc_turn lc \<and>
    lc_started (apply_lifecycle_event v lc) = lc_started lc \<and> lc_finished (apply_lifecycle_event v lc) = lc_finished lc"
proof (cases "Option.bind (jget ''payload'' v) as_object")
  case None
  then show ?thesis by (simp add: apply_lifecycle_event_def)
next
  case (Some m)
  then have p: "jget ''payload'' v = Some (JObj m)" by (auto simp: bind_eq_Some_conv as_object_JObj)
  have item: "lc_state (response_item b lc) = lc_state lc \<and> lc_turn (response_item b lc) = lc_turn lc \<and>
      lc_started (response_item b lc) = lc_started lc \<and> lc_finished (response_item b lc) = lc_finished lc" for b
    by (simp add: response_item_def Let_def split: option.split)
  have other: "terminal_event s (JObj m) lc = lc" if "terminal_of_other turn v" for s
    using that assms(1) p by (auto simp: terminal_event_def terminal_of_other_def terminal_event_is_stale_def)
  from assms(2) p item other Some show ?thesis
    by (auto simp: apply_lifecycle_event_def event_name_def terminal_of_other_def Let_def)
qed

text \<open>
  A running turn is finished by its own terminal event only: whatever else the rollout brings
  before the next start, and also the late terminal events of other turns, leave state, times and
  turn as they are.
\<close>
theorem turn_outlives_other_turns:
  assumes "lc_turn lc = Some turn"
    and "\<forall>v \<in> set events. event_name v \<notin> {Some ''task_started'', Some ''task_complete'', Some ''turn_aborted''} \<or>
      terminal_of_other turn v"
  shows "lc_state (fold apply_lifecycle_event events lc) = lc_state lc \<and>
    lc_turn (fold apply_lifecycle_event events lc) = lc_turn lc \<and>
    lc_started (fold apply_lifecycle_event events lc) = lc_started lc \<and>
    lc_finished (fold apply_lifecycle_event events lc) = lc_finished lc"
  using assms
proof (induction events arbitrary: lc)
  case (Cons v events)
  from apply_event_quiet [OF Cons.prems(1), of v] Cons.prems(2)
  have q: "lc_state (apply_lifecycle_event v lc) = lc_state lc" "lc_turn (apply_lifecycle_event v lc) = lc_turn lc"
      "lc_started (apply_lifecycle_event v lc) = lc_started lc" "lc_finished (apply_lifecycle_event v lc) = lc_finished lc"
    by auto
  with Cons.IH [of "apply_lifecycle_event v lc"] Cons.prems show ?case by simp
qed simp

section \<open>Approvals\<close>

datatype approval_event = Asked string string | Answered string

definition approval_item :: "json \<Rightarrow> approval_event option" where
  "approval_item b =
     (let kind = Option.bind (jget ''type'' b) as_str in
      case Option.bind (jget ''call_id'' b) as_str of
        None \<Rightarrow> None
      | Some c \<Rightarrow>
          if kind = Some ''custom_tool_call_output'' then Some (Answered c)
          else if kind = Some ''custom_tool_call'' then
            (case Option.bind (jget ''input'' b) as_str of
               None \<Rightarrow> None
             | Some i \<Rightarrow> if escalated i then Some (Asked c (approval_prompt i)) else None)
          else None)"

definition approval_event_of :: "json \<Rightarrow> approval_event option" where
  "approval_event_of v =
     (if Option.bind (jget ''type'' v) as_str = Some ''response_item''
      then Option.bind (jget ''payload'' v) approval_item else None)"

definition approval_step :: "approval_event option \<Rightarrow> (string \<rightharpoonup> string) \<Rightarrow> string \<rightharpoonup> string" where
  "approval_step e m =
     (case e of None \<Rightarrow> m | Some (Asked c p) \<Rightarrow> m(c \<mapsto> p) | Some (Answered c) \<Rightarrow> m(c := None))"

lemma jget_no_object: "as_object b = None \<Longrightarrow> jget k b = None"
  by (cases b) simp_all

lemma item_approvals:
  "map_of (lc_approvals (response_item b lc)) = approval_step (approval_item b) (map_of (lc_approvals lc))"
  by (cases "Option.bind (jget ''call_id'' b) as_str"; cases "Option.bind (jget ''input'' b) as_str")
    (simp_all add: response_item_def approval_item_def approval_step_def Let_def update_conv' delete_conv')

lemma approvals_step:
  "map_of (lc_approvals (apply_lifecycle_event v lc)) = approval_step (approval_event_of v) (map_of (lc_approvals lc))"
proof (cases "Option.bind (jget ''payload'' v) as_object")
  case None
  then have "approval_event_of v = None"
    by (cases "jget ''payload'' v") (simp_all add: approval_event_of_def approval_item_def jget_no_object Let_def)
  with None show ?thesis by (simp add: apply_lifecycle_event_def approval_step_def)
next
  case (Some m)
  then have "jget ''payload'' v = Some (JObj m)" by (auto simp: bind_eq_Some_conv as_object_JObj)
  moreover have "lc_approvals (terminal_event s b lc) = lc_approvals lc" for s b
    by (simp add: terminal_event_def)
  moreover have "approval_step None k = k" for k by (simp add: approval_step_def)
  ultimately show ?thesis
    using Some item_approvals [of "JObj m" lc]
    by (simp add: apply_lifecycle_event_def approval_event_of_def Let_def)
qed

text \<open>
  A thread waits for an approval from an escalated tool call to the output of that call: after
  any events the prompts that are open are those of the calls asked and not yet answered, and the
  task is shown as waiting exactly while one is open.
\<close>
theorem approvals_open_until_answered:
  assumes "\<And>m. cw_first w m = None \<longleftrightarrow> m = []"
  shows "map_of (lc_approvals (fold apply_lifecycle_event events lifecycle_default)) =
      fold approval_step (map approval_event_of events) Map.empty \<and>
    (thread_state (fold apply_lifecycle_event events lifecycle_default)
        (cw_first w (lc_approvals (fold apply_lifecycle_event events lifecycle_default))) = Waiting \<longleftrightarrow>
      fold approval_step (map approval_event_of events) Map.empty \<noteq> Map.empty)"
proof -
  let ?lc = "fold apply_lifecycle_event events lifecycle_default"
  have "map_of (lc_approvals (fold apply_lifecycle_event events lc)) =
      fold approval_step (map approval_event_of events) (map_of (lc_approvals lc))" for lc
    by (induction events arbitrary: lc) (simp_all add: approvals_step)
  then have m: "map_of (lc_approvals ?lc) = fold approval_step (map approval_event_of events) Map.empty"
    by (simp add: lifecycle_default_def)
  have "lc_state (apply_lifecycle_event v lc) \<noteq> Some Waiting" if "lc_state lc \<noteq> Some Waiting" for v lc
    using that by (auto simp: apply_lifecycle_event_def response_item_def terminal_event_def Let_def split: option.splits)
  then have "lc_state (fold apply_lifecycle_event events lc) \<noteq> Some Waiting" if "lc_state lc \<noteq> Some Waiting" for lc
    using that by (induction events arbitrary: lc) simp_all
  then have "lc_state ?lc \<noteq> Some Waiting" by (simp add: lifecycle_default_def)
  then have "thread_state ?lc (cw_first w (lc_approvals ?lc)) = Waiting \<longleftrightarrow> lc_approvals ?lc \<noteq> []"
    using assms by (auto simp: thread_state_def split: option.split)
  also have "\<dots> \<longleftrightarrow> fold approval_step (map approval_event_of events) Map.empty \<noteq> Map.empty"
    by (simp flip: m)
  finally show ?thesis using m by simp
qed

section \<open>The snapshot\<close>

lemma thread_task_fields:
  assumes "thread_task w titles n row lc = Inr t"
  shows "jget ''task_id'' t = Some (JStr (tr_id row))" "jget ''source_slot'' t = Some (jnat n)"
    "jget ''legacy_key'' t = Some (if n < CODEX_HID_SLOTS then JStr (''AG0'' @ show_nat n) else JNull)"
  using assms by (auto simp: thread_task_def res_bind_Inr_iff Let_def jget_jobj)

lemma thread_tasks_rows:
  "thread_tasks w titles n rs cache = (Inr (Some ts), cache') \<Longrightarrow>
   \<exists>rows. rs = map Some rows \<and> length ts = length rows \<and>
     (\<forall>k < length rows. \<exists>lc. thread_task w titles (n + k) (rows ! k) lc = Inr (ts ! k))"
proof (induction w titles n rs cache arbitrary: ts cache' rule: thread_tasks.induct)
  case (3 w titles n row rs cache)
  obtain lc cache1 where r: "refresh_thread w row cache = (lc, cache1)" by fastforce
  with 3(2) obtain t us where t: "thread_task w titles n row lc = Inr t" "ts = t # us"
      and rest: "thread_tasks w titles (n + 1) rs cache1 = (Inr (Some us), cache')"
    by (auto simp: case_prod_beta map_sum_def split: sum.splits) (metis prod.collapse)
  from 3(1) [OF r [symmetric] refl t(1) rest] obtain rows
    where rows: "rs = map Some rows" "length us = length rows"
      "\<forall>k < length rows. \<exists>lc. thread_task w titles (n + 1 + k) (rows ! k) lc = Inr (us ! k)"
    by blast
  have "\<forall>k < length (row # rows). \<exists>lc. thread_task w titles (n + k) ((row # rows) ! k) lc = Inr (ts ! k)"
  proof (intro allI impI)
    fix k assume "k < length (row # rows)"
    then show "\<exists>lc. thread_task w titles (n + k) ((row # rows) ! k) lc = Inr (ts ! k)"
      using t rows(3) by (cases k) auto
  qed
  with rows(1,2) t(2) show ?case by (intro exI [of _ "row # rows"]) simp
qed simp_all

text \<open>
  A Codex snapshot has one task for each row of the query, in its order, numbered by source slot,
  and a key of the device exactly for the first six; the selected task, if any, is one of them.
\<close>
theorem codex_snapshot_tasks:
  assumes "read_codex_snapshot w limit cache = (Inr (Some v), cache')"
  shows "\<exists>rows ts sel. cw_rows w limit = Some (map Some rows) \<and> jget ''tasks'' v = Some (JArr ts) \<and>
    length ts = length rows \<and>
    (\<forall>k < length rows. jget ''task_id'' (ts ! k) = Some (JStr (tr_id (rows ! k))) \<and>
      jget ''source_slot'' (ts ! k) = Some (jnat k) \<and>
      jget ''legacy_key'' (ts ! k) = Some (if k < CODEX_HID_SLOTS then JStr (''AG0'' @ show_nat k) else JNull)) \<and>
    jget ''selected_task_id'' v = Some (jopt JStr sel) \<and> (\<forall>i. sel = Some i \<longrightarrow> i \<in> tr_id ` set rows)"
proof -
  obtain rs where rs: "cw_rows w limit = Some rs"
    using assms by (cases "cw_rows w limit") (simp_all add: read_codex_snapshot_def)
  let ?titles = "read_index_titles (cw_from_str w) (cw_index w)"
  obtain ts c1 where ts: "thread_tasks w ?titles 0 rs cache = (Inr (Some ts), c1)"
    using assms rs by (auto simp: read_codex_snapshot_def split: prod.splits sum.splits option.splits)
  obtain sel fc where sel: "focus_task w ts (cc_focus c1) = (sel, fc)" by fastforce
  from thread_tasks_rows [OF ts] obtain rows where rows: "rs = map Some rows" "length ts = length rows"
      and tasks: "\<And>k. k < length rows \<Longrightarrow> \<exists>lc. thread_task w ?titles k (rows ! k) lc = Inr (ts ! k)"
    by auto
  have v: "v = jobj [(''selected_task_id'', jopt JStr sel), (''tasks'', JArr ts)]"
    using assms rs ts sel by (simp add: read_codex_snapshot_def)
  have "i \<in> tr_id ` set rows" if "sel = Some i" for i
  proof -
    from that sel obtain t where "t \<in> set ts" "Option.bind (jget ''task_id'' t) as_str = Some i"
      by (auto simp: focus_task_def bind_eq_Some_conv split: if_splits option.splits prod.splits)
    with rows(2) tasks show ?thesis by (fastforce simp: in_set_conv_nth dest: thread_task_fields(1))
  qed
  moreover have "\<forall>k < length rows. jget ''task_id'' (ts ! k) = Some (JStr (tr_id (rows ! k))) \<and>
      jget ''source_slot'' (ts ! k) = Some (jnat k) \<and>
      jget ''legacy_key'' (ts ! k) = Some (if k < CODEX_HID_SLOTS then JStr (''AG0'' @ show_nat k) else JNull)"
    using tasks thread_task_fields by blast
  ultimately show ?thesis using rs rows v by (intro exI conjI) (auto simp: jget_jobj)
qed

text \<open>
  A start time beyond the range of milliseconds in \<open>u64\<close> in a rollout makes the construction of
  the task fail, where the code panics in \<open>json!\<close>; the seconds themselves are in range.
\<close>
theorem late_timestamp_panics:
  assumes "seconds \<le> u64_max" and "u64_max < seconds * 1000"
    and "event = jobj [(''type'', JStr ''event_msg''),
      (''payload'', jobj [(''type'', JStr ''task_started''), (''started_at'', jnat seconds)])]"
  shows "thread_task w titles n row (apply_lifecycle_event event lc) = Inl ''number out of range''"
proof -
  have "jget ''payload'' event = Some (jobj [(''type'', JStr ''task_started''), (''started_at'', jnat seconds)])"
      "jget ''type'' event = Some (JStr ''event_msg'')"
    by (simp_all add: assms(3) jget_jobj)
  then have "lc_started (apply_lifecycle_event event lc) = Some (seconds * 1000)"
    by (simp add: apply_lifecycle_event_def jobj_def payload_millis_def jget_def jnat_def as_u64_def)
  then show ?thesis using assms(2) by (simp add: thread_task_def Let_def json_u128_def)
qed

section \<open>Witnesses\<close>

text \<open>A parser for two lines: one that names thread \<open>t\<close>, one that starts a turn.\<close>

definition sample_parser :: "string \<Rightarrow> string + json" where
  "sample_parser l =
     (if l = ''m\<newline>'' then Inr (jobj [(''type'', JStr ''session_meta''), (''payload'', jobj [(''id'', JStr ''t'')])])
      else if l = ''s\<newline>'' then
        Inr (jobj [(''type'', JStr ''event_msg''), (''payload'', jobj [(''type'', JStr ''task_started'')])])
      else Inl ''expected value'')"

definition sample_row :: thread_row where
  "sample_row = \<lparr>tr_id = ''t'', tr_title = ''T'', tr_cwd = None, tr_model = None, tr_effort = None,
     tr_rollout = ''r'', tr_recency = 1, tr_updated = 2\<rparr>"

definition sample_world :: codex_world where
  "sample_world = \<lparr>cw_index = None, cw_rows = (\<lambda>n. Some [Some sample_row]), cw_files = (\<lambda>_. whole_file ''m\<newline>s\<newline>''),
     cw_dirs = (\<lambda>_. None), cw_logs = None, cw_from_str = sample_parser, cw_file_name = (\<lambda>_. None),
     cw_first = (\<lambda>m. case m of [] \<Rightarrow> None | x # _ \<Rightarrow> Some (snd x))\<rparr>"

theorem rollout_read_incrementally_witness:
  "fold (\<lambda>s. refresh_rollout sample_parser ''t'' ''r'' (whole_file s)) [''m'', ''m\<newline>s'', ''m\<newline>s\<newline>''] (rollout_default ''r'') =
   refresh_rollout sample_parser ''t'' ''r'' (whole_file ''m\<newline>s\<newline>'') (rollout_default ''r'')"
  using rollout_read_incrementally [of "[''m'', ''m\<newline>s'', ''m\<newline>s\<newline>'']" sample_parser "''t''" "''r''"] by simp

lemma sample_rollout:
  "rc_lifecycle (refresh_rollout sample_parser ''t'' ''r'' (whole_file ''m\<newline>s\<newline>'') (rollout_default ''r'')) =
     lifecycle_default\<lparr>lc_state := Some Running\<rparr>"
  by code_simp

theorem rollout_identity_witness:
  "last (line_ids sample_parser (complete_lines ''m\<newline>s\<newline>'')) = ''t''"
proof -
  have "rc_lifecycle (refresh_rollout sample_parser ''t'' ''r'' (whole_file ''m\<newline>s\<newline>'') (rollout_default ''r'')) \<noteq>
      lifecycle_default"
    unfolding sample_rollout by (simp add: lifecycle_default_def)
  from rollout_identity [OF refl this] show ?thesis by simp
qed

theorem turn_outlives_other_turns_witness:
  "lc_state (fold apply_lifecycle_event
     [jobj [(''type'', JStr ''event_msg''),
        (''payload'', jobj [(''type'', JStr ''task_complete''), (''turn_id'', JStr ''old'')])]]
     (lifecycle_default\<lparr>lc_state := Some Running, lc_turn := Some ''new''\<rparr>)) = Some Running"
  using turn_outlives_other_turns [of "lifecycle_default\<lparr>lc_state := Some Running, lc_turn := Some ''new''\<rparr>" "''new''"
      "[jobj [(''type'', JStr ''event_msg''),
        (''payload'', jobj [(''type'', JStr ''task_complete''), (''turn_id'', JStr ''old'')])]]"]
  by (simp add: event_name_def terminal_of_other_def payload_turn_def jget_jobj)

theorem approvals_open_until_answered_witness:
  "map_of (lc_approvals (fold apply_lifecycle_event
     [jobj [(''type'', JStr ''response_item''), (''payload'', jobj [(''type'', JStr ''custom_tool_call''),
        (''call_id'', JStr ''c''), (''input'', JStr ''require_escalated'')])]] lifecycle_default)) ''c'' =
   Some ''Approval required in Codex''"
proof -
  have none: "cw_first sample_world m = None \<longleftrightarrow> m = []" for m
    by (simp add: sample_world_def split: list.split)
  have "approval_event_of (jobj [(''type'', JStr ''response_item''), (''payload'', jobj [(''type'', JStr ''custom_tool_call''),
      (''call_id'', JStr ''c''), (''input'', JStr ''require_escalated'')])]) = Some (Asked ''c'' ''Approval required in Codex'')"
    by code_simp
  with approvals_open_until_answered [OF none, of "[jobj [(''type'', JStr ''response_item''),
      (''payload'', jobj [(''type'', JStr ''custom_tool_call''),
        (''call_id'', JStr ''c''), (''input'', JStr ''require_escalated'')])]]"]
  show ?thesis by (simp add: approval_step_def)
qed

theorem codex_snapshot_tasks_witness:
  "\<exists>v cache. read_codex_snapshot sample_world 9 \<lparr>cc_rollouts = [], cc_focus = \<lparr>fc_path = [], fc_offset = 0, fc_selected = None\<rparr>\<rparr> =
     (Inr (Some v), cache) \<and> (\<exists>ts. jget ''tasks'' v = Some (JArr ts) \<and> length ts = 1)"
proof -
  let ?cache = "\<lparr>cc_rollouts = [], cc_focus = \<lparr>fc_path = [], fc_offset = 0, fc_selected = None\<rparr>\<rparr>"
  have "case fst (read_codex_snapshot sample_world 9 ?cache) of Inr (Some _) \<Rightarrow> True | _ \<Rightarrow> False"
    by code_simp
  then obtain v cache where v: "read_codex_snapshot sample_world 9 ?cache = (Inr (Some v), cache)"
    by (cases "read_codex_snapshot sample_world 9 ?cache") (auto split: sum.splits option.splits)
  from codex_snapshot_tasks [OF v] obtain rows ts where "cw_rows sample_world 9 = Some (map Some rows)"
      "jget ''tasks'' v = Some (JArr ts)" "length ts = length rows"
    by blast
  moreover have "length rows = 1" if "cw_rows sample_world 9 = Some (map Some rows)" for rows
    using that by (auto simp: sample_world_def)
  ultimately show ?thesis using v by auto
qed

theorem late_timestamp_panics_witness:
  "thread_task sample_world [] 0 sample_row (apply_lifecycle_event (jobj [(''type'', JStr ''event_msg''),
     (''payload'', jobj [(''type'', JStr ''task_started''), (''started_at'', jnat 18446744073709552)])]) lifecycle_default) =
   Inl ''number out of range''"
  by (rule late_timestamp_panics [OF _ _ refl]) simp_all

end
