(* ===== verification/Claude_State.thy ===== *)
theory Claude_State
  imports Codex_State Task_Board
begin

text \<open>
  The Claude feed (\<open>claude_state.rs\<close>): the records of the running sessions and the model of the last
  reply in a transcript. The registry entries, the transcripts, the JSON parser and the check of a
  process are arguments.
\<close>

section \<open>The state of a session\<close>

datatype session_state = SRunning | SWaiting | SError | SCompleted | SQueued

definition session_active :: "session_state \<Rightarrow> bool" where
  "session_active s \<longleftrightarrow> s = SRunning \<or> s = SWaiting"

fun session_state_str :: "session_state \<Rightarrow> string" where
  "session_state_str SRunning = ''running''"
| "session_state_str SWaiting = ''waiting''"
| "session_state_str SError = ''error''"
| "session_state_str SCompleted = ''completed''"
| "session_state_str SQueued = ''queued''"

definition record_time :: "json \<Rightarrow> string \<Rightarrow> nat" where
  "record_time r key = (case Option.bind (jget key r) as_u64 of None \<Rightarrow> 0 | Some t \<Rightarrow> t)"

definition normalize_status :: "string \<Rightarrow> string" where
  "normalize_status s =
     map (\<lambda>c. if c = CHR ''-'' \<or> c = CHR '' '' then CHR ''_'' else c) (map ascii_lower (trim s))"

definition session_state_of :: "json \<Rightarrow> session_state" where
  "session_state_of r =
     (let s = normalize_status (case Option.bind (jget ''status'' r) as_str of None \<Rightarrow> [] | Some s \<Rightarrow> s) in
      if s \<in> set [''busy'', ''running'', ''working'', ''thinking'', ''streaming''] then SRunning
      else if s \<in> set [''waiting'', ''waiting_for_input'', ''needs_input'', ''awaiting_input'', ''permission'',
          ''permission_request'', ''awaiting_permission'', ''needs_approval'', ''approval_required'',
          ''pending_approval''] then SWaiting
      else if s \<in> set [''error'', ''failed'', ''crashed''] then SError
      else if s \<in> set [''idle'', ''done'', ''completed''] then
        (if record_time r ''statusUpdatedAt'' > min (record_time r ''startedAt'' + 5000) u64_max
         then SCompleted else SQueued)
      else SQueued)"

section \<open>Names and files\<close>

text \<open>\<open>trim_end_matches\<close> and \<open>rsplit\<close> on the two separators.\<close>

definition is_separator :: "char \<Rightarrow> bool" where
  "is_separator c \<longleftrightarrow> c = CHR 0x5C \<or> c = CHR ''/''"

definition project_name :: "string \<Rightarrow> string" where
  "project_name directory =
     (let trimmed = rev (dropWhile is_separator (rev directory));
          name = rev (takeWhile (\<lambda>c. \<not> is_separator c) (rev trimmed))
      in if name = [] then directory else name)"

text \<open>\<open>Path::extension\<close> of a file name: what follows the last dot, unless that is its first byte.\<close>

definition file_extension :: "string \<Rightarrow> string option" where
  "file_extension name =
     (let ext = rev (takeWhile (\<lambda>c. c \<noteq> CHR ''.'') (rev name)) in
      if length ext + 1 < length name then Some ext else None)"

record claude_entry =
  ce_name :: string
  ce_is_file :: bool
  ce_len :: nat
  ce_bytes :: "string option"

record claude_world =
  cl_sessions :: "claude_entry list option"
  cl_projects :: "string list option"
  cl_is_file :: "string \<Rightarrow> bool"
  cl_read :: "string \<Rightarrow> string option"
  cl_lossy :: "string \<Rightarrow> string"
  cl_join :: "string \<Rightarrow> string \<Rightarrow> string"
  cl_from_str :: "string \<Rightarrow> string + json"
  cl_alive :: "nat \<Rightarrow> string option \<Rightarrow> bool"

definition TRANSCRIPT_TAIL_BYTES :: nat where "TRANSCRIPT_TAIL_BYTES = 65536"
definition MAX_RECORD_BYTES :: nat where "MAX_RECORD_BYTES = 65536"

text \<open>The end of a file, without the line the cut went through.\<close>

definition read_tail :: "claude_world \<Rightarrow> string \<Rightarrow> nat \<Rightarrow> string option" where
  "read_tail w path max_bytes =
     map_option (\<lambda>bytes.
       let start = length bytes - max_bytes; text = cl_lossy w (drop start bytes) in
       if start > 0 then (case split_once [CHR 0x0A] text of None \<Rightarrow> [] | Some (_, rest) \<Rightarrow> rest) else text)
       (cl_read w path)"

definition reply_model :: "(string \<Rightarrow> string + json) \<Rightarrow> string \<Rightarrow> string option" where
  "reply_model from_str line =
     (case from_str line of
        Inl _ \<Rightarrow> None
      | Inr entry \<Rightarrow>
          if Option.bind (jget ''type'' entry) as_str \<noteq> Some ''assistant'' then None
          else
            Option.bind (Option.bind (Option.bind (jget ''message'' entry) (jget ''model'')) as_str)
              (\<lambda>m. if m \<noteq> [] \<and> \<not> starts_with ''<'' m then Some m else None))"

fun find_map :: "('a \<Rightarrow> 'b option) \<Rightarrow> 'a list \<Rightarrow> 'b option" where
  "find_map f [] = None"
| "find_map f (x # xs) = (case f x of None \<Rightarrow> find_map f xs | Some y \<Rightarrow> Some y)"

definition transcript_model :: "claude_world \<Rightarrow> string \<Rightarrow> string option" where
  "transcript_model w session_id =
     (if list_ex is_separator session_id \<or> contains ''..'' session_id then None
      else
        Option.bind (cl_projects w) (\<lambda>dirs.
        Option.bind (List.find (cl_is_file w) (map (\<lambda>d. cl_join w d (session_id @ ''.jsonl'')) dirs)) (\<lambda>path.
        Option.bind (read_tail w path TRANSCRIPT_TAIL_BYTES) (\<lambda>tail.
          find_map (reply_model (cl_from_str w)) (rev (str_lines tail))))))"

section \<open>Tasks\<close>

definition nonblank :: "string option \<Rightarrow> string option" where
  "nonblank s = Option.bind s (\<lambda>s. if trim s = [] then None else Some s)"

definition build_claude_task :: "json \<Rightarrow> string option \<Rightarrow> json option" where
  "build_claude_task r reply =
     Option.bind (nonblank (Option.bind (jget ''sessionId'' r) as_str)) (\<lambda>session_id.
       let stable = (case nonblank (Option.bind (jget ''hostSessionId'' r) as_str) of
                       None \<Rightarrow> session_id | Some i \<Rightarrow> i);
           tid = ''claude:'' @ stable;
           cwd = nonblank (Option.bind (jget ''cwd'' r) as_str);
           proj = map_option project_name cwd;
           heading = (case or_else (Option.bind (map_option trim (Option.bind (jget ''name'' r) as_str))
                                    (\<lambda>n. if n = [] then None else Some n)) proj of
                      None \<Rightarrow> chars_take 8 session_id | Some t \<Rightarrow> t);
           state = session_state_of r;
           started = record_time r ''statusUpdatedAt''
       in Some (jobj
            ([(''task_id'', JStr tid), (''title'', JStr heading), (''project'', jopt JStr proj),
              (''workspace_path'', jopt JStr cwd), (''model'', jopt JStr reply),
              (''state'', JStr (session_state_str state)),
              (''priority'', jnat (if session_active state then TASK_PRIORITY_ACTIVE else TASK_PRIORITY_IDLE)),
              (''context'', jobj [(''project'', jopt JStr proj), (''task'', JStr heading),
                 (''model'', jopt JStr reply), (''status'', JStr (session_state_str state)),
                 (''task_id'', JStr tid)])] @
             (if session_active state \<and> started > 0
              then [(''started_at_ms'', jnat started), (''finished_at_ms'', JNull),
                    (''timing_authoritative'', JBool True)]
              else []))))"

section \<open>The snapshot\<close>

definition claude_record :: "claude_world \<Rightarrow> claude_entry \<Rightarrow> json option" where
  "claude_record w e =
     (if file_extension (ce_name e) \<noteq> Some ''json'' \<or> \<not> ce_is_file e \<or> ce_len e > MAX_RECORD_BYTES then None
      else
        Option.bind (ce_bytes e) (\<lambda>bytes.
          case cl_from_str w bytes of
            Inl _ \<Rightarrow> None
          | Inr r \<Rightarrow>
              Option.bind (Option.bind (jget ''pid'' r) as_u64) (\<lambda>pid.
                if pid \<ge> 2 ^ 32 then None
                else if (case Option.bind (jget ''kind'' r) as_str of None \<Rightarrow> True | Some k \<Rightarrow> k = ''interactive'') \<and>
                        cl_alive w pid (Option.bind (jget ''procStart'' r) as_str)
                then Some r else None)))"

definition record_order :: "json \<Rightarrow> json \<Rightarrow> ordering" where
  "record_order l r =
     then_cmp (cmp (session_active (session_state_of r)) (session_active (session_state_of l)))
       (cmp (record_time r ''updatedAt'') (record_time l ''updatedAt''))"

definition claude_records :: "claude_world \<Rightarrow> claude_entry list \<Rightarrow> json list" where
  "claude_records w es = sort_by record_order (List.map_filter (claude_record w) es)"

definition claude_task :: "claude_world \<Rightarrow> json \<Rightarrow> json option" where
  "claude_task w r =
     build_claude_task r (Option.bind (Option.bind (jget ''sessionId'' r) as_str) (transcript_model w))"

definition read_claude_snapshot :: "claude_world \<Rightarrow> nat \<Rightarrow> json option" where
  "read_claude_snapshot w max_tasks =
     (case cl_sessions w of
        None \<Rightarrow> None
      | Some es \<Rightarrow>
          if max_tasks = 0 then Some (jobj [(''tasks'', JArr [])])
          else Some (jobj [(''tasks'',
            JArr (List.map_filter (claude_task w) (take max_tasks (claude_records w es))))]))"

end
