(* ===== verification/Zcode_State.thy ===== *)
theory Zcode_State
  imports Claude_State
begin

text \<open>
  The ZCode feed (\<open>zcode_state.rs\<close>): the state of each session from its newest message, its last
  model request and a pending tool approval. The rows that the queries of the database return are
  arguments, as are the JSON parser and the last component of a path.
\<close>

definition RUNNING_WINDOW_MS :: nat where "RUNNING_WINDOW_MS = 300000"

record model_usage =
  mu_status :: string
  mu_model :: "string option"
  mu_variant :: "string option"
  mu_started :: int
  mu_completed :: "int option"

record zcode_row =
  zr_id :: string
  zr_title :: string
  zr_directory :: string
  zr_updated :: int
  zr_latest :: "model_usage option"

text \<open>
  The database: the rows of the session query for a limit (\<open>None\<close> for a row that cannot be read);
  for a session its newest message with its time, a message by id, the newest time, the last
  message of a time, the newest tool record and the newest model selection.
\<close>

record zcode_world =
  zw_rows :: "nat \<Rightarrow> zcode_row option list option"
  zw_newest :: "string \<Rightarrow> (int \<times> string) option"
  zw_message :: "string \<Rightarrow> string \<Rightarrow> (int \<times> string) option"
  zw_latest_time :: "string \<Rightarrow> int option"
  zw_data_at :: "string \<Rightarrow> int \<Rightarrow> string option"
  zw_tool :: "string \<Rightarrow> (string option \<times> string) option"
  zw_selection :: "string \<Rightarrow> string option"
  zw_from_str :: "string \<Rightarrow> string + json"
  zw_file_name :: "string \<Rightarrow> string option"

definition parsed :: "(string \<Rightarrow> string + json) \<Rightarrow> string \<Rightarrow> json option" where
  "parsed from_str s = (case from_str s of Inl _ \<Rightarrow> None | Inr v \<Rightarrow> Some v)"

definition json_i64 :: "int \<Rightarrow> json" where
  "json_i64 i = JNum (if 0 \<le> i then PosInt (nat i) else NegInt i)"

section \<open>Turns\<close>

definition turn_timestamps :: "zcode_world \<Rightarrow> string \<Rightarrow> (int \<times> int option) option" where
  "turn_timestamps w sid =
     Option.bind (zw_newest w sid) (\<lambda>(created, raw).
     Option.bind (parsed (zw_from_str w) raw) (\<lambda>v.
     Option.bind (Option.bind (jget ''role'' v) as_str) (\<lambda>role.
       if role = ''user'' then Some (created, None)
       else
         Option.bind (Option.bind (jget ''parentID'' v) as_str) (\<lambda>parent.
         Option.bind (zw_message w parent sid) (\<lambda>(start, parent_raw).
         Option.bind (parsed (zw_from_str w) parent_raw) (\<lambda>prompt.
         Option.bind (Option.bind (jget ''role'' prompt) as_str) (\<lambda>prompt_role.
           if prompt_role \<noteq> ''user'' then None
           else
             Some (start,
               Option.bind (Option.bind (Option.bind (jget ''time'' v) (jget ''completed'')) as_i64) (\<lambda>e.
                 if e \<ge> start \<and> Option.bind (jget ''finish'' v) as_str \<noteq> Some ''tool-calls''
                 then Some e else None)))))))))"

definition zcode_pending_status :: "string \<Rightarrow> bool" where
  "zcode_pending_status s \<longleftrightarrow> normalize_status s \<in> set [''pending'', ''waiting'', ''approval_pending'',
     ''approval_required'', ''awaiting_approval'', ''needs_approval'', ''permission_required'']"

definition has_pending_tool_approval :: "zcode_world \<Rightarrow> string \<Rightarrow> bool" where
  "has_pending_tool_approval w sid =
     (case zw_tool w sid of
        None \<Rightarrow> False
      | Some (approval, status) \<Rightarrow>
          map ascii_lower status = ''running'' \<and>
          (case approval of None \<Rightarrow> False | Some a \<Rightarrow> zcode_pending_status a))"

record session_tail =
  st_user :: bool
  st_streaming :: bool
  st_tool_calls :: bool

definition session_tail_of :: "zcode_world \<Rightarrow> string \<Rightarrow> session_tail option" where
  "session_tail_of w sid =
     Option.bind (zw_latest_time w sid) (\<lambda>t.
     Option.bind (zw_data_at w sid t) (\<lambda>data.
     Option.bind (parsed (zw_from_str w) data) (\<lambda>v.
     Option.bind (Option.bind (jget ''role'' v) as_str) (\<lambda>role.
       if role \<noteq> ''user'' \<and> role \<noteq> ''assistant'' then None
       else
         (let completed = (case Option.bind (Option.bind (jget ''time'' v) (jget ''completed'')) as_i64 of
                None \<Rightarrow> False | Some c \<Rightarrow> c > 0)
          in Some \<lparr>st_user = (role = ''user''), st_streaming = (role = ''assistant'' \<and> \<not> completed),
               st_tool_calls = (Option.bind (jget ''finish'' v) as_str = Some ''tool-calls'')\<rparr>)))))"

definition model_selection :: "zcode_world \<Rightarrow> string \<Rightarrow> (string option \<times> string option) option" where
  "model_selection w sid =
     Option.bind (zw_selection w sid) (\<lambda>data.
       map_option (\<lambda>v. (Option.bind (jget ''modelId'' v) as_str, Option.bind (jget ''thoughtLevel'' v) as_str))
         (parsed (zw_from_str w) data))"

section \<open>The state\<close>

definition structurally_open :: "session_tail \<Rightarrow> bool" where
  "structurally_open tail \<longleftrightarrow> st_user tail \<or> st_streaming tail \<or> st_tool_calls tail"

definition turn_in_flight :: "session_tail option \<Rightarrow> int \<Rightarrow> nat \<Rightarrow> bool" where
  "turn_in_flight tail updated now =
     (case tail of
        None \<Rightarrow> False
      | Some tail \<Rightarrow> structurally_open tail \<and> now - nat (max updated 0) < RUNNING_WINDOW_MS)"

definition zcode_derive_state :: "model_usage option \<Rightarrow> session_tail option \<Rightarrow> int \<Rightarrow> nat \<Rightarrow> string" where
  "zcode_derive_state latest tail updated now =
     (if turn_in_flight tail updated now then ''running''
      else if (case tail of None \<Rightarrow> False | Some t \<Rightarrow> st_user t \<or> st_streaming t \<or> st_tool_calls t) then ''paused''
      else
        (case latest of
           None \<Rightarrow> ''queued''
         | Some usage \<Rightarrow>
             (let s = map ascii_lower (trim (mu_status usage)) in
              if s = ''running'' then ''running''
              else if s = ''error'' then ''error''
              else if s = ''cancelled'' then ''queued''
              else if s = ''completed'' then ''completed''
              else ''error'')))"

definition zcode_project_name :: "zcode_world \<Rightarrow> string \<Rightarrow> string" where
  "zcode_project_name w directory =
     (case zw_file_name w directory of None \<Rightarrow> directory | Some n \<Rightarrow> n)"

definition zcode_state :: "zcode_world \<Rightarrow> nat \<Rightarrow> zcode_row \<Rightarrow> string" where
  "zcode_state w now row =
     (if has_pending_tool_approval w (zr_id row) then ''waiting''
      else zcode_derive_state (zr_latest row) (session_tail_of w (zr_id row)) (zr_updated row) now)"

definition build_zcode_task :: "zcode_world \<Rightarrow> nat \<Rightarrow> zcode_row \<Rightarrow> json" where
  "build_zcode_task w now row =
     (let selection = model_selection w (zr_id row);
          tail = session_tail_of w (zr_id row);
          latest = zr_latest row;
          state = zcode_state w now row;
          timing = turn_timestamps w (zr_id row);
          started = or_else (map_option fst timing)
            (if tail = None then map_option mu_started latest else None);
          finished = or_else (Option.bind timing snd)
            (if tail = None then Option.bind latest mu_completed else None);
          used = or_else (Option.bind selection fst) (Option.bind latest mu_model);
          level = or_else (Option.bind selection snd) (Option.bind latest mu_variant);
          tid = ''zcode:'' @ zr_id row
      in jobj
        [(''task_id'', JStr tid), (''title'', JStr (zr_title row)), (''workspace_path'', JStr (zr_directory row)),
         (''state'', JStr state),
         (''priority'', jnat (if state = ''running'' \<or> state = ''waiting''
            then TASK_PRIORITY_ACTIVE else TASK_PRIORITY_IDLE)),
         (''started_at_ms'', if state \<noteq> ''queued'' then jopt json_i64 started else JNull),
         (''finished_at_ms'', if state = ''completed'' then jopt json_i64 finished else JNull),
         (''timing_authoritative'', JBool True),
         (''context'', jobj [(''project'', JStr (zcode_project_name w (zr_directory row))),
            (''workspace_path'', JStr (zr_directory row)), (''task'', JStr (zr_title row)),
            (''model'', jopt JStr used), (''effort'', jopt JStr level), (''status'', JStr state),
            (''task_id'', JStr tid)])])"

definition read_zcode_snapshot :: "zcode_world \<Rightarrow> nat \<Rightarrow> nat \<Rightarrow> json option" where
  "read_zcode_snapshot w now max_tasks =
     map_option (\<lambda>rows. jobj [(''tasks'', JArr (map (build_zcode_task w now) (List.map_filter id rows)))])
       (zw_rows w max_tasks)"

end
