(* ===== verification/Hermes_State.thy ===== *)
theory Hermes_State
  imports Zcode_State
begin

text \<open>
  The Hermes feed (\<open>hermes_state.rs\<close>): sessions of the local database, or, where it has none, of the
  cached responses of a remote backend. Query results, cache files and the JSON parser are
  arguments; the memory of the last cache reading is passed and returned. Seconds are \<open>f64\<close>.
\<close>

definition ACTIVITY_LIVENESS :: nat where "ACTIVITY_LIVENESS = 300000"

definition f64_add :: "f64 \<Rightarrow> f64 \<Rightarrow> f64" where
  "f64_add a b = f64_round (a + b)"

definition seconds_to_ms :: "f64 \<Rightarrow> nat" where
  "seconds_to_ms x = (if x \<le> 0 then 0 else min (nat \<lfloor>f64_nearest (f64_mul x 1000)\<rfloor>) (2 ^ 128 - 1))"

section \<open>Approvals\<close>

definition hermes_pending_status :: "string \<Rightarrow> bool" where
  "hermes_pending_status s \<longleftrightarrow> normalize_status s \<in> set [''approval'', ''approval_pending'',
     ''approval_required'', ''approval_request'', ''awaiting_approval'', ''needs_approval'',
     ''permission_request'', ''permission_required'', ''pending_approval'']"

definition marker_pending :: "json \<Rightarrow> bool" where
  "marker_pending m \<longleftrightarrow> as_bool m = Some True \<or> as_object m \<noteq> None \<or> as_array m \<noteq> None \<or>
     (case as_str m of None \<Rightarrow> False | Some s \<Rightarrow> hermes_pending_status s)"

definition value_has_pending_approval_marker :: "json \<Rightarrow> bool" where
  "value_has_pending_approval_marker v =
     (as_object v \<noteq> None \<and>
      (list_ex (\<lambda>k. case jget k v of None \<Rightarrow> False | Some m \<Rightarrow> marker_pending m)
         [''pending_approval'', ''approval_pending'', ''approval_required'', ''permission_request''] \<or>
       list_ex (\<lambda>k. case Option.bind (jget k v) as_str of None \<Rightarrow> False | Some s \<Rightarrow> hermes_pending_status s)
         [''status'', ''state'', ''kind'', ''type'', ''display_kind'']))"

section \<open>The cached sidebar of a remote backend\<close>

definition cached_session_active :: "json \<Rightarrow> bool" where
  "cached_session_active s = (case Option.bind (jget ''is_active'' s) as_bool of None \<Rightarrow> False | Some b \<Rightarrow> b)"

definition cached_session_activity :: "json \<Rightarrow> f64" where
  "cached_session_activity s =
     (case Option.bind (or_else (jget ''last_active'' s)
              (or_else (jget ''last_activity_at'' s) (jget ''started_at'' s))) as_f64 of
        None \<Rightarrow> 0 | Some t \<Rightarrow> t)"

definition message_time :: "json \<Rightarrow> f64" where
  "message_time m = (case Option.bind (jget ''timestamp'' m) as_f64 of None \<Rightarrow> 0 | Some t \<Rightarrow> t)"

definition newest_message :: "json list \<Rightarrow> json option" where
  "newest_message ms = max_by (\<lambda>a b. cmp (message_time a) (message_time b)) ms"

definition set_field :: "string \<Rightarrow> json \<Rightarrow> json \<Rightarrow> json" where
  "set_field k x v = (case as_object v of None \<Rightarrow> v | Some m \<Rightarrow> JObj (bm_insert k x m))"

definition json_ms :: "nat \<Rightarrow> string + json" where
  "json_ms n = json_u128 (Some n)"

definition apply_cached_turn_timing :: "json \<Rightarrow> json \<Rightarrow> json list \<Rightarrow> string + json" where
  "apply_cached_turn_timing task session messages =
     (case newest_message messages of
        None \<Rightarrow> Inr task
      | Some latest \<Rightarrow>
          if f64_add (message_time latest) (f64_round (1 / 1000)) < cached_session_activity session then Inr task
          else
            (case newest_message (filter (\<lambda>m. Option.bind (jget ''role'' m) as_str = Some ''user'') messages) of
               None \<Rightarrow> Inr task
             | Some prompt \<Rightarrow>
                 (let terminal = (Option.bind (jget ''role'' latest) as_str = Some ''assistant'' \<and>
                        (case Option.bind (jget ''finish_reason'' latest) as_str of
                           None \<Rightarrow> False
                         | Some f \<Rightarrow> f \<noteq> [] \<and> f \<noteq> ''tool_calls'' \<and> f \<noteq> ''tool-calls''))
                  in if cached_session_active session \<and> terminal \<or> message_time prompt \<le> 0 then Inr task
                     else
                       res_bind (json_ms (seconds_to_ms (message_time prompt))) (\<lambda>started.
                         let task = set_field ''started_at_ms'' started task in
                         if jget ''state'' task = Some (JStr ''completed'') \<and> terminal
                         then res_bind (json_ms (seconds_to_ms (message_time latest))) (\<lambda>finished.
                                Inr (set_field ''finished_at_ms'' finished task))
                         else Inr task))))"

definition end_failed :: "string \<Rightarrow> bool" where
  "end_failed reason \<longleftrightarrow> contains ''error'' reason \<or> contains ''fail'' reason"

definition path_name :: "(string \<Rightarrow> string option) \<Rightarrow> string \<Rightarrow> string" where
  "path_name file_name directory = (case file_name directory of None \<Rightarrow> directory | Some n \<Rightarrow> n)"

definition build_cached_task :: "(string \<Rightarrow> string option) \<Rightarrow> json \<Rightarrow> json option" where
  "build_cached_task file_name session =
     Option.bind (Option.bind (jget ''id'' session) as_str) (\<lambda>i.
       let source = (case Option.bind (jget ''source'' session) as_str of None \<Rightarrow> [] | Some s \<Rightarrow> s) in
       if source = ''delegate'' \<or> source = ''batch'' \<or>
          Option.bind (jget ''archived'' session) as_bool = Some True then None
       else
         (let heading = (case find_map (\<lambda>k. nonblank (Option.bind (jget k session) as_str))
                  [''title'', ''display_name'', ''preview''] of None \<Rightarrow> i | Some t \<Rightarrow> t);
              tid = ''hermes:'' @ i;
              cwd = Option.bind (jget ''cwd'' session) as_str;
              proj = or_else (map_option (path_name file_name) cwd) (Option.bind (jget ''profile'' session) as_str);
              used = Option.bind (jget ''model'' session) as_str;
              approval = value_has_pending_approval_marker session;
              active = cached_session_active session;
              failed = end_failed (case Option.bind (jget ''end_reason'' session) as_str of None \<Rightarrow> [] | Some r \<Rightarrow> r);
              state = (if approval then ''waiting'' else if active then ''running''
                       else if failed then ''error'' else ''completed'')
          in Some (jobj
               [(''task_id'', JStr tid), (''title'', JStr heading), (''project'', jopt JStr proj),
                (''workspace_path'', jopt JStr cwd), (''model'', jopt JStr used), (''state'', JStr state),
                (''timing_authoritative'', JBool True), (''started_at_ms'', JNull), (''finished_at_ms'', JNull),
                (''priority'', jnat (if active \<or> approval then TASK_PRIORITY_ACTIVE else TASK_PRIORITY_IDLE)),
                (''context'', jobj [(''project'', jopt JStr proj), (''task'', JStr heading),
                   (''model'', jopt JStr used), (''status'', JStr state), (''task_id'', JStr tid)])])))"

text \<open>
  One response: the first listing in either shape counts, and of each session the first transcript.
\<close>

definition cached_sessions :: "json \<Rightarrow> json list option" where
  "cached_sessions response =
     Option.bind (or_else (Option.bind (jget ''recents'' response) (jget ''sessions'')) (jget ''sessions'' response))
       as_array"

definition read_response ::
  "json \<Rightarrow> json list option \<times> (string, json list) hmap \<Rightarrow> json list option \<times> (string, json list) hmap" where
  "read_response response c =
     (let (listing, details) = c;
          details =
            (case (Option.bind (jget ''session_id'' response) as_str, Option.bind (jget ''messages'' response) as_array) of
               (Some i, Some ms) \<Rightarrow> (if map_of details i = None then AList.update i ms details else details)
             | _ \<Rightarrow> details)
      in (or_else listing (cached_sessions response), details))"

definition cached_order :: "json \<Rightarrow> json \<Rightarrow> ordering" where
  "cached_order l r =
     then_cmp (cmp (cached_session_active r) (cached_session_active l))
       (cmp (cached_session_activity r) (cached_session_activity l))"

definition cached_task ::
  "(string \<Rightarrow> string option) \<Rightarrow> (string, json list) hmap \<Rightarrow> json \<Rightarrow> (string + json) option" where
  "cached_task file_name details session =
     map_option (\<lambda>task.
       case Option.bind (Option.bind (jget ''id'' session) as_str) (map_of details) of
         None \<Rightarrow> Inr task
       | Some ms \<Rightarrow> apply_cached_turn_timing task session ms) (build_cached_task file_name session)"

fun all_ok :: "('e + 'a) list \<Rightarrow> 'e + 'a list" where
  "all_ok [] = Inr []"
| "all_ok (x # xs) = res_bind x (\<lambda>y. res_bind (all_ok xs) (\<lambda>ys. Inr (y # ys)))"

record hermes_row =
  hr_id :: string
  hr_title :: string
  hr_cwd :: "string option"
  hr_model :: "string option"
  hr_config :: "string option"
  hr_started :: f64
  hr_ended :: "f64 option"
  hr_reason :: "string option"
  hr_activity :: f64

record hermes_message =
  hm_role :: string
  hm_time :: f64
  hm_finish :: "string option"
  hm_kind :: "string option"
  hm_metadata :: "string option"

record cache_entry =
  ca_name :: string
  ca_is_file :: bool
  ca_len :: nat
  ca_modified :: "nat option"
  ca_path :: string

text \<open>
  The surroundings: columns of the tables and rows of the queries (\<open>hw_open\<close> tells whether the
  database could be opened), the entries of the cache directory, their bytes, the parser.
\<close>

record hermes_world =
  hw_open :: bool
  hw_columns :: "string list option"
  hw_rows :: "nat \<Rightarrow> hermes_row option list option"
  hw_latest :: "string \<Rightarrow> hermes_message option"
  hw_latest_user :: "string \<Rightarrow> f64 option"
  hw_cache :: "cache_entry list option"
  hw_read :: "string \<Rightarrow> string option"
  hw_from_str :: "string \<Rightarrow> string + json"
  hw_file_name :: "string \<Rightarrow> string option"

type_synonym candidate = "nat \<times> string \<times> nat"

definition cache_candidates :: "cache_entry list \<Rightarrow> candidate list" where
  "cache_candidates es =
     take 64 (rev (sort_by (\<lambda>a b. cmp (fst a) (fst b))
       (List.map_filter (\<lambda>e.
          if \<not> starts_with ''f_'' (ca_name e) \<or> \<not> ca_is_file e \<or> ca_len e > 2 * 1024 * 1024 then None
          else map_option (\<lambda>t. (t, ca_path e, ca_len e)) (ca_modified e)) es)))"

definition parse_remote_cache :: "hermes_world \<Rightarrow> candidate list \<Rightarrow> nat \<Rightarrow> string + json option" where
  "parse_remote_cache w cs max_tasks =
     (let responses = List.map_filter (\<lambda>(_, path, _). Option.bind (hw_read w path) (parsed (hw_from_str w))) cs;
          (listing, details) = fold read_response responses (None, [])
      in case listing of
           None \<Rightarrow> Inr None
         | Some sessions \<Rightarrow>
             map_sum id (\<lambda>ts. Some (jobj [(''tasks'', JArr ts)]))
               (all_ok (take max_tasks (List.map_filter (cached_task (hw_file_name w) details)
                  (sort_by cached_order sessions)))))"

text \<open>The last key of the cache with its snapshot; the directory is the same in every call.\<close>

type_synonym cache_memory = "((nat \<times> candidate list) \<times> json option) option"

definition read_remote_cache_snapshot ::
  "hermes_world \<Rightarrow> nat \<Rightarrow> cache_memory \<Rightarrow> (string + json option) \<times> cache_memory" where
  "read_remote_cache_snapshot w max_tasks memo =
     (if max_tasks = 0 then (Inr (Some (jobj [(''tasks'', JArr [])])), memo)
      else
        (case hw_cache w of
           None \<Rightarrow> (Inr None, memo)
         | Some es \<Rightarrow>
             (let key = (max_tasks, cache_candidates es) in
              if map_option fst memo = Some key then (Inr (snd (the memo)), memo)
              else
                (case parse_remote_cache w (snd key) max_tasks of
                   Inl e \<Rightarrow> (Inl e, memo)
                 | Inr snapshot \<Rightarrow> (Inr snapshot, Some (key, snapshot))))))"

section \<open>The local database\<close>

record message_activity =
  ma_role :: "string option"
  ma_time :: "f64 option"
  ma_finish :: "string option"
  ma_user :: "f64 option"
  ma_approval :: bool

definition message_activity_of :: "hermes_world \<Rightarrow> string \<Rightarrow> message_activity" where
  "message_activity_of w sid =
     (let latest = hw_latest w sid in
      \<lparr>ma_role = map_option hm_role latest, ma_time = map_option hm_time latest,
       ma_finish = Option.bind latest hm_finish, ma_user = hw_latest_user w sid,
       ma_approval =
         (case latest of
            None \<Rightarrow> False
          | Some m \<Rightarrow>
              (case hm_kind m of None \<Rightarrow> False | Some k \<Rightarrow> hermes_pending_status k) \<or>
              (case Option.bind (hm_metadata m) (parsed (hw_from_str w)) of
                 None \<Rightarrow> False | Some v \<Rightarrow> value_has_pending_approval_marker v))\<rparr>)"

definition hermes_derive_state ::
  "hermes_row \<Rightarrow> message_activity \<Rightarrow> nat \<Rightarrow> string \<times> nat option \<times> nat option" where
  "hermes_derive_state row act now =
     (let latest_ms = seconds_to_ms (case ma_time act of None \<Rightarrow> hr_activity row | Some t \<Rightarrow> t);
          started_ms = seconds_to_ms (case ma_user act of None \<Rightarrow> hr_started row | Some t \<Rightarrow> t);
          elapsed = now - latest_ms;
          finish = (case ma_finish act of None \<Rightarrow> [] | Some f \<Rightarrow> f);
          stopped = (finish \<in> set [''stop'', ''completed'', ''length'']);
          pending = (ma_role act = Some ''user'' \<or> ma_role act = Some ''tool'' \<or>
            ma_role act = Some ''assistant'' \<and> \<not> stopped)
      in if ma_approval act \<and> elapsed \<le> ACTIVITY_LIVENESS then (''waiting'', Some started_ms, None)
         else if pending \<and> elapsed \<le> ACTIVITY_LIVENESS then (''running'', Some started_ms, None)
         else if (case hr_reason row of None \<Rightarrow> False | Some r \<Rightarrow> end_failed r)
         then (''error'', Some started_ms, map_option seconds_to_ms (hr_ended row))
         else if ma_role act = Some ''assistant'' \<and> stopped then (''completed'', Some started_ms, Some latest_ms)
         else (''queued'', None, None))"

definition model_effort :: "hermes_world \<Rightarrow> string \<Rightarrow> string option" where
  "model_effort w raw =
     Option.bind (parsed (hw_from_str w) raw) (\<lambda>v.
       find_map (\<lambda>k. Option.bind (jget k v) as_str)
         [''reasoning_effort'', ''effort'', ''thinking_level'', ''reasoning''])"

definition build_hermes_task :: "hermes_world \<Rightarrow> nat \<Rightarrow> hermes_row \<Rightarrow> string + json" where
  "build_hermes_task w now row =
     (let (state, started_ms, finished_ms) = hermes_derive_state row (message_activity_of w (hr_id row)) now;
          tid = ''hermes:'' @ hr_id row;
          proj = map_option (path_name (hw_file_name w)) (hr_cwd row);
          level = Option.bind (hr_config row) (model_effort w)
      in res_bind (json_u128 started_ms) (\<lambda>started.
         res_bind (json_u128 finished_ms) (\<lambda>finished.
           Inr (jobj
             [(''task_id'', JStr tid), (''title'', JStr (hr_title row)), (''project'', jopt JStr proj),
              (''workspace_path'', jopt JStr (hr_cwd row)), (''model'', jopt JStr (hr_model row)),
              (''effort'', jopt JStr level), (''state'', JStr state),
              (''priority'', jnat (if state = ''running'' \<or> state = ''waiting''
                 then TASK_PRIORITY_ACTIVE else TASK_PRIORITY_IDLE)),
              (''started_at_ms'', started), (''finished_at_ms'', finished), (''timing_authoritative'', JBool True),
              (''context'', jobj [(''project'', jopt JStr proj), (''task'', JStr (hr_title row)),
                 (''model'', jopt JStr (hr_model row)), (''effort'', jopt JStr level),
                 (''status'', JStr state), (''task_id'', JStr tid)])]))))"

definition required_columns :: "string list" where
  "required_columns =
     [''id'', ''source'', ''model'', ''started_at'', ''ended_at'', ''end_reason'', ''title'']"

definition read_local_snapshot :: "hermes_world \<Rightarrow> nat \<Rightarrow> nat \<Rightarrow> string + json option" where
  "read_local_snapshot w now max_tasks =
     (if max_tasks = 0 then Inr (Some (jobj [(''tasks'', JArr [])]))
      else
        (case hw_columns w of
           None \<Rightarrow> Inr None
         | Some columns \<Rightarrow>
             if \<not> list_all (\<lambda>c. c \<in> set columns) required_columns then Inr None
             else
               (case hw_rows w max_tasks of
                  None \<Rightarrow> Inr None
                | Some rows \<Rightarrow>
                    map_sum id (\<lambda>ts. Some (jobj [(''tasks'', JArr ts)]))
                      (all_ok (map (build_hermes_task w now) (List.map_filter id rows))))))"

definition has_tasks :: "json option \<Rightarrow> bool" where
  "has_tasks snapshot =
     (case Option.bind (Option.bind snapshot (jget ''tasks'')) as_array of None \<Rightarrow> False | Some ts \<Rightarrow> ts \<noteq> [])"

definition read_hermes_snapshot ::
  "hermes_world \<Rightarrow> nat \<Rightarrow> nat \<Rightarrow> cache_memory \<Rightarrow> (string + json option) \<times> cache_memory" where
  "read_hermes_snapshot w now max_tasks memo =
     (case (if hw_open w then read_local_snapshot w now max_tasks else Inr None) of
        Inl e \<Rightarrow> (Inl e, memo)
      | Inr stored \<Rightarrow>
          if has_tasks stored then (Inr stored, memo)
          else
            (let (r, memo) = read_remote_cache_snapshot w max_tasks memo
             in (map_sum id (\<lambda>remote. or_else remote stored) r, memo)))"

end
