(* ===== verification/Feed_Props.thy ===== *)
theory Feed_Props
  imports Hermes_State Task_Board_Props Bridge_Routes
begin

text \<open>
  The properties of the desktop feeds: what the task board makes of their snapshots, the order and
  number of the Claude sessions, the age of running sessions, and the memory of the remote cache.
\<close>

section \<open>Snapshots on the task board\<close>

text \<open>The shape of the tasks that the feeds build, as far as the parser of cards looks at them.\<close>

definition feed_time :: "json option \<Rightarrow> bool" where
  "feed_time v \<longleftrightarrow> v = None \<or> v = Some JNull \<or> (\<exists>n. v = Some (jnat n))"

definition feed_task :: "json \<Rightarrow> bool" where
  "feed_task t \<longleftrightarrow>
     (\<exists>tid s st p. jget ''task_id'' t = Some (JStr tid) \<and> tid \<noteq> [] \<and> chars_count tid \<le> 160 \<and>
        jget ''state'' t = Some (JStr s) \<and> task_state_parse (Some s) = Inr st \<and>
        jget ''priority'' t = Some (jnat p) \<and> p \<le> 100) \<and>
     (\<forall>k \<in> {''legacy_key'', ''interaction'', ''progress'', ''color'', ''c'', ''brightness'', ''b''}. jget k t = None) \<and>
     feed_time (jget ''started_at_ms'' t) \<and> feed_time (jget ''finished_at_ms'' t)"

lemma feed_taskI:
  "jget ''task_id'' t = Some (JStr tid) \<Longrightarrow> tid \<noteq> [] \<Longrightarrow> chars_count tid \<le> 160 \<Longrightarrow>
   jget ''state'' t = Some (JStr s) \<Longrightarrow> task_state_parse (Some s) = Inr st \<Longrightarrow>
   jget ''priority'' t = Some (jnat p) \<Longrightarrow> p \<le> 100 \<Longrightarrow>
   \<forall>k \<in> {''legacy_key'', ''interaction'', ''progress'', ''color'', ''c'', ''brightness'', ''b''}. jget k t = None \<Longrightarrow>
   feed_time (jget ''started_at_ms'' t) \<Longrightarrow> feed_time (jget ''finished_at_ms'' t) \<Longrightarrow> feed_task t"
  unfolding feed_task_def by blast

definition feed_id :: "json \<Rightarrow> string" where
  "feed_id t = (case Option.bind (jget ''task_id'' t) as_str of None \<Rightarrow> [] | Some i \<Rightarrow> i)"

lemma feed_time_parses: "feed_time v \<Longrightarrow> \<exists>x. parse_timestamp_ms v = Inr x"
  by (auto simp: feed_time_def parse_timestamp_ms_def jnat_def)

lemma feed_task_parses:
  assumes "feed_task t"
  shows "\<exists>card. parse_task session agent t now None = Inr card \<and> task_id card = feed_id t"
proof -
  obtain m where m: "t = JObj m" using assms by (cases t) (auto simp: feed_task_def)
  from assms obtain tid s st p where f: "map_of m ''task_id'' = Some (JStr tid)" "tid \<noteq> []" "chars_count tid \<le> 160"
      "map_of m ''state'' = Some (JStr s)" "task_state_parse (Some s) = Inr st" "map_of m ''priority'' = Some (jnat p)" "p \<le> 100"
    and none: "map_of m ''legacy_key'' = None" "map_of m ''interaction'' = None" "map_of m ''progress'' = None"
      "map_of m ''color'' = None" "map_of m ''c'' = None" "map_of m ''brightness'' = None" "map_of m ''b'' = None"
    by (auto simp: feed_task_def m)
  obtain x y where times: "parse_timestamp_ms (map_of m ''started_at_ms'') = Inr x"
      "parse_timestamp_ms (map_of m ''finished_at_ms'') = Inr y"
    using assms feed_time_parses [of "map_of m ''started_at_ms''"] feed_time_parses [of "map_of m ''finished_at_ms''"]
    by (auto simp: feed_task_def m)
  have id: "feed_id t = tid" by (simp add: feed_id_def m f)
  have life: "task_lifecycle m None = Inr st"
    by (simp add: task_lifecycle_def hid_color_state_def f Let_def)
  show ?thesis
    using f none times by (simp add: parse_task_def m id [unfolded m] task_identity_def life parse_interaction_def parse_progress_def
        parse_color_def parse_brightness_def Let_def)
qed

text \<open>No card of another session has the id, except one left by a session that has gone.\<close>

definition unclaimed :: "nat \<Rightarrow> agent_id \<Rightarrow> task_board \<Rightarrow> json list \<Rightarrow> bool" where
  "unclaimed session agent tb ts \<longleftrightarrow>
     (\<forall>t \<in> set ts. foreign_owner session agent (map_of (tasks tb) (feed_id t)) = None)"

lemma published_cards_feed:
  assumes "\<forall>t \<in> set ts. feed_task t" and "unclaimed session agent tb ts"
  shows "(\<exists>cards. published_cards tb session agent now seen ts = Inr cards) \<longleftrightarrow>
    distinct (map feed_id ts) \<and> feed_id ` set ts \<inter> seen = {}"
  using assms
proof (induction ts arbitrary: seen)
  case (Cons t ts)
  obtain card where card: "parse_task session agent t now None = Inr card" "task_id card = feed_id t"
    using Cons.prems(1) feed_task_parses [of t session agent now] by auto
  have "foreign_owner session agent (map_of (tasks tb) (task_id card)) = None"
    using Cons.prems(2) card(2) by (simp add: unclaimed_def)
  moreover have "unclaimed session agent tb ts" using Cons.prems(2) by (simp add: unclaimed_def)
  ultimately show ?case
    using Cons.IH [of "insert (feed_id t) seen"] Cons.prems(1) card by (auto simp: res_bind_Inr_iff)
qed simp

lemma feed_published:
  assumes "\<forall>t \<in> set ts. feed_task t" and "unclaimed session agent tb ts"
  shows "(\<exists>r. snd (publish_tasks session agent (jobj [(''tasks'', JArr ts)]) now tb) = Inr r) \<longleftrightarrow>
    distinct (map feed_id ts)"
  using published_cards_feed [OF assms, of now "{}"]
  by (cases "published_cards tb session agent now {} ts") (simp_all add: publish_tasks_def jget_jobj Let_def)

section \<open>Claude\<close>

lemma session_states_parse: "\<exists>st. task_state_parse (Some (session_state_str s)) = Inr st"
  by (cases s) (simp_all add: task_state_parse_def)

lemma build_claude_fields:
  assumes "build_claude_task r reply = Some t"
  obtains sid i where "nonblank (Option.bind (jget ''sessionId'' r) as_str) = Some sid"
    and "i = (case nonblank (Option.bind (jget ''hostSessionId'' r) as_str) of None \<Rightarrow> sid | Some i \<Rightarrow> i)"
    and "jget ''task_id'' t = Some (JStr (''claude:'' @ i))"
    and "jget ''state'' t = Some (JStr (session_state_str (session_state_of r)))"
    and "jget ''priority'' t = Some (jnat (if session_active (session_state_of r)
      then TASK_PRIORITY_ACTIVE else TASK_PRIORITY_IDLE))"
    and "\<forall>k \<in> {''legacy_key'', ''interaction'', ''progress'', ''color'', ''c'', ''brightness'', ''b''}. jget k t = None"
    and "feed_time (jget ''started_at_ms'' t)" and "feed_time (jget ''finished_at_ms'' t)"
proof -
  from assms obtain sid where sid: "nonblank (Option.bind (jget ''sessionId'' r) as_str) = Some sid"
    by (auto simp: build_claude_task_def bind_eq_Some_conv)
  define i where "i = (case nonblank (Option.bind (jget ''hostSessionId'' r) as_str) of None \<Rightarrow> sid | Some i \<Rightarrow> i)"
  obtain ttl proj cwd ctx extra where t: "t = jobj ([(''task_id'', JStr (''claude:'' @ i)), (''title'', ttl), (''project'', proj),
      (''workspace_path'', cwd), (''model'', jopt JStr reply), (''state'', JStr (session_state_str (session_state_of r))),
      (''priority'', jnat (if session_active (session_state_of r) then TASK_PRIORITY_ACTIVE else TASK_PRIORITY_IDLE)),
      (''context'', ctx)] @ extra)"
    and extra: "extra = [] \<or> (\<exists>n. extra = [(''started_at_ms'', jnat n), (''finished_at_ms'', JNull),
      (''timing_authoritative'', JBool True)])"
    using assms sid unfolding build_claude_task_def i_def Let_def
    by (cases "session_active (session_state_of r) \<and> record_time r ''statusUpdatedAt'' > 0") fastforce+
  from extra show ?thesis
    by (intro that [OF sid i_def]) (auto simp: t jget_jobj feed_time_def)
qed

lemma claude_task_shape:
  assumes "build_claude_task r reply = Some t" and "chars_count (feed_id t) \<le> 160"
  shows "feed_task t"
proof -
  obtain st where st: "task_state_parse (Some (session_state_str (session_state_of r))) = Inr st"
    using session_states_parse by blast
  obtain sid i where f: "jget ''task_id'' t = Some (JStr (''claude:'' @ i))"
      "jget ''state'' t = Some (JStr (session_state_str (session_state_of r)))"
      "jget ''priority'' t = Some (jnat (if session_active (session_state_of r)
        then TASK_PRIORITY_ACTIVE else TASK_PRIORITY_IDLE))"
    and rest: "\<forall>k \<in> {''legacy_key'', ''interaction'', ''progress'', ''color'', ''c'', ''brightness'', ''b''}. jget k t = None"
      "feed_time (jget ''started_at_ms'' t)" "feed_time (jget ''finished_at_ms'' t)"
    using build_claude_fields [OF assms(1)] by metis
  have "feed_id t = ''claude:'' @ i" by (simp add: feed_id_def f)
  moreover have "(if session_active (session_state_of r) then TASK_PRIORITY_ACTIVE else TASK_PRIORITY_IDLE) \<le> 100"
    by (simp add: TASK_PRIORITY_ACTIVE_def TASK_PRIORITY_IDLE_def)
  ultimately show ?thesis
    using assms(2) by (intro feed_taskI [OF f(1) _ _ f(2) st f(3) _ rest]) simp_all
qed

text \<open>The id of the card of a session: that of its host, so that \<open>/clear\<close> keeps the card.\<close>

definition stable_id :: "json \<Rightarrow> string" where
  "stable_id r =
     (case nonblank (Option.bind (jget ''hostSessionId'' r) as_str) of
        Some i \<Rightarrow> i
      | None \<Rightarrow> (case Option.bind (jget ''sessionId'' r) as_str of None \<Rightarrow> [] | Some i \<Rightarrow> i))"

definition has_session_id :: "json \<Rightarrow> bool" where
  "has_session_id r \<longleftrightarrow> nonblank (Option.bind (jget ''sessionId'' r) as_str) \<noteq> None"

lemma nonblank_Some: "nonblank x = Some s \<Longrightarrow> x = Some s"
  by (auto simp: nonblank_def bind_eq_Some_conv split: if_splits)

lemma claude_task_id:
  "claude_task w r = Some t \<Longrightarrow> feed_id t = ''claude:'' @ stable_id r"
  unfolding claude_task_def
  by (elim build_claude_fields) (auto simp: feed_id_def stable_id_def split: option.splits dest: nonblank_Some)

lemma claude_task_some: "claude_task w r = None \<longleftrightarrow> \<not> has_session_id r"
  by (simp add: claude_task_def build_claude_task_def has_session_id_def Let_def bind_eq_None_conv)

lemma claude_tasks_ids:
  "map feed_id (List.map_filter (claude_task w) rs) = map (\<lambda>r. ''claude:'' @ stable_id r) (filter has_session_id rs)"
proof (induction rs)
  case (Cons r rs)
  then show ?case
    using claude_task_id [of w r] claude_task_some [of w r]
    by (cases "claude_task w r") (simp_all add: map_filter_simps)
qed (simp add: map_filter_simps)

text \<open>
  C32. The Claude snapshot on the task board: as long as the ids are not too long and not held by
  another session, the publication succeeds exactly if the listed sessions have different hosts;
  two running processes with the same session make the board reject the whole snapshot.
\<close>
theorem claude_feed_published:
  assumes "cl_sessions w = Some es" and "0 < limit" and "read_claude_snapshot w limit = Some v"
    and "shown = filter has_session_id (take limit (claude_records w es))"
    and "\<forall>r \<in> set shown. chars_count (''claude:'' @ stable_id r) \<le> 160 \<and>
      foreign_owner session agent (map_of (tasks tb) (''claude:'' @ stable_id r)) = None"
  shows "(\<exists>r. snd (publish_tasks session agent v now tb) = Inr r) \<longleftrightarrow> distinct (map stable_id shown)"
proof -
  define ts where "ts = List.map_filter (claude_task w) (take limit (claude_records w es))"
  have v: "v = jobj [(''tasks'', JArr ts)]"
    using assms(1,2,3) by (simp add: read_claude_snapshot_def ts_def)
  have ids: "map feed_id ts = map (\<lambda>r. ''claude:'' @ stable_id r) shown"
    by (simp add: ts_def claude_tasks_ids assms(4))
  have shape: "chars_count (feed_id t) \<le> 160 \<and> foreign_owner session agent (map_of (tasks tb) (feed_id t)) = None"
    if "t \<in> set ts" for t
  proof -
    have "feed_id t \<in> set (map (\<lambda>r. ''claude:'' @ stable_id r) shown)"
      using that unfolding ids [symmetric] by simp
    with assms(5) show ?thesis by auto
  qed
  have "feed_task t" if "t \<in> set ts" for t
  proof -
    from that obtain r where "claude_task w r = Some t" by (auto simp: ts_def List.map_filter_def)
    then show ?thesis using claude_task_shape shape [OF that] by (auto simp: claude_task_def)
  qed
  moreover have "unclaimed session agent tb ts" using shape by (simp add: unclaimed_def)
  ultimately have "(\<exists>r. snd (publish_tasks session agent v now tb) = Inr r) \<longleftrightarrow> distinct (map feed_id ts)"
    unfolding v by (intro feed_published) auto
  then show ?thesis unfolding ids by (simp add: distinct_map inj_on_def)
qed

interpretation record_order: comparator record_order
  unfolding record_order_def
  by (intro comparator_then comparator_rev [OF comparator_cmp])

text \<open>
  The Claude snapshot has at most the requested number of tasks, of live interactive sessions
  only; an idle session is among those considered only if every active one is, and sessions of
  the same activity are considered by their last update, the latest first.
\<close>
theorem claude_active_first:
  assumes "cl_sessions w = Some es" and "read_claude_snapshot w limit = Some v"
    and "jget ''tasks'' v = Some (JArr ts)"
  shows "length ts \<le> limit \<and>
    (\<forall>t \<in> set ts. \<exists>r \<in> set (take limit (claude_records w es)). claude_task w r = Some t) \<and>
    (\<forall>r \<in> set (take limit (claude_records w es)). \<forall>r' \<in> set (drop limit (claude_records w es)).
      (session_active (session_state_of r') \<longrightarrow> session_active (session_state_of r)) \<and>
      (session_active (session_state_of r) = session_active (session_state_of r') \<longrightarrow>
        record_time r' ''updatedAt'' \<le> record_time r ''updatedAt''))"
proof -
  let ?rs = "claude_records w es"
  have ts: "ts = List.map_filter (claude_task w) (take limit ?rs)"
    using assms by (cases "limit = 0") (auto simp: read_claude_snapshot_def jget_jobj map_filter_simps)
  have len: "length (List.map_filter f xs) \<le> length xs" for f :: "json \<Rightarrow> json option" and xs
    by (simp add: List.map_filter_def)
  have "sorted_wrt (\<lambda>x y. record_order x y \<noteq> Greater) (take limit ?rs @ drop limit ?rs)"
    using record_order.sorted_sort_by by (simp add: claude_records_def)
  then have "record_order r r' \<noteq> Greater" if "r \<in> set (take limit ?rs)" "r' \<in> set (drop limit ?rs)" for r r'
    using that by (simp add: sorted_wrt_append del: append_take_drop_id)
  then have "(session_active (session_state_of r') \<longrightarrow> session_active (session_state_of r)) \<and>
      (session_active (session_state_of r) = session_active (session_state_of r') \<longrightarrow>
        record_time r' ''updatedAt'' \<le> record_time r ''updatedAt'')"
    if "r \<in> set (take limit ?rs)" "r' \<in> set (drop limit ?rs)" for r r'
    using that by (fastforce simp: record_order_def cmp_def split: if_splits)
  moreover have "length ts \<le> limit"
    unfolding ts using len [of "claude_task w" "take limit ?rs"] by simp
  moreover have "\<exists>r \<in> set (take limit ?rs). claude_task w r = Some t" if "t \<in> set ts" for t
    using that by (force simp: ts List.map_filter_def)
  ultimately show ?thesis by blast
qed

section \<open>Hermes and ZCode\<close>

text \<open>A memory that agrees with the bytes the cache files have now.\<close>

definition memory_ok :: "hermes_world \<Rightarrow> cache_memory \<Rightarrow> bool" where
  "memory_ok w memo \<longleftrightarrow>
     (case memo of None \<Rightarrow> True | Some ((n, cs), snapshot) \<Rightarrow> parse_remote_cache w cs n = Inr snapshot)"

lemma remote_cache_transparent:
  assumes "memory_ok w memo"
  shows "fst (read_remote_cache_snapshot w n memo) = fst (read_remote_cache_snapshot w n None) \<and>
    memory_ok w (snd (read_remote_cache_snapshot w n memo))"
proof (cases "n = 0 \<or> hw_cache w = None")
  case True
  then show ?thesis using assms by (auto simp: read_remote_cache_snapshot_def split: option.split)
next
  case False
  then obtain es where es: "hw_cache w = Some es" "n \<noteq> 0" by auto
  show ?thesis
  proof (cases "map_option fst memo = Some (n, cache_candidates es)")
    case True
    then obtain snapshot where m: "memo = Some ((n, cache_candidates es), snapshot)" by (cases memo) auto
    with assms es show ?thesis by (simp add: read_remote_cache_snapshot_def memory_ok_def)
  next
    case F: False
    with assms es show ?thesis
      by (cases "parse_remote_cache w (cache_candidates es) n")
        (simp_all add: read_remote_cache_snapshot_def memory_ok_def)
  qed
qed

text \<open>
  The memory of the remote cache does not show: as long as files with the same name, time and
  length have the same bytes, a snapshot is the one that reading everything again would give, and
  the memory stays in that state.
\<close>
theorem hermes_cache_transparent:
  assumes "memory_ok w memo"
  shows "fst (read_hermes_snapshot w now n memo) = fst (read_hermes_snapshot w now n None) \<and>
    memory_ok w (snd (read_hermes_snapshot w now n memo))"
  using remote_cache_transparent [OF assms, of n] assms
  by (auto simp: read_hermes_snapshot_def case_prod_beta split: sum.split)

text \<open>
  A turn that looks open is shown as running for a limited time only: a ZCode session whose last
  request is not marked running, and any running or waiting session of the local Hermes database,
  was active within the last five minutes.
\<close>
theorem running_turns_recent:
  shows "(zcode_derive_state latest tail updated now = ''running'' \<and>
      (\<forall>u. latest = Some u \<longrightarrow> map ascii_lower (trim (mu_status u)) \<noteq> ''running'') \<longrightarrow>
      now < nat (max updated 0) + RUNNING_WINDOW_MS) \<and>
    (fst (hermes_derive_state row act now) \<in> {''running'', ''waiting''} \<longrightarrow>
      now \<le> seconds_to_ms (case ma_time act of None \<Rightarrow> hr_activity row | Some t \<Rightarrow> t) + ACTIVITY_LIVENESS)"
proof
  show "zcode_derive_state latest tail updated now = ''running'' \<and>
      (\<forall>u. latest = Some u \<longrightarrow> map ascii_lower (trim (mu_status u)) \<noteq> ''running'') \<longrightarrow>
      now < nat (max updated 0) + RUNNING_WINDOW_MS"
    by (auto simp: zcode_derive_state_def turn_in_flight_def RUNNING_WINDOW_MS_def Let_def split: option.splits if_splits)
  show "fst (hermes_derive_state row act now) \<in> {''running'', ''waiting''} \<longrightarrow>
      now \<le> seconds_to_ms (case ma_time act of None \<Rightarrow> hr_activity row | Some t \<Rightarrow> t) + ACTIVITY_LIVENESS"
    by (auto simp: hermes_derive_state_def Let_def split: if_splits)
qed

section \<open>Witnesses\<close>

text \<open>Two processes of the same session, which the registry lists as two files.\<close>

definition sample_record :: json where
  "sample_record = jobj [(''pid'', jnat 7), (''sessionId'', JStr ''s''), (''status'', JStr ''busy''), (''updatedAt'', jnat 3)]"

definition sample_entry :: claude_entry where
  "sample_entry = \<lparr>ce_name = ''7.json'', ce_is_file = True, ce_len = 9, ce_bytes = Some ''{}''\<rparr>"

definition sample_claude :: claude_world where
  "sample_claude = \<lparr>cl_sessions = Some [sample_entry, sample_entry], cl_projects = None, cl_is_file = (\<lambda>_. False),
     cl_read = (\<lambda>_. None), cl_lossy = (\<lambda>s. s), cl_join = (@), cl_from_str = (\<lambda>_. Inr sample_record),
     cl_alive = (\<lambda>_ _. True)\<rparr>"

lemma sample_claude_record: "claude_record sample_claude sample_entry = Some sample_record"
proof -
  have "file_extension ''7.json'' = Some ''json''" by code_simp
  then show ?thesis
    by (simp add: claude_record_def sample_entry_def sample_claude_def sample_record_def jget_jobj MAX_RECORD_BYTES_def)
qed

lemma sample_claude_id:
  "has_session_id sample_record" "stable_id sample_record = ''s''" "chars_count ''claude:s'' \<le> 160"
proof -
  have t: "trim ''s'' = ''s''" by (simp add: trim_byte)
  show "has_session_id sample_record" "stable_id sample_record = ''s''"
    by (simp_all add: has_session_id_def stable_id_def sample_record_def nonblank_def jget_jobj t)
  show "chars_count ''claude:s'' \<le> 160" by code_simp
qed

lemma sample_claude_shown:
  "filter has_session_id (take 3 (claude_records sample_claude [sample_entry, sample_entry])) = [sample_record, sample_record]"
  by (simp add: claude_records_def map_filter_simps sample_claude_record sort_by_def record_order.refl sample_claude_id)

theorem claude_feed_published_witness:
  "\<exists>v. read_claude_snapshot sample_claude 3 = Some v \<and>
     \<not> (\<exists>r. snd (publish_tasks CLAUDE_POLL_SESSION Claude v 5 board_new) = Inr r)"
proof -
  have w: "cl_sessions sample_claude = Some [sample_entry, sample_entry]" by (simp add: sample_claude_def)
  then obtain v where v: "read_claude_snapshot sample_claude 3 = Some v" by (simp add: read_claude_snapshot_def)
  from claude_feed_published [OF w _ v sample_claude_shown [symmetric], of CLAUDE_POLL_SESSION Claude board_new 5]
  have "\<not> (\<exists>r. snd (publish_tasks CLAUDE_POLL_SESSION Claude v 5 board_new) = Inr r)"
    using sample_claude_id by (simp add: foreign_owner_def board_new_def)
  with v show ?thesis by blast
qed

theorem claude_active_first_witness:
  "\<exists>ts. jget ''tasks'' (the (read_claude_snapshot sample_claude 1)) = Some (JArr ts) \<and> length ts \<le> 1"
proof -
  have w: "cl_sessions sample_claude = Some [sample_entry, sample_entry]" by (simp add: sample_claude_def)
  then obtain v ts where v: "read_claude_snapshot sample_claude 1 = Some v" "jget ''tasks'' v = Some (JArr ts)"
    by (simp add: read_claude_snapshot_def jget_jobj)
  from claude_active_first [OF w v] v show ?thesis by auto
qed

definition sample_hermes :: hermes_world where
  "sample_hermes = \<lparr>hw_open = False, hw_columns = None, hw_rows = (\<lambda>_. None), hw_latest = (\<lambda>_. None),
     hw_latest_user = (\<lambda>_. None), hw_cache = Some [], hw_read = (\<lambda>_. None), hw_from_str = (\<lambda>_. Inl ''eof''),
     hw_file_name = (\<lambda>_. None)\<rparr>"

theorem hermes_cache_transparent_witness:
  "fst (read_hermes_snapshot sample_hermes 9 1 (Some ((1, []), None))) = fst (read_hermes_snapshot sample_hermes 9 1 None)"
proof -
  have "memory_ok sample_hermes (Some ((1, []), None))"
    by (simp add: memory_ok_def parse_remote_cache_def map_filter_simps)
  from hermes_cache_transparent [OF this, of 9 1] show ?thesis by blast
qed

theorem running_turns_recent_witness:
  "(1000 :: nat) < nat (max (700 :: int) 0) + RUNNING_WINDOW_MS"
proof -
  have "zcode_derive_state None (Some \<lparr>st_user = True, st_streaming = False, st_tool_calls = False\<rparr>) 700 1000 = ''running''"
    by (simp add: zcode_derive_state_def turn_in_flight_def structurally_open_def RUNNING_WINDOW_MS_def)
  with running_turns_recent [THEN conjunct1, of None "Some \<lparr>st_user = True, st_streaming = False, st_tool_calls = False\<rparr>" 700 1000]
  show ?thesis by simp
qed

end
