(* ===== verification/Drawing.thy ===== *)
theory Drawing
  imports Controller "HOL-Library.Signed_Division"
begin

text \<open>
  What the display controllers draw (the drawing functions of \<open>streamdeck.rs\<close> and
  \<open>ajazz.rs\<close>). A picture of the image library is made of a size, a background colour and the
  \<open>put_pixel\<close> calls in the order in which the code makes them. The pixel buffer, its
  rotations and the JPEG encoder belong to the library and are arguments (\<open>codec\<close>). The library
  documents that \<open>put_pixel\<close> panics outside the picture, so a drawing is safe when every call
  lies inside.
\<close>

section \<open>Pictures\<close>

type_synonym rgb = "nat \<times> nat \<times> nat"
type_synonym pixel_call = "nat \<times> nat \<times> rgb"

record drawing =
  d_width :: nat
  d_height :: nat
  d_background :: rgb
  d_calls :: "pixel_call list"

definition inside :: "nat \<Rightarrow> nat \<Rightarrow> pixel_call list \<Rightarrow> bool" where
  "inside w h calls \<longleftrightarrow> (\<forall>(x, y, _) \<in> set calls. x < w \<and> y < h)"

definition safe_drawing :: "drawing \<Rightarrow> bool" where
  "safe_drawing d \<longleftrightarrow> inside (d_width d) (d_height d) (d_calls d)"

text \<open>The loop \<open>for y in y0..y1 \{ for x in x0..x1 \{ put_pixel \} \}\<close>.\<close>

definition fill_rect :: "nat \<Rightarrow> nat \<Rightarrow> nat \<Rightarrow> nat \<Rightarrow> rgb \<Rightarrow> pixel_call list" where
  "fill_rect x0 x1 y0 y1 c = concat (map (\<lambda>y. map (\<lambda>x. (x, y, c)) [x0..<x1]) [y0..<y1])"

lemma set_fill_rect:
  "set (fill_rect x0 x1 y0 y1 c) = {(x, y, c') | x y c'. x0 \<le> x \<and> x < x1 \<and> y0 \<le> y \<and> y < y1 \<and> c' = c}"
  by (auto simp: fill_rect_def)

lemma inside_Nil [simp]: "inside w h []"
  by (simp add: inside_def)

lemma inside_append [simp]: "inside w h (a @ b) \<longleftrightarrow> inside w h a \<and> inside w h b"
  by (simp add: inside_def ball_Un)

lemma inside_concat: "inside w h (concat xss) \<longleftrightarrow> (\<forall>xs \<in> set xss. inside w h xs)"
  by (auto simp: inside_def)

lemma inside_fill_rect [simp]:
  "inside w h (fill_rect x0 x1 y0 y1 c) \<longleftrightarrow> x1 \<le> x0 \<or> y1 \<le> y0 \<or> (x1 \<le> w \<and> y1 \<le> h)"
proof -
  have "x1 \<le> w \<and> y1 \<le> h" if a: "\<forall>x y. x0 \<le> x \<and> x < x1 \<and> y0 \<le> y \<and> y < y1 \<longrightarrow> x < w \<and> y < h"
    and n: "x0 < x1" "y0 < y1"
    using a [rule_format, of "x1 - 1" "y1 - 1"] n by linarith+
  then show ?thesis
    unfolding inside_def set_fill_rect by (cases c) (auto simp: not_le)
qed

section \<open>Text\<close>

text \<open>The scalar values of a string, each as its bytes, and the character the font has for it.\<close>

definition ascii_upper :: "char \<Rightarrow> char" where
  "ascii_upper c =
     (let n = (of_char c :: nat) in if 97 \<le> n \<and> n \<le> 122 then char_of (n - 32) else c)"

definition is_ascii :: "char \<Rightarrow> bool" where
  "is_ascii c \<longleftrightarrow> (of_char c :: nat) < 128"

definition accented_table :: "(string \<times> char) list" where
  "accented_table = [
     ([CHR 0xC3, CHR 0xA1], CHR ''A''), ([CHR 0xC3, CHR 0x81], CHR ''A''),
     ([CHR 0xC3, CHR 0xA9], CHR ''E''), ([CHR 0xC3, CHR 0x89], CHR ''E''),
     ([CHR 0xC3, CHR 0xAD], CHR ''I''), ([CHR 0xC3, CHR 0x8D], CHR ''I''),
     ([CHR 0xC3, CHR 0xB3], CHR ''O''), ([CHR 0xC3, CHR 0x93], CHR ''O''),
     ([CHR 0xC3, CHR 0xBA], CHR ''U''), ([CHR 0xC3, CHR 0x9A], CHR ''U''),
     ([CHR 0xC3, CHR 0xBC], CHR ''U''), ([CHR 0xC3, CHR 0x9C], CHR ''U''),
     ([CHR 0xC3, CHR 0xB1], CHR ''N''), ([CHR 0xC3, CHR 0x91], CHR ''N'')]"

definition normalize_char :: "string \<Rightarrow> char" where
  "normalize_char ch =
     (case map_of accented_table ch of
        Some c \<Rightarrow> c
      | None \<Rightarrow>
          (case ch of
             [c] \<Rightarrow> if is_ascii c then ascii_upper c else CHR ''?''
           | _ \<Rightarrow> CHR ''?''))"

text \<open>The font of the windows: five columns of seven bits, and a box for what it lacks.\<close>

definition glyph_table :: "(char \<times> nat list) list" where
  "glyph_table = [
     (CHR ''A'', [0x7e, 0x09, 0x09, 0x09, 0x7e]),
     (CHR ''B'', [0x7f, 0x49, 0x49, 0x49, 0x36]),
     (CHR ''C'', [0x3e, 0x41, 0x41, 0x41, 0x22]),
     (CHR ''D'', [0x7f, 0x41, 0x41, 0x22, 0x1c]),
     (CHR ''E'', [0x7f, 0x49, 0x49, 0x49, 0x41]),
     (CHR ''F'', [0x7f, 0x09, 0x09, 0x09, 0x01]),
     (CHR ''G'', [0x3e, 0x41, 0x49, 0x49, 0x7a]),
     (CHR ''H'', [0x7f, 0x08, 0x08, 0x08, 0x7f]),
     (CHR ''I'', [0x00, 0x41, 0x7f, 0x41, 0x00]),
     (CHR ''J'', [0x20, 0x40, 0x41, 0x3f, 0x01]),
     (CHR ''K'', [0x7f, 0x08, 0x14, 0x22, 0x41]),
     (CHR ''L'', [0x7f, 0x40, 0x40, 0x40, 0x40]),
     (CHR ''M'', [0x7f, 0x02, 0x0c, 0x02, 0x7f]),
     (CHR ''N'', [0x7f, 0x04, 0x08, 0x10, 0x7f]),
     (CHR ''O'', [0x3e, 0x41, 0x41, 0x41, 0x3e]),
     (CHR ''P'', [0x7f, 0x09, 0x09, 0x09, 0x06]),
     (CHR ''Q'', [0x3e, 0x41, 0x51, 0x21, 0x5e]),
     (CHR ''R'', [0x7f, 0x09, 0x19, 0x29, 0x46]),
     (CHR ''S'', [0x46, 0x49, 0x49, 0x49, 0x31]),
     (CHR ''T'', [0x01, 0x01, 0x7f, 0x01, 0x01]),
     (CHR ''U'', [0x3f, 0x40, 0x40, 0x40, 0x3f]),
     (CHR ''V'', [0x1f, 0x20, 0x40, 0x20, 0x1f]),
     (CHR ''W'', [0x7f, 0x20, 0x18, 0x20, 0x7f]),
     (CHR ''X'', [0x63, 0x14, 0x08, 0x14, 0x63]),
     (CHR ''Y'', [0x07, 0x08, 0x70, 0x08, 0x07]),
     (CHR ''Z'', [0x61, 0x51, 0x49, 0x45, 0x43]),
     (CHR ''0'', [0x3e, 0x45, 0x49, 0x51, 0x3e]),
     (CHR ''1'', [0x00, 0x41, 0x7f, 0x40, 0x00]),
     (CHR ''2'', [0x42, 0x61, 0x51, 0x49, 0x46]),
     (CHR ''3'', [0x21, 0x41, 0x45, 0x4b, 0x31]),
     (CHR ''4'', [0x18, 0x14, 0x12, 0x7f, 0x10]),
     (CHR ''5'', [0x27, 0x45, 0x45, 0x45, 0x39]),
     (CHR ''6'', [0x3c, 0x4a, 0x49, 0x49, 0x30]),
     (CHR ''7'', [0x01, 0x71, 0x09, 0x05, 0x03]),
     (CHR ''8'', [0x36, 0x49, 0x49, 0x49, 0x36]),
     (CHR ''9'', [0x06, 0x49, 0x49, 0x29, 0x1e]),
     (CHR ''-'', [0x08, 0x08, 0x08, 0x08, 0x08]),
     (CHR ''/'', [0x20, 0x10, 0x08, 0x04, 0x02]),
     (CHR '':'', [0x00, 0x36, 0x36, 0x00, 0x00]),
     (CHR ''.'', [0x00, 0x40, 0x60, 0x00, 0x00]),
     (CHR ''_'', [0x40, 0x40, 0x40, 0x40, 0x40]),
     (CHR ''%'', [0x63, 0x13, 0x08, 0x64, 0x63]),
     (CHR ''?'', [0x02, 0x01, 0x51, 0x09, 0x06]),
     (CHR '' '', [0, 0, 0, 0, 0])]"

definition glyph :: "char \<Rightarrow> nat list" where
  "glyph c = (case map_of glyph_table c of Some g \<Rightarrow> g | None \<Rightarrow> [0x7f, 0x41, 0x5d, 0x41, 0x7f])"

text \<open>One set bit of a glyph at a scale: the pixels of its square that lie in the picture.\<close>

definition glyph_square :: "nat \<Rightarrow> nat \<Rightarrow> nat \<Rightarrow> nat \<Rightarrow> nat \<Rightarrow> rgb \<Rightarrow> pixel_call list" where
  "glyph_square w h x y scale c =
     filter (\<lambda>(px, py, _). px < w \<and> py < h) (fill_rect x (x + scale) y (y + scale) c)"

definition draw_glyph ::
  "nat \<Rightarrow> nat \<Rightarrow> nat list \<Rightarrow> nat \<Rightarrow> nat \<Rightarrow> nat \<Rightarrow> rgb \<Rightarrow> pixel_call list" where
  "draw_glyph w h g origin_x y scale c =
     concat (map (\<lambda>(column, bits).
       concat (map (\<lambda>row.
         if \<not> bit bits row then []
         else glyph_square w h (origin_x + column * scale) (y + row * scale) scale c) [0..<7]))
       (enumerate 0 g))"

definition draw_text ::
  "nat \<Rightarrow> nat \<Rightarrow> string \<Rightarrow> nat \<Rightarrow> nat \<Rightarrow> nat \<Rightarrow> rgb \<Rightarrow> pixel_call list" where
  "draw_text w h s x y scale c =
     (let scale = max scale 1;
          max_chars = (w - x) div (6 * scale)
      in concat (map (\<lambda>(i, ch).
           draw_glyph w h (glyph (normalize_char ch)) (x + i * 6 * scale) y scale c)
           (enumerate 0 (take max_chars (utf8_chunks s)))))"

lemma inside_glyph_square [simp]: "inside w h (glyph_square w h x y scale c)"
  by (auto simp: inside_def glyph_square_def)

lemma inside_draw_glyph [simp]: "inside w h (draw_glyph w h g x y scale c)"
  unfolding draw_glyph_def inside_concat by (auto simp: inside_concat)

lemma inside_draw_text [simp]: "inside w h (draw_text w h s x y scale c)"
  unfolding draw_text_def Let_def inside_concat by auto

section \<open>Bitmaps of three columns and five rows\<close>

text \<open>
  The digits and the small font share their layout: a list of fifteen zeros and ones, row by
  row. \<open>bitmap_cells\<close> are the rows and columns that are set.
\<close>

definition bitmap_cells :: "nat list \<Rightarrow> (nat \<times> nat) list" where
  "bitmap_cells g =
     filter (\<lambda>(row, column). g ! (row * 3 + column) \<noteq> 0) (List.product [0..<5] [0..<3])"

lemma bitmap_cells_bounds: "(row, column) \<in> set (bitmap_cells g) \<Longrightarrow> row < 5 \<and> column < 3"
  by (auto simp: bitmap_cells_def)

definition DIGIT_COLOR :: rgb where "DIGIT_COLOR = (196, 194, 255)"

definition agent_glyph_table :: "(char \<times> nat list) list" where
  "agent_glyph_table = [
     (CHR ''c'', [0, 1, 1, 1, 0, 0, 1, 0, 0, 1, 0, 0, 0, 1, 1]),
     (CHR ''d'', [1, 1, 0, 1, 0, 1, 1, 0, 1, 1, 0, 1, 1, 1, 0]),
     (CHR ''e'', [1, 1, 1, 1, 0, 0, 1, 1, 0, 1, 0, 0, 1, 1, 1]),
     (CHR ''h'', [1, 0, 1, 1, 0, 1, 1, 1, 1, 1, 0, 1, 1, 0, 1]),
     (CHR ''m'', [1, 0, 1, 1, 1, 1, 1, 1, 1, 1, 0, 1, 1, 0, 1]),
     (CHR ''o'', [0, 1, 0, 1, 0, 1, 1, 0, 1, 1, 0, 1, 0, 1, 0]),
     (CHR ''r'', [1, 1, 0, 1, 0, 1, 1, 1, 0, 1, 0, 1, 1, 0, 1]),
     (CHR ''s'', [0, 1, 1, 1, 0, 0, 0, 1, 0, 0, 0, 1, 1, 1, 0]),
     (CHR ''x'', [1, 0, 1, 0, 1, 0, 0, 1, 0, 0, 1, 0, 1, 0, 1]),
     (CHR ''z'', [1, 1, 1, 0, 0, 1, 0, 1, 0, 1, 0, 0, 1, 1, 1])]"

definition agent_glyph :: "char \<Rightarrow> nat list" where
  "agent_glyph c = (case map_of agent_glyph_table c of Some g \<Rightarrow> g | None \<Rightarrow> replicate 15 0)"

text \<open>A scaled bitmap whose top left corner is \<open>(x, y)\<close>; these calls are not clipped.\<close>

definition draw_bitmap :: "nat list \<Rightarrow> nat \<Rightarrow> nat \<Rightarrow> nat \<Rightarrow> pixel_call list" where
  "draw_bitmap g x y scale =
     concat (map (\<lambda>(row, column).
       fill_rect (x + column * scale) (x + column * scale + scale)
         (y + row * scale) (y + row * scale + scale) DIGIT_COLOR) (bitmap_cells g))"

lemma inside_draw_bitmap:
  assumes "x + 3 * scale \<le> w" "y + 5 * scale \<le> h"
  shows "inside w h (draw_bitmap g x y scale)"
proof -
  have "x + column * scale + scale \<le> w" "y + row * scale + scale \<le> h"
    if "(row, column) \<in> set (bitmap_cells g)" for row column
  proof -
    from bitmap_cells_bounds [OF that] have "Suc row \<le> 5" "Suc column \<le> 3" by auto
    then have "Suc row * scale \<le> 5 * scale" "Suc column * scale \<le> 3 * scale"
      by (simp_all only: mult_le_mono1)
    with assms have "x + Suc column * scale \<le> w" "y + Suc row * scale \<le> h" by linarith+
    then show "x + column * scale + scale \<le> w" "y + row * scale + scale \<le> h" by simp_all
  qed
  then show ?thesis
    unfolding draw_bitmap_def inside_concat by fastforce
qed

text \<open>
  A line of small characters, each \<open>pitch\<close> wide, from \<open>x\<close>. It stays inside a picture that is
  as wide as the line is long.
\<close>

definition draw_bitmaps :: "nat list list \<Rightarrow> nat \<Rightarrow> nat \<Rightarrow> nat \<Rightarrow> nat \<Rightarrow> pixel_call list" where
  "draw_bitmaps gs x y scale pitch =
     concat (map (\<lambda>(i, g). draw_bitmap g (x + i * pitch) y scale) (enumerate 0 gs))"

lemma inside_draw_bitmaps:
  assumes "x + length gs * pitch \<le> w" "y + 5 * scale \<le> h" "3 * scale \<le> pitch"
  shows "inside w h (draw_bitmaps gs x y scale pitch)"
proof -
  have "inside w h (draw_bitmap g (x + i * pitch) y scale)" if "(i, g) \<in> set (enumerate 0 gs)" for i g
  proof (rule inside_draw_bitmap)
    from that have "Suc i \<le> length gs" by (auto simp: in_set_enumerate_eq)
    then have "Suc i * pitch \<le> length gs * pitch" by (rule mult_le_mono1)
    with assms show "x + i * pitch + 3 * scale \<le> w" by simp
  qed (fact assms)
  then show ?thesis
    unfolding draw_bitmaps_def inside_concat by auto
qed

section \<open>Lines and circles\<close>

text \<open>
  The points of a stroke are signed; a point outside the picture is not drawn. The division of
  \<open>i32\<close> truncates toward zero.
\<close>

definition clipped :: "nat \<Rightarrow> nat \<Rightarrow> rgb \<Rightarrow> (int \<times> int) list \<Rightarrow> pixel_call list" where
  "clipped w h c points =
     map (\<lambda>(px, py). (nat px, nat py, c))
       (filter (\<lambda>(px, py). 0 \<le> px \<and> 0 \<le> py \<and> nat px < w \<and> nat py < h) points)"

lemma inside_clipped [simp]: "inside w h (clipped w h c points)"
  by (auto simp: inside_def clipped_def)

definition line_points :: "int \<Rightarrow> int \<Rightarrow> int \<Rightarrow> int \<Rightarrow> int \<Rightarrow> (int \<times> int) list" where
  "line_points x0 y0 x1 y1 thickness =
     (let steps = max (max \<bar>x1 - x0\<bar> \<bar>y1 - y0\<bar>) 1;
          half = max thickness 1 sdiv 2
      in concat (map (\<lambda>step.
           (let x = x0 + ((x1 - x0) * step) sdiv steps;
                y = y0 + ((y1 - y0) * step) sdiv steps
            in concat (map (\<lambda>dy. map (\<lambda>dx. (x + dx, y + dy)) [- half..half]) [- half..half])))
           [0..steps]))"

definition draw_line ::
  "nat \<Rightarrow> nat \<Rightarrow> int \<Rightarrow> int \<Rightarrow> int \<Rightarrow> int \<Rightarrow> rgb \<Rightarrow> int \<Rightarrow> pixel_call list" where
  "draw_line w h x0 y0 x1 y1 c thickness = clipped w h c (line_points x0 y0 x1 y1 thickness)"

definition draw_circle ::
  "nat \<Rightarrow> nat \<Rightarrow> int \<Rightarrow> int \<Rightarrow> int \<Rightarrow> rgb \<Rightarrow> int \<Rightarrow> pixel_call list" where
  "draw_circle w h cx cy radius c thickness =
     (let outer = max radius 1;
          inner = max (outer - max thickness 1) 0
      in clipped w h c (concat (map (\<lambda>y.
           map (\<lambda>x. (cx + x, cy + y))
             (filter (\<lambda>x. x * x + y * y \<le> outer * outer \<and> inner * inner \<le> x * x + y * y)
               [- outer..outer])) [- outer..outer])))"

lemma inside_strokes [simp]:
  "inside w h (draw_line w h x0 y0 x1 y1 c thickness)"
  "inside w h (draw_circle w h cx cy radius c thickness)"
  by (simp_all add: draw_line_def draw_circle_def Let_def)

section \<open>Colours\<close>

text \<open>\<open>rgb_bytes\<close>: a 24-bit colour at a brightness of at most 100 percent.\<close>

definition rgb_bytes :: "nat \<Rightarrow> nat \<Rightarrow> rgb" where
  "rgb_bytes color level =
     (let scale = min level 100
      in (color div 65536 mod 256 * scale div 100, color div 256 mod 256 * scale div 100,
          color mod 256 * scale div 100))"

lemma scaled_byte_less: "a mod 256 * min level 100 div 100 < (256 :: nat)"
proof -
  have "a mod 256 * min level 100 \<le> a mod 256 * 100"
    by (rule mult_le_mono2) simp
  then have "a mod 256 * min level 100 div 100 \<le> a mod 256 * 100 div 100"
    by (rule div_le_mono)
  then have "a mod 256 * min level 100 div 100 \<le> a mod 256" by simp
  also have "a mod 256 < 256" by simp
  finally show ?thesis .
qed

lemma split_rgb: "(c :: nat) div 65536 mod 256 * 65536 + c div 256 mod 256 * 256 + c mod 256 = c mod 16777216"
proof -
  have "c mod (256 * 65536) = 256 * (c div 256 mod (256 * 256)) + c mod 256"
    using mod_mult2_eq [of c 256 65536] by simp
  also have "c div 256 mod (256 * 256) = 256 * (c div 256 div 256 mod 256) + c div 256 mod 256"
    by (rule mod_mult2_eq)
  finally show ?thesis by (simp flip: div_mult2_eq)
qed

text \<open>The casts to \<open>u8\<close> lose nothing, and the full brightness leaves the colour as it is.\<close>

lemma rgb_bytes_u8:
  assumes "rgb_bytes col level = (r, g, b)"
  shows "r < 256 \<and> g < 256 \<and> b < 256 \<and>
    (level \<ge> 100 \<longrightarrow> r * 65536 + g * 256 + b = col mod 16777216)"
proof -
  have e: "r = col div 65536 mod 256 * min level 100 div 100"
    "g = col div 256 mod 256 * min level 100 div 100" "b = col mod 256 * min level 100 div 100"
    using assms by (auto simp: rgb_bytes_def Let_def)
  have "r * 65536 + g * 256 + b = col mod 16777216" if "level \<ge> 100"
    using that by (simp add: e min_def split_rgb)
  with scaled_byte_less show ?thesis unfolding e by blast
qed

section \<open>Encoding\<close>

datatype rotation = NoRotation | Rotate90Ccw | Rotate180

text \<open>
  The image library: pixel buffer, quarter turns, the encoder, and the conversion of the AJAZZ
  library to a given size.
\<close>

record 'i codec =
  blit :: "drawing \<Rightarrow> 'i"
  rotate90 :: "'i \<Rightarrow> 'i"
  rotate180 :: "'i \<Rightarrow> 'i"
  rotate270 :: "'i \<Rightarrow> 'i"
  write_jpeg :: "'i \<Rightarrow> string + u8 list"
  convert_jpeg :: "nat \<times> nat \<Rightarrow> 'i \<Rightarrow> string + u8 list"

fun rotate_image :: "'i codec \<Rightarrow> rotation \<Rightarrow> 'i \<Rightarrow> 'i" where
  "rotate_image k NoRotation im = im"
| "rotate_image k Rotate90Ccw im = rotate270 k im"
| "rotate_image k Rotate180 im = rotate180 k im"

definition encode_drawing :: "'i codec \<Rightarrow> rotation \<Rightarrow> drawing \<Rightarrow> string + u8 list" where
  "encode_drawing k rot d = write_jpeg k (rotate_image k rot (blit k d))"

end
