(* ===== verification/Hid_Device.thy ===== *)
theory Hid_Device
  imports Drawing
begin

text \<open>
  The HID library under the display controllers, and what both controllers share: the switches
  of their status frames and the slices they send.

  The library and the devices are the environment. A \<open>hid\<close> keeps the calls made so far, in
  order, and answers each call by its number: the listing of devices, an open, the unit
  information, a feature report, a write (the number of bytes written) and a read (empty after
  the timeout). The clock is read between two calls. So every property holds for all behaviours
  of the library and of the device.
\<close>

section \<open>Calls and answers\<close>

record hid_info =
  info_vendor :: nat
  info_product :: nat
  info_serial :: "string option"
  info_usage_page :: nat
  info_usage :: nat

datatype hid_call =
    HidApi
  | HidOpen
  | HidUnitInfo
  | HidFeature "u8 list"
  | HidWrite "u8 list"
  | HidRead int

record hid =
  hid_calls :: "hid_call list"
  api_answer :: "nat \<Rightarrow> string + hid_info list"
  open_answer :: "nat \<Rightarrow> string + unit"
  info_answer :: "nat \<Rightarrow> string + (nat \<times> u8 list)"
  feature_answer :: "nat \<Rightarrow> string + unit"
  write_answer :: "nat \<Rightarrow> string + nat"
  read_answer :: "nat \<Rightarrow> string + u8 list"
  clock_at :: "nat \<Rightarrow> nat"

definition ask :: "hid_call \<Rightarrow> (hid \<Rightarrow> nat \<Rightarrow> 'a) \<Rightarrow> hid \<Rightarrow> 'a \<times> hid" where
  "ask call answer h = (answer h (length (hid_calls h)), h\<lparr>hid_calls := hid_calls h @ [call]\<rparr>)"

definition hid_now :: "hid \<Rightarrow> nat" where
  "hid_now h = clock_at h (length (hid_calls h))"

text \<open>\<open>written_at.elapsed() < interval\<close> in milliseconds.\<close>

definition throttled :: "nat \<Rightarrow> nat option \<Rightarrow> hid \<Rightarrow> bool" where
  "throttled interval written h =
     (case written of None \<Rightarrow> False | Some t \<Rightarrow> hid_now h - t < interval)"

text \<open>\<open>?\<close> on an operation that changes a state.\<close>

definition sbind ::
  "('s \<Rightarrow> (string + 'a) \<times> 's) \<Rightarrow> ('a \<Rightarrow> 's \<Rightarrow> (string + 'b) \<times> 's) \<Rightarrow> 's \<Rightarrow> (string + 'b) \<times> 's" where
  "sbind m f s = (case m s of (Inl e, s) \<Rightarrow> (Inl e, s) | (Inr a, s) \<Rightarrow> f a s)"

definition sret :: "'a \<Rightarrow> 's \<Rightarrow> (string + 'a) \<times> 's" where
  "sret a s = (Inr a, s)"

definition sfail :: "string \<Rightarrow> 's \<Rightarrow> (string + 'a) \<times> 's" where
  "sfail e s = (Inl e, s)"

definition slift :: "string + 'a \<Rightarrow> 's \<Rightarrow> (string + 'a) \<times> 's" where
  "slift r s = (r, s)"

lemma sbind_Inr: "m s = (Inr a, t) \<Longrightarrow> sbind m f s = f a t"
  by (simp add: sbind_def)

lemma sbind_Inl: "m s = (Inl e, t) \<Longrightarrow> sbind m f s = (Inl e, t)"
  by (simp add: sbind_def)

lemma sbind_Inr_iff:
  "sbind m f s = (Inr b, t) \<longleftrightarrow> (\<exists>a u. m s = (Inr a, u) \<and> f a u = (Inr b, t))"
  by (auto simp: sbind_def split: prod.splits sum.splits)

text \<open>\<open>for x in xs \{ op(x)?; \}\<close>\<close>

fun for_each :: "('a \<Rightarrow> 's \<Rightarrow> (string + unit) \<times> 's) \<Rightarrow> 'a list \<Rightarrow> 's \<Rightarrow> (string + unit) \<times> 's" where
  "for_each f [] = sret ()"
| "for_each f (x # xs) = sbind (f x) (\<lambda>_. for_each f xs)"

text \<open>
  An environment for examples: a device that accepts every report, gives no input, and is
  asked once in a millisecond; the encoder answers with the background of the picture.
\<close>

definition sample_hid :: hid where
  "sample_hid =
     \<lparr>hid_calls = [], api_answer = (\<lambda>_. Inr []), open_answer = (\<lambda>_. Inr ()),
      info_answer = (\<lambda>_. Inr (0, replicate 32 0)), feature_answer = (\<lambda>_. Inr ()),
      write_answer = (\<lambda>_. Inr 1024), read_answer = (\<lambda>_. Inr []), clock_at = (\<lambda>n. n)\<rparr>"

definition sample_codec :: "rgb codec" where
  "sample_codec =
     \<lparr>blit = d_background, rotate90 = id, rotate180 = id, rotate270 = id,
      write_jpeg = (\<lambda>(r, g, b). Inr [of_nat r, of_nat g, of_nat b]),
      convert_jpeg = (\<lambda>_ (r, g, b). Inr [of_nat r, of_nat g, of_nat b])\<rparr>"

section \<open>Slices\<close>

text \<open>Slices (\<open>chunks\<close>) are those of the Codex reports; here also their number.\<close>

lemma chunks_step: "0 < n \<Longrightarrow> xs \<noteq> [] \<Longrightarrow> chunks n xs = take n xs # chunks n (drop n xs)"
  by (subst chunks.simps) simp

lemma length_chunks: "0 < n \<Longrightarrow> length (chunks n xs) = (length xs + n - 1) div n"
proof (induction n xs rule: chunks.induct)
  case (1 n xs)
  show ?case
  proof (cases "xs = []")
    case True
    with 1 show ?thesis by (simp add: chunks.simps [of n "[]"])
  next
    case False
    with 1 have "length (chunks n xs) = Suc ((length xs - n + n - 1) div n)" by (simp add: chunks_step [of n xs])
    also have "\<dots> = (length xs + n - 1) div n"
    proof (cases "n \<le> length xs")
      case True
      then have e: "length xs + n - 1 = (length xs - 1) + n" using False by (cases xs) auto
      from True have "length xs - n + n - 1 = length xs - 1" by simp
      then show ?thesis unfolding e using \<open>0 < n\<close> by simp
    next
      case less: False
      have e: "length xs + n - 1 = (length xs - 1) + n" using False by (cases xs) auto
      have "(length xs - n + n - 1) div n = 0" "(length xs - 1) div n = 0" using less \<open>0 < n\<close> by simp_all
      then show ?thesis unfolding e using \<open>0 < n\<close> by simp
    qed
    finally show ?thesis .
  qed
qed

section \<open>Switches\<close>

text \<open>
  A row of switches and the next status frame: the switches whose state differs give an event
  and take the new state. A frame shorter than the row leaves the rest of the row alone.
\<close>

fun scan ::
  "(nat \<Rightarrow> bool \<Rightarrow> physical_event list) \<Rightarrow> nat \<Rightarrow> u8 list \<Rightarrow> bool list \<Rightarrow>
   physical_event list \<times> bool list" where
  "scan event i (x # xs) (p # ps) =
     (let pressed = (x \<noteq> 0);
          (es, qs) = scan event (Suc i) xs ps
      in (if pressed \<noteq> p then event i pressed @ es else es, pressed # qs))"
| "scan event i _ ps = ([], ps)"

lemma scan_state:
  "snd (scan event i xs ps) = map (\<lambda>x. x \<noteq> 0) (take (length ps) xs) @ drop (length xs) ps"
  by (induction event i xs ps rule: scan.induct) (auto simp: Let_def split: prod.splits)

lemma scan_length [simp]: "length (snd (scan event i xs ps)) = length ps"
  by (simp add: scan_state)

lemma scan_events:
  "fst (scan event i xs ps) =
     concat (map (\<lambda>(j, x, p). if (x \<noteq> 0) \<noteq> p then event j (x \<noteq> 0) else [])
       (enumerate i (zip xs ps)))"
  by (induction event i xs ps rule: scan.induct) (auto simp: Let_def split: prod.splits)

text \<open>The same frame again gives nothing.\<close>

lemma scan_again: "scan event i xs (snd (scan event i xs ps)) = ([], snd (scan event i xs ps))"
  by (induction event i xs ps rule: scan.induct) (auto simp: Let_def split: prod.splits)

text \<open>The states of a switch over time alternate, from the state \<open>b\<close> it had.\<close>

fun alternates :: "bool \<Rightarrow> bool list \<Rightarrow> bool" where
  "alternates b [] \<longleftrightarrow> True"
| "alternates b (p # ps) \<longleftrightarrow> p \<noteq> b \<and> alternates p ps"

lemma alternates_append:
  "alternates b (ps @ qs) \<longleftrightarrow> alternates b ps \<and> alternates (last (b # ps)) qs"
  by (induction ps arbitrary: b) auto

definition button_history :: "nat \<Rightarrow> physical_event list \<Rightarrow> bool list" where
  "button_history k es =
     concat (map (\<lambda>e. case e of Button i p \<Rightarrow> if i = k then [p] else [] | _ \<Rightarrow> []) es)"

lemma button_history_simps [simp]:
  "button_history k [] = []"
  "button_history k (es @ fs) = button_history k es @ button_history k fs"
  "button_history k (Button i p # es) = (if i = k then [p] else []) @ button_history k es"
  "button_history k (EncoderTurn i n # es) = button_history k es"
  "button_history k (EncoderButton i p # es) = button_history k es"
  by (simp_all add: button_history_def)

end
