(* ===== verification/Streamdeck_Draw.thy ===== *)
theory Streamdeck_Draw
  imports Drawing
begin

text \<open>
  The pictures of the Stream Deck devices (\<open>streamdeck.rs\<close>): the two screens of the window, the
  usage meters, the agent keys with their digit and label, and the fixed icons of the XL model.
\<close>

section \<open>The windows\<close>

definition BACKDROP :: rgb where "BACKDROP = (5, 8, 15)"

definition text_or :: "string option \<Rightarrow> string \<Rightarrow> string" where
  "text_or x d = (case x of None \<Rightarrow> d | Some s \<Rightarrow> s)"

text \<open>The em dash that stands for a missing action.\<close>

definition em_dash :: string where
  "em_dash = [CHR 0xE2, CHR 0x80, CHR 0x94]"

definition project_line :: "display_context \<Rightarrow> string" where
  "project_line c =
     text_or (dc_project c) ''MICRO-EMU'' @ ''  |  '' @ text_or (dc_model c) ''CODEX'' @ ''  |  '' @
     text_or (dc_effort c) ''DEFAULT''"

definition prompt_line :: "display_context \<Rightarrow> string \<Rightarrow> string" where
  "prompt_line c prompt = text_or (dc_wait_reason c) ''WAITING'' @ '': '' @ chars_take 80 prompt"

definition action_line :: "display_context \<Rightarrow> string" where
  "action_line c =
     ''TAP '' @ text_or (dc_short_action c) em_dash @ ''  HOLD '' @ text_or (dc_long_action c) em_dash"

definition status_line :: "display_context \<Rightarrow> string" where
  "status_line c =
     text_or (dc_status c) ''READY'' @
     (case dc_progress c of None \<Rightarrow> [] | Some p \<Rightarrow> ''  '' @ show_nat p @ ''%'')"

text \<open>The question an agent waits on, in both windows.\<close>

definition draw_prompt :: "display_context \<Rightarrow> nat \<Rightarrow> nat \<Rightarrow> pixel_call list" where
  "draw_prompt c w h =
     (case dc_prompt c of
        None \<Rightarrow> []
      | Some prompt \<Rightarrow>
          draw_text w h (prompt_line c prompt) 16 80 1 (245, 175, 65) @
          draw_text w h (action_line c) 16 (h - 18) 1 (255, 210, 120))"

definition draw_progress_bar :: "nat \<Rightarrow> nat \<Rightarrow> nat \<Rightarrow> pixel_call list" where
  "draw_progress_bar p w h =
     (let bar_width = w - 32; fill_width = bar_width * p div 100
      in fill_rect 16 (16 + bar_width) (h - 14) (h - 6) (20, 32, 48) @
         fill_rect 16 (16 + fill_width) (h - 14) (h - 6) (65, 190, 125))"

definition window_calls :: "display_context \<Rightarrow> nat \<Rightarrow> nat \<Rightarrow> pixel_call list" where
  "window_calls c w h =
     draw_text w h (text_or (dc_task c) ''WAITING FOR TASK'') 16 8 2 (230, 235, 245) @
     draw_text w h (project_line c) 16 38 1 (112, 205, 255) @
     draw_prompt c w h @
     draw_text w h (status_line c) 16 62 1 (160, 225, 190) @
     (case dc_progress c of None \<Rightarrow> [] | Some p \<Rightarrow> draw_progress_bar p w h)"

definition window_drawing :: "display_context \<Rightarrow> nat \<Rightarrow> nat \<Rightarrow> drawing" where
  "window_drawing c w h =
     \<lparr>d_width = w, d_height = h, d_background = BACKDROP, d_calls = window_calls c w h\<rparr>"

definition render_window_image ::
  "'i codec \<Rightarrow> display_context \<Rightarrow> nat \<Rightarrow> nat \<Rightarrow> rotation \<Rightarrow> string + u8 list" where
  "render_window_image k c w h rot = encode_drawing k rot (window_drawing c w h)"

section \<open>The usage screen\<close>

definition meter_color :: "nat \<Rightarrow> rgb" where
  "meter_color v =
     (if v < 20 then (220, 85, 85) else if v < 50 then (245, 175, 65) else (65, 190, 125))"

definition draw_usage_meter ::
  "nat \<Rightarrow> nat \<Rightarrow> string \<Rightarrow> nat option \<Rightarrow> nat \<Rightarrow> nat \<Rightarrow> nat \<Rightarrow> pixel_call list" where
  "draw_usage_meter w h label remaining x y width =
     (let bar_x = x + 180; bar_y = y + 2; bar_width = width - 180; bar_height = 14
      in draw_text w h label x y 1 (112, 205, 255) @
         draw_text w h (case remaining of None \<Rightarrow> ''NOT SET'' | Some v \<Rightarrow> show_nat v @ ''%'')
           (x + 78) (y - 1) (if remaining = None then 2 else 4) (230, 235, 245) @
         fill_rect bar_x (bar_x + bar_width) bar_y (bar_y + bar_height) (20, 32, 48) @
         (case remaining of
            None \<Rightarrow> []
          | Some v \<Rightarrow>
              fill_rect bar_x (bar_x + bar_width * v div 100) bar_y (bar_y + bar_height)
                (meter_color v)))"

definition limits_label :: "display_context \<Rightarrow> string" where
  "limits_label c =
     (if dc_usage_agent c = Some ''zcode'' then ''LIMITS ZCODE''
      else if dc_usage_agent c = Some ''codex'' then ''LIMITS CODEX'' else ''LIMITS'')"

definition usage_calls :: "display_context \<Rightarrow> nat \<Rightarrow> nat \<Rightarrow> pixel_call list" where
  "usage_calls c w h =
     draw_text w h (limits_label c @ ''  |  '' @ text_or (dc_task c) ''ACTIVE TASK'') 16 6 2
       (230, 235, 245) @
     draw_prompt c w h @
     (if dc_weekly_remaining c = None \<and> dc_five_hour_remaining c = None then
        draw_text w h ''USAGE LIMIT DATA NOT PUBLISHED'' 16 40 1 (245, 175, 65) @
        draw_text w h (''STATUS '' @ text_or (dc_status c) ''READY'' @
          (case dc_progress c of None \<Rightarrow> [] | Some p \<Rightarrow> ''  |  PROGRESS '' @ show_nat p @ ''%''))
          16 64 1 (160, 225, 190)
      else
        (let gap = 24; column_width = (w - (32 + gap)) div 2
         in draw_usage_meter w h ''WEEKLY'' (dc_weekly_remaining c) 16 38 column_width @
            draw_usage_meter w h ''5-HOUR'' (dc_five_hour_remaining c) (16 + column_width + gap) 38
              column_width))"

definition usage_drawing :: "display_context \<Rightarrow> nat \<Rightarrow> nat \<Rightarrow> drawing" where
  "usage_drawing c w h =
     \<lparr>d_width = w, d_height = h, d_background = BACKDROP, d_calls = usage_calls c w h\<rparr>"

definition render_usage_image ::
  "'i codec \<Rightarrow> display_context \<Rightarrow> nat \<Rightarrow> nat \<Rightarrow> rotation \<Rightarrow> string + u8 list" where
  "render_usage_image k c w h rot = encode_drawing k rot (usage_drawing c w h)"

section \<open>Agent keys\<close>

definition DIGITS :: "nat list list" where
  "DIGITS = [
     [0, 1, 0, 1, 1, 0, 0, 1, 0, 0, 1, 0, 1, 1, 1],
     [1, 1, 0, 0, 0, 1, 0, 1, 0, 1, 0, 0, 1, 1, 1],
     [1, 1, 0, 0, 0, 1, 0, 1, 0, 0, 0, 1, 1, 1, 0],
     [1, 0, 1, 1, 0, 1, 1, 1, 1, 0, 0, 1, 0, 0, 1],
     [1, 1, 1, 1, 0, 0, 1, 1, 0, 0, 0, 1, 1, 1, 0],
     [0, 1, 1, 1, 0, 0, 1, 1, 0, 1, 0, 1, 0, 1, 0],
     [1, 1, 1, 0, 0, 1, 0, 1, 0, 0, 1, 0, 1, 0, 1],
     [0, 1, 0, 1, 1, 0, 1, 0, 0, 1, 0, 1, 1, 0, 1]]"

definition draw_digit :: "nat \<Rightarrow> nat \<Rightarrow> nat \<Rightarrow> pixel_call list" where
  "draw_digit w h digit =
     (let cell = max (min w h div 10) 6;
          origin_x = (w - 3 * cell) div 2;
          origin_y = h - (5 * cell + 16)
      in concat (map (\<lambda>(row, column).
           fill_rect (origin_x + column * cell + 2) (origin_x + column * cell + (cell - 2))
             (origin_y + row * cell + 2) (origin_y + row * cell + (cell - 2)) DIGIT_COLOR)
           (bitmap_cells (DIGITS ! digit))))"

text \<open>The glyph of a scalar value: the font only has ASCII letters.\<close>

definition agent_glyph_of :: "string \<Rightarrow> nat list" where
  "agent_glyph_of ch = (case ch of [c] \<Rightarrow> agent_glyph c | _ \<Rightarrow> replicate 15 0)"

definition draw_agent_label :: "nat \<Rightarrow> nat \<Rightarrow> string \<Rightarrow> pixel_call list" where
  "draw_agent_label w h agent =
     (let chars = utf8_chunks (map ascii_lower agent);
          scale = max (min w h div 32) 2;
          width = length chars * (4 * scale);
          start_x = (w - width) div 2
      in draw_bitmaps (map agent_glyph_of chars) start_x 4 scale (4 * scale))"

definition key_drawing ::
  "nat \<Rightarrow> nat \<Rightarrow> rgb \<Rightarrow> nat option \<Rightarrow> bool \<Rightarrow> string option \<Rightarrow> drawing" where
  "key_drawing w h rgb digit draw_digits agent =
     \<lparr>d_width = w, d_height = h, d_background = rgb,
      d_calls =
        (if draw_digits then
           (case agent of None \<Rightarrow> [] | Some a \<Rightarrow> draw_agent_label w h a) @
           (case digit of None \<Rightarrow> [] | Some d \<Rightarrow> draw_digit w h d)
         else [])\<rparr>"

definition encode_image_with_agent ::
  "'i codec \<Rightarrow> nat \<Rightarrow> nat \<Rightarrow> rgb \<Rightarrow> nat option \<Rightarrow> bool \<Rightarrow> rotation \<Rightarrow> string option \<Rightarrow>
   string + u8 list" where
  "encode_image_with_agent k w h rgb digit draw_digits rot agent =
     encode_drawing k rot (key_drawing w h rgb digit draw_digits agent)"

definition encode_image ::
  "'i codec \<Rightarrow> nat \<Rightarrow> nat \<Rightarrow> rgb \<Rightarrow> nat option \<Rightarrow> bool \<Rightarrow> rotation \<Rightarrow> string + u8 list" where
  "encode_image k w h rgb digit draw_digits rot =
     encode_image_with_agent k w h rgb digit draw_digits rot None"

section \<open>The icons of the XL model\<close>

datatype icon = ArrowUp | ArrowDown | ArrowLeft | ArrowRight
  | RotorLeft | RotorCenter | RotorRight | Mic | Send

definition icon_color :: "icon \<Rightarrow> rgb" where
  "icon_color i =
     (case i of
        Send \<Rightarrow> (255, 210, 90)
      | RotorLeft \<Rightarrow> (255, 170, 65) | RotorCenter \<Rightarrow> (255, 170, 65) | RotorRight \<Rightarrow> (255, 170, 65)
      | Mic \<Rightarrow> (80, 220, 145)
      | _ \<Rightarrow> (82, 180, 255))"

text \<open>A stroke is a line with its ends and thickness, or a circle with center, radius and thickness.\<close>

datatype stroke = Line int int int int int | Circle int int int int

fun draw_stroke :: "nat \<Rightarrow> nat \<Rightarrow> rgb \<Rightarrow> stroke \<Rightarrow> pixel_call list" where
  "draw_stroke w h c (Line x0 y0 x1 y1 t) = draw_line w h x0 y0 x1 y1 c t"
| "draw_stroke w h c (Circle cx cy r t) = draw_circle w h cx cy r c t"

text \<open>The strokes of each icon around the center \<open>m\<close> of the key, with radius \<open>r\<close>.\<close>

definition arrow_up_strokes :: "int \<Rightarrow> int \<Rightarrow> stroke list" where
  "arrow_up_strokes m r =
     [Line m (m + r) m (m - r) 3,
      Line m (m - r) (m - r sdiv 2) (m - r sdiv 2) 3,
      Line m (m - r) (m + r sdiv 2) (m - r sdiv 2) 3]"

definition arrow_down_strokes :: "int \<Rightarrow> int \<Rightarrow> stroke list" where
  "arrow_down_strokes m r =
     [Line m (m - r) m (m + r) 3,
      Line m (m + r) (m - r sdiv 2) (m + r sdiv 2) 3,
      Line m (m + r) (m + r sdiv 2) (m + r sdiv 2) 3]"

definition arrow_left_strokes :: "int \<Rightarrow> int \<Rightarrow> stroke list" where
  "arrow_left_strokes m r =
     [Line (m + r) m (m - r) m 3,
      Line (m - r) m (m - r sdiv 2) (m - r sdiv 2) 3,
      Line (m - r) m (m - r sdiv 2) (m + r sdiv 2) 3]"

definition arrow_right_strokes :: "int \<Rightarrow> int \<Rightarrow> stroke list" where
  "arrow_right_strokes m r =
     [Line (m - r) m (m + r) m 3,
      Line (m + r) m (m + r sdiv 2) (m - r sdiv 2) 3,
      Line (m + r) m (m + r sdiv 2) (m + r sdiv 2) 3]"

definition rotor_left_strokes :: "int \<Rightarrow> int \<Rightarrow> stroke list" where
  "rotor_left_strokes m r =
     [Line (m + r) m (m - r) m 3,
      Line (m - r) m (m - r sdiv 2) (m - r sdiv 2) 3,
      Line (m - r) m (m - r sdiv 2) (m + r sdiv 2) 3]"

definition rotor_right_strokes :: "int \<Rightarrow> int \<Rightarrow> stroke list" where
  "rotor_right_strokes m r =
     [Line (m - r) m (m + r) m 3,
      Line (m + r) m (m + r sdiv 2) (m - r sdiv 2) 3,
      Line (m + r) m (m + r sdiv 2) (m + r sdiv 2) 3]"

definition rotor_center_strokes :: "int \<Rightarrow> int \<Rightarrow> stroke list" where
  "rotor_center_strokes m r =
     [Circle m m r 3,
      Line (m - r sdiv 2) m (m + r sdiv 2) m 2]"

definition mic_strokes :: "int \<Rightarrow> int \<Rightarrow> stroke list" where
  "mic_strokes m r =
     (let top = m - r; bottom = m + r sdiv 2
      in [Line m top m bottom 5,
          Line (m - r sdiv 2) (top + r sdiv 3) (m - r sdiv 2) bottom 3,
          Line (m + r sdiv 2) (top + r sdiv 3) (m + r sdiv 2) bottom 3,
          Line (m - r) bottom (m + r) bottom 3,
          Line m bottom m (bottom + r sdiv 2) 3])"

definition send_strokes :: "int \<Rightarrow> int \<Rightarrow> stroke list" where
  "send_strokes m r =
     [Line (m - r) m (m + r) m 3,
      Line (m + r) m (m + r sdiv 2) (m - r sdiv 2) 3,
      Line (m + r) m (m + r sdiv 2) (m + r sdiv 2) 3]"

fun icon_strokes :: "icon \<Rightarrow> int \<Rightarrow> int \<Rightarrow> stroke list" where
  "icon_strokes ArrowUp = arrow_up_strokes"
| "icon_strokes ArrowDown = arrow_down_strokes"
| "icon_strokes ArrowLeft = arrow_left_strokes"
| "icon_strokes ArrowRight = arrow_right_strokes"
| "icon_strokes RotorLeft = rotor_left_strokes"
| "icon_strokes RotorRight = rotor_right_strokes"
| "icon_strokes RotorCenter = rotor_center_strokes"
| "icon_strokes Mic = mic_strokes"
| "icon_strokes Send = send_strokes"

definition icon_drawing :: "nat \<Rightarrow> icon \<Rightarrow> drawing" where
  "icon_drawing w i =
     \<lparr>d_width = w, d_height = w, d_background = BACKDROP,
      d_calls = concat (map (draw_stroke w w (icon_color i))
        (icon_strokes i (int (w div 2)) (int (max (w div 6) 3))))\<rparr>"

definition encode_icon_image :: "'i codec \<Rightarrow> nat \<Rightarrow> icon \<Rightarrow> rotation \<Rightarrow> string + u8 list" where
  "encode_icon_image k w i rot = encode_drawing k rot (icon_drawing w i)"

section \<open>What stays inside the picture\<close>

lemma inside_draw_stroke [simp]: "inside w h (draw_stroke w h c s)"
  by (cases s) simp_all

lemma icons_safe: "safe_drawing (icon_drawing w i)"
  by (auto simp: safe_drawing_def icon_drawing_def inside_concat)

lemma inside_draw_prompt [simp]: "inside w h (draw_prompt c w h)"
  by (simp add: draw_prompt_def split: option.split)

lemma inside_progress_bar:
  assumes "32 \<le> w" "14 \<le> h"
  shows "inside w h (draw_progress_bar p w h) \<longleftrightarrow> (w - 32) * p div 100 \<le> w - 16"
  using assms by (auto simp: draw_progress_bar_def Let_def)

lemma scaled_below: "v \<le> 100 \<Longrightarrow> a * v div 100 \<le> (a :: nat)"
proof -
  assume "v \<le> 100"
  then have "a * v div 100 \<le> a * 100 div 100" by (intro div_le_mono mult_le_mono2)
  then show ?thesis by simp
qed

lemma inside_usage_meter:
  assumes "x + width \<le> w" "180 \<le> width" "y + 16 \<le> h" "\<forall>v. remaining = Some v \<longrightarrow> v \<le> 100"
  shows "inside w h (draw_usage_meter w h label remaining x y width)"
proof -
  have "x + (180 + (width - 180) * v div 100) \<le> w" if "remaining = Some v" for v
    using scaled_below [of v "width - 180"] assms that by fastforce
  with assms show ?thesis
    by (auto simp: draw_usage_meter_def Let_def add.assoc split: option.split)
qed

end
