(* ===== verification/Streamdeck.thy ===== *)
theory Streamdeck
  imports Hid_Device Streamdeck_Draw
begin

text \<open>
  The Stream Deck controllers (\<open>streamdeck.rs\<close>): the profiles of the three models, connecting,
  feature reports and the upload of images, the input reports with keys, encoders and swipes, and
  the paced output of agent keys and of the window. The handle is always there once connected (the
  field is empty only in unit tests), and pauses show only in the clock.
\<close>

section \<open>Profiles\<close>

record profile =
  pf_kind :: controller_kind
  pf_model :: string
  pf_pid :: nat
  pf_keys :: nat
  pf_encoders :: nat
  pf_key_size :: nat
  pf_screen :: "nat \<times> nat"
  pf_window :: "(nat \<times> nat) option"
  pf_rotation :: rotation

definition VENDOR_ID :: nat where "VENDOR_ID = 0x0fd9"
definition OUTPUT_REPORT_BYTES :: nat where "OUTPUT_REPORT_BYTES = 1024"
definition FEATURE_REPORT_BYTES :: nat where "FEATURE_REPORT_BYTES = 32"
definition STATUS_SLOTS :: nat where "STATUS_SLOTS = 8"
definition HID_WRITE_RETRIES :: nat where "HID_WRITE_RETRIES = 4"
definition HID_KEY_MIN_INTERVAL :: nat where "HID_KEY_MIN_INTERVAL = 100"
definition HID_WINDOW_MIN_INTERVAL :: nat where "HID_WINDOW_MIN_INTERVAL = 100"

definition PLUS :: profile where
  "PLUS =
     \<lparr>pf_kind = StreamDeckPlus, pf_model = ''20GBD9901'', pf_pid = 0x0084, pf_keys = 8,
      pf_encoders = 4, pf_key_size = 120, pf_screen = (800, 480), pf_window = Some (800, 100),
      pf_rotation = NoRotation\<rparr>"

definition XL :: profile where
  "XL =
     \<lparr>pf_kind = StreamDeckXl, pf_model = ''20GAT9901'', pf_pid = 0x006c, pf_keys = 32,
      pf_encoders = 0, pf_key_size = 96, pf_screen = (1024, 600), pf_window = None,
      pf_rotation = Rotate180\<rparr>"

definition PLUS_XL :: profile where
  "PLUS_XL =
     \<lparr>pf_kind = StreamDeckPlusXl, pf_model = ''20GBD9901'', pf_pid = 0x00c6, pf_keys = 36,
      pf_encoders = 6, pf_key_size = 112, pf_screen = (1280, 800), pf_window = Some (1200, 100),
      pf_rotation = Rotate90Ccw\<rparr>"

definition icon_table :: "(nat \<times> icon) list" where
  "icon_table = [(11, ArrowUp), (14, Mic), (18, ArrowLeft), (19, Send), (20, ArrowRight),
     (27, ArrowDown), (29, RotorLeft), (30, RotorCenter), (31, RotorRight)]"

definition icon_for_key :: "controller_kind \<Rightarrow> nat \<Rightarrow> icon option" where
  "icon_for_key kind index =
     (if kind \<noteq> StreamDeckXl then None else map_of icon_table index)"

text \<open>Keys of the XL model that stand for encoder turns (when pressed) and encoder buttons.\<close>

definition virtual_turns :: "(nat \<times> nat \<times> int) list" where
  "virtual_turns = [(11, 2, 1), (27, 2, -1), (18, 0, -1), (20, 0, 1), (29, 1, -1), (31, 1, 1)]"

definition virtual_buttons :: "(nat \<times> nat) list" where
  "virtual_buttons = [(19, 0), (14, 2), (30, 1)]"

definition virtual_key_event :: "controller_kind \<Rightarrow> nat \<Rightarrow> bool \<Rightarrow> physical_event option" where
  "virtual_key_event kind index pressed =
     (if kind \<noteq> StreamDeckXl \<or> index < 9 then None
      else (case map_of virtual_turns index of
              Some (axis, delta) \<Rightarrow> if pressed then Some (EncoderTurn axis delta) else None
            | None \<Rightarrow> map_option (\<lambda>axis. EncoderButton axis pressed) (map_of virtual_buttons index)))"

section \<open>The device\<close>

datatype display_mode = ContextMode | UsageMode

type_synonym key_status = "(nat \<times> nat) option list \<times> string option list"

record stream_deck =
  sd_profile :: profile
  sd_serial :: "string option"
  pressed_keys :: "bool list"
  pressed_encoders :: "bool list"
  last_colors :: "(nat \<times> nat) option list"
  last_agents :: "string option list"
  sd_last_context :: "display_context option"
  sd_context :: "display_context option"
  sd_mode :: display_mode
  sd_last_mode :: "display_mode option"
  pending_context :: "display_context option"
  pending_mode :: "display_mode option"
  last_display_write_at :: "nat option"
  pending_key_status :: "key_status option"
  last_key_write_at :: "nat option"
  next_key_write_index :: nat
  sd_hid :: hid

text \<open>An operation on the library, run on the device.\<close>

definition with_hid ::
  "(hid \<Rightarrow> (string + 'a) \<times> hid) \<Rightarrow> stream_deck \<Rightarrow> (string + 'a) \<times> stream_deck" where
  "with_hid m d = (case m (sd_hid d) of (r, h) \<Rightarrow> (r, d\<lparr>sd_hid := h\<rparr>))"

text \<open>\<open>validate_unit_info\<close>: the geometry a device reports must be that of the profile.\<close>

definition le16 :: "u8 list \<Rightarrow> nat \<Rightarrow> nat" where
  "le16 bytes i = unat (bytes ! i) + 256 * unat (bytes ! Suc i)"

definition validate_unit_info :: "profile \<Rightarrow> hid \<Rightarrow> (string + unit) \<times> hid" where
  "validate_unit_info p =
     sbind (ask HidUnitInfo info_answer) (\<lambda>(got, report).
       let key = (le16 report 3, le16 report 5); lcd = (le16 report 7, le16 report 9)
       in if got \<ge> 11 \<and> (key \<noteq> (pf_key_size p, pf_key_size p) \<or> lcd \<noteq> pf_screen p) then
            sfail (''Stream Deck '' @ pf_model p @ '' reported unexpected geometry '' @
              show_nat (fst key) @ ''x'' @ show_nat (snd key) @ '' keys and '' @
              show_nat (fst lcd) @ ''x'' @ show_nat (snd lcd) @ '' LCD'')
          else sret ())"

definition map_err :: "(string \<Rightarrow> string) \<Rightarrow> ('s \<Rightarrow> (string + 'a) \<times> 's) \<Rightarrow> 's \<Rightarrow> (string + 'a) \<times> 's" where
  "map_err f m s = (case m s of (Inl e, s) \<Rightarrow> (Inl (f e), s) | (Inr a, s) \<Rightarrow> (Inr a, s))"

definition reopen_device :: "profile \<Rightarrow> hid \<Rightarrow> (string + unit) \<times> hid" where
  "reopen_device p =
     sbind (ask HidApi api_answer) (\<lambda>_.
     sbind (map_err (\<lambda>e. ''could not reopen Stream Deck HID handle: '' @ e) (ask HidOpen open_answer))
       (\<lambda>_. validate_unit_info p))"

section \<open>Feature reports\<close>

fun feature_attempts :: "nat \<Rightarrow> u8 list \<Rightarrow> string option \<Rightarrow> hid \<Rightarrow> (string + unit) \<times> hid" where
  "feature_attempts 0 report err =
     sfail (''Stream Deck feature write failed after retries: '' @ text_or err ''unknown error'')"
| "feature_attempts (Suc n) report err =
     (\<lambda>h. case ask (HidFeature report) feature_answer h of
        (Inr _, h) \<Rightarrow> (Inr (), h)
      | (Inl e, h) \<Rightarrow> feature_attempts n report (Some e) h)"

definition send_feature :: "u8 list \<Rightarrow> hid \<Rightarrow> (string + unit) \<times> hid" where
  "send_feature body =
     (if length body > FEATURE_REPORT_BYTES then
        sfail (''Stream Deck feature payload is too large: '' @ show_nat (length body) @ '' bytes'')
      else feature_attempts (Suc HID_WRITE_RETRIES)
        (body @ replicate (FEATURE_REPORT_BYTES - length body) 0) None)"

definition set_brightness :: "u8 \<Rightarrow> hid \<Rightarrow> (string + unit) \<times> hid" where
  "set_brightness level = send_feature [0x03, 0x08, min level 100]"

definition fill_screen :: "u8 \<times> u8 \<times> u8 \<Rightarrow> hid \<Rightarrow> (string + unit) \<times> hid" where
  "fill_screen rgb = send_feature [0x03, 0x05, fst rgb, fst (snd rgb), snd (snd rgb)]"

section \<open>Images\<close>

text \<open>
  One report of an upload: a header of eight bytes (command, target, whether it is the last
  one, length and index of the slice), the slice, and zeros up to the report size.
\<close>

definition image_report :: "u8 \<Rightarrow> u8 \<Rightarrow> u8 \<Rightarrow> nat \<Rightarrow> nat \<Rightarrow> u8 list \<Rightarrow> u8 list" where
  "image_report command target extra slices i chunk =
     (let final = of_bool (i + 1 = slices);
          header = [0x02, command] @
            (if command = 0x07 then [target, final]
             else if command = 0x0b then [0, final] else [target, extra]) @
            to_le_bytes (of_nat (length chunk)) @ to_le_bytes (of_nat i)
      in header @ chunk @ replicate (OUTPUT_REPORT_BYTES - (8 + length chunk)) 0)"

definition image_reports :: "u8 \<Rightarrow> u8 \<Rightarrow> u8 list \<Rightarrow> u8 \<Rightarrow> nat \<Rightarrow> u8 list list" where
  "image_reports command target im extra header_len =
     (let capacity = OUTPUT_REPORT_BYTES - header_len;
          slices = (length im + capacity - 1) div capacity
      in map (\<lambda>(i, chunk). image_report command target extra slices i chunk)
           (enumerate 0 (chunks capacity im)))"

text \<open>
  \<open>{:?}\<close> on an optional error. (Of the escapes, those of quotes, backslashes and ASCII control
  characters are written out.)
\<close>

definition debug_char :: "char \<Rightarrow> string" where
  "debug_char c =
     (let n = (of_char c :: nat); digit = (\<lambda>d. char_of (if d < 10 then 48 + d else 87 + d :: nat))
      in if c = CHR 0x22 \<or> c = CHR 0x5C then [CHR 0x5C, c]
         else if n = 9 then [CHR 0x5C, CHR ''t''] else if n = 10 then [CHR 0x5C, CHR ''n'']
         else if n = 13 then [CHR 0x5C, CHR ''r''] else if n = 0 then [CHR 0x5C, CHR ''0'']
         else if n < 16 then [CHR 0x5C] @ ''u{'' @ [digit n] @ ''}''
         else if n < 32 \<or> n = 127 then [CHR 0x5C] @ ''u{'' @ [digit (n div 16), digit (n mod 16)] @ ''}''
         else [c])"

definition debug_some :: "string \<Rightarrow> string" where
  "debug_some s = ''Some('' @ [CHR 0x22] @ concat (map debug_char s) @ [CHR 0x22] @ '')''"

text \<open>The attempts to write one report; between two attempts the device is opened again.\<close>

definition write_error :: "u8 list \<Rightarrow> string + nat \<Rightarrow> string" where
  "write_error report r =
     (case r of
        Inl e \<Rightarrow> e
      | Inr n \<Rightarrow> ''short write: '' @ show_nat n @ ''/'' @ show_nat (length report))"

fun write_attempts :: "profile \<Rightarrow> nat \<Rightarrow> u8 list \<Rightarrow> string option \<Rightarrow> hid \<Rightarrow> (string + unit) \<times> hid" where
  "write_attempts p 0 report err =
     sfail (''Stream Deck image report failed after retries: '' @ text_or err ''unknown error'')"
| "write_attempts p (Suc n) report err =
     (\<lambda>h. case ask (HidWrite report) write_answer h of (r, h) \<Rightarrow>
        if r = Inr (length report) then (Inr (), h)
        else
          (let err = write_error report r
           in if n = 0 then write_attempts p n report (Some err) h
              else (case reopen_device p h of
                      (Inr _, h) \<Rightarrow> write_attempts p n report (Some err) h
                    | (Inl e, h) \<Rightarrow>
                        write_attempts p n report (Some (debug_some err @ ''; HID reopen failed: '' @ e)) h)))"

definition send_image ::
  "profile \<Rightarrow> u8 \<Rightarrow> u8 \<Rightarrow> u8 list \<Rightarrow> u8 \<Rightarrow> nat \<Rightarrow> hid \<Rightarrow> (string + unit) \<times> hid" where
  "send_image p command target im extra header_len =
     for_each (\<lambda>report. write_attempts p (Suc HID_WRITE_RETRIES) report None)
       (image_reports command target im extra header_len)"

definition write_key_image :: "profile \<Rightarrow> nat \<Rightarrow> u8 list \<Rightarrow> hid \<Rightarrow> (string + unit) \<times> hid" where
  "write_key_image p key im = send_image p 0x07 (of_nat key) im 0 8"

section \<open>Connecting\<close>

definition initialize :: "'i codec \<Rightarrow> profile \<Rightarrow> hid \<Rightarrow> (string + unit) \<times> hid" where
  "initialize k p =
     sbind (set_brightness 100) (\<lambda>_.
     sbind (fill_screen (0, 0, 0)) (\<lambda>_.
       for_each (\<lambda>key.
         case icon_for_key (pf_kind p) key of
           None \<Rightarrow> sret ()
         | Some i \<Rightarrow>
             sbind (slift (encode_icon_image k (pf_key_size p) i (pf_rotation p)))
               (write_key_image p key)) [0..<pf_keys p]))"

definition profile_of :: "controller_kind \<Rightarrow> string + profile" where
  "profile_of kind =
     (case kind of
        StreamDeckPlus \<Rightarrow> Inr PLUS
      | StreamDeckPlusXl \<Rightarrow> Inr PLUS_XL
      | StreamDeckXl \<Rightarrow> Inr XL
      | _ \<Rightarrow> Inl (''unsupported Stream Deck controller kind '' @ kind_str kind))"

definition sd_candidates :: "profile \<Rightarrow> string option \<Rightarrow> hid_info list \<Rightarrow> hid_info list" where
  "sd_candidates p requested infos =
     filter (\<lambda>info. info_vendor info = VENDOR_ID \<and> info_product info = pf_pid p \<and>
       (case requested of None \<Rightarrow> True | Some s \<Rightarrow> info_serial info = Some s)) infos"

definition new_device :: "profile \<Rightarrow> string option \<Rightarrow> hid \<Rightarrow> stream_deck" where
  "new_device p serial h =
     \<lparr>sd_profile = p, sd_serial = serial, pressed_keys = replicate (pf_keys p) False,
      pressed_encoders = replicate (pf_encoders p) False,
      last_colors = replicate STATUS_SLOTS None, last_agents = replicate STATUS_SLOTS None,
      sd_last_context = None, sd_context = None, sd_mode = ContextMode, sd_last_mode = None,
      pending_context = None, pending_mode = None, last_display_write_at = None,
      pending_key_status = None, last_key_write_at = None, next_key_write_index = 0, sd_hid = h\<rparr>"

definition sd_connect ::
  "'i codec \<Rightarrow> controller_kind \<Rightarrow> string option \<Rightarrow> hid \<Rightarrow> (string + stream_deck) \<times> hid" where
  "sd_connect k kind requested =
     sbind (slift (profile_of kind)) (\<lambda>p.
     sbind (ask HidApi api_answer) (\<lambda>infos.
       case sd_candidates p requested infos of
         [] \<Rightarrow> sfail (pf_model p @ '' ('' @ hex4 VENDOR_ID @ '':'' @ hex4 (pf_pid p) @
             '') was not found; close the Stream Deck app if it owns the device'')
       | [info] \<Rightarrow>
           sbind (map_err (\<lambda>e. ''could not open Stream Deck '' @ pf_model p @
             ''; close the official app first: '' @ e) (ask HidOpen open_answer)) (\<lambda>_.
           sbind (validate_unit_info p) (\<lambda>_.
           sbind (initialize k p) (\<lambda>_ h. (Inr (new_device p (info_serial info) h), h))))
       | _ \<Rightarrow> sfail (''multiple '' @ pf_model p @ '' devices were found; pass --controller-serial'')))"

section \<open>Agent keys\<close>

text \<open>
  \<open>flush_key_status\<close> paints at most one key whose colour or agent differs from what it shows,
  the first one from \<open>next_key_write_index\<close> around, and not sooner than the interval after the
  last one.
\<close>

definition key_differs :: "stream_deck \<Rightarrow> key_status \<Rightarrow> nat \<Rightarrow> bool" where
  "key_differs d st i \<longleftrightarrow> last_colors d ! i \<noteq> fst st ! i \<or> last_agents d ! i \<noteq> snd st ! i"

definition next_key :: "stream_deck \<Rightarrow> key_status \<Rightarrow> nat option" where
  "next_key d st =
     List.find (key_differs d st)
       (map (\<lambda>offset. (next_key_write_index d + offset) mod STATUS_SLOTS) [0..<STATUS_SLOTS])"

definition key_image :: "'i codec \<Rightarrow> profile \<Rightarrow> key_status \<Rightarrow> nat \<Rightarrow> string + u8 list" where
  "key_image k p st i =
     (case fst st ! i of
        Some (rgb, level) \<Rightarrow>
          encode_image_with_agent k (pf_key_size p) (pf_key_size p) (rgb_bytes rgb level) (Some i) True
            (pf_rotation p) (snd st ! i)
      | None \<Rightarrow>
          encode_image k (pf_key_size p) (pf_key_size p) (0, 0, 0) None False (pf_rotation p))"

definition key_written :: "key_status \<Rightarrow> nat \<Rightarrow> stream_deck \<Rightarrow> stream_deck" where
  "key_written st i d =
     d\<lparr>last_colors := (last_colors d)[i := fst st ! i],
       last_agents := (last_agents d)[i := snd st ! i],
       last_key_write_at := Some (hid_now (sd_hid d)),
       next_key_write_index := (i + 1) mod STATUS_SLOTS\<rparr>"

definition paint_key ::
  "'i codec \<Rightarrow> key_status \<Rightarrow> nat \<Rightarrow> stream_deck \<Rightarrow> (string + unit) \<times> stream_deck" where
  "paint_key k st i =
     (\<lambda>d. sbind (slift (key_image k (sd_profile d) st i)) (\<lambda>im.
       sbind (with_hid (write_key_image (sd_profile d) i im)) (\<lambda>_ d. (Inr (), key_written st i d))) d)"

definition flush_key_status ::
  "'i codec \<Rightarrow> stream_deck \<Rightarrow> (string + unit) \<times> stream_deck" where
  "flush_key_status k d =
     (case pending_key_status d of
        None \<Rightarrow> (Inr (), d)
      | Some st \<Rightarrow>
          if throttled HID_KEY_MIN_INTERVAL (last_key_write_at d) (sd_hid d) then (Inr (), d)
          else (case next_key d st of
                  None \<Rightarrow> (Inr (), d\<lparr>pending_key_status := None\<rparr>)
                | Some i \<Rightarrow> paint_key k st i d))"

text \<open>One entry of a thread status message on the colours and agents collected so far.\<close>

definition entry_level :: "json \<Rightarrow> f64" where
  "entry_level e = clamp 0 1 (case Option.bind (jget ''b'' e) as_f64 of None \<Rightarrow> 1 | Some b \<Rightarrow> b)"

definition entry_off :: "json \<Rightarrow> bool" where
  "entry_off e \<longleftrightarrow> Option.bind (jget ''e'' e) as_u64 = Some 0 \<or> entry_level e \<le> f64_epsilon"

definition entry_color :: "json \<Rightarrow> nat \<times> nat" where
  "entry_color e =
     ((case Option.bind (jget ''c'' e) as_u64 of None \<Rightarrow> 0 | Some c \<Rightarrow> c) mod 2 ^ 32 mod 2 ^ 24,
      f64_as_u8 (f64_mul (entry_level e) 100))"

definition status_entry :: "json \<Rightarrow> key_status \<Rightarrow> key_status" where
  "status_entry e st =
     (case Option.bind (jget ''id'' e) as_u64 of
        None \<Rightarrow> st
      | Some i \<Rightarrow>
          if i \<ge> STATUS_SLOTS then st
          else if entry_off e then ((fst st)[i := None], (snd st)[i := None])
          else ((fst st)[i := Some (entry_color e)],
                (snd st)[i := Option.bind (jget ''agent'' e) as_str]))"

definition sd_apply_thread_status ::
  "'i codec \<Rightarrow> json \<Rightarrow> stream_deck \<Rightarrow> (string + unit) \<times> stream_deck" where
  "sd_apply_thread_status k parameters d =
     (case as_array parameters of
        None \<Rightarrow> (Inl ''v.oai.thstatus parameters must be an array'', d)
      | Some items \<Rightarrow>
          (let st = (case pending_key_status d of None \<Rightarrow> (last_colors d, last_agents d) | Some st \<Rightarrow> st)
           in flush_key_status k (d\<lparr>pending_key_status := Some (fold status_entry items st)\<rparr>)))"

section \<open>The window\<close>

definition window_image ::
  "'i codec \<Rightarrow> display_mode \<Rightarrow> display_context \<Rightarrow> nat \<Rightarrow> nat \<Rightarrow> rotation \<Rightarrow> string + u8 list" where
  "window_image k mode c w h rot =
     (case mode of
        ContextMode \<Rightarrow> render_window_image k c w h rot
      | UsageMode \<Rightarrow> render_usage_image k c w h rot)"

definition display_written :: "display_context \<Rightarrow> display_mode \<Rightarrow> stream_deck \<Rightarrow> stream_deck" where
  "display_written c mode d =
     d\<lparr>sd_last_context := Some c, sd_last_mode := Some mode, pending_context := None,
       pending_mode := None\<rparr>"

definition paint_window ::
  "'i codec \<Rightarrow> display_context \<Rightarrow> display_mode \<Rightarrow> stream_deck \<Rightarrow> (string + unit) \<times> stream_deck" where
  "paint_window k c mode d =
     (case pf_window (sd_profile d) of
        None \<Rightarrow> (Inr (), display_written c mode d)
      | Some (w, h) \<Rightarrow>
          sbind (slift (window_image k mode c w h (pf_rotation (sd_profile d)))) (\<lambda>im.
            sbind (with_hid (send_image (sd_profile d) 0x0b 0 im 0 8)) (\<lambda>_ d.
              (Inr (), display_written c mode (d\<lparr>last_display_write_at := Some (hid_now (sd_hid d))\<rparr>)))) d)"

definition flush_display_context ::
  "'i codec \<Rightarrow> bool \<Rightarrow> stream_deck \<Rightarrow> (string + unit) \<times> stream_deck" where
  "flush_display_context k force d =
     (case pending_context d of
        None \<Rightarrow> (Inr (), d)
      | Some c \<Rightarrow>
          (let mode = (case pending_mode d of None \<Rightarrow> sd_mode d | Some m \<Rightarrow> m)
           in if sd_last_context d = Some c \<and> sd_last_mode d = Some mode then
                (Inr (), d\<lparr>pending_context := None, pending_mode := None\<rparr>)
              else if \<not> force \<and> throttled HID_WINDOW_MIN_INTERVAL (last_display_write_at d) (sd_hid d)
              then (Inr (), d)
              else paint_window k c mode d))"

definition sd_apply_display_context ::
  "'i codec \<Rightarrow> display_context \<Rightarrow> stream_deck \<Rightarrow> (string + unit) \<times> stream_deck" where
  "sd_apply_display_context k c d =
     (let d = d\<lparr>sd_context := Some c\<rparr>
      in if sd_last_context d = Some c \<and> sd_last_mode d = Some (sd_mode d) \<and> pending_context d = None
         then (Inr (), d)
         else flush_display_context k False
           (d\<lparr>pending_context := Some c, pending_mode := Some (sd_mode d)\<rparr>))"

section \<open>Input reports\<close>

definition key_event :: "controller_kind \<Rightarrow> nat \<Rightarrow> bool \<Rightarrow> physical_event list" where
  "key_event kind i pressed =
     (case virtual_key_event kind i pressed of
        Some e \<Rightarrow> [e]
      | None \<Rightarrow> if kind \<noteq> StreamDeckXl \<or> i < 9 then [Button (i mod 256) pressed] else [])"

definition key_events :: "u8 list \<Rightarrow> stream_deck \<Rightarrow> physical_event list \<times> stream_deck" where
  "key_events body d =
     (let p = sd_profile d;
          (es, ks) = scan (key_event (pf_kind p)) 0 (take (pf_keys p) body) (pressed_keys d)
      in (es, d\<lparr>pressed_keys := ks\<rparr>))"

text \<open>A turn of \<open>n\<close> ticks is \<open>n\<close> single events.\<close>

definition turn_events :: "nat \<Rightarrow> u8 \<Rightarrow> physical_event list" where
  "turn_events i raw = replicate (nat \<bar>sint raw\<bar>) (EncoderTurn (i mod 256) (sgn (sint raw)))"

definition encoder_events :: "u8 list \<Rightarrow> stream_deck \<Rightarrow> physical_event list \<times> stream_deck" where
  "encoder_events body d =
     (let n = pf_encoders (sd_profile d)
      in case body of
           [] \<Rightarrow> ([], d)
         | kind # rest \<Rightarrow>
             if kind = 0 then
               (let (es, ks) = scan (\<lambda>i p. [EncoderButton (i mod 256) p]) 0 (take n rest) (pressed_encoders d)
                in (es, d\<lparr>pressed_encoders := ks\<rparr>))
             else if kind = 1 then
               (concat (map (\<lambda>(i, raw). turn_events i raw) (enumerate 0 (take n rest))), d)
             else ([], d))"

text \<open>
  \<open>touch_events\<close>: a completed flick (kind 3) that is more horizontal than vertical chooses the
  screen by its direction.
\<close>

definition abs_diff :: "nat \<Rightarrow> nat \<Rightarrow> nat" where
  "abs_diff a b = (if a < b then b - a else a - b)"

definition flick_mode :: "u8 list \<Rightarrow> display_mode option" where
  "flick_mode body =
     (if length body < 10 \<or> body ! 0 \<noteq> 3 then None
      else
        (let start_x = le16 body 2; start_y = le16 body 4; end_x = le16 body 6; end_y = le16 body 8;
             horizontal = abs_diff end_x start_x; vertical = abs_diff end_y start_y
         in if horizontal = 0 \<or> min (horizontal * 2) 65535 < vertical then None
            else Some (if end_x < start_x then UsageMode else ContextMode)))"

definition touch_events :: "'i codec \<Rightarrow> u8 list \<Rightarrow> stream_deck \<Rightarrow> stream_deck" where
  "touch_events k body d =
     (if pf_window (sd_profile d) = None then d
      else case flick_mode body of
             None \<Rightarrow> d
           | Some mode \<Rightarrow>
               if mode = sd_mode d then d
               else
                 (let c = (case sd_context d of None \<Rightarrow> display_default | Some c \<Rightarrow> c)
                  in snd (flush_display_context k True
                       (d\<lparr>sd_mode := mode, pending_context := Some c, pending_mode := Some mode\<rparr>))))"

definition report_body :: "u8 list \<Rightarrow> u8 list" where
  "report_body report = drop 4 (take (min (4 + le16 report 2) (length report)) report)"

definition events_from_report ::
  "'i codec \<Rightarrow> u8 list \<Rightarrow> stream_deck \<Rightarrow> physical_event list \<times> stream_deck" where
  "events_from_report k report d =
     (if length report < 4 \<or> report ! 0 \<noteq> 1 then ([], d)
      else if report ! 1 = 0 then key_events (report_body report) d
      else if report ! 1 = 2 then ([], touch_events k (report_body report) d)
      else if report ! 1 = 3 \<and> pf_encoders (sd_profile d) > 0 then encoder_events (report_body report) d
      else ([], d))"

section \<open>The controller\<close>

text \<open>\<open>poll\<close>: a report is read into a buffer of 512 bytes.\<close>

definition sd_poll ::
  "'i codec \<Rightarrow> int \<Rightarrow> stream_deck \<Rightarrow> (string + physical_event list) \<times> stream_deck" where
  "sd_poll k timeout =
     sbind (flush_display_context k False) (\<lambda>_.
     sbind (with_hid (ask (HidRead timeout) read_answer)) (\<lambda>report d.
       case events_from_report k report d of
         (es, d) \<Rightarrow>
           sbind (flush_key_status k) (\<lambda>_.
           sbind (flush_display_context k False) (\<lambda>_. sret es)) d))"

definition sd_apply_rgb_config :: "json \<Rightarrow> stream_deck \<Rightarrow> (string + unit) \<times> stream_deck" where
  "sd_apply_rgb_config parameters =
     (if as_object parameters = None then sfail ''v.oai.rgbcfg parameters must be an object''
      else sret ())"

definition sd_shutdown :: "stream_deck \<Rightarrow> stream_deck" where
  "sd_shutdown d = snd (with_hid (send_feature [0x03, 0x02]) d)"

end
