(* ===== verification/Ajazz.thy ===== *)
theory Ajazz
  imports Hid_Device
begin

text \<open>
  The AJAZZ controller (\<open>ajazz.rs\<close>): the packets of commands and images, the key codes of its
  input reports, and the tiles of its six displays. The set of pressed buttons is a list in the
  order in which the hash set is drained.
\<close>

section \<open>Constants\<close>

definition AJAZZ_VENDOR :: nat where "AJAZZ_VENDOR = 0x0300"
definition AJAZZ_PRODUCT :: nat where "AJAZZ_PRODUCT = 0x3002"
definition USAGE_PAGE :: nat where "USAGE_PAGE = 0xffa0"
definition USAGE :: nat where "USAGE = 0x0001"
definition DISPLAY_KEY_COUNT :: nat where "DISPLAY_KEY_COUNT = 6"
definition SOURCE_SIZE :: nat where "SOURCE_SIZE = 126"
definition TRANSPORT_SIZE :: nat where "TRANSPORT_SIZE = 60"
definition OUTPUT_REPORT_LENGTH :: nat where "OUTPUT_REPORT_LENGTH = 1025"

definition tile_digits :: "nat list list" where
  "tile_digits = [
     [0, 1, 0, 1, 1, 0, 0, 1, 0, 0, 1, 0, 1, 1, 1],
     [1, 1, 0, 0, 0, 1, 0, 1, 0, 1, 0, 0, 1, 1, 1],
     [1, 1, 0, 0, 0, 1, 0, 1, 0, 0, 0, 1, 1, 1, 0],
     [1, 0, 1, 1, 0, 1, 1, 1, 1, 0, 0, 1, 0, 0, 1],
     [1, 1, 1, 1, 0, 0, 1, 1, 0, 0, 0, 1, 1, 1, 0],
     [0, 1, 1, 1, 0, 0, 1, 1, 0, 1, 0, 1, 0, 1, 0]]"

section \<open>Tiles\<close>

definition metadata_glyph_table :: "(char \<times> nat list) list" where
  "metadata_glyph_table = [
     (CHR ''A'', [0, 1, 0, 1, 0, 1, 1, 1, 1, 1, 0, 1, 1, 0, 1]),
     (CHR ''B'', [1, 1, 0, 1, 0, 1, 1, 1, 0, 1, 0, 1, 1, 1, 0]),
     (CHR ''C'', [0, 1, 1, 1, 0, 0, 1, 0, 0, 1, 0, 0, 0, 1, 1]),
     (CHR ''D'', [1, 1, 0, 1, 0, 1, 1, 0, 1, 1, 0, 1, 1, 1, 0]),
     (CHR ''E'', [1, 1, 1, 1, 0, 0, 1, 1, 0, 1, 0, 0, 1, 1, 1]),
     (CHR ''F'', [1, 1, 1, 1, 0, 0, 1, 1, 0, 1, 0, 0, 1, 0, 0]),
     (CHR ''G'', [0, 1, 1, 1, 0, 0, 1, 0, 1, 1, 0, 1, 0, 1, 1]),
     (CHR ''H'', [1, 0, 1, 1, 0, 1, 1, 1, 1, 1, 0, 1, 1, 0, 1]),
     (CHR ''I'', [1, 1, 1, 0, 1, 0, 0, 1, 0, 0, 1, 0, 1, 1, 1]),
     (CHR ''J'', [0, 0, 1, 0, 0, 1, 0, 0, 1, 1, 0, 1, 0, 1, 0]),
     (CHR ''K'', [1, 0, 1, 1, 0, 1, 1, 1, 0, 1, 0, 1, 1, 0, 1]),
     (CHR ''L'', [1, 0, 0, 1, 0, 0, 1, 0, 0, 1, 0, 0, 1, 1, 1]),
     (CHR ''M'', [1, 0, 1, 1, 1, 1, 1, 0, 1, 1, 0, 1, 1, 0, 1]),
     (CHR ''N'', [1, 0, 1, 1, 1, 1, 1, 1, 1, 1, 1, 1, 1, 0, 1]),
     (CHR ''O'', [0, 1, 0, 1, 0, 1, 1, 0, 1, 1, 0, 1, 0, 1, 0]),
     (CHR ''P'', [1, 1, 0, 1, 0, 1, 1, 1, 0, 1, 0, 0, 1, 0, 0]),
     (CHR ''Q'', [0, 1, 0, 1, 0, 1, 1, 0, 1, 0, 1, 1, 0, 1, 1]),
     (CHR ''R'', [1, 1, 0, 1, 0, 1, 1, 1, 0, 1, 0, 1, 1, 0, 1]),
     (CHR ''S'', [0, 1, 1, 1, 0, 0, 0, 1, 0, 0, 0, 1, 1, 1, 0]),
     (CHR ''T'', [1, 1, 1, 0, 1, 0, 0, 1, 0, 0, 1, 0, 0, 1, 0]),
     (CHR ''U'', [1, 0, 1, 1, 0, 1, 1, 0, 1, 1, 0, 1, 0, 1, 1]),
     (CHR ''V'', [1, 0, 1, 1, 0, 1, 1, 0, 1, 1, 0, 1, 0, 1, 0]),
     (CHR ''W'', [1, 0, 1, 1, 0, 1, 1, 1, 1, 1, 1, 1, 1, 0, 1]),
     (CHR ''X'', [1, 0, 1, 1, 0, 1, 0, 1, 0, 1, 0, 1, 1, 0, 1]),
     (CHR ''Y'', [1, 0, 1, 1, 0, 1, 0, 1, 0, 0, 1, 0, 0, 1, 0]),
     (CHR ''Z'', [1, 1, 1, 0, 0, 1, 0, 1, 0, 1, 0, 0, 1, 1, 1]),
     (CHR ''0'', [0, 1, 0, 1, 0, 1, 1, 0, 1, 1, 0, 1, 0, 1, 0]),
     (CHR ''1'', [0, 1, 0, 1, 1, 0, 0, 1, 0, 0, 1, 0, 1, 1, 1]),
     (CHR ''2'', [1, 1, 0, 0, 0, 1, 0, 1, 0, 1, 0, 0, 1, 1, 1]),
     (CHR ''3'', [1, 1, 0, 0, 0, 1, 0, 1, 0, 0, 0, 1, 1, 1, 0]),
     (CHR ''4'', [1, 0, 1, 1, 0, 1, 1, 1, 1, 0, 0, 1, 0, 0, 1]),
     (CHR ''5'', [1, 1, 1, 1, 0, 0, 1, 1, 0, 0, 0, 1, 1, 1, 0]),
     (CHR ''6'', [0, 1, 1, 1, 0, 0, 1, 1, 0, 1, 0, 1, 0, 1, 0]),
     (CHR ''7'', [1, 1, 1, 0, 0, 1, 0, 1, 0, 0, 1, 0, 0, 1, 0]),
     (CHR ''8'', [0, 1, 0, 1, 0, 1, 0, 1, 0, 1, 0, 1, 0, 1, 0]),
     (CHR ''9'', [0, 1, 0, 1, 0, 1, 0, 1, 1, 0, 0, 1, 0, 1, 0]),
     (CHR ''/'', [0, 0, 1, 0, 0, 1, 0, 1, 0, 1, 0, 0, 1, 0, 0]),
     (CHR ''-'', [0, 0, 0, 0, 0, 0, 1, 1, 1, 0, 0, 0, 0, 0, 0]),
     (CHR ''%'', [1, 0, 1, 0, 0, 1, 0, 1, 0, 1, 1, 0, 1, 0, 1])]"

definition metadata_glyph :: "char \<Rightarrow> nat list" where
  "metadata_glyph c = (case map_of metadata_glyph_table c of Some g \<Rightarrow> g | None \<Rightarrow> replicate 15 0)"

definition encode_ajazz_image :: "'i codec \<Rightarrow> drawing \<Rightarrow> string + u8 list" where
  "encode_ajazz_image k d = convert_jpeg k (TRANSPORT_SIZE, TRANSPORT_SIZE) (rotate90 k (blit k d))"

text \<open>The label of an agent; no caller passes one, so it is never drawn.\<close>

definition tile_agent_label :: "string \<Rightarrow> pixel_call list" where
  "tile_agent_label agent =
     (let chars = utf8_chunks (map ascii_lower agent);
          width = length chars * 8;
          start_x = (SOURCE_SIZE - width) div 2
      in draw_bitmaps (map (\<lambda>ch. case ch of [c] \<Rightarrow> agent_glyph c | _ \<Rightarrow> replicate 15 0) chars)
           start_x 2 2 8)"

definition tile_digit :: "nat \<Rightarrow> pixel_call list" where
  "tile_digit i =
     (let cell = 9; origin_x = (SOURCE_SIZE - 3 * cell) div 2; origin_y = 10
      in concat (map (\<lambda>(row, column).
           fill_rect (origin_x + column * cell + 2) (origin_x + column * cell + (cell - 2))
             (origin_y + row * cell + 2) (origin_y + row * cell + (cell - 2)) DIGIT_COLOR)
           (bitmap_cells (tile_digits ! i))))"

definition tile :: "nat \<Rightarrow> nat \<Rightarrow> pixel_call list \<Rightarrow> drawing" where
  "tile color level calls =
     \<lparr>d_width = SOURCE_SIZE, d_height = SOURCE_SIZE, d_background = rgb_bytes color level,
      d_calls = calls\<rparr>"

definition digit_tile :: "nat \<Rightarrow> nat \<Rightarrow> nat \<Rightarrow> bool \<Rightarrow> string option \<Rightarrow> drawing" where
  "digit_tile i color level draw_digits agent =
     tile color level
       (if \<not> draw_digits then []
        else (case agent of None \<Rightarrow> [] | Some a \<Rightarrow> tile_agent_label a) @ tile_digit i)"

definition encode_color_image_with_agent ::
  "'i codec \<Rightarrow> nat \<Rightarrow> nat \<Rightarrow> nat \<Rightarrow> bool \<Rightarrow> string option \<Rightarrow> string + u8 list" where
  "encode_color_image_with_agent k i color level draw_digits agent =
     encode_ajazz_image k (digit_tile i color level draw_digits agent)"

definition encode_color_image :: "'i codec \<Rightarrow> nat \<Rightarrow> nat \<Rightarrow> nat \<Rightarrow> bool \<Rightarrow> string + u8 list" where
  "encode_color_image k i color level draw_digits =
     encode_color_image_with_agent k i color level draw_digits None"

text \<open>A line of text, at most as many characters as fit; what is not ASCII is a space.\<close>

definition metadata_char :: "string \<Rightarrow> char" where
  "metadata_char ch = (case ch of [c] \<Rightarrow> if is_ascii c then c else CHR '' '' | _ \<Rightarrow> CHR '' '')"

definition draw_metadata_line :: "nat \<Rightarrow> string \<Rightarrow> pixel_call list" where
  "draw_metadata_line y s =
     (let pitch = 8;
          chars = take (SOURCE_SIZE div pitch)
            (map metadata_char (utf8_chunks (map ascii_upper s)));
          width = length chars * pitch;
          start_x = (SOURCE_SIZE - width) div 2
      in draw_bitmaps (map metadata_glyph chars) start_x y 2 pitch)"

definition or_text :: "string option \<Rightarrow> string \<Rightarrow> string" where
  "or_text x d = (case x of None \<Rightarrow> d | Some s \<Rightarrow> s)"

definition tile_footer :: "nat \<Rightarrow> display_context \<Rightarrow> string" where
  "tile_footer i c =
     ''S'' @ show_nat (i + 1) @ '' '' @ or_text (dc_status c) ''READY'' @
     (case dc_progress c of None \<Rightarrow> [] | Some p \<Rightarrow> '' '' @ show_nat p @ ''%'')"

definition metadata_calls :: "nat \<Rightarrow> string option \<Rightarrow> display_context \<Rightarrow> pixel_call list" where
  "metadata_calls i heading c =
     draw_metadata_line 2 (or_text (dc_project c) ''CODEX'') @
     draw_metadata_line 20 (or_text (or_else heading (dc_task c)) ''SLOT'') @
     draw_metadata_line 38 (or_text (dc_model c) ''MODEL'' @ ''/'' @ or_text (dc_effort c) ''EFFORT'') @
     draw_metadata_line 56 (tile_footer i c)"

definition encode_color_image_with_metadata ::
  "'i codec \<Rightarrow> nat \<Rightarrow> nat \<Rightarrow> nat \<Rightarrow> string option \<Rightarrow> display_context option \<Rightarrow> string + u8 list" where
  "encode_color_image_with_metadata k i color level heading ctx =
     (case ctx of
        None \<Rightarrow> encode_color_image_with_agent k i color level True None
      | Some c \<Rightarrow> encode_ajazz_image k (tile color level (metadata_calls i heading c)))"

section \<open>Packets\<close>

record ajazz =
  aj_serial :: "string option"
  aj_buttons :: "nat list"
  aj_encoders :: "bool list"
  aj_colors :: "(nat \<times> nat) option list"
  aj_agents :: "string option list"
  aj_titles :: "string option list"
  aj_context :: "display_context option"
  aj_hid :: hid

definition write_packet :: "u8 list \<Rightarrow> hid \<Rightarrow> (string + unit) \<times> hid" where
  "write_packet packet =
     sbind (ask (HidWrite packet) write_answer) (\<lambda>written.
       if written \<noteq> length packet then
         sfail (''short AJAZZ HID write: '' @ show_nat written @ ''/'' @ show_nat (length packet))
       else sret ())"

definition padded :: "u8 list \<Rightarrow> u8 list" where
  "padded packet = take OUTPUT_REPORT_LENGTH (packet @ replicate (OUTPUT_REPORT_LENGTH - length packet) 0)"

definition write_command :: "u8 list \<Rightarrow> hid \<Rightarrow> (string + unit) \<times> hid" where
  "write_command command = write_packet (padded ([0x00, 0x43, 0x52, 0x54, 0x00, 0x00] @ command))"

text \<open>An image is announced with its length and its key, and then sent in slices.\<close>

definition announce :: "nat \<Rightarrow> u8 list \<Rightarrow> u8 list" where
  "announce key im =
     [0x42, 0x41, 0x54, 0x00, 0x00, of_nat (length im div 256), of_nat (length im), of_nat (key + 1)]"

definition image_packets :: "u8 list \<Rightarrow> u8 list list" where
  "image_packets im = map (\<lambda>chunk. padded (0 # chunk)) (chunks (OUTPUT_REPORT_LENGTH - 1) im)"

definition write_image :: "nat \<Rightarrow> u8 list \<Rightarrow> hid \<Rightarrow> (string + unit) \<times> hid" where
  "write_image key im =
     sbind (write_command (announce key im)) (\<lambda>_. for_each write_packet (image_packets im))"

definition clear_display :: "nat \<Rightarrow> hid \<Rightarrow> (string + unit) \<times> hid" where
  "clear_display key = write_command [0x43, 0x4c, 0x45, 0x00, 0x00, 0x00, of_nat (key + 1)]"

definition commit_displays :: "hid \<Rightarrow> (string + unit) \<times> hid" where
  "commit_displays = write_command [0x53, 0x54, 0x50]"

definition clear_displays :: "'i codec \<Rightarrow> hid \<Rightarrow> (string + unit) \<times> hid" where
  "clear_displays k =
     sbind (write_command [0x43, 0x4c, 0x45, 0x00, 0x00, 0x00, 0xff]) (\<lambda>_.
     sbind commit_displays (\<lambda>_.
     sbind (slift (encode_color_image k 0 0 0 False)) (\<lambda>im.
     sbind (for_each (\<lambda>i. write_image i im) [0..<DISPLAY_KEY_COUNT]) (\<lambda>_. commit_displays))))"

section \<open>Connecting\<close>

definition aj_candidates :: "string option \<Rightarrow> hid_info list \<Rightarrow> hid_info list" where
  "aj_candidates requested infos =
     filter (\<lambda>info. info_vendor info = AJAZZ_VENDOR \<and> info_product info = AJAZZ_PRODUCT \<and>
       info_usage_page info = USAGE_PAGE \<and> info_usage info = USAGE \<and>
       (case requested of None \<Rightarrow> True | Some s \<Rightarrow> info_serial info = Some s)) infos"

definition new_ajazz :: "string option \<Rightarrow> hid \<Rightarrow> ajazz" where
  "new_ajazz serial h =
     \<lparr>aj_serial = serial, aj_buttons = [], aj_encoders = replicate 3 False,
      aj_colors = replicate DISPLAY_KEY_COUNT None, aj_agents = replicate DISPLAY_KEY_COUNT None,
      aj_titles = replicate DISPLAY_KEY_COUNT None, aj_context = None, aj_hid = h\<rparr>"

definition aj_connect :: "'i codec \<Rightarrow> string option \<Rightarrow> hid \<Rightarrow> (string + ajazz) \<times> hid" where
  "aj_connect k requested =
     sbind (ask HidApi api_answer) (\<lambda>infos.
       case aj_candidates requested infos of
         [] \<Rightarrow> sfail ''AKP03E rev. 2 vendor interface FFA0:0001 was not found''
       | [info] \<Rightarrow>
           sbind (\<lambda>h. case ask HidOpen open_answer h of
                (Inl e, h) \<Rightarrow> (Inl (''could not open AJAZZ MI_00; close the vendor app first: '' @ e), h)
              | (Inr u, h) \<Rightarrow> (Inr u, h)) (\<lambda>_.
           sbind (write_command [0x44, 0x49, 0x53, 0x00, 0x00]) (\<lambda>_.
           sbind (write_command [0x4c, 0x49, 0x47, 0x00, 0x00, 100]) (\<lambda>_.
           sbind (clear_displays k) (\<lambda>_ h. (Inr (new_ajazz (info_serial info) h), h)))))
       | _ \<Rightarrow> sfail ''multiple AJAZZ devices were found; pass --device ajazz,serial=SERIAL'')"

section \<open>Displays\<close>

text \<open>The colours, agents and titles of the six displays.\<close>

type_synonym tiles = "(nat \<times> nat) option list \<times> string option list \<times> string option list"

definition tile_unchanged :: "ajazz \<Rightarrow> tiles \<Rightarrow> nat \<Rightarrow> bool" where
  "tile_unchanged d ts i \<longleftrightarrow>
     aj_colors d ! i = fst ts ! i \<and> aj_agents d ! i = fst (snd ts) ! i \<and>
     aj_titles d ! i = snd (snd ts) ! i"

definition tile_painted :: "tiles \<Rightarrow> nat \<Rightarrow> ajazz \<Rightarrow> ajazz" where
  "tile_painted ts i d =
     d\<lparr>aj_colors := (aj_colors d)[i := fst ts ! i],
       aj_agents := (aj_agents d)[i := fst (snd ts) ! i],
       aj_titles := (aj_titles d)[i := snd (snd ts) ! i]\<rparr>"

definition paint_tile :: "'i codec \<Rightarrow> display_context option \<Rightarrow> tiles \<Rightarrow> nat \<Rightarrow> hid \<Rightarrow> (string + unit) \<times> hid" where
  "paint_tile k ctx ts i =
     (case fst ts ! i of
        Some (rgb, level) \<Rightarrow>
          sbind (slift (encode_color_image_with_metadata k i rgb level (snd (snd ts) ! i) ctx))
            (write_image i)
      | None \<Rightarrow>
          sbind (clear_display i) (\<lambda>_.
          sbind (slift (encode_color_image k i 0 0 False)) (write_image i)))"

definition aj_with_hid :: "(hid \<Rightarrow> (string + 'a) \<times> hid) \<Rightarrow> ajazz \<Rightarrow> (string + 'a) \<times> ajazz" where
  "aj_with_hid m d = (case m (aj_hid d) of (r, h) \<Rightarrow> (r, d\<lparr>aj_hid := h\<rparr>))"

text \<open>The displays are painted in order; the result is whether one changed.\<close>

fun paint_tiles ::
  "'i codec \<Rightarrow> tiles \<Rightarrow> bool \<Rightarrow> nat list \<Rightarrow> bool \<Rightarrow> ajazz \<Rightarrow> (string + bool) \<times> ajazz" where
  "paint_tiles k ts force [] changed = sret changed"
| "paint_tiles k ts force (i # is) changed =
     (\<lambda>d. if \<not> force \<and> tile_unchanged d ts i then paint_tiles k ts force is changed d
      else sbind (aj_with_hid (paint_tile k (aj_context d) ts i))
             (\<lambda>_ d. paint_tiles k ts force is True (tile_painted ts i d)) d)"

definition apply_colors ::
  "'i codec \<Rightarrow> tiles \<Rightarrow> bool \<Rightarrow> ajazz \<Rightarrow> (string + unit) \<times> ajazz" where
  "apply_colors k ts force =
     sbind (paint_tiles k ts force [0..<DISPLAY_KEY_COUNT] False) (\<lambda>changed.
       if changed then aj_with_hid commit_displays else sret ())"

definition tile_entry :: "json \<Rightarrow> tiles \<Rightarrow> tiles" where
  "tile_entry e ts =
     (case Option.bind (jget ''id'' e) as_u64 of
        None \<Rightarrow> ts
      | Some i \<Rightarrow>
          if i \<ge> DISPLAY_KEY_COUNT then ts
          else
            (let color = (case Option.bind (jget ''c'' e) as_u64 of None \<Rightarrow> 0 | Some c \<Rightarrow> c) mod 2 ^ 32;
                 level = clamp 0 1 (case Option.bind (jget ''b'' e) as_f64 of None \<Rightarrow> 1 | Some b \<Rightarrow> b)
             in if Option.bind (jget ''e'' e) as_u64 = Some 0 \<or> level \<le> f64_epsilon then
                  ((fst ts)[i := None], (fst (snd ts))[i := None], (snd (snd ts))[i := None])
                else
                  ((fst ts)[i := Some (color mod 2 ^ 24, f64_as_u8 (f64_mul level 100))],
                   (fst (snd ts))[i := Option.bind (jget ''agent'' e) as_str],
                   (snd (snd ts))[i := Option.bind (jget ''t'' e) as_str])))"

definition aj_apply_thread_status :: "'i codec \<Rightarrow> json \<Rightarrow> ajazz \<Rightarrow> (string + unit) \<times> ajazz" where
  "aj_apply_thread_status k parameters d =
     (case as_array parameters of
        None \<Rightarrow> (Inl ''v.oai.thstatus parameters must be an array'', d)
      | Some items \<Rightarrow>
          apply_colors k (fold tile_entry items (aj_colors d, aj_agents d, aj_titles d)) False d)"

definition aj_apply_display_context ::
  "'i codec \<Rightarrow> display_context \<Rightarrow> ajazz \<Rightarrow> (string + unit) \<times> ajazz" where
  "aj_apply_display_context k c d =
     (if aj_context d = Some c then (Inr (), d)
      else (case apply_colors k (aj_colors d, aj_agents d, aj_titles d) True (d\<lparr>aj_context := Some c\<rparr>) of
              (Inl e, d') \<Rightarrow> (Inl e, d'\<lparr>aj_context := aj_context d\<rparr>)
            | (Inr u, d') \<Rightarrow> (Inr u, d')))"

definition aj_apply_rgb_config :: "json \<Rightarrow> ajazz \<Rightarrow> (string + unit) \<times> ajazz" where
  "aj_apply_rgb_config parameters =
     (if as_object parameters = None then sfail ''v.oai.rgbcfg parameters must be an object''
      else sret ())"

section \<open>Input\<close>

definition button_codes :: "(nat \<times> nat) list" where
  "button_codes = [(1, 0), (2, 1), (3, 2), (4, 3), (5, 4), (6, 5), (0x25, 6), (0x30, 7), (0x31, 8)]"

definition turn_codes :: "(nat \<times> nat \<times> int) list" where
  "turn_codes = [(0x90, 0, -1), (0x91, 0, 1), (0x50, 1, -1), (0x51, 1, 1), (0x60, 2, -1), (0x61, 2, 1)]"

definition knob_codes :: "(nat \<times> nat) list" where
  "knob_codes = [(0x33, 0), (0x35, 1), (0x34, 2)]"

text \<open>The device reports a button without its state, so each report switches the state.\<close>

definition toggle_button :: "nat \<Rightarrow> ajazz \<Rightarrow> physical_event list \<times> ajazz" where
  "toggle_button i d =
     (if i \<in> set (aj_buttons d) then ([Button i False], d\<lparr>aj_buttons := remove1 i (aj_buttons d)\<rparr>)
      else ([Button i True], d\<lparr>aj_buttons := aj_buttons d @ [i]\<rparr>))"

definition toggle_knob :: "nat \<Rightarrow> ajazz \<Rightarrow> physical_event list \<times> ajazz" where
  "toggle_knob i d =
     (let p = \<not> aj_encoders d ! i
      in ([EncoderButton i p], d\<lparr>aj_encoders := (aj_encoders d)[i := p]\<rparr>))"

definition events_from_code :: "nat \<Rightarrow> ajazz \<Rightarrow> physical_event list \<times> ajazz" where
  "events_from_code code d =
     (if code = 0 then (map (\<lambda>i. Button i False) (aj_buttons d), d\<lparr>aj_buttons := []\<rparr>)
      else case map_of button_codes code of
        Some i \<Rightarrow> toggle_button i d
      | None \<Rightarrow>
          (case map_of turn_codes code of
             Some (i, delta) \<Rightarrow> ([EncoderTurn i delta], d)
           | None \<Rightarrow>
               (case map_of knob_codes code of
                  Some i \<Rightarrow> toggle_knob i d
                | None \<Rightarrow> ([], d))))"

text \<open>The code of a report: the ninth byte after the mark \<open>ACK\<close>, which may follow a report number.\<close>

definition ACK :: "u8 list" where "ACK = [0x41, 0x43, 0x4b]"

definition report_code :: "u8 list \<Rightarrow> nat option" where
  "report_code report =
     (case (if take 3 report = ACK then Some 0
            else if take 3 (drop 1 report) = ACK then Some 1 else None) of
        None \<Rightarrow> None
      | Some offset \<Rightarrow>
          if offset + 9 < length report then Some (unat (report ! (offset + 9))) else None)"

definition aj_poll :: "int \<Rightarrow> ajazz \<Rightarrow> (string + physical_event list) \<times> ajazz" where
  "aj_poll timeout =
     sbind (aj_with_hid (ask (HidRead timeout) read_answer)) (\<lambda>report d.
       if report = [] then (Inr [], d)
       else case report_code report of
         None \<Rightarrow> (Inr [], d)
       | Some code \<Rightarrow> (case events_from_code code d of (es, d) \<Rightarrow> (Inr es, d)))"

end
