(* ===== verification/Device_Uploads.thy ===== *)
theory Device_Uploads
  imports Streamdeck Ajazz
begin

text \<open>
  What the display controllers deliver: the reports of an upload hold exactly the image, and an
  upload that reports success was accepted completely and in order, whatever failed and was
  repeated on the way.
\<close>

section \<open>Accepted reports\<close>

text \<open>The writes that were answered with their full length, in order.\<close>

definition accepted_write :: "hid \<Rightarrow> nat \<times> hid_call \<Rightarrow> u8 list list" where
  "accepted_write h = (\<lambda>(i, c). case c of
     HidWrite r \<Rightarrow> if write_answer h i = Inr (length r) then [r] else []
   | _ \<Rightarrow> [])"

definition accepted :: "hid \<Rightarrow> u8 list list" where
  "accepted h = concat (map (accepted_write h) (enumerate 0 (hid_calls h)))"

lemma accepted_write_calls [simp]:
  "accepted_write (h\<lparr>hid_calls := cs\<rparr>) = accepted_write h"
  by (simp add: accepted_write_def fun_eq_iff)

lemma accepted_ask:
  "accepted (snd (ask call answer h)) = accepted h @ accepted_write h (length (hid_calls h), call)"
  by (simp add: accepted_def ask_def enumerate_append_eq)

definition quiet :: "(hid \<Rightarrow> (string + 'a) \<times> hid) \<Rightarrow> bool" where
  "quiet m \<longleftrightarrow> (\<forall>h. accepted (snd (m h)) = accepted h)"

lemma quietD: "quiet m \<Longrightarrow> m h = (r, h') \<Longrightarrow> accepted h' = accepted h"
  by (metis quiet_def snd_conv)

lemma quiet_ask: "(\<And>r. call \<noteq> HidWrite r) \<Longrightarrow> quiet (ask call answer)"
  by (simp add: quiet_def accepted_ask) (simp add: accepted_write_def split: hid_call.split)

lemma quiet_sret: "quiet (sret a)" and quiet_sfail: "quiet (sfail e)"
  by (simp_all add: quiet_def sret_def sfail_def)

lemma quiet_sbind: "quiet m \<Longrightarrow> (\<And>a. quiet (f a)) \<Longrightarrow> quiet (sbind m f)"
  unfolding quiet_def sbind_def by (simp split: prod.split sum.split) (metis snd_conv)

lemma quiet_map_err: "quiet m \<Longrightarrow> quiet (map_err g m)"
  unfolding quiet_def map_err_def by (simp split: prod.split sum.split) (metis snd_conv)

lemma quiet_reopen: "quiet (reopen_device p)"
  unfolding reopen_device_def validate_unit_info_def Let_def
  by (auto intro!: quiet_sbind quiet_map_err quiet_ask quiet_sret quiet_sfail split: prod.split)

section \<open>Uploads are accepted in order\<close>

text \<open>\<open>delivers f\<close>: the operation of a report makes the device accept it, or nothing.\<close>

definition delivers :: "(u8 list \<Rightarrow> hid \<Rightarrow> (string + unit) \<times> hid) \<Rightarrow> bool" where
  "delivers f \<longleftrightarrow> (\<forall>x h. accepted (snd (f x h)) = accepted h @ (if fst (f x h) = Inr () then [x] else []))"

lemma deliversD:
  "delivers f \<Longrightarrow> f x h = (r, h') \<Longrightarrow> accepted h' = accepted h @ (if r = Inr () then [x] else [])"
  by (metis delivers_def fst_conv snd_conv)

lemma write_attempts_delivers:
  "accepted (snd (write_attempts p n x err h)) =
     accepted h @ (if fst (write_attempts p n x err h) = Inr () then [x] else [])"
proof (induction n arbitrary: err h)
  case 0
  show ?case by (simp add: sfail_def)
next
  case (Suc n)
  obtain r h1 where a: "ask (HidWrite x) write_answer h = (r, h1)" by fastforce
  then have r: "r = write_answer h (length (hid_calls h))" by (simp add: ask_def)
  have h1: "accepted h1 = accepted h @ (if r = Inr (length x) then [x] else [])"
    using accepted_ask [of "HidWrite x" write_answer h] a by (simp add: accepted_write_def r)
  show ?case
  proof (cases "r = Inr (length x) \<or> n = 0")
    case True
    with a h1 Suc.IH show ?thesis by (auto simp: Let_def)
  next
    case False
    obtain q h2 where o: "reopen_device p h1 = (q, h2)" by fastforce
    have "accepted h2 = accepted h1" by (rule quietD [OF quiet_reopen o])
    with False a h1 o Suc.IH show ?thesis by (cases q) (auto simp: Let_def)
  qed
qed

lemma delivers_attempts: "delivers (\<lambda>x. write_attempts p n x None)"
  by (simp add: delivers_def write_attempts_delivers)

lemma write_packet_delivers: "delivers write_packet"
  using accepted_ask [of "HidWrite _" write_answer]
  by (auto simp: delivers_def write_packet_def sbind_def sret_def sfail_def ask_def accepted_def
      enumerate_append_eq accepted_write_def split: sum.split)

lemma for_each_delivers:
  assumes "delivers f"
  shows "\<exists>n. accepted (snd (for_each f xs h)) = accepted h @ take n xs \<and>
    (if fst (for_each f xs h) = Inr () then n = length xs else n < length xs)"
proof (induction xs arbitrary: h)
  case Nil
  show ?case by (simp add: sret_def)
next
  case (Cons x xs)
  obtain r h1 where f: "f x h = (r, h1)" by fastforce
  note d = deliversD [OF assms f]
  show ?case
  proof (cases r)
    case (Inl e)
    with f d have "fst (for_each f (x # xs) h) \<noteq> Inr ()" "accepted (snd (for_each f (x # xs) h)) = accepted h @ take 0 (x # xs)"
      by (simp_all add: sbind_Inl)
    then show ?thesis by fastforce
  next
    case (Inr u)
    obtain n where n: "accepted (snd (for_each f xs h1)) = accepted h1 @ take n xs"
      "if fst (for_each f xs h1) = Inr () then n = length xs else n < length xs"
      using Cons.IH by blast
    have "for_each f (x # xs) h = for_each f xs h1"
      using f Inr by (simp add: sbind_Inr)
    with n d Inr show ?thesis by (intro exI [of _ "Suc n"]) auto
  qed
qed

text \<open>
  C37. An upload to a Stream Deck that reports success has been accepted report by report, all of
  it and in order, although every report may be written five times and the device opened again in
  between. An upload that fails left a proper beginning of the reports.
\<close>

theorem upload_accepted_in_order:
  "\<exists>n. accepted (snd (send_image p command target im extra 8 h)) =
         accepted h @ take n (image_reports command target im extra 8) \<and>
       (if fst (send_image p command target im extra 8 h) = Inr ()
        then n = length (image_reports command target im extra 8)
        else n < length (image_reports command target im extra 8))"
  unfolding send_image_def by (rule for_each_delivers) (rule delivers_attempts)

section \<open>Uploads hold the image\<close>

text \<open>What a receiver reads in a report: the slice, the last-report flag and the index.\<close>

definition report_slice :: "u8 list \<Rightarrow> u8 list" where
  "report_slice r = take (le16 r 4) (drop 8 r)"

definition report_final :: "u8 list \<Rightarrow> bool" where
  "report_final r \<longleftrightarrow> r ! 3 \<noteq> 0"

lemma le16_to_le_bytes:
  "bytes ! i = to_le_bytes w ! 0 \<Longrightarrow> bytes ! Suc i = to_le_bytes w ! 1 \<Longrightarrow> le16 bytes i = unat w"
proof -
  have "unat w < 2 ^ LENGTH(16)" by (rule unsigned_less)
  then have "unat w < 65536" by simp
  moreover have "unat (drop_bit 8 w) = unat w div 256"
    by (simp only: unat_drop_bit_eq) (simp add: drop_bit_eq_div)
  ultimately have "unat (ucast (drop_bit 8 w) :: u8) = unat w div 256"
    by (simp only: unsigned_ucast_eq) (simp add: take_bit_eq_mod)
  then have "unat w = unat (ucast w :: u8) + 256 * unat (ucast (drop_bit 8 w) :: u8)"
    by (simp add: unsigned_ucast_eq take_bit_eq_mod)
  moreover assume "bytes ! i = to_le_bytes w ! 0" "bytes ! Suc i = to_le_bytes w ! 1"
  ultimately show ?thesis by (simp add: le16_def to_le_bytes_def)
qed

lemma image_report_facts:
  assumes "command = 0x07 \<or> command = 0x0b" "length c \<le> 1016"
  shows "length (image_report command target extra n i c) = 1024 \<and>
    report_slice (image_report command target extra n i c) = c \<and>
    (report_final (image_report command target extra n i c) \<longleftrightarrow> Suc i = n) \<and>
    le16 (image_report command target extra n i c) 6 = i mod 65536"
proof -
  let ?r = "image_report command target extra n i c"
  obtain a f where r: "?r = [2, command, a, f] @ to_le_bytes (of_nat (length c)) @ to_le_bytes (of_nat i) @ c @
      replicate (1016 - length c) 0" and f: "f \<noteq> 0 \<longleftrightarrow> Suc i = n"
    using assms(1) by (auto simp: image_report_def Let_def OUTPUT_REPORT_BYTES_def)
  have "le16 ?r 4 = unat (of_nat (length c) :: u16)" "le16 ?r 6 = unat (of_nat i :: u16)"
    unfolding r by (rule le16_to_le_bytes; simp add: to_le_bytes_def nth_append)+
  moreover have "drop 8 ?r = c @ replicate (1016 - length c) 0"
    unfolding r by (simp add: to_le_bytes_def)
  moreover have "length ?r = 1024"
    unfolding r using assms(2) by (simp add: to_le_bytes_def)
  moreover have "?r ! 3 = f" unfolding r by simp
  ultimately show ?thesis
    using assms(2) f by (simp add: report_slice_def report_final_def unat_of_nat)
qed

lemma image_reports_size:
  assumes "command = 0x07 \<or> command = 0x0b" "r \<in> set (image_reports command target im extra 8)"
  shows "length r = 1024"
  using assms(2) image_report_facts [OF assms(1)] chunks_lengths [of _ 1016 im]
  by (fastforce simp: image_reports_def OUTPUT_REPORT_BYTES_def Let_def in_set_enumerate_eq)

lemma map_enumerate_snd: "(\<And>i x. (i, x) \<in> set (enumerate k xs) \<Longrightarrow> g (i, x) = x) \<Longrightarrow> map g (enumerate k xs) = xs"
  by (induction xs arbitrary: k) auto

lemma map_enumerate_index:
  "(\<And>i x. (i, x) \<in> set (enumerate k xs) \<Longrightarrow> g (i, x) = f i) \<Longrightarrow> map g (enumerate k xs) = map f [k..<k + length xs]"
proof (induction xs arbitrary: k)
  case (Cons x xs)
  then have "map g (enumerate (Suc k) xs) = map f [Suc k..<Suc k + length xs]" by simp
  moreover have "[k..<k + length (x # xs)] = k # [Suc k..<Suc k + length xs]"
    by (subst upt_rec) simp
  ultimately show ?case using Cons.prems by simp
qed simp

lemma concat_slices:
  assumes "command = 0x07 \<or> command = 0x0b"
  shows "concat (map report_slice (image_reports command target im extra 8)) = im"
proof -
  let ?cs = "chunks 1016 im" and ?n = "(length im + 1015) div 1016"
  have reports: "image_reports command target im extra 8 =
      map (\<lambda>(i, c). image_report command target extra ?n i c) (enumerate 0 ?cs)"
    by (simp add: image_reports_def OUTPUT_REPORT_BYTES_def add.commute)
  have "report_slice (image_report command target extra ?n i c) = c" if "(i, c) \<in> set (enumerate 0 ?cs)" for i c
  proof -
    from that have "c \<in> set ?cs" by (auto simp: in_set_enumerate_eq)
    then have "length c \<le> 1016" using chunks_lengths by blast
    with image_report_facts [OF assms] show ?thesis by blast
  qed
  then have "concat (map report_slice (image_reports command target im extra 8)) = concat ?cs"
    unfolding reports map_map by (intro arg_cong [where f = concat] map_enumerate_snd) auto
  moreover have "concat ?cs = im" by (rule concat_chunks) simp
  ultimately show ?thesis by simp
qed

text \<open>Every report of a key image names the key.\<close>

lemma key_reports_target:
  "r \<in> set (image_reports 0x07 target im extra 8) \<Longrightarrow> r ! 0 = 2 \<and> r ! 1 = 0x07 \<and> r ! 2 = target"
  by (auto simp: image_reports_def image_report_def Let_def)

text \<open>
  C36. The reports of a key or window image, read the way the device reads them, give the image
  back; every report has the size of an output report, they are numbered from 0 (in 16 bits), and
  exactly the last one is flagged.
\<close>

theorem image_reports_reassemble:
  assumes "command = 0x07 \<or> command = 0x0b"
  shows "let reports = image_reports command target im extra 8 in
    concat (map report_slice reports) = im \<and> (\<forall>r \<in> set reports. length r = 1024) \<and>
    map (\<lambda>r. le16 r 6) reports = map (\<lambda>i. i mod 65536) [0..<length reports] \<and>
    map report_final reports = map (\<lambda>i. Suc i = length reports) [0..<length reports]"
proof -
  let ?cs = "chunks 1016 im" and ?n = "(length im + 1015) div 1016"
  define reports where "reports = image_reports command target im extra 8"
  have reports: "reports = map (\<lambda>(i, c). image_report command target extra ?n i c) (enumerate 0 ?cs)"
    by (simp add: reports_def image_reports_def OUTPUT_REPORT_BYTES_def add.commute)
  have n: "length ?cs = ?n" using length_chunks [of 1016 im] by simp
  have facts: "length (image_report command target extra ?n i c) = 1024 \<and>
    report_slice (image_report command target extra ?n i c) = c \<and>
    (report_final (image_report command target extra ?n i c) \<longleftrightarrow> Suc i = ?n) \<and>
    le16 (image_report command target extra ?n i c) 6 = i mod 65536" if "(i, c) \<in> set (enumerate 0 ?cs)" for i c
  proof -
    from that have "c \<in> set ?cs" by (auto simp: in_set_enumerate_eq)
    then have "length c \<le> 1016" using chunks_lengths by blast
    with assms(1) show ?thesis by (rule image_report_facts)
  qed
  have "concat (map report_slice reports) = im"
    unfolding reports_def by (rule concat_slices [OF assms])
  moreover have "\<forall>r \<in> set reports. length r = 1024"
    unfolding reports using facts by auto
  moreover have "map (\<lambda>r. le16 r 6) reports = map (\<lambda>i. i mod 65536) [0..<0 + length ?cs]"
    unfolding reports map_map by (rule map_enumerate_index) (use facts in auto)
  moreover have "map report_final reports = map (\<lambda>i. Suc i = ?n) [0..<0 + length ?cs]"
    unfolding reports map_map by (rule map_enumerate_index) (use facts in auto)
  moreover have "length reports = ?n" unfolding reports length_map length_enumerate n ..
  ultimately show ?thesis
    unfolding reports_def [symmetric] Let_def n add_0 by simp
qed

lemma image_reports_reassemble_witness:
  "concat (map report_slice (image_reports 7 3 [1, 2, 3] 0 8)) = [1, 2, 3 :: u8]"
  using image_reports_reassemble [of 7 3 "[1, 2, 3]" 0, OF disjI1 [OF refl]] unfolding Let_def by blast

definition announced_length :: "u8 list \<Rightarrow> nat" where
  "announced_length a = 256 * unat (a ! 5) + unat (a ! 6)"

text \<open>
  The same for the AJAZZ device: the packets that follow the announcement of an image are of
  the size of an output report and carry the image, padded at the end; the announced length, in two
  bytes with the high one first, cuts the padding off.
\<close>

theorem ajazz_packets_reassemble:
  assumes "length im < 65536"
  shows "take (announced_length (announce key im)) (concat (map tl (image_packets im))) = im \<and>
    (\<forall>q \<in> set (image_packets im). length q = 1025 \<and> hd q = 0)"
proof -
  have pad: "padded (0 # c) = 0 # c @ replicate (1024 - length c) 0" if "c \<in> set (chunks 1024 im)" for c
    using chunks_lengths [OF that] by (simp add: padded_def OUTPUT_REPORT_LENGTH_def)
  have body: "map tl (image_packets im) = map (\<lambda>c. c @ replicate (1024 - length c) 0) (chunks 1024 im)"
    using pad by (simp add: image_packets_def OUTPUT_REPORT_LENGTH_def)
  have "\<exists>zs. concat (map (\<lambda>c. c @ replicate (1024 - length c) 0) (chunks 1024 xs)) = xs @ zs" for xs :: "u8 list"
  proof (induction "1024 :: nat" xs rule: chunks.induct)
    case (1 xs)
    show ?case
    proof (cases "length xs \<le> 1024")
      case True
      then show ?thesis by (cases "xs = []") (simp_all add: chunks_step [of _ xs])
    next
      case False
      then have "xs \<noteq> []" by auto
      with 1 obtain zs where "concat (map (\<lambda>c. c @ replicate (1024 - length c) 0) (chunks 1024 (drop 1024 xs))) =
        drop 1024 xs @ zs" by auto
      then have "concat (map (\<lambda>c. c @ replicate (1024 - length c) 0) (chunks 1024 xs)) = xs @ zs"
        using False \<open>xs \<noteq> []\<close> by (simp add: chunks_step [of _ xs] flip: append_assoc)
      then show ?thesis ..
    qed
  qed
  then obtain zs where "concat (map tl (image_packets im)) = im @ zs" unfolding body by blast
  moreover have "announced_length (announce key im) = length im"
  proof -
    have "unat (of_nat (length im div 256) :: u8) = length im div 256"
      using assms by (simp add: unat_of_nat less_mult_imp_div_less)
    moreover have "unat (of_nat (length im) :: u8) = length im mod 256" by (simp add: unat_of_nat)
    ultimately show ?thesis by (simp add: announced_length_def announce_def)
  qed
  moreover have "\<forall>q \<in> set (image_packets im). length q = 1025 \<and> hd q = 0"
    using chunks_lengths pad by (fastforce simp: image_packets_def OUTPUT_REPORT_LENGTH_def)
  ultimately show ?thesis by simp
qed

lemma ajazz_packets_reassemble_witness:
  "take (announced_length (announce 2 [7, 8])) (concat (map tl (image_packets [7, 8]))) = [7, 8]"
  using ajazz_packets_reassemble [of "[7, 8]" 2] by simp

end
