(* ===== verification/Device_Status.thy ===== *)
theory Device_Status
  imports Device_Uploads
begin

text \<open>
  The status of the agent keys reaches the keys of a Stream Deck: one key at a time, each at
  most once, and in a bounded number of pacing intervals.
\<close>

section \<open>Uploads that succeed\<close>

definition writes_ok :: "hid \<Rightarrow> bool" where
  "writes_ok h \<longleftrightarrow> (\<forall>i. write_answer h i = Inr 1024)"

definition sent :: "u8 list list \<Rightarrow> hid \<Rightarrow> hid" where
  "sent rs h = h\<lparr>hid_calls := hid_calls h @ map HidWrite rs\<rparr>"

lemma sent_simps [simp]:
  "writes_ok (sent rs h) = writes_ok h" "clock_at (sent rs h) = clock_at h"
  "length (hid_calls (sent rs h)) = length (hid_calls h) + length rs"
  "sent [] h = h" "sent rs (sent qs h) = sent (qs @ rs) h"
  by (simp_all add: sent_def writes_ok_def)

lemma write_attempts_ok:
  "writes_ok h \<Longrightarrow> length r = 1024 \<Longrightarrow> write_attempts p (Suc n) r err h = (Inr (), sent [r] h)"
  by (simp add: ask_def writes_ok_def sent_def)

lemma for_each_ok:
  "writes_ok h \<Longrightarrow> (\<And>r. r \<in> set rs \<Longrightarrow> length r = 1024) \<Longrightarrow>
   for_each (\<lambda>r. write_attempts p (Suc n) r None) rs h = (Inr (), sent rs h)"
proof (induction rs arbitrary: h)
  case (Cons r rs)
  have "write_attempts p (Suc n) r None h = (Inr (), sent [r] h)"
    using Cons.prems by (intro write_attempts_ok) auto
  then have "for_each (\<lambda>r. write_attempts p (Suc n) r None) (r # rs) h =
    for_each (\<lambda>r. write_attempts p (Suc n) r None) rs (sent [r] h)"
    by (simp add: sbind_def)
  with Cons show ?case by simp
qed (simp add: sret_def)

text \<open>
  The calls that put the image of a key on it: output reports that name the key and whose
  slices are, one after the other, the image of the colour and agent that the status has for it.
\<close>

definition key_upload :: "'i codec \<Rightarrow> profile \<Rightarrow> key_status \<Rightarrow> nat \<Rightarrow> hid_call list \<Rightarrow> bool" where
  "key_upload k p st i calls \<longleftrightarrow>
     (\<exists>rs. calls = map HidWrite rs \<and> (\<forall>r \<in> set rs. r ! 0 = 2 \<and> r ! 1 = 0x07 \<and> r ! 2 = of_nat i) \<and>
        key_image k p st i = Inr (concat (map report_slice rs)))"

lemma write_key_image_ok:
  assumes "writes_ok h" and "key_image k p st i = Inr im"
  obtains rs where "write_key_image p i im h = (Inr (), sent rs h)" "key_upload k p st i (map HidWrite rs)"
proof
  let ?rs = "image_reports 0x07 (of_nat i) im 0 8"
  show "write_key_image p i im h = (Inr (), sent ?rs h)"
    unfolding write_key_image_def send_image_def
    by (rule for_each_ok [OF assms(1)]) (erule image_reports_size [OF disjI1 [OF refl]])
  show "key_upload k p st i (map HidWrite ?rs)"
    unfolding key_upload_def
    by (rule exI [of _ ?rs]) (use assms(2) key_reports_target concat_slices [of 7] in auto)
qed

section \<open>Rounds of the pacing\<close>

text \<open>Time that passes before the next call, and one round: an interval, and then a flush.\<close>

definition wait :: "nat \<Rightarrow> stream_deck \<Rightarrow> stream_deck" where
  "wait ms d = d\<lparr>sd_hid := (sd_hid d)\<lparr>clock_at := (\<lambda>n. clock_at (sd_hid d) n + ms)\<rparr>\<rparr>"

definition flush_round :: "'i codec \<Rightarrow> stream_deck \<Rightarrow> stream_deck" where
  "flush_round k d = snd (flush_key_status k (wait HID_KEY_MIN_INTERVAL d))"

text \<open>A device that takes its reports, and whose clock does not run backwards.\<close>

definition healthy :: "stream_deck \<Rightarrow> bool" where
  "healthy d \<longleftrightarrow> writes_ok (sd_hid d) \<and> mono (clock_at (sd_hid d)) \<and>
     (\<forall>t. last_key_write_at d = Some t \<longrightarrow> t \<le> hid_now (sd_hid d)) \<and>
     length (last_colors d) = STATUS_SLOTS \<and> length (last_agents d) = STATUS_SLOTS \<and>
     next_key_write_index d < STATUS_SLOTS"

definition encodes :: "'i codec \<Rightarrow> bool" where
  "encodes k \<longleftrightarrow> (\<forall>i. \<exists>bytes. write_jpeg k i = Inr bytes)"

lemma key_image_ok: "encodes k \<Longrightarrow> \<exists>im. key_image k p st i = Inr im"
  by (simp add: encodes_def key_image_def encode_image_with_agent_def encode_image_def
      encode_drawing_def split: option.split prod.split)

definition waiting :: "stream_deck \<Rightarrow> key_status \<Rightarrow> nat set" where
  "waiting d st = {i. i < STATUS_SLOTS \<and> key_differs d st i}"

lemma finite_waiting [simp]: "finite (waiting d st)"
  by (simp add: waiting_def)

lemma offsets: "set (map (\<lambda>offset. (n + offset) mod STATUS_SLOTS) [0..<STATUS_SLOTS]) = {..<STATUS_SLOTS}"
proof -
  have "i \<in> (\<lambda>offset. (n + offset) mod 8) ` {0..<8}" if "i < 8" for i
  proof -
    obtain q m where n: "n = 8 * q + m" "m < 8"
      using mult_div_mod_eq [of 8 n] mod_less_divisor [of 8 n] by (metis zero_less_numeral)
    then have "n + (i + (8 - m)) = i + 8 * Suc q" by simp
    then have "(n + (i + (8 - m)) mod 8) mod 8 = i"
      using that by (simp only: mod_add_right_eq mod_mult_self2 mod_less)
    then have "i = (n + (i + (8 - m)) mod 8) mod 8" ..
    then show ?thesis by (rule image_eqI) simp
  qed
  then show ?thesis by (auto simp: STATUS_SLOTS_def)
qed

lemma next_key_None: "next_key d st = None \<longleftrightarrow> waiting d st = {}"
proof -
  have "next_key d st = None \<longleftrightarrow> (\<forall>i \<in> {..<STATUS_SLOTS}. \<not> key_differs d st i)"
    unfolding next_key_def find_None_iff offsets by blast
  then show ?thesis by (auto simp: waiting_def)
qed

lemma next_key_Some: "next_key d st = Some i \<Longrightarrow> i \<in> waiting d st"
proof -
  assume "next_key d st = Some i"
  then have "key_differs d st i \<and>
      i \<in> set (map (\<lambda>offset. (next_key_write_index d + offset) mod STATUS_SLOTS) [0..<STATUS_SLOTS])"
    unfolding next_key_def find_Some_iff by (metis nth_mem)
  then show ?thesis unfolding offsets by (simp add: waiting_def)
qed

lemma waiting_cong:
  "last_colors d = last_colors e \<Longrightarrow> last_agents d = last_agents e \<Longrightarrow> waiting d st = waiting e st"
  by (simp add: waiting_def key_differs_def)

lemma waiting_wait [simp]: "waiting (wait ms d) st = waiting d st"
  by (rule waiting_cong) (simp_all add: wait_def)

lemma waiting_written:
  assumes "i < STATUS_SLOTS" "length (last_colors d) = STATUS_SLOTS" "length (last_agents d) = STATUS_SLOTS"
  shows "waiting (key_written st i d) st = waiting d st - {i}"
  using assms by (auto simp: waiting_def key_differs_def key_written_def nth_list_update)

lemma not_throttled: "healthy d \<Longrightarrow> \<not> throttled HID_KEY_MIN_INTERVAL (last_key_write_at d) (sd_hid (wait HID_KEY_MIN_INTERVAL d))"
  by (cases "last_key_write_at d") (auto simp: throttled_def healthy_def wait_def hid_now_def)

lemma healthy_wait: "healthy d \<Longrightarrow> healthy (wait ms d)"
  by (fastforce simp: healthy_def wait_def hid_now_def writes_ok_def mono_def)

lemma healthy_written:
  assumes "healthy d"
  shows "healthy (key_written st i (d\<lparr>sd_hid := sent rs (sd_hid d)\<rparr>))"
  using assms by (simp add: healthy_def key_written_def STATUS_SLOTS_def hid_now_def)

text \<open>The calls to the device so far.\<close>

definition calls_made :: "stream_deck \<Rightarrow> hid_call list" where
  "calls_made d = hid_calls (sd_hid d)"

text \<open>One round paints one of the keys that wait, or finds that none does.\<close>

lemma flush_round_cases:
  assumes h: "healthy d" and p: "pending_key_status d = Some st" and e: "encodes k"
  shows "(waiting d st = {} \<and> pending_key_status (flush_round k d) = None \<and>
      last_colors (flush_round k d) = last_colors d \<and> last_agents (flush_round k d) = last_agents d \<and>
      calls_made (flush_round k d) = calls_made d) \<or>
    (\<exists>i \<in> waiting d st. healthy (flush_round k d) \<and> pending_key_status (flush_round k d) = Some st \<and>
      waiting (flush_round k d) st = waiting d st - {i} \<and> sd_profile (flush_round k d) = sd_profile d \<and>
      (\<exists>calls. key_upload k (sd_profile d) st i calls \<and> calls_made (flush_round k d) = calls_made d @ calls))"
proof -
  let ?w = "wait HID_KEY_MIN_INTERVAL d"
  have p': "pending_key_status ?w = Some st" "last_key_write_at ?w = last_key_write_at d"
    using p by (simp_all add: wait_def)
  note hw = healthy_wait [OF h, of HID_KEY_MIN_INTERVAL]
  show ?thesis
  proof (cases "next_key ?w st")
    case None
    with p' not_throttled [OF h] have "flush_round k d = ?w\<lparr>pending_key_status := None\<rparr>"
      by (simp add: flush_round_def flush_key_status_def)
    moreover from None have "waiting d st = {}" by (simp add: next_key_None)
    ultimately show ?thesis by (simp add: wait_def calls_made_def)
  next
    case (Some i)
    then have i: "i \<in> waiting d st" using next_key_Some by fastforce
    obtain im where im: "key_image k (sd_profile ?w) st i = Inr im" using key_image_ok [OF e] by blast
    have ok: "writes_ok (sd_hid ?w)" using hw by (simp add: healthy_def)
    obtain rs where rs: "write_key_image (sd_profile ?w) i im (sd_hid ?w) = (Inr (), sent rs (sd_hid ?w))"
      "key_upload k (sd_profile ?w) st i (map HidWrite rs)"
      by (rule write_key_image_ok [OF ok im])
    with p' Some im not_throttled [OF h]
    have r: "flush_round k d = key_written st i (?w\<lparr>sd_hid := sent rs (sd_hid ?w)\<rparr>)"
      by (simp add: flush_round_def flush_key_status_def paint_key_def slift_def sbind_def with_hid_def)
    have "waiting (flush_round k d) st = waiting (?w\<lparr>sd_hid := sent rs (sd_hid ?w)\<rparr>) st - {i}"
      unfolding r using hw i by (intro waiting_written) (simp_all add: healthy_def waiting_def)
    also have "waiting (?w\<lparr>sd_hid := sent rs (sd_hid ?w)\<rparr>) st = waiting d st"
      by (rule waiting_cong) (simp_all add: wait_def)
    finally have "waiting (flush_round k d) st = waiting d st - {i}" .
    moreover have "healthy (flush_round k d)" unfolding r by (rule healthy_written [OF hw])
    moreover have "pending_key_status (flush_round k d) = Some st"
      unfolding r using p' by (simp add: key_written_def)
    moreover have "sd_profile (flush_round k d) = sd_profile d"
      "calls_made (flush_round k d) = calls_made d @ map HidWrite rs"
      unfolding r by (simp_all add: key_written_def wait_def calls_made_def sent_def)
    moreover have "key_upload k (sd_profile d) st i (map HidWrite rs)" using rs(2) by (simp add: wait_def)
    ultimately show ?thesis using i by blast
  qed
qed

lemma waiting_empty:
  assumes "waiting d st = {}" "length (last_colors d) = STATUS_SLOTS" "length (last_agents d) = STATUS_SLOTS"
    "length (fst st) = STATUS_SLOTS" "length (snd st) = STATUS_SLOTS"
  shows "last_colors d = fst st \<and> last_agents d = snd st"
  using assms by (auto simp: waiting_def key_differs_def intro!: nth_equalityI)

text \<open>
  C33. Every accepted status reaches the keys. On a device that takes its reports and an image
  codec that encodes, after at most one round of the pacing interval for each key that still
  differs, and one to see that none does, nothing is pending. What was sent to the device in those
  rounds is exactly one upload for each key whose colour or agent differed (\<open>key_upload\<close>: reports
  that name the key and carry the image of its colour and agent), and nothing else; so all eight
  keys show the status, and the driver remembers that they do.
\<close>

theorem status_reaches_keys:
  assumes "healthy d" "pending_key_status d = Some st" "encodes k"
    "length (fst st) = STATUS_SLOTS" "length (snd st) = STATUS_SLOTS"
  shows "\<exists>n keys uploads. n \<le> Suc (card (waiting d st)) \<and>
    distinct keys \<and> set keys = waiting d st \<and> list_all2 (key_upload k (sd_profile d) st) keys uploads \<and>
    calls_made ((flush_round k ^^ n) d) = calls_made d @ concat uploads \<and>
    pending_key_status ((flush_round k ^^ n) d) = None \<and>
    last_colors ((flush_round k ^^ n) d) = fst st \<and> last_agents ((flush_round k ^^ n) d) = snd st"
  using assms(1,2)
proof (induction "card (waiting d st)" arbitrary: d rule: less_induct)
  case less
  let ?d = "flush_round k d"
  from flush_round_cases [OF less.prems assms(3)] show ?case
  proof (elim disjE conjE bexE exE)
    assume none: "waiting d st = {}" "pending_key_status ?d = None" "last_colors ?d = last_colors d"
      "last_agents ?d = last_agents d" "calls_made ?d = calls_made d"
    then have "last_colors d = fst st \<and> last_agents d = snd st"
      using waiting_empty [of d st] less.prems assms(4,5) by (simp add: healthy_def)
    with none show ?thesis
      by (intro exI [of _ 1] exI [of _ "[] :: nat list"] exI [of _ "[] :: hid_call list list"]) simp
  next
    fix i calls assume i: "i \<in> waiting d st" and d: "healthy ?d" "pending_key_status ?d = Some st"
      and w: "waiting ?d st = waiting d st - {i}" and p: "sd_profile ?d = sd_profile d"
      and u: "key_upload k (sd_profile d) st i calls" "calls_made ?d = calls_made d @ calls"
    have c: "card (waiting ?d st) < card (waiting d st)"
      unfolding w by (rule card_Diff1_less) (simp_all add: i)
    from less.hyps [OF c d] obtain n ks us where n: "n \<le> Suc (card (waiting ?d st))"
      "distinct ks" "set ks = waiting d st - {i}" "list_all2 (key_upload k (sd_profile d) st) ks us"
      "calls_made ((flush_round k ^^ n) ?d) = calls_made ?d @ concat us"
      "pending_key_status ((flush_round k ^^ n) ?d) = None"
      "last_colors ((flush_round k ^^ n) ?d) = fst st" "last_agents ((flush_round k ^^ n) ?d) = snd st"
      unfolding p w by blast
    have step: "(flush_round k ^^ Suc n) d = (flush_round k ^^ n) ?d" by (simp only: funpow_Suc_right o_apply)
    show ?thesis
    proof (intro exI conjI)
      show "Suc n \<le> Suc (card (waiting d st))" using n(1) c by simp
      show "distinct (i # ks)" "set (i # ks) = waiting d st" using n(2,3) i by auto
      show "list_all2 (key_upload k (sd_profile d) st) (i # ks) (calls # us)" using n(4) u(1) by simp
      show "calls_made ((flush_round k ^^ Suc n) d) = calls_made d @ concat (calls # us)"
        unfolding step n(5) u(2) by simp
    qed (simp_all only: step n(6-8))
  qed
qed

lemma status_reaches_keys_witness:
  "let st = (replicate 8 (Some (255, 100)), replicate 8 (Some ''codex''));
       d = (new_device PLUS None sample_hid)\<lparr>pending_key_status := Some st\<rparr>
   in \<exists>n. pending_key_status ((flush_round sample_codec ^^ n) d) = None \<and>
        last_colors ((flush_round sample_codec ^^ n) d) = replicate 8 (Some (255, 100))"
proof -
  let ?st = "(replicate 8 (Some (255, 100)), replicate 8 (Some ''codex'')) :: key_status"
  let ?d = "(new_device PLUS None sample_hid)\<lparr>pending_key_status := Some ?st\<rparr>"
  have "healthy ?d"
    by (simp add: healthy_def new_device_def STATUS_SLOTS_def writes_ok_def sample_hid_def mono_def)
  moreover have "encodes sample_codec" by (simp add: encodes_def sample_codec_def)
  ultimately have "\<exists>n keys uploads. n \<le> Suc (card (waiting ?d ?st)) \<and>
    distinct keys \<and> set keys = waiting ?d ?st \<and>
    list_all2 (key_upload sample_codec (sd_profile ?d) ?st) keys uploads \<and>
    calls_made ((flush_round sample_codec ^^ n) ?d) = calls_made ?d @ concat uploads \<and>
    pending_key_status ((flush_round sample_codec ^^ n) ?d) = None \<and>
    last_colors ((flush_round sample_codec ^^ n) ?d) = fst ?st \<and>
    last_agents ((flush_round sample_codec ^^ n) ?d) = snd ?st"
    by (intro status_reaches_keys) (simp_all add: STATUS_SLOTS_def)
  then show ?thesis by (auto simp: Let_def)
qed

end
