(* ===== verification/Device_Inputs.thy ===== *)
theory Device_Inputs
  imports Streamdeck Ajazz
begin

text \<open>
  The inputs of the display controllers over time: the presses and releases of every button
  alternate, and swipes choose a screen whatever the screen was.
\<close>

section \<open>Keys of a Stream Deck\<close>

text \<open>The keys that report themselves: on the XL model the others stand for encoders or nothing.\<close>

definition plain_key :: "controller_kind \<Rightarrow> nat \<Rightarrow> bool" where
  "plain_key kind i \<longleftrightarrow> kind \<noteq> StreamDeckXl \<or> i < 9"

lemma history_key_event:
  "i < 256 \<Longrightarrow> button_history k (key_event kind i p) = (if i = k \<and> plain_key kind i then [p] else [])"
  by (auto simp: key_event_def virtual_key_event_def plain_key_def button_history_def split: option.splits)

lemma history_scan:
  "i + length ps \<le> 256 \<Longrightarrow>
   button_history k (fst (scan (key_event kind) i xs ps)) =
     (if plain_key kind k \<and> i \<le> k \<and> k < i + length ps \<and> snd (scan (key_event kind) i xs ps) ! (k - i) \<noteq> ps ! (k - i)
      then [snd (scan (key_event kind) i xs ps) ! (k - i)] else [])"
proof (induction "key_event kind" i xs ps rule: scan.induct)
  case (1 i x xs p ps)
  obtain es qs where s: "scan (key_event kind) (Suc i) xs ps = (es, qs)" by fastforce
  with 1 have h: "button_history k es =
      (if plain_key kind k \<and> Suc i \<le> k \<and> k < Suc i + length ps \<and> qs ! (k - Suc i) \<noteq> ps ! (k - Suc i)
       then [qs ! (k - Suc i)] else [])" by simp
  have e: "button_history k (key_event kind i b) = (if i = k \<and> plain_key kind i then [b] else [])" for b
    using 1 by (intro history_key_event) simp
  show ?case
  proof (cases "k = i")
    case True
    with h have "button_history k es = []" by simp
    with True show ?thesis by (auto simp: s e [unfolded True] Let_def)
  next
    case False
    then have "k - i = Suc (k - Suc i)" if "i \<le> k" using that by simp
    with False show ?thesis by (auto simp: s h e Let_def)
  qed
qed auto

text \<open>Drawing the window leaves the switches and the chosen screen alone.\<close>

definition controls :: "stream_deck \<Rightarrow> profile \<times> bool list \<times> bool list \<times> display_mode" where
  "controls d = (sd_profile d, pressed_keys d, pressed_encoders d, sd_mode d)"

lemma controls_with_hid: "controls (snd (with_hid m d)) = controls d"
  by (simp add: with_hid_def controls_def split: prod.split)

lemma controls_paint_window: "controls (snd (paint_window k c m d)) = controls d"
proof (cases "pf_window (sd_profile d)")
  case None
  then show ?thesis by (simp add: paint_window_def controls_def display_written_def)
next
  case (Some wh)
  obtain w h where wh: "wh = (w, h)" by fastforce
  show ?thesis
  proof (cases "window_image k m c w h (pf_rotation (sd_profile d))")
    case (Inl e)
    with Some wh show ?thesis by (simp add: paint_window_def slift_def sbind_def)
  next
    case (Inr im)
    obtain r d1 where w: "with_hid (send_image (sd_profile d) 0x0b 0 im 0 8) d = (r, d1)" by fastforce
    then have "controls d1 = controls d" by (metis controls_with_hid snd_conv)
    with Some wh Inr w show ?thesis
      by (cases r) (auto simp: paint_window_def slift_def sbind_def controls_def display_written_def)
  qed
qed

lemma controls_flush_display: "controls (snd (flush_display_context k f d)) = controls d"
  by (auto simp: flush_display_context_def Let_def controls_paint_window split: option.split)
    (simp_all add: controls_def)

lemma touch_controls:
  "controls (touch_events k body d) = (sd_profile d, pressed_keys d, pressed_encoders d,
     if pf_window (sd_profile d) = None then sd_mode d
     else case flick_mode body of None \<Rightarrow> sd_mode d | Some m \<Rightarrow> m)"
  by (auto simp: touch_events_def Let_def controls_flush_display split: option.split)
    (simp_all add: controls_def)

lemma abs_diff_iff:
  "abs_diff a b = 0 \<longleftrightarrow> int a = int b"
  "min (abs_diff a b * 2) 65535 < abs_diff c d \<longleftrightarrow> min (2 * \<bar>int a - int b\<bar>) 65535 < \<bar>int c - int d\<bar>"
  by (auto simp: abs_diff_def min_def)

lemma flick_mode_iff:
  assumes "x = (int (le16 body 2), int (le16 body 6))" and "y = (int (le16 body 4), int (le16 body 8))"
  shows "flick_mode body =
    (if 10 \<le> length body \<and> body ! 0 = 3 \<and> fst x \<noteq> snd x \<and>
        \<bar>snd y - fst y\<bar> \<le> min (2 * \<bar>snd x - fst x\<bar>) 65535
     then Some (if snd x < fst x then UsageMode else ContextMode) else None)"
  unfolding flick_mode_def Let_def abs_diff_iff assms by (simp add: not_less) linarith

text \<open>
  C40. A flick on the touch strip (a body of at least ten bytes that starts with 3 and holds the
  coordinates of its ends as little-endian pairs) that moves sideways, and at least half as far as
  it moves up or down, chooses the screen by its direction: to the left the usage screen, to the
  right the context screen. Any other body, and a device without a window, leaves the screen
  alone; and the same body again changes nothing: neither the screen nor the device's output nor
  anything else. (The bound saturates: twice the sideways distance counts as 65535 at most.)
\<close>

theorem swipes_idempotent:
  "sd_mode (touch_events k body d) =
     (let coordinate = \<lambda>i. unat (body ! i) + 256 * unat (body ! (i + 1));
          x = (int (coordinate 2), int (coordinate 6)); y = (int (coordinate 4), int (coordinate 8))
      in if pf_window (sd_profile d) \<noteq> None \<and> 10 \<le> length body \<and> body ! 0 = 3 \<and> fst x \<noteq> snd x \<and>
           \<bar>snd y - fst y\<bar> \<le> min (2 * \<bar>snd x - fst x\<bar>) 65535
         then (if snd x < fst x then UsageMode else ContextMode)
         else sd_mode d) \<and>
   touch_events k body (touch_events k body d) = touch_events k body d"
proof -
  let ?d = "touch_events k body d"
  have c: "sd_profile ?d = sd_profile d"
    "sd_mode ?d = (if pf_window (sd_profile d) = None then sd_mode d
      else case flick_mode body of None \<Rightarrow> sd_mode d | Some m \<Rightarrow> m)"
    using touch_controls [of k body d] by (simp_all add: controls_def)
  then have "touch_events k body ?d = ?d"
    by (subst touch_events_def) (auto split: option.split)
  moreover have bytes: "(\<lambda>i. unat (body ! i) + 256 * unat (body ! (i + 1))) = le16 body"
    by (simp add: fun_eq_iff le16_def)
  have "sd_mode ?d =
     (let coordinate = le16 body; x = (int (coordinate 2), int (coordinate 6)); y = (int (coordinate 4), int (coordinate 8))
      in if pf_window (sd_profile d) \<noteq> None \<and> 10 \<le> length body \<and> body ! 0 = 3 \<and> fst x \<noteq> snd x \<and>
           \<bar>snd y - fst y\<bar> \<le> min (2 * \<bar>snd x - fst x\<bar>) 65535
         then (if snd x < fst x then UsageMode else ContextMode)
         else sd_mode d)"
    unfolding c(2) flick_mode_iff [OF refl refl] Let_def by (cases "pf_window (sd_profile d) = None") auto
  ultimately show ?thesis unfolding bytes by blast
qed

text \<open>A run of input reports.\<close>

fun sd_inputs :: "'i codec \<Rightarrow> u8 list list \<Rightarrow> stream_deck \<Rightarrow> physical_event list \<times> stream_deck" where
  "sd_inputs k [] d = ([], d)"
| "sd_inputs k (r # rs) d =
     (case events_from_report k r d of (es, d) \<Rightarrow>
        (case sd_inputs k rs d of (fs, d) \<Rightarrow> (es @ fs, d)))"

lemma history_encoder_events: "button_history k (fst (encoder_events body d)) = []"
proof -
  have s: "button_history k (fst (scan (\<lambda>i p. [EncoderButton (i mod 256) p]) i xs ps)) = []" for i xs ps
    by (induction "\<lambda>i p. [EncoderButton (i mod 256) p]" i xs ps rule: scan.induct)
      (auto simp: Let_def button_history_def split: prod.split)
  have "button_history k (concat (map (\<lambda>(i, raw). turn_events i raw) ys)) = []" for ys
    by (induction ys) (auto simp: turn_events_def button_history_def)
  with s show ?thesis
    by (auto simp: encoder_events_def Let_def split: list.split prod.split) (metis fst_conv)+
qed

lemma report_history:
  assumes len: "length (pressed_keys d) = pf_keys (sd_profile d)" "pf_keys (sd_profile d) \<le> 256"
    and e: "events_from_report c r d = (es, d')"
  shows "sd_profile d' = sd_profile d \<and> length (pressed_keys d') = length (pressed_keys d) \<and>
    button_history k es =
      (if plain_key (pf_kind (sd_profile d)) k \<and> k < pf_keys (sd_profile d) \<and>
          pressed_keys d' ! k \<noteq> pressed_keys d ! k then [pressed_keys d' ! k] else [])"
proof -
  have "events_from_report c r d \<in> {key_events (report_body r) d, ([], touch_events c (report_body r) d),
      encoder_events (report_body r) d, ([], d)}"
    by (simp add: events_from_report_def)
  then consider (key) "(es, d') = key_events (report_body r) d"
    | (touch) "(es, d') = ([], touch_events c (report_body r) d)"
    | (encoder) "(es, d') = encoder_events (report_body r) d" | (none) "(es, d') = ([], d)"
    unfolding e by blast
  then show ?thesis
  proof cases
    case key
    let ?p = "sd_profile d"
    obtain ks where s: "scan (key_event (pf_kind ?p)) 0 (take (pf_keys ?p) (report_body r)) (pressed_keys d) = (es, ks)"
      and d': "d' = d\<lparr>pressed_keys := ks\<rparr>"
      using key by (auto simp: key_events_def Let_def split: prod.splits)
    have "length ks = length (pressed_keys d)"
      using scan_length [of "key_event (pf_kind ?p)" 0 "take (pf_keys ?p) (report_body r)" "pressed_keys d"] s by simp
    moreover have "button_history k es =
        (if plain_key (pf_kind ?p) k \<and> k < length (pressed_keys d) \<and> ks ! k \<noteq> pressed_keys d ! k then [ks ! k] else [])"
      using history_scan [of 0 "pressed_keys d" k "pf_kind ?p" "take (pf_keys ?p) (report_body r)"] s len by simp
    ultimately show ?thesis using len by (simp add: d')
  next
    case touch
    then show ?thesis using touch_controls [of c "report_body r" d] by (simp add: controls_def)
  next
    case encoder
    then have "button_history k es = []" by (metis history_encoder_events fst_conv)
    moreover from encoder have "sd_profile d' = sd_profile d" "pressed_keys d' = pressed_keys d"
      by (auto simp: encoder_events_def Let_def split: list.splits prod.splits if_splits)
    ultimately show ?thesis by simp
  next
    case none
    then show ?thesis by simp
  qed
qed

lemma inputs_history:
  assumes "length (pressed_keys d) = pf_keys (sd_profile d)" "pf_keys (sd_profile d) \<le> 256"
    "sd_inputs c rs d = (es, d')"
  shows "if plain_key (pf_kind (sd_profile d)) k \<and> k < pf_keys (sd_profile d)
    then alternates (pressed_keys d ! k) (button_history k es) \<and>
      last (pressed_keys d ! k # button_history k es) = pressed_keys d' ! k
    else button_history k es = []"
  using assms
proof (induction rs arbitrary: d es)
  case Nil
  then show ?case by simp
next
  case (Cons r rs)
  obtain es1 d1 fs where r: "events_from_report c r d = (es1, d1)" and rs: "sd_inputs c rs d1 = (fs, d')"
    and es: "es = es1 @ fs"
    using Cons.prems(3) by (auto split: prod.splits)
  note one = report_history [OF Cons.prems(1,2) r, of k]
  then have "if plain_key (pf_kind (sd_profile d)) k \<and> k < pf_keys (sd_profile d)
    then alternates (pressed_keys d1 ! k) (button_history k fs) \<and>
      last (pressed_keys d1 ! k # button_history k fs) = pressed_keys d' ! k
    else button_history k fs = []"
    using Cons.IH [OF _ _ rs] Cons.prems(1,2) by simp
  with one show ?case by (auto simp: es alternates_append)
qed

text \<open>
  C38. Whatever reports a Stream Deck sends after it was connected, short, repeated or malformed
  ones included, every key is pressed and released in turn, starting with a press, and the last
  event of a key says what the device remembers of it.
\<close>

theorem key_presses_alternate:
  assumes "pf_keys p \<le> 256" "sd_inputs c reports (new_device p serial h) = (es, d)"
  shows "alternates False (button_history k es) \<and>
    (plain_key (pf_kind p) k \<and> k < pf_keys p \<longrightarrow>
       last (False # button_history k es) = pressed_keys d ! k)"
  using inputs_history [of "new_device p serial h" c reports es d k] assms
  by (auto simp: new_device_def split: if_splits)

lemma key_presses_alternate_witness:
  "alternates False (button_history 0 (fst (sd_inputs sample_codec
     [[1, 0, 2, 0, 1, 0], [1, 0, 1, 0, 0]] (new_device PLUS None sample_hid)))) \<and>
   button_history 0 (fst (sd_inputs sample_codec
     [[1, 0, 2, 0, 1, 0], [1, 0, 1, 0, 0]] (new_device PLUS None sample_hid))) = [True, False]"
proof
  show "alternates False (button_history 0 (fst (sd_inputs sample_codec
     [[1, 0, 2, 0, 1, 0], [1, 0, 1, 0, 0]] (new_device PLUS None sample_hid))))"
    by (rule key_presses_alternate [OF _ prod.collapse [symmetric], THEN conjunct1]) (simp add: PLUS_def)
qed code_simp

section \<open>Buttons of the AJAZZ device\<close>

fun aj_inputs :: "nat list \<Rightarrow> ajazz \<Rightarrow> physical_event list \<times> ajazz" where
  "aj_inputs [] d = ([], d)"
| "aj_inputs (c # cs) d =
     (case events_from_code c d of (es, d) \<Rightarrow> (case aj_inputs cs d of (fs, d) \<Rightarrow> (es @ fs, d)))"

lemma history_releases:
  "distinct bs \<Longrightarrow> button_history k (map (\<lambda>i. Button i False) bs) = (if k \<in> set bs then [False] else [])"
  by (induction bs) auto

lemma code_history:
  assumes "distinct (aj_buttons d)" "events_from_code code d = (es, d')"
  shows "distinct (aj_buttons d') \<and>
    button_history k es = (if (k \<in> set (aj_buttons d')) \<noteq> (k \<in> set (aj_buttons d))
      then [k \<in> set (aj_buttons d')] else [])"
  using assms
  by (auto simp: events_from_code_def history_releases toggle_button_def toggle_knob_def Let_def
      split: if_splits option.splits)

text \<open>
  C39. The AJAZZ device reports a button without its state; whatever codes arrive, known or not,
  and the release of all buttons included, every button is pressed and released in turn, starting
  with a press, and the last event says whether the bridge holds it for pressed.
\<close>

theorem ajazz_presses_alternate:
  "alternates False (button_history k (fst (aj_inputs codes (new_ajazz serial h)))) \<and>
   last (False # button_history k (fst (aj_inputs codes (new_ajazz serial h)))) =
     (k \<in> set (aj_buttons (snd (aj_inputs codes (new_ajazz serial h)))))"
proof -
  have "alternates (k \<in> set (aj_buttons d)) (button_history k (fst (aj_inputs codes d))) \<and>
      last ((k \<in> set (aj_buttons d)) # button_history k (fst (aj_inputs codes d))) =
        (k \<in> set (aj_buttons (snd (aj_inputs codes d))))" if "distinct (aj_buttons d)" for d
    using that
  proof (induction codes arbitrary: d)
    case (Cons c cs)
    obtain es d1 where e: "events_from_code c d = (es, d1)" by fastforce
    note one = code_history [OF Cons.prems e, of k]
    then show ?case
      using Cons.IH [of d1] by (auto simp: e alternates_append split: prod.splits)
  qed simp
  from this [of "new_ajazz serial h"] show ?thesis by (simp add: new_ajazz_def)
qed

end
