(* ===== verification/Device_Drawings.thy ===== *)
theory Device_Drawings
  imports Streamdeck Ajazz Bridge_Props
begin

text \<open>
  Which drawings stay inside their picture. The image library panics outside, and the pictures
  are drawn in the main loop of the daemon, so a drawing that leaves its picture ends the daemon.
\<close>

section \<open>Windows\<close>

lemma window_safe_iff:
  assumes "32 \<le> w" "14 \<le> h"
  shows "safe_drawing (window_drawing c w h) \<longleftrightarrow>
    (\<forall>p. dc_progress c = Some p \<longrightarrow> (w - 32) * p div 100 \<le> w - 16)"
  using inside_progress_bar [OF assms]
  by (auto simp: safe_drawing_def window_drawing_def window_calls_def split: option.split)

lemma usage_safe:
  assumes "416 \<le> w" "54 \<le> h" "opt_all (\<lambda>v. v \<le> 100) (dc_weekly_remaining c)"
    "opt_all (\<lambda>v. v \<le> 100) (dc_five_hour_remaining c)"
  shows "safe_drawing (usage_drawing c w h)"
proof -
  let ?cw = "(w - 56) div 2"
  have cw: "180 \<le> ?cw" "16 + ?cw \<le> w" "16 + ?cw + 24 + ?cw \<le> w" using assms(1) by linarith+
  have "\<forall>v. dc_weekly_remaining c = Some v \<longrightarrow> v \<le> 100" "\<forall>v. dc_five_hour_remaining c = Some v \<longrightarrow> v \<le> 100"
    using assms(3,4) by auto
  with cw assms(2) have "inside w h (draw_usage_meter w h ''WEEKLY'' (dc_weekly_remaining c) 16 38 ?cw)"
    "inside w h (draw_usage_meter w h ''5-HOUR'' (dc_five_hour_remaining c) (16 + ?cw + 24) 38 ?cw)"
    by (intro inside_usage_meter; simp)+
  then show ?thesis
    by (simp add: safe_drawing_def usage_drawing_def usage_calls_def Let_def)
qed

text \<open>
  C35. A well-formed display context, which is what the parser of agent contexts accepts, is drawn
  inside the window of every model, on both screens.
\<close>

theorem contexts_drawn_inside:
  assumes "display_wf c" "p \<in> {PLUS, XL, PLUS_XL}" "pf_window p = Some (w, h)"
  shows "safe_drawing (window_drawing c w h) \<and> safe_drawing (usage_drawing c w h)"
proof
  have wh: "416 \<le> w" "54 \<le> h" using assms(2,3) by (auto simp: PLUS_def XL_def PLUS_XL_def)
  have b: "opt_all (\<lambda>v. v \<le> 100) (dc_progress c)" "opt_all (\<lambda>v. v \<le> 100) (dc_weekly_remaining c)"
    "opt_all (\<lambda>v. v \<le> 100) (dc_five_hour_remaining c)"
    using assms(1) by (simp_all add: display_wf_def)
  have "(w - 32) * q div 100 \<le> w - 16" if "dc_progress c = Some q" for q
    using scaled_below [of q "w - 32"] b(1) that by simp
  then show "safe_drawing (window_drawing c w h)"
    using wh by (subst window_safe_iff) auto
  show "safe_drawing (usage_drawing c w h)" using wh b by (intro usage_safe)
qed

lemma contexts_drawn_inside_witness:
  "safe_drawing (window_drawing (display_default\<lparr>dc_progress := Some 100\<rparr>) 1200 100) \<and>
   safe_drawing (usage_drawing (display_default\<lparr>dc_progress := Some 100\<rparr>) 1200 100)"
  by (rule contexts_drawn_inside [of _ PLUS_XL]) (simp_all add: display_wf_def display_default_def PLUS_XL_def)

section \<open>A card whose progress is above 100\<close>

lemma bm_invar_put_opt: "bm_invar m \<Longrightarrow> bm_invar (put_opt k v m)"
  by (simp add: put_opt_def bm_invar_insert split: option.split)

lemma bm_invar_fold_put_opt: "bm_invar m \<Longrightarrow> bm_invar (fold (\<lambda>k. put_opt k (f k)) ks m)"
  by (induction ks arbitrary: m) (simp_all add: bm_invar_put_opt)

lemma bm_invar_interaction: "bm_invar m \<Longrightarrow> bm_invar (case x of None \<Rightarrow> m | Some i \<Rightarrow> interaction_fields i m)"
  by (simp add: interaction_fields_def bm_invar_put_opt bm_invar_insert split: option.split)

lemma map_of_put_progress:
  "bm_invar c \<Longrightarrow>
   map_of (if map_of (put_opt ''progress'' (Some v) c) ''task_id'' = None
           then bm_insert ''task_id'' x (put_opt ''progress'' (Some v) c)
           else put_opt ''progress'' (Some v) c) ''progress'' = Some v"
  by (simp add: put_opt_def map_of_bm_insert bm_invar_insert)

lemma display_fields_progress:
  assumes "progress t = Some p"
  shows "map_of (display_fields t n) ''progress'' = Some (jnat p)"
  unfolding display_fields_def Let_def assms option.map
  by (rule map_of_put_progress, intro bm_invar_interaction bm_invar_insert bm_invar_put_opt bm_invar_fold_put_opt)
    (simp add: bm_invar_def)

lemma progress_rejected:
  assumes "map_of obj ''progress'' = Some (jnat p)" "100 < p"
  shows "\<exists>e. display_from_value (JObj obj) = Inl e"
proof (cases "display_from_value (JObj obj)")
  case (Inr c)
  then have "\<exists>o'. ok_or ''display context must be an object'' (as_object (JObj obj)) = Inr o' \<and>
      (\<exists>q. dc_progress_field o' = Inr q)"
    unfolding display_from_value_def res_bind_Inr_iff by (elim exE conjE) (rule exI, rule conjI, assumption, rule exI)
  then have "\<exists>q. dc_progress_field obj = Inr q" by (simp add: ok_or_def)
  with assms show ?thesis by (simp add: dc_progress_field_def jnat_def res_bind_def ok_or_def)
qed blast

text \<open>
  C34. A card may carry a progress up to 255. While no context was set explicitly, the context
  derived from such a card keeps the number, and where the card is the selected one, or none is
  selected, the display of a device falls back to that context; from 103 on the progress bar
  leaves the window of every model that has one.
\<close>

theorem task_progress_leaves_window:
  assumes "\<not> br_explicit_context b" "context_task (br_board b) = Some t" "progress t = Some q" "103 \<le> q"
    "selected_on device (br_board b) \<in> {None, Some (task_id t)}"
    "map_of (tasks (br_board b)) (task_id t) = Some t" "p \<in> {PLUS, PLUS_XL}" "pf_window p = Some (w, h)"
  shows "\<exists>c. desired_context_for_device (auto_derive_display_context f b) device = Some c \<and>
    dc_progress c = Some q \<and> \<not> safe_drawing (window_drawing c w h)"
proof -
  let ?b = "auto_derive_display_context f b"
  obtain c where c: "br_context ?b = Some c" "dc_progress c = Some q" "br_board ?b = br_board b"
    using assms(1-3) by (simp add: auto_derive_display_context_def Let_def)
  have "\<exists>e. display_from_value v = Inl e" if "selected_display_context device (br_board b) = Some v" for v
  proof -
    from that assms(5,6) obtain n where "v = JObj (display_fields t n)"
      by (auto simp: selected_display_context_def bind_eq_Some_conv)
    then show ?thesis using progress_rejected [OF display_fields_progress [OF assms(3)]] assms(4) by simp
  qed
  then have "(case selected_display_context device (br_board b) of None \<Rightarrow> c
      | Some v \<Rightarrow> (case display_from_value v of Inl _ \<Rightarrow> c | Inr s \<Rightarrow> overlay_display_context c s)) = c"
    by (auto split: option.split sum.split)
  with c obtain d where d: "desired_context_for_device ?b device = Some d" "dc_progress d = Some q"
    by (simp add: desired_context_for_device_def display_context_for_controller_def)
  have wh: "w = 800 \<or> w = 1200" "h = 100" using assms(7,8) by (auto simp: PLUS_def PLUS_XL_def)
  then have "\<not> (w - 32) * q div 100 \<le> w - 16"
  proof -
    have "(w - 32) * 103 div 100 \<le> (w - 32) * q div 100"
      using assms(4) by (intro div_le_mono mult_le_mono2)
    with wh(1) show ?thesis by auto
  qed
  with wh d have "\<not> safe_drawing (window_drawing d w h)"
    by (subst window_safe_iff) auto
  with d show ?thesis by blast
qed

definition eager_card :: task_card where
  "eager_card = (sample_card ''a'' ZCode 50)\<lparr>progress := Some 200\<rparr>"

lemma task_progress_leaves_window_witness:
  "parse_progress (Some (jnat 200)) = Inr (progress eager_card) \<and>
   (\<exists>c. desired_context_for_device (auto_derive_display_context no_files
       (idle_bridge\<lparr>br_board := (held_board eager_card)\<lparr>selected := Some ''a''\<rparr>\<rparr>)) ''d'' = Some c \<and>
     dc_progress c = Some 200 \<and> \<not> safe_drawing (window_drawing c 800 100))"
proof
  show "parse_progress (Some (jnat 200)) = Inr (progress eager_card)"
    by (simp add: parse_progress_def jnat_def as_u64_def eager_card_def)
  show "\<exists>c. desired_context_for_device (auto_derive_display_context no_files
       (idle_bridge\<lparr>br_board := (held_board eager_card)\<lparr>selected := Some ''a''\<rparr>\<rparr>)) ''d'' = Some c \<and>
     dc_progress c = Some 200 \<and> \<not> safe_drawing (window_drawing c 800 100)"
    by (rule task_progress_leaves_window [where t = eager_card and p = PLUS])
      (simp_all add: idle_bridge_def eager_card_def sample_card_def context_task_def selected_task_def
        selected_on_def PLUS_def)
qed

section \<open>Keys\<close>

lemma inside_digit:
  assumes "60 \<le> n"
  shows "inside n n (draw_digit n n i)"
proof -
  let ?cell = "n div 10"
  have cell: "max (min n n div 10) 6 = ?cell" using assms by simp
  have "5 * ?cell + 16 \<le> n" using assms by linarith
  have "(n - 3 * ?cell) div 2 + column * ?cell + (?cell - 2) \<le> n \<and>
    n - (5 * ?cell + 16) + row * ?cell + (?cell - 2) \<le> n"
    if "(row, column) \<in> set (bitmap_cells (DIGITS ! i))" for row column
  proof -
    from bitmap_cells_bounds [OF that] have "Suc row \<le> 5" "Suc column \<le> 3" by auto
    then have "Suc row * ?cell \<le> 5 * ?cell" "Suc column * ?cell \<le> 3 * ?cell"
      by (simp_all only: mult_le_mono1)
    moreover have "(n - 3 * ?cell) div 2 + 3 * ?cell \<le> n" by linarith
    ultimately show ?thesis using \<open>5 * ?cell + 16 \<le> n\<close> unfolding mult_Suc by linarith
  qed
  then show ?thesis
    unfolding draw_digit_def Let_def cell inside_concat by fastforce
qed

lemma inside_label:
  assumes "64 \<le> n" "length (utf8_chunks (map ascii_lower agent)) \<le> 8"
  shows "inside n n (draw_agent_label n n agent)"
proof -
  let ?l = "length (utf8_chunks (map ascii_lower agent))" and ?s = "n div 32"
  have s: "max (min n n div 32) 2 = ?s" using assms(1) by simp
  have "?l * (4 * ?s) \<le> 8 * (4 * ?s)" using assms(2) by (rule mult_le_mono1)
  also have "\<dots> \<le> n" by simp
  finally have l: "?l * (4 * ?s) \<le> n" .
  then have "(n - ?l * (4 * ?s)) div 2 + ?l * (4 * ?s) \<le> n" by linarith
  moreover have "4 + 5 * ?s \<le> n" using assms(1) by linarith
  ultimately show ?thesis
    unfolding draw_agent_label_def Let_def s by (intro inside_draw_bitmaps) simp_all
qed

text \<open>
  The key of every task slot is drawn inside its key on every model, with any colour and the
  label of any agent: the digit and the label fit the smallest key.
\<close>

theorem agent_keys_drawn_inside:
  assumes "p \<in> {PLUS, XL, PLUS_XL}"
  shows "safe_drawing (key_drawing (pf_key_size p) (pf_key_size p) rgb digit draw_digits
    (map_option agent_str agent))"
proof -
  have n: "64 \<le> pf_key_size p" using assms by (auto simp: PLUS_def XL_def PLUS_XL_def)
  have "length (utf8_chunks (map ascii_lower (agent_str a))) \<le> 8" for a
    by (induction a) code_simp+
  with n show ?thesis
    using inside_label [OF n] inside_digit [of "pf_key_size p"]
    by (simp add: safe_drawing_def key_drawing_def split: option.split)
qed

lemma agent_keys_drawn_inside_witness:
  "safe_drawing (key_drawing 96 96 (255, 0, 0) (Some 7) True (Some ''hermes''))"
  using agent_keys_drawn_inside [of XL "(255, 0, 0)" "Some 7" True "Some Hermes"] by (simp add: XL_def)

text \<open>The font of the labels has no letter for \<open>a\<close>, \<open>l\<close> and \<open>u\<close>, so the label of one agent has gaps.\<close>

lemma labels_with_gaps:
  "(\<exists>ch \<in> set (utf8_chunks (agent_str a)). agent_glyph_of ch = replicate 15 0) \<longleftrightarrow> a = Claude"
  by (induction a) code_simp+

text \<open>
  In a window of 100 pixels the line of the question and the line of its actions are two pixels
  apart and overlap.
\<close>

lemma in_draw_glyph:
  assumes "column < length g" "bit (g ! column) row" "row < 7" "x + column < w" "y + row < h"
  shows "(x + column, y + row, c) \<in> set (draw_glyph w h g x y 1 c)"
proof -
  have "(column, g ! column) \<in> set (enumerate 0 g)" using assms(1) by (simp add: in_set_enumerate_eq)
  moreover have "(x + column, y + row, c) \<in> set (glyph_square w h (x + column * 1) (y + row * 1) 1 c)"
    using assms by (cases c) (simp add: glyph_square_def set_fill_rect)
  ultimately show ?thesis
    unfolding draw_glyph_def using assms(2,3) by fastforce
qed

lemma in_draw_text:
  assumes "utf8_chunks s = ch # rest" "x + 6 \<le> w" "column < length (glyph (normalize_char ch))"
    "bit (glyph (normalize_char ch) ! column) row" "row < 7" "x + column < w" "y + row < h"
  shows "(x + column, y + row, c) \<in> set (draw_text w h s x y 1 c)"
proof -
  have "0 < (w - x) div 6" using assms(2) by (simp add: div_greater_zero_iff)
  then obtain m where m: "(w - x) div 6 = Suc m" by (cases "(w - x) div 6") auto
  have "(x + column, y + row, c) \<in> set (draw_glyph w h (glyph (normalize_char ch)) x y 1 c)"
    using assms by (intro in_draw_glyph)
  then show ?thesis by (simp add: draw_text_def Let_def m assms(1))
qed

lemma prompt_lines_overlap:
  "(16, 82, 245, 175, 65) \<in> set (draw_text 800 100 (prompt_line display_default ''?'') 16 80 1 (245, 175, 65)) \<and>
   (16, 82, 255, 210, 120) \<in> set (draw_text 800 100 (action_line display_default) 16 (100 - 18) 1 (255, 210, 120))"
proof
  have "utf8_chunks (prompt_line display_default ''?'') = [CHR ''W''] # utf8_chunks (tl (prompt_line display_default ''?''))"
    by code_simp
  from in_draw_text [OF this, of 16 800 0 2 80 100 "(245, 175, 65)"]
  show "(16, 82, 245, 175, 65) \<in> set (draw_text 800 100 (prompt_line display_default ''?'') 16 80 1 (245, 175, 65))"
    by (simp add: normalize_char_def accented_table_def is_ascii_def ascii_upper_def glyph_def glyph_table_def bit_0)
  have "utf8_chunks (action_line display_default) = [CHR ''T''] # utf8_chunks (tl (action_line display_default))"
    by code_simp
  from in_draw_text [OF this, of 16 800 0 0 82 100 "(255, 210, 120)"]
  show "(16, 82, 255, 210, 120) \<in> set (draw_text 800 100 (action_line display_default) 16 (100 - 18) 1 (255, 210, 120))"
    by (simp add: normalize_char_def accented_table_def is_ascii_def ascii_upper_def glyph_def glyph_table_def bit_0)
qed

section \<open>Tiles\<close>

lemma inside_metadata_line:
  assumes "y + 10 \<le> SOURCE_SIZE"
  shows "inside SOURCE_SIZE SOURCE_SIZE (draw_metadata_line y s)"
proof -
  let ?cs = "take (SOURCE_SIZE div 8) (map metadata_char (utf8_chunks (map ascii_upper s)))"
  have "length ?cs * 8 \<le> 15 * 8" by (rule mult_le_mono1) (simp add: SOURCE_SIZE_def)
  then have "(SOURCE_SIZE - length ?cs * 8) div 2 + length ?cs * 8 \<le> SOURCE_SIZE"
    by (simp add: SOURCE_SIZE_def)
  with assms show ?thesis
    unfolding draw_metadata_line_def Let_def by (intro inside_draw_bitmaps) simp_all
qed

lemma inside_tile_digit: "inside SOURCE_SIZE SOURCE_SIZE (tile_digit i)"
proof -
  have "(SOURCE_SIZE - 3 * 9) div 2 + column * 9 + (9 - 2) \<le> SOURCE_SIZE \<and>
      10 + row * 9 + (9 - 2) \<le> SOURCE_SIZE"
    if "(row, column) \<in> set (bitmap_cells (tile_digits ! i))" for row column
    using bitmap_cells_bounds [OF that] by (simp add: SOURCE_SIZE_def)
  then show ?thesis
    unfolding tile_digit_def Let_def inside_concat by fastforce
qed

text \<open>
  The tile of an AJAZZ display is drawn inside the tile whatever the texts of the card and of
  the context are, however long: with a context its four lines, and without one the digit.
\<close>

theorem tiles_drawn_inside:
  "safe_drawing (tile col level (metadata_calls i heading c)) \<and>
   safe_drawing (digit_tile i col level draw_digits None)"
  using inside_metadata_line [of 2] inside_metadata_line [of 20] inside_metadata_line [of 38]
    inside_metadata_line [of 56] inside_tile_digit
  by (simp add: safe_drawing_def tile_def digit_tile_def metadata_calls_def SOURCE_SIZE_def)

end
