(* ===== verification/Spec2Isabelle.thy ===== *)
theory Spec2Isabelle
  imports Daemon_Effects Codex_State_Props Feed_Props Device_Status Device_Inputs Device_Drawings
begin

text \<open>
  A verification library of the bridge daemon (\<open>src/tools/rp2040-bridge/src\<close>), the Rust program
  between the AI agents (Codex, ZCode, Hermes, Claude), the RP2040 device that speaks the vendor
  HID protocol of the Codex desktop app over a serial line, and the physical or virtual
  controllers with LCD keys and encoders.

  \<^bold>\<open>The parts and their theories.\<close>

  \<^item> \<open>Bridge_Prelude\<close>, \<open>Map_Store\<close>, \<open>Json\<close>: machine integers, strings as lists of UTF-8 bytes,
    decimal parsing and printing, \<open>Ordering\<close> and comparison functions (the locale \<open>comparator\<close>),
    the stable sort; \<open>HashMap\<close> and \<open>BTreeMap\<close> as two interpretations of the locale \<open>map_store\<close>;
    \<open>serde_json::Value\<close> and double precision arithmetic on rationals.
  \<^item> \<open>Wire\<close> (\<open>wire.rs\<close>): frames, CRC-16, encoder and the incremental decoder.
  \<^item> \<open>Serial\<close> (\<open>serial.rs\<close>): the reader thread as a function of the reads it performs, port
    selection and discovery.
  \<^item> \<open>Routing\<close> (\<open>routing.rs\<close>): the set of active agents as a bit set, the partition of keys and
    LCD slots between them, the bounded event queues and the fused LCD state.
  \<^item> \<open>Task_Model\<close>, \<open>Task_Alloc\<close>, \<open>Task_Alloc_Inv\<close>, \<open>Task_Board\<close>, \<open>Task_Board_Inv\<close>,
    \<open>Task_Board_Props\<close> (\<open>tasks.rs\<close>): cards and their parsers; the allocator of physical slots in
    its passes (eviction, pins, stickiness, fair fill); every operation of the board on one
    record; the invariant of its reachable states; the properties of the operations.
  \<^item> \<open>Usage\<close> (\<open>usage.rs\<close>): the fetches of the usage limits and their cache.
  \<^item> \<open>Codex_Protocol\<close>, \<open>Codex_Events\<close> (\<open>codex.rs\<close>): the stream of JSON messages in 64-byte
    reports; physical events, the action catalogue, the radial state and synthetic keys.
  \<^item> \<open>Controller\<close>, \<open>Plugin_Controller\<close> (\<open>controller.rs\<close>, \<open>plugin_controller.rs\<close>): the display
    context and device specifications; the virtual controller of a Stream Deck plugin, whose
    four render channels are interpretations of the locale \<open>render_channel\<close>.
  \<^item> \<open>Bridge_Serial\<close>, \<open>Bridge_State\<close>, \<open>Bridge_Routes\<close>, \<open>Bridge_Tools\<close>, \<open>Bridge_Props\<close> (\<open>main.rs\<close>):
    the runtime \<open>BridgeRuntime\<close> as the record \<open>bridge\<close>, over the type of its controllers and a
    record of controller operations: transmission and retransmission on the serial line, the
    handshake, health check and reconnection; the cards and the context every controller should
    show and their synchronisation; the route of every physical event; the tools that act on the
    runtime; the invariant of the runtime under all of it.
  \<^item> \<open>Mcp\<close> (\<open>mcp.rs\<close>): JSON-RPC responses, the tools and their schemas, and who may call them.
  \<^item> \<open>Daemon\<close>, \<open>Daemon_Loop\<close> (\<open>daemon.rs\<close>): sessions and their event queues, requests and deferred
    long polls, plugin sessions, the handlers of every message, and one pass of the main loop as a
    composition of its steps. \<open>Daemon_Keeps\<close> shows the invariant for every step, \<open>Daemon_Requests\<close> and
    \<open>Daemon_Props\<close> that requests are answered, \<open>Daemon_Effects\<close> where commands, slots and events go.
  \<^item> \<open>Feed_Text\<close>, \<open>Codex_State\<close>, \<open>Codex_State_Props\<close> (\<open>codex_state.rs\<close>), \<open>Claude_State\<close>
    (\<open>claude_state.rs\<close>), \<open>Zcode_State\<close> (\<open>zcode_state.rs\<close>), \<open>Hermes_State\<close> (\<open>hermes_state.rs\<close>) and
    \<open>Feed_Props\<close>: what the desktop apps write on disk becomes the task cards of a session; the
    incremental reader of Codex rollouts with its cursor, the state derived from tool calls,
    approvals and turns, and the memory of the Hermes cache.
  \<^item> \<open>Drawing\<close>, \<open>Streamdeck_Draw\<close>, \<open>Hid_Device\<close>, \<open>Streamdeck\<close> (\<open>streamdeck.rs\<close>), \<open>Ajazz\<close> (\<open>ajazz.rs\<close>): the
    display controllers: every picture as the sequence of its \<open>put_pixel\<close> calls, the reports and
    packets of an upload with their retries, input reports, and the paced output of keys and
    window. \<open>Device_Uploads\<close>, \<open>Device_Inputs\<close>, \<open>Device_Status\<close> and \<open>Device_Drawings\<close> hold their properties.

  \<^bold>\<open>How state and effects are modelled.\<close> A struct is a record (or, with one field, that field),
  an enum a datatype, \<open>Result<_, String>\<close> a sum with the error text on the left, and a method with
  \<open>&mut self\<close> a function that returns the new state. The iteration order of a \<open>HashMap\<close> is the order
  of its association list, and the properties hold for every order. A \<open>u8\<close> or \<open>u64\<close> is a word
  where it wraps and a natural number with its bound or its saturation written out elsewhere.
  Functions of the standard library are defined by what they document.

  \<^bold>\<open>The environment.\<close> What is not under \<open>src\<close> is a parameter. The JSON parser and printer, the
  desktop, the Codex files and the opening of devices are the fields of \<open>bridge_env\<close>; what one pass
  of the main loop receives (clocks, messages of the reader threads, bytes of the serial line,
  results of fetches and feeds) are the fields of \<open>pass\<close>; files, rows of queries and the HTTP
  replies of the feeds are the fields of \<open>codex_world\<close>, \<open>claude_world\<close>, \<open>zcode_world\<close> and
  \<open>hermes_world\<close>; the HID library is a record \<open>hid\<close> that answers each call by its number, and the image
  library a record \<open>codec\<close>. No property restricts them unless it says so; where a property does
  (a parser that reads what the printer writes, a device that takes its reports), a witness gives
  a concrete instance.

  \<^bold>\<open>What is shown.\<close> The wire decoder reports only encodings that are in the stream, finds every
  frame however it is cut, detects the corruption of a byte and buffers a bounded amount. The
  reassembly of Codex messages is independent of the cuts. Slots and keys follow the documented
  partition; LCD updates and events stay with their owners. The board keeps its invariant for
  all sequences of operations; the allocator is work conserving, keeps the valid assignments that
  no logical Codex HID position claims and inverts no priority within a session; publications are
  isolated, up to the take-over of a leased card of the same agent, and complete; leases last
  through any number of expiry checks; a guarded HID redraw starts and stops no card. The runtime
  and the daemon keep their invariants in every step; every request is answered once or
  deferred once, deferred polls are resolved, and every event of the bridge reaches exactly the
  sessions it is meant for. A rollout is read incrementally as if it were read at once. Uploads to
  the displays hold exactly the image and are accepted in order, each key that differs gets its
  picture once and in bounded time, presses and releases alternate. Properties that describe a
  surprising behaviour of the code say so.

  \<^bold>\<open>Termination.\<close> Every recursive definition is a total function: the decoders are shown to
  terminate by the length of the buffer and retries by the number that is left, so no fuel is
  used. The endless loops of the threads are modelled by one pass, or by the list of what they
  read.

  \<^bold>\<open>Not modelled.\<close> The command line and the process loops of \<open>main.rs\<close>; the automation of desktop
  windows (\<open>codex_window.rs\<close>, \<open>zcode_window.rs\<close>, \<open>hermes_window.rs\<close>, \<open>claude_window.rs\<close>,
  \<open>powershell.rs\<close>), which is operating system calls and scripts; \<open>proxy.rs\<close>, a pump between two
  streams; \<open>proc_cache.rs\<close> and \<open>diaglog.rs\<close>; the calls that open a serial port, threads, sockets and
  log lines; the test tool of the AJAZZ hardware, the firmware in C, the plugin in TypeScript and
  the reference protocol in JavaScript, which are other programs.
\<close>

end
